(* ===== verification/Prelude.thy ===== *)
theory Prelude
  imports Main "HOL-Library.Char_ord" "HOL-Library.List_Lexorder"
begin

text \<open>
  Shared vocabulary of the development: results of fallible Go functions, the collections of
  facts the component theories add to, and generic lemmas on lists and association lists.

  A Go function that returns a value and an error is a function into the sum type
  \<^typ>\<open>'e + 'a\<close>: \<open>Inl\<close> is the error, \<open>Inr\<close> the value.
  Go strings are byte sequences, so they are HOL strings (lists of 8-bit characters); text
  beyond ASCII appears as its UTF-8 bytes.
\<close>

section \<open>Collections of facts\<close>

named_theorems money_simps \<open>equations of the money arithmetic\<close>
named_theorems float_eval \<open>evaluation of floating point operations on literals\<close>
named_theorems store_simps \<open>what the store operations do to the tables\<close>

section \<open>Fallible results\<close>

definition ebind :: "'e + 'a \<Rightarrow> ('a \<Rightarrow> 'e + 'b) \<Rightarrow> 'e + 'b" where
  "ebind r f = (case r of Inl e \<Rightarrow> Inl e | Inr x \<Rightarrow> f x)"

definition is_ok :: "'e + 'a \<Rightarrow> bool" where
  "is_ok r \<longleftrightarrow> (case r of Inl _ \<Rightarrow> False | Inr _ \<Rightarrow> True)"

lemma ebind_simps [simp]:
  "ebind (Inl e) f = Inl e"
  "ebind (Inr x) f = f x"
  by (simp_all add: ebind_def)

lemma ebind_Inr_iff: "ebind r f = Inr y \<longleftrightarrow> (\<exists>x. r = Inr x \<and> f x = Inr y)"
  by (cases r) simp_all

lemma is_ok_simps [simp]: "\<not> is_ok (Inl e)" "is_ok (Inr x)"
  by (simp_all add: is_ok_def)

section \<open>Text beyond ASCII\<close>

text \<open>The UTF-8 encoding of a code point, and of a text given by its code points.\<close>

definition utf8 :: "nat \<Rightarrow> string" where
  "utf8 n =
     (if n < 0x80 then [char_of n]
      else if n < 0x800 then [char_of (0xC0 + n div 0x40), char_of (0x80 + n mod 0x40)]
      else if n < 0x10000 then
        [char_of (0xE0 + n div 0x1000), char_of (0x80 + n div 0x40 mod 0x40), char_of (0x80 + n mod 0x40)]
      else [char_of (0xF0 + n div 0x40000), char_of (0x80 + n div 0x1000 mod 0x40),
            char_of (0x80 + n div 0x40 mod 0x40), char_of (0x80 + n mod 0x40)])"

definition zh :: "nat list \<Rightarrow> string" where
  "zh cs = concat (map utf8 cs)"

section \<open>Lists as tables\<close>

text \<open>
  A database table is the list of its rows in insertion order.  \<open>update_where p f\<close> is
  \<open>UPDATE ... SET f WHERE p\<close>, \<open>find p\<close> the row a single-row \<open>SELECT\<close> returns.
\<close>

definition update_where :: "('a \<Rightarrow> bool) \<Rightarrow> ('a \<Rightarrow> 'a) \<Rightarrow> 'a list \<Rightarrow> 'a list" where
  "update_where p f xs = map (\<lambda>x. if p x then f x else x) xs"

lemma length_update_where [simp]: "length (update_where p f xs) = length xs"
  by (simp add: update_where_def)

lemma update_where_Nil [simp]: "update_where p f [] = []"
  by (simp add: update_where_def)

lemma update_where_Cons [simp]:
  "update_where p f (x # xs) = (if p x then f x else x) # update_where p f xs"
  by (simp add: update_where_def)

lemma update_where_append [simp]:
  "update_where p f (xs @ ys) = update_where p f xs @ update_where p f ys"
  by (simp add: update_where_def)

lemma set_update_where: "set (update_where p f xs) = (\<lambda>x. if p x then f x else x) ` set xs"
  by (simp add: update_where_def)

lemma update_where_id: "(\<And>x. x \<in> set xs \<Longrightarrow> \<not> p x) \<Longrightarrow> update_where p f xs = xs"
  by (induction xs) auto

lemma map_update_where:
  "(\<And>x. g (f x) = g x) \<Longrightarrow> map g (update_where p f xs) = map g xs"
  by (induction xs) auto

lemma filter_update_where:
  "(\<And>x. q (f x) = q x) \<Longrightarrow> filter q (update_where p f xs) = update_where p f (filter q xs)"
  by (induction xs) auto

lemma find_update_where:
  "(\<And>x. q (f x) = q x) \<Longrightarrow>
   find q (update_where p f xs) = map_option (\<lambda>x. if p x then f x else x) (find q xs)"
  by (induction xs) auto

lemma find_append: "find p (xs @ ys) = (case find p xs of None \<Rightarrow> find p ys | Some x \<Rightarrow> Some x)"
  by (induction xs) auto

lemma find_SomeD: "find p xs = Some x \<Longrightarrow> x \<in> set xs \<and> p x"
  by (induction xs) (auto split: if_splits)

lemma find_None_set: "find p xs = None \<longleftrightarrow> (\<forall>x \<in> set xs. \<not> p x)"
  by (induction xs) auto

lemma find_filter: "find p (filter q xs) = find (\<lambda>x. q x \<and> p x) xs"
  by (induction xs) auto

lemma list_all2_member: "list_all2 P xs ys \<Longrightarrow> y \<in> set ys \<Longrightarrow> \<exists>x \<in> set xs. P x y"
  by (induction rule: list_all2_induct) auto

section \<open>Association lists in first-use order\<close>

text \<open>
  A Go map that is filled in a loop is an association list whose keys stand in the order of
  their first use; \<open>al_upd\<close> is \<open>m[k] = f(m[k])\<close> with \<open>d\<close> the value of a missing key.
\<close>

fun al_upd :: "'v \<Rightarrow> ('v \<Rightarrow> 'v) \<Rightarrow> 'k \<Rightarrow> ('k \<times> 'v) list \<Rightarrow> ('k \<times> 'v) list" where
  "al_upd d f k [] = [(k, f d)]"
| "al_upd d f k ((k', v) # m) = (if k' = k then (k', f v) # m else (k', v) # al_upd d f k m)"

definition al_get :: "'v \<Rightarrow> ('k \<times> 'v) list \<Rightarrow> 'k \<Rightarrow> 'v" where
  "al_get d m k = (case map_of m k of None \<Rightarrow> d | Some v \<Rightarrow> v)"

lemma map_of_al_upd: "map_of (al_upd d f k m) = (map_of m)(k \<mapsto> f (al_get d m k))"
  by (induction m) (auto simp: al_get_def fun_eq_iff split: option.splits)

lemma al_get_al_upd [simp]:
  "al_get d (al_upd d f k m) k' = (if k' = k then f (al_get d m k) else al_get d m k')"
  by (simp add: al_get_def map_of_al_upd)

lemma keys_al_upd: "fst ` set (al_upd d f k m) = insert k (fst ` set m)"
proof (induction m)
  case (Cons a m)
  then show ?case by (cases a) (simp add: insert_commute insert_absorb2)
qed simp

lemma distinct_al_upd: "distinct (map fst m) \<Longrightarrow> distinct (map fst (al_upd d f k m))"
proof (induction m)
  case (Cons a m)
  then show ?case
    using keys_al_upd [of d f k m] by (cases a) auto
qed simp

end
