(* ===== verification/Float64.thy ===== *)
theory Float64
  imports Prelude Complex_Main "HOL-Library.Log_Nat"
begin

text \<open>
  Go's \<open>float64\<close>: IEEE 754 binary64 with round to nearest, ties to even.  A value is NaN, an
  infinity, the negative zero, or \<open>Fin q\<close> with \<open>q\<close> its exact rational value (\<open>Fin 0\<close> is the
  positive zero).  Every operation computes the exact rational result and rounds it once, as
  the standard prescribes; overflow gives an infinity and underflow a denormal or a zero.
  The rounding is executable, so concrete amounts can be evaluated by the simplifier.
\<close>

section \<open>Rounding a rational to 53 bits\<close>

text \<open>Round to the nearest integer, ties to even.\<close>

definition rne :: "rat \<Rightarrow> int" where
  "rne q = (let f = \<lfloor>q\<rfloor>; d = q - of_int f in
     if d < 1 / 2 then f else if 1 / 2 < d then f + 1 else if even f then f else f + 1)"

text \<open>The exponent of the leading bit: \<open>2 powi ilog2 q \<le> \<bar>q\<bar> < 2 powi (ilog2 q + 1)\<close>.\<close>

definition ilog2 :: "rat \<Rightarrow> int" where
  "ilog2 q = (let (a, b) = quotient_of \<bar>q\<bar>; e = bitlen a - bitlen b in
     if 2 powi e \<le> \<bar>q\<bar> then e else e - 1)"

text \<open>The exponent of the last place of the binary64 numbers around \<open>q\<close>.\<close>

definition ulp_exp :: "rat \<Rightarrow> int" where
  "ulp_exp q = max (ilog2 q - 52) (- 1074)"

definition rnd :: "rat \<Rightarrow> rat" where
  "rnd q = (if q = 0 then 0
            else of_int (rne (q / 2 powi ulp_exp q)) * 2 powi ulp_exp q)"


subsection \<open>Powers of two\<close>

lemma two_powi_pos [simp]: "(0::rat) < 2 powi e"
  by simp

lemma two_powi_add: "(2::rat) powi (a + b) = 2 powi a * 2 powi b"
  by (rule power_int_add) simp

lemma two_powi_mono: "a \<le> b \<Longrightarrow> (2::rat) powi a \<le> 2 powi b"
  by (rule power_int_increasing) simp_all

lemma two_powi_less_iff: "(2::rat) powi a < 2 powi b \<longleftrightarrow> a < b"
  by (metis not_le one_less_numeral_iff order_less_imp_le power_int_strict_increasing
      semiring_norm(76) two_powi_mono linorder_not_less)

lemma two_powi_nat: "0 \<le> e \<Longrightarrow> (2::rat) powi e = of_int (2 ^ nat e)"
  by (simp add: power_int_def)

lemma two_powi_diff: "(2::rat) powi (a - b) = 2 powi a / 2 powi b"
  by (rule power_int_diff) simp

subsection \<open>Rounding to the nearest integer\<close>

lemma rne_err: "\<bar>of_int (rne q) - q\<bar> \<le> 1 / 2"
  unfolding rne_def Let_def by (simp add: abs_if) linarith

lemma rne_of_int [simp]: "rne (of_int n) = n"
  by (simp add: rne_def)

lemma rne_zero [simp]: "rne 0 = 0"
  by (simp add: rne_def)

lemma rne_close: "\<bar>q - of_int n\<bar> < 1 / 2 \<Longrightarrow> rne q = n"
  using rne_err [of q] by linarith

lemma rne_cases:
  obtains "rne q = \<lfloor>q\<rfloor>" "q - of_int \<lfloor>q\<rfloor> \<le> 1 / 2"
  | "rne q = \<lfloor>q\<rfloor> + 1" "1 / 2 \<le> q - of_int \<lfloor>q\<rfloor>"
  unfolding rne_def Let_def by (smt (verit) linorder_not_le order_less_imp_le)

lemma rne_mono:
  assumes "p \<le> q" shows "rne p \<le> rne q"
proof (cases "\<lfloor>p\<rfloor> = \<lfloor>q\<rfloor>")
  case True
  with assms show ?thesis unfolding rne_def Let_def by simp
next
  case False
  with assms have "\<lfloor>p\<rfloor> + 1 \<le> \<lfloor>q\<rfloor>" using floor_mono [OF assms] by linarith
  moreover have "rne p \<le> \<lfloor>p\<rfloor> + 1" "\<lfloor>q\<rfloor> \<le> rne q"
    by (auto simp: rne_def Let_def)
  ultimately show ?thesis by linarith
qed

lemma rne_minus: "rne (- q) = - rne q"
proof (cases "of_int \<lfloor>q\<rfloor> = q")
  case True
  then show ?thesis by (metis of_int_minus rne_of_int)
next
  case False
  have fl: "\<lfloor>- q\<rfloor> = - \<lfloor>q\<rfloor> - 1"
    using False by linarith
  show ?thesis unfolding rne_def Let_def fl by (auto simp: algebra_simps)
qed

subsection \<open>The exponent\<close>

lemma bitlen_powi:
  assumes "0 < n"
  shows "2 powi (bitlen n - 1) \<le> (of_int n :: rat)" and "(of_int n :: rat) < 2 powi bitlen n"
proof -
  have b: "1 \<le> bitlen n" using assms bitlen_bounds [of n]
    by (metis bitlen_nonneg bitlen_eq_zero_iff linorder_not_less order_less_le int_one_le_iff_zero_less)
  have "2 powi (bitlen n - 1) = (of_int (2 ^ nat (bitlen n - 1)) :: rat)"
    using b by (intro two_powi_nat) simp
  also have "\<dots> \<le> of_int n" using bitlen_bounds [OF assms] by (simp only: of_int_le_iff)
  finally show "2 powi (bitlen n - 1) \<le> (of_int n :: rat)" .
  have "(of_int n :: rat) < of_int (2 ^ nat (bitlen n))"
    using bitlen_bounds [OF assms] by (simp only: of_int_less_iff)
  also have "\<dots> = 2 powi bitlen n" using b by (intro two_powi_nat [symmetric]) simp
  finally show "(of_int n :: rat) < 2 powi bitlen n" .
qed

lemma bitlen_ratio:
  assumes "0 < a" "0 < b"
  shows "2 powi (bitlen a - bitlen b - 1) < (of_int a / of_int b :: rat)"
    and "(of_int a / of_int b :: rat) < 2 powi (bitlen a - bitlen b + 1)"
proof -
  note A = bitlen_powi [OF assms(1)] and B = bitlen_powi [OF assms(2)]
  have pb: "(0::rat) < of_int b" using assms by simp
  have "2 powi (bitlen a - bitlen b - 1) * of_int b
      < (2 powi (bitlen a - bitlen b - 1) * 2 powi bitlen b :: rat)"
    using B(2) by (intro mult_strict_left_mono) simp_all
  also have "\<dots> = 2 powi (bitlen a - 1)" by (simp flip: two_powi_add)
  finally show "2 powi (bitlen a - bitlen b - 1) < (of_int a / of_int b :: rat)"
    using A(1) pb by (simp add: less_divide_eq)
  have "(2 powi bitlen a :: rat) = 2 powi (bitlen a - bitlen b + 1) * 2 powi (bitlen b - 1)"
    by (simp flip: two_powi_add)
  also have "\<dots> \<le> 2 powi (bitlen a - bitlen b + 1) * of_int b"
    using B(1) by (intro mult_left_mono) simp_all
  finally show "(of_int a / of_int b :: rat) < 2 powi (bitlen a - bitlen b + 1)"
    using A(2) pb by (simp add: divide_less_eq)
qed

lemma ilog2_fraction:
  fixes q :: rat
  assumes "0 < a" "0 < b" "\<bar>q\<bar> = of_int a / of_int b"
  defines "k \<equiv> (if 2 powi (bitlen a - bitlen b) \<le> \<bar>q\<bar> then bitlen a - bitlen b
                else bitlen a - bitlen b - 1)"
  shows "2 powi k \<le> \<bar>q\<bar>" "\<bar>q\<bar> < 2 powi (k + 1)"
  using bitlen_ratio [OF assms(1,2)] by (auto simp: k_def assms(3) split: if_splits)

lemma ilog2_bounds:
  assumes "q \<noteq> 0"
  shows "2 powi ilog2 q \<le> \<bar>q\<bar>" and "\<bar>q\<bar> < 2 powi (ilog2 q + 1)"
proof -
  obtain a b where ab: "quotient_of \<bar>q\<bar> = (a, b)" by (cases "quotient_of \<bar>q\<bar>")
  have b: "0 < b" using quotient_of_denom_pos [OF ab] .
  have q: "\<bar>q\<bar> = of_int a / of_int b" using quotient_of_div [OF ab] .
  have a: "0 < a" using b q assms by (metis abs_ge_zero divide_le_0_iff less_le of_int_0_le_iff
      of_int_le_0_iff abs_eq_0_iff div_by_0 divide_eq_0_iff linorder_not_less of_int_pos)
  have "ilog2 q = (if 2 powi (bitlen a - bitlen b) \<le> \<bar>q\<bar> then bitlen a - bitlen b
      else bitlen a - bitlen b - 1)"
    by (simp add: ilog2_def ab Let_def)
  with ilog2_fraction [OF a b q] show "2 powi ilog2 q \<le> \<bar>q\<bar>" "\<bar>q\<bar> < 2 powi (ilog2 q + 1)"
    by simp_all
qed

lemma ilog2_unique:
  assumes "2 powi k \<le> \<bar>q\<bar>" "\<bar>q\<bar> < 2 powi (k + 1)"
  shows "ilog2 q = k"
proof -
  have "q \<noteq> 0" using assms(1) two_powi_pos [of k] by force
  note B = ilog2_bounds [OF this]
  have "(2::rat) powi k < 2 powi (ilog2 q + 1)" "(2::rat) powi ilog2 q < 2 powi (k + 1)"
    using assms B by linarith+
  then show ?thesis by (simp add: two_powi_less_iff)
qed

lemma ilog2_mono: "p \<noteq> 0 \<Longrightarrow> \<bar>p\<bar> \<le> \<bar>q\<bar> \<Longrightarrow> ilog2 p \<le> ilog2 q"
proof -
  assume a: "p \<noteq> 0" "\<bar>p\<bar> \<le> \<bar>q\<bar>"
  then have "q \<noteq> 0" by auto
  with a ilog2_bounds [of p] ilog2_bounds [of q] have "(2::rat) powi ilog2 p < 2 powi (ilog2 q + 1)"
    by linarith
  then show ?thesis by (simp add: two_powi_less_iff)
qed

lemma ilog2_minus [simp]: "ilog2 (- q) = ilog2 q"
  by (simp add: ilog2_def)

lemma ulp_exp_minus [simp]: "ulp_exp (- q) = ulp_exp q"
  by (simp add: ulp_exp_def)


section \<open>Representable numbers\<close>

text \<open>The finite binary64 values: a significand of at most 53 bits and an exponent.\<close>

definition repr :: "rat \<Rightarrow> bool" where
  "repr x \<longleftrightarrow> (\<exists>m e. x = of_int m * 2 powi e \<and> \<bar>m\<bar> < 2 ^ 53 \<and> - 1074 \<le> e)"

lemma reprI: "x = of_int m * 2 powi e \<Longrightarrow> \<bar>m\<bar> < 2 ^ 53 \<Longrightarrow> - 1074 \<le> e \<Longrightarrow> repr x"
  unfolding repr_def by blast

lemma repr_zero [simp]: "repr 0"
  by (rule reprI [of _ 0 0]) simp_all

lemma repr_two_powi: "- 1074 \<le> e \<Longrightarrow> repr (2 powi e)"
  by (rule reprI [where m = 1 and e = e]) auto

lemma repr_minus [simp]: "repr (- x) \<longleftrightarrow> repr x"
proof -
  have "repr (- x)" if "repr x" for x
  proof -
    from that obtain m e where "x = of_int m * 2 powi e" "\<bar>m\<bar> < 2 ^ 53" "- 1074 \<le> e"
      unfolding repr_def by blast
    then show ?thesis by (intro reprI [where m = "- m" and e = e]) simp_all
  qed
  from this [of x] this [of "- x"] show ?thesis by auto
qed

lemma scaled_bound:
  assumes "q \<noteq> 0" shows "\<bar>q / 2 powi ulp_exp q\<bar> < 2 ^ 53"
proof -
  have "\<bar>q\<bar> < 2 powi (ilog2 q + 1)" using ilog2_bounds [OF assms] by simp
  also have "\<dots> \<le> 2 powi (ulp_exp q + 53)"
    by (rule two_powi_mono) (simp add: ulp_exp_def)
  also have "\<dots> = 2 ^ 53 * 2 powi ulp_exp q"
    by (simp add: two_powi_add)
  finally show ?thesis by (simp add: abs_divide divide_less_eq)
qed

lemma rne_bound:
  assumes "\<bar>q\<bar> < 2 ^ 53" shows "\<bar>rne q\<bar> \<le> 2 ^ 53"
proof -
  have "q \<le> of_int (2 ^ 53)" "of_int (- (2 ^ 53)) \<le> q" using assms by simp_all
  then have "rne q \<le> rne (of_int (2 ^ 53))" "rne (of_int (- (2 ^ 53))) \<le> rne q"
    by (blast intro: rne_mono)+
  then have "rne q \<le> 2 ^ 53" "- (2 ^ 53) \<le> rne q" by (simp_all only: rne_of_int)
  then show ?thesis by linarith
qed

lemma repr_wide:
  assumes "\<bar>m\<bar> \<le> 2 ^ 53" "- 1074 \<le> e"
  shows "repr (of_int m * 2 powi e)"
proof (cases "\<bar>m\<bar> = 2 ^ 53")
  case True
  then have m: "m = 2 ^ 52 * 2 * sgn m" using mult_sgn_abs [of m] by simp
  show ?thesis
  proof (rule reprI [of _ "2 ^ 52 * sgn m" "e + 1"])
    show "of_int m * 2 powi e = of_int (2 ^ 52 * sgn m) * (2::rat) powi (e + 1)"
      by (subst m) (simp add: two_powi_add)
  qed (use assms True in \<open>auto simp: abs_mult abs_sgn_eq\<close>)
next
  case False
  with assms show ?thesis by (intro reprI [of _ m e]) simp_all
qed

lemma repr_rnd [simp]: "repr (rnd q)"
proof (cases "q = 0")
  case False
  have "repr (of_int (rne (q / 2 powi ulp_exp q)) * 2 powi ulp_exp q)"
    by (rule repr_wide [OF rne_bound [OF scaled_bound [OF False]]]) (simp add: ulp_exp_def)
  with False show ?thesis by (simp add: rnd_def)
qed (simp add: rnd_def)

lemma rnd_repr [simp]: "repr x \<Longrightarrow> rnd x = x"
proof (cases "x = 0")
  case False
  assume "repr x"
  then obtain m e where x: "x = of_int m * 2 powi e" and m: "\<bar>m\<bar> < 2 ^ 53" and e: "- 1074 \<le> e"
    unfolding repr_def by blast
  have "\<bar>x\<bar> < of_int (2 ^ 53) * 2 powi e"
    unfolding x abs_mult using m
    by (simp only: flip: of_int_abs) (simp add: of_int_less_iff [symmetric, where ?'a = rat])
  also have "\<dots> = 2 powi (e + 53)" by (simp add: two_powi_add)
  finally have "(2::rat) powi ilog2 x < 2 powi (e + 53)" using ilog2_bounds [OF False] by linarith
  then have u: "ulp_exp x \<le> e" using e by (simp add: two_powi_less_iff ulp_exp_def)
  have "x / 2 powi ulp_exp x = of_int m * 2 powi (e - ulp_exp x)"
    by (simp add: x two_powi_diff)
  also have "\<dots> = of_int (m * 2 ^ nat (e - ulp_exp x))"
    using u by (simp add: two_powi_nat)
  finally have int: "x / 2 powi ulp_exp x = of_int (m * 2 ^ nat (e - ulp_exp x))" .
  have "rnd x = of_int (rne (x / 2 powi ulp_exp x)) * 2 powi ulp_exp x"
    using False by (simp add: rnd_def)
  also have "\<dots> = x / 2 powi ulp_exp x * 2 powi ulp_exp x"
    unfolding int rne_of_int ..
  finally show ?thesis by simp
qed (simp add: rnd_def)

lemma rnd_zero [simp]: "rnd 0 = 0"
  by (simp add: rnd_def)

lemma rnd_minus: "rnd (- q) = - rnd q"
  by (simp add: rnd_def rne_minus)

lemma rnd_nonneg: "0 \<le> q \<Longrightarrow> 0 \<le> rnd q"
  using rne_mono [of 0 "q / 2 powi ulp_exp q"] by (simp add: rnd_def)

text \<open>
  Rounding is monotone.  Two positive numbers with the same last place are rounded on the same
  grid; otherwise a power of two separates them, and it is itself representable.
\<close>

lemma rnd_same_ulp:
  assumes "p \<le> q" "p \<noteq> 0" "q \<noteq> 0" "ulp_exp p = ulp_exp q"
  shows "rnd p \<le> rnd q"
proof -
  have "rne (p / 2 powi ulp_exp p) \<le> rne (q / 2 powi ulp_exp q)"
    using assms by (intro rne_mono) (simp add: divide_right_mono)
  with assms show ?thesis by (simp add: rnd_def)
qed

lemma rnd_powi_bound:
  assumes "0 < q" "- 1074 \<le> k"
  shows "q \<le> 2 powi k \<Longrightarrow> rnd q \<le> 2 powi k" and "2 powi k \<le> q \<Longrightarrow> 2 powi k \<le> rnd q"
proof -
  let ?u = "2 powi ulp_exp q :: rat"
  have r: "rnd q = of_int (rne (q / ?u)) * ?u" using assms by (simp add: rnd_def)
  have grid: "ulp_exp q \<le> k \<Longrightarrow> 2 powi k / ?u = of_int (2 ^ nat (k - ulp_exp q))"
    by (simp flip: two_powi_diff add: two_powi_nat)
  {
    assume le: "q \<le> 2 powi k"
    show "rnd q \<le> 2 powi k"
    proof (cases "ulp_exp q \<le> k")
      case True
      have "rne (q / ?u) \<le> rne (2 powi k / ?u)"
        using le by (intro rne_mono) (simp add: divide_right_mono)
      then have "of_int (rne (q / ?u)) \<le> (2 powi k / ?u :: rat)"
        unfolding grid [OF True] rne_of_int by simp
      then show ?thesis unfolding r by (simp add: le_divide_eq)
    next
      case False
      have "(2::rat) powi ilog2 q \<le> 2 powi k" using le ilog2_bounds [of q] assms by linarith
      with False assms(2) show ?thesis
        using two_powi_less_iff [of k "ilog2 q"] by (auto simp: ulp_exp_def max_def split: if_splits)
    qed
  }
  {
    assume le: "2 powi k \<le> q"
    have "(2::rat) powi k < 2 powi (ilog2 q + 1)" using le ilog2_bounds [of q] assms by linarith
    then have "k \<le> ilog2 q" by (simp add: two_powi_less_iff)
    show "2 powi k \<le> rnd q"
    proof (cases "ulp_exp q \<le> k")
      case True
      have "rne (2 powi k / ?u) \<le> rne (q / ?u)"
        using le by (intro rne_mono) (simp add: divide_right_mono)
      then have "(2 powi k / ?u :: rat) \<le> of_int (rne (q / ?u))"
        unfolding grid [OF True] rne_of_int by simp
      then show ?thesis unfolding r by (simp add: divide_le_eq)
    next
      case False
      \<comment> \<open>the leading bit of \<open>q\<close> lies above the grid\<close>
      then have n: "ulp_exp q = ilog2 q - 52" using assms(2) by (auto simp: ulp_exp_def)
      have g: "2 powi ilog2 q / ?u = of_int (2 ^ 52)"
        by (simp flip: two_powi_diff add: n)
      have "rne (2 powi ilog2 q / ?u) \<le> rne (q / ?u)"
        using ilog2_bounds [of q] assms by (intro rne_mono) (simp add: divide_right_mono)
      then have "(2 powi ilog2 q / ?u :: rat) \<le> of_int (rne (q / ?u))"
        unfolding g rne_of_int by simp
      then have "2 powi ilog2 q \<le> rnd q" unfolding r by (simp add: divide_le_eq)
      with two_powi_mono [OF \<open>k \<le> ilog2 q\<close>] show ?thesis by linarith
    qed
  }
qed

lemma rnd_mono_pos:
  assumes "0 < p" "p \<le> q" shows "rnd p \<le> rnd q"
proof (cases "ulp_exp p = ulp_exp q")
  case True
  with assms show ?thesis by (intro rnd_same_ulp) auto
next
  case False
  have "ilog2 p \<le> ilog2 q" using assms by (intro ilog2_mono) auto
  with False have less: "ilog2 p < ilog2 q" and big: "- 1022 < ilog2 q"
    by (auto simp: ulp_exp_def)
  have "p < 2 powi (ilog2 p + 1)" using ilog2_bounds [of p] assms by simp
  also have "\<dots> \<le> 2 powi ilog2 q" using less by (intro two_powi_mono) simp
  finally have "rnd p \<le> 2 powi ilog2 q" using assms big by (intro rnd_powi_bound(1)) auto
  also have "\<dots> \<le> rnd q" using assms big ilog2_bounds [of q] by (intro rnd_powi_bound(2)) auto
  finally show ?thesis .
qed

lemma rnd_mono: "p \<le> q \<Longrightarrow> rnd p \<le> rnd q"
proof -
  assume le: "p \<le> q"
  consider "0 < p" | "p \<le> 0" "0 \<le> q" | "q < 0" by linarith
  then show ?thesis
  proof cases
    case 2
    with rnd_nonneg [of q] rnd_nonneg [of "- p"] show ?thesis by (simp add: rnd_minus)
  next
    case 3
    with rnd_mono_pos [of "- q" "- p"] le show ?thesis by (simp add: rnd_minus)
  qed (use le rnd_mono_pos in blast)
qed

lemma rnd_le: "q \<le> x \<Longrightarrow> repr x \<Longrightarrow> rnd q \<le> x"
  using rnd_mono [of q x] by simp

lemma rnd_ge: "x \<le> q \<Longrightarrow> repr x \<Longrightarrow> x \<le> rnd q"
  using rnd_mono [of x q] by simp

lemma rnd_abs: "\<bar>rnd q\<bar> = rnd \<bar>q\<bar>"
  using rnd_nonneg [of q] rnd_nonneg [of "- q"] by (auto simp: abs_if rnd_minus)


subsection \<open>Rounding errors\<close>

lemma rnd_err_ulp: "\<bar>rnd q - q\<bar> \<le> 2 powi ulp_exp q / 2"
proof (cases "q = 0")
  case False
  let ?u = "2 powi ulp_exp q :: rat"
  have "rnd q - q = (of_int (rne (q / ?u)) - q / ?u) * ?u"
    using False by (simp add: rnd_def algebra_simps)
  then have "\<bar>rnd q - q\<bar> = \<bar>of_int (rne (q / ?u)) - q / ?u\<bar> * ?u"
    by (simp add: abs_mult)
  also have "\<dots> \<le> 1 / 2 * ?u"
    by (intro mult_right_mono rne_err) simp
  finally show ?thesis by simp
qed simp

lemma rnd_err:
  assumes "\<bar>q\<bar> \<le> B" "2 powi (- 1022) \<le> B"
  shows "\<bar>rnd q - q\<bar> \<le> B / 2 ^ 53"
proof (cases "q = 0")
  case True
  have "0 \<le> B" using assms(1) by linarith
  with True show ?thesis by simp
next
  case False
  have "(2::rat) powi (ilog2 q - 52) = 2 powi ilog2 q / 2 ^ 52"
    by (simp add: two_powi_diff)
  also have "\<dots> \<le> B / 2 ^ 52"
    using ilog2_bounds [OF False] assms by (intro divide_right_mono) simp_all
  finally have a: "(2::rat) powi (ilog2 q - 52) \<le> B / 2 ^ 52" .
  have "(2::rat) powi (- 1074) = 2 powi (- 1022) / 2 powi 52"
    by (simp only: flip: two_powi_diff) simp
  also have "\<dots> \<le> B / 2 ^ 52"
    using assms(2) by (simp only: power_int_numeral) (rule divide_right_mono, simp_all)
  finally have "(2::rat) powi ulp_exp q \<le> B / 2 ^ 52"
    using a by (simp add: ulp_exp_def max_def)
  with rnd_err_ulp [of q] show ?thesis by simp
qed

lemma two_powi_min_le_one: "(2::rat) powi (- 1022) \<le> 1"
  using two_powi_mono [of "- 1022" 0] by simp

lemma rnd_err_1: "\<bar>q\<bar> \<le> B \<Longrightarrow> 1 \<le> B \<Longrightarrow> \<bar>rnd q - q\<bar> \<le> B / 2 ^ 53"
  using two_powi_min_le_one by (intro rnd_err) linarith+

lemma repr_of_int: "\<bar>n\<bar> \<le> 2 ^ 53 \<Longrightarrow> repr (of_int n)"
  using repr_wide [of n 0] by simp

lemma rnd_of_int [simp]: "\<bar>n\<bar> \<le> 2 ^ 53 \<Longrightarrow> rnd (of_int n) = of_int n"
  by (simp add: repr_of_int)

lemma rnd_numeral [simp]: "numeral n \<le> (2 ^ 53 :: int) \<Longrightarrow> rnd (numeral n) = numeral n"
  using rnd_of_int [of "numeral n"] by simp

lemma rnd_one [simp]: "rnd 1 = 1"
  using rnd_of_int [of 1] by simp

lemma rnd_bound: "\<bar>q\<bar> \<le> 2 powi k \<Longrightarrow> - 1074 \<le> k \<Longrightarrow> \<bar>rnd q\<bar> \<le> 2 powi k"
  by (simp add: rnd_abs rnd_le repr_two_powi)

section \<open>Evaluating the rounding\<close>

text \<open>The rounding of a positive fraction by integer arithmetic alone.\<close>

definition rne_div :: "int \<Rightarrow> int \<Rightarrow> int" where
  "rne_div n d = (let q = n div d; r = n mod d in
     if 2 * r < d then q else if d < 2 * r then q + 1 else if even q then q else q + 1)"

definition rnd_frac :: "int \<Rightarrow> int \<Rightarrow> rat" where
  "rnd_frac a b = (let k = bitlen a - bitlen b;
      e = (if (if 0 \<le> k then b * 2 ^ nat k \<le> a else b \<le> a * 2 ^ nat (- k)) then k else k - 1);
      u = max (e - 52) (- 1074) in
     if 0 \<le> u then of_int (rne_div a (b * 2 ^ nat u) * 2 ^ nat u)
     else of_int (rne_div (a * 2 ^ nat (- u)) b) / of_int (2 ^ nat (- u)))"

lemma rne_div: "0 < d \<Longrightarrow> rne (of_int n / of_int d) = rne_div n d"
proof -
  assume d: "0 < d"
  have f: "\<lfloor>of_int n / of_int d :: rat\<rfloor> = n div d" by (rule floor_divide_of_int_eq)
  have n: "(of_int n :: rat) = of_int d * of_int (n div d) + of_int (n mod d)"
    by (metis of_int_add of_int_mult mult_div_mod_eq)
  have "of_int n / of_int d - of_int (n div d) = (of_int (n mod d) / of_int d :: rat)"
    using d by (subst n) (simp add: field_simps)
  then show ?thesis using d
    unfolding rne_def rne_div_def Let_def f
    by (simp add: divide_less_eq less_divide_eq flip: of_int_mult)
qed

lemma rnd_frac:
  assumes "0 < a" "0 < b" shows "rnd (of_int a / of_int b) = rnd_frac a b"
proof -
  let ?q = "of_int a / of_int b :: rat"
  define k where "k = bitlen a - bitlen b"
  define e where "e = (if (if 0 \<le> k then b * 2 ^ nat k \<le> a else b \<le> a * 2 ^ nat (- k)) then k else k - 1)"
  define u where "u = max (e - 52) (- 1074)"
  have c: "2 powi k \<le> ?q \<longleftrightarrow> (if 0 \<le> k then b * 2 ^ nat k \<le> a else b \<le> a * 2 ^ nat (- k))"
  proof (cases "0 \<le> k")
    case True
    have "2 powi k \<le> ?q \<longleftrightarrow> (of_int (b * 2 ^ nat k) :: rat) \<le> of_int a"
      using assms True by (simp add: two_powi_nat le_divide_eq mult.commute)
    with True show ?thesis by (simp only: of_int_le_iff if_True)
  next
    case False
    have p: "2 powi k = 1 / (of_int (2 ^ nat (- k)) :: rat)"
      using False by (simp add: power_int_def inverse_eq_divide power_one_over)
    have "2 powi k \<le> ?q \<longleftrightarrow> (of_int b :: rat) \<le> of_int (a * 2 ^ nat (- k))"
      unfolding p using assms by (simp add: divide_le_eq le_divide_eq mult.commute)
    with False show ?thesis by (simp only: of_int_le_iff if_False)
  qed
  have q: "\<bar>?q\<bar> = of_int a / of_int b" using assms by simp
  have e: "e = (if 2 powi k \<le> \<bar>?q\<bar> then k else k - 1)"
    by (simp only: e_def c q)
  have "ilog2 ?q = e"
    by (rule ilog2_unique) (use ilog2_fraction [OF assms q] in \<open>simp_all only: e k_def\<close>)
  then have u: "ulp_exp ?q = u" by (simp add: ulp_exp_def u_def)
  have "rnd ?q = (if 0 \<le> u then of_int (rne_div a (b * 2 ^ nat u) * 2 ^ nat u)
     else of_int (rne_div (a * 2 ^ nat (- u)) b) / of_int (2 ^ nat (- u)))"
  proof (cases "0 \<le> u")
    case True
    have "?q / 2 powi u = of_int a / of_int (b * 2 ^ nat u)" using True by (simp add: power_int_def)
    then show ?thesis using True assms rne_div [of "b * 2 ^ nat u" a]
      by (simp add: rnd_def u power_int_def)
  next
    case False
    have "?q / 2 powi u = of_int (a * 2 ^ nat (- u)) / of_int b" using False by (simp add: power_int_def field_simps)
    then show ?thesis using False assms rne_div [of b "a * 2 ^ nat (- u)"]
      by (simp add: rnd_def u power_int_def field_simps)
  qed
  then show ?thesis unfolding rnd_frac_def Let_def k_def e_def u_def by simp
qed

lemma bitlen_numeral [float_eval]:
  "bitlen 1 = 1"
  "bitlen (numeral Num.One) = 1"
  "bitlen (numeral (Num.Bit0 n)) = 1 + bitlen (numeral n)"
  "bitlen (numeral (Num.Bit1 n)) = 1 + bitlen (numeral n)"
  by (subst compute_bitlen; simp)+

lemma rnd_literal [float_eval]:
  "rnd (numeral a / numeral b) = rnd_frac (numeral a) (numeral b)"
  "rnd (1 / numeral b) = rnd_frac 1 (numeral b)"
  "rnd (- (numeral a / numeral b)) = - rnd_frac (numeral a) (numeral b)"
  "rnd (- (1 / numeral b)) = - rnd_frac 1 (numeral b)"
  "rnd (- numeral a) = - rnd (numeral a)"
  using rnd_frac [of "numeral a" "numeral b"] rnd_frac [of 1 "numeral b"]
  by (simp_all add: rnd_minus)

lemma floor_literal [float_eval]:
  "\<lfloor>numeral a / numeral b :: rat\<rfloor> = numeral a div numeral b"
  "\<lfloor>1 / numeral b :: rat\<rfloor> = 1 div numeral b"
  using floor_divide_of_int_eq [of "numeral a" "numeral b", where ?'a = rat]
    floor_divide_of_int_eq [of 1 "numeral b", where ?'a = rat] by simp_all

section \<open>The type float64\<close>

datatype f64 = NaN | PInf | NInf | NegZero | Fin rat

fun val :: "f64 \<Rightarrow> rat" where
  "val (Fin q) = q"
| "val _ = 0"

fun is_fin :: "f64 \<Rightarrow> bool" where
  "is_fin (Fin q) = True"
| "is_fin NegZero = True"
| "is_fin _ = False"

fun signbit :: "f64 \<Rightarrow> bool" where
  "signbit (Fin q) = (q < 0)"
| "signbit NegZero = True"
| "signbit NInf = True"
| "signbit _ = False"

text \<open>The values a \<open>float64\<close> variable can hold.\<close>

fun f64_ok :: "f64 \<Rightarrow> bool" where
  "f64_ok (Fin q) = (repr q \<and> \<bar>q\<bar> < 2 ^ 1024)"
| "f64_ok _ = True"

text \<open>Round an exact result; \<open>s\<close> is the sign of an exact zero.\<close>

definition mk :: "bool \<Rightarrow> rat \<Rightarrow> f64" where
  "mk s q = (let r = rnd q in
     if r = 0 then (if q < 0 \<or> q = 0 \<and> s then NegZero else Fin 0)
     else if 2 ^ 1024 \<le> r then PInf
     else if r \<le> - (2 ^ 1024) then NInf
     else Fin r)"

text \<open>A numeric constant of the source, and the conversion of an integer.\<close>

definition lit :: "rat \<Rightarrow> f64" where
  "lit q = mk False q"

definition of_goint :: "int \<Rightarrow> f64" where
  "of_goint n = mk False (of_int n)"

section \<open>Arithmetic\<close>

fun fneg :: "f64 \<Rightarrow> f64" where
  "fneg NaN = NaN"
| "fneg PInf = NInf"
| "fneg NInf = PInf"
| "fneg NegZero = Fin 0"
| "fneg (Fin q) = (if q = 0 then NegZero else Fin (- q))"

definition fadd :: "f64 \<Rightarrow> f64 \<Rightarrow> f64" where
  "fadd a b =
     (if a = NaN \<or> b = NaN then NaN
      else if a = PInf then (if b = NInf then NaN else PInf)
      else if a = NInf then (if b = PInf then NaN else NInf)
      else if b = PInf \<or> b = NInf then b
      else mk (signbit a \<and> signbit b) (val a + val b))"

definition fsub :: "f64 \<Rightarrow> f64 \<Rightarrow> f64" where
  "fsub a b = fadd a (fneg b)"

definition fmul :: "f64 \<Rightarrow> f64 \<Rightarrow> f64" where
  "fmul a b =
     (let s = (signbit a \<noteq> signbit b) in
      if a = NaN \<or> b = NaN then NaN
      else if is_fin a \<and> is_fin b then mk s (val a * val b)
      else if is_fin a \<and> val a = 0 \<or> is_fin b \<and> val b = 0 then NaN
      else if s then NInf else PInf)"

definition fdiv :: "f64 \<Rightarrow> f64 \<Rightarrow> f64" where
  "fdiv a b =
     (let s = (signbit a \<noteq> signbit b) in
      if a = NaN \<or> b = NaN then NaN
      else if is_fin a \<and> is_fin b then
        (if val b = 0 then (if val a = 0 then NaN else if s then NInf else PInf)
         else mk s (val a / val b))
      else if is_fin a then (if s then NegZero else Fin 0)
      else if is_fin b then (if s then NInf else PInf)
      else NaN)"

text \<open>Comparisons; every comparison with NaN is false.\<close>

definition flt :: "f64 \<Rightarrow> f64 \<Rightarrow> bool" where
  "flt a b \<longleftrightarrow>
     (if a = NaN \<or> b = NaN \<or> a = PInf \<or> b = NInf then False
      else if a = NInf \<or> b = PInf then True
      else val a < val b)"

definition fle :: "f64 \<Rightarrow> f64 \<Rightarrow> bool" where
  "fle a b \<longleftrightarrow> a \<noteq> NaN \<and> b \<noteq> NaN \<and> \<not> flt b a"

definition feq :: "f64 \<Rightarrow> f64 \<Rightarrow> bool" where
  "feq a b \<longleftrightarrow> fle a b \<and> fle b a"

section \<open>The functions of package math\<close>

text \<open>Half away from zero, as \<open>math.Round\<close> rounds.\<close>

definition round_away :: "rat \<Rightarrow> int" where
  "round_away q = (if 0 \<le> q then \<lfloor>q + 1 / 2\<rfloor> else - \<lfloor>- q + 1 / 2\<rfloor>)"

fun math_Round :: "f64 \<Rightarrow> f64" where
  "math_Round (Fin q) =
     (let n = round_away q in if n = 0 then (if q < 0 then NegZero else Fin 0) else Fin (of_int n))"
| "math_Round x = x"

fun math_Abs :: "f64 \<Rightarrow> f64" where
  "math_Abs (Fin q) = Fin \<bar>q\<bar>"
| "math_Abs NegZero = Fin 0"
| "math_Abs NInf = PInf"
| "math_Abs x = x"

definition math_Max :: "f64 \<Rightarrow> f64 \<Rightarrow> f64" where
  "math_Max x y =
     (if x = PInf \<or> y = PInf then PInf
      else if x = NaN \<or> y = NaN then NaN
      else if is_fin x \<and> is_fin y \<and> val x = 0 \<and> val x = val y then (if signbit x then y else x)
      else if flt y x then x else y)"


section \<open>Evaluation\<close>

lemmas [float_eval] = rnd_frac_def rne_div_def Let_def max_def mk_def lit_def of_goint_def
  fadd_def fsub_def fmul_def fdiv_def flt_def fle_def feq_def math_Max_def round_away_def


section \<open>What the operations do on finite values\<close>

text \<open>
  Amounts far below the overflow threshold: within \<open>2 ^ 200\<close> every operation has a finite
  result, and its value is the rounded exact result.
\<close>

lemma mk_fin:
  assumes "\<bar>q\<bar> \<le> 2 ^ 200" shows "is_fin (mk s q)" "val (mk s q) = rnd q"
proof -
  have "\<bar>rnd q\<bar> \<le> 2 powi 200" using assms by (intro rnd_bound) simp_all
  moreover have "(2::rat) powi 200 < 2 ^ 1024" by simp
  ultimately show "is_fin (mk s q)" "val (mk s q) = rnd q"
    by (auto simp: mk_def Let_def abs_le_iff)
qed

lemma is_fin_cases: "is_fin x \<Longrightarrow> x \<noteq> NaN \<and> x \<noteq> PInf \<and> x \<noteq> NInf"
  by (cases x) auto

lemma fneg_fin [simp]: "is_fin (fneg x) = is_fin x" "val (fneg x) = - val x"
  by (cases x; simp)+

lemma fadd_fin:
  assumes "is_fin a" "is_fin b" "\<bar>val a + val b\<bar> \<le> 2 ^ 200"
  shows "is_fin (fadd a b)" "val (fadd a b) = rnd (val a + val b)"
  using mk_fin [OF assms(3)] is_fin_cases [OF assms(1)] is_fin_cases [OF assms(2)]
  by (simp_all add: fadd_def)

lemma fsub_fin:
  assumes "is_fin a" "is_fin b" "\<bar>val a - val b\<bar> \<le> 2 ^ 200"
  shows "is_fin (fsub a b)" "val (fsub a b) = rnd (val a - val b)"
  using fadd_fin [of a "fneg b"] assms by (simp_all add: fsub_def)

lemma fmul_fin:
  assumes "is_fin a" "is_fin b" "\<bar>val a * val b\<bar> \<le> 2 ^ 200"
  shows "is_fin (fmul a b)" "val (fmul a b) = rnd (val a * val b)"
  using mk_fin [OF assms(3)] is_fin_cases [OF assms(1)] is_fin_cases [OF assms(2)] assms
  by (simp_all add: fmul_def Let_def)

lemma fdiv_fin:
  assumes "is_fin a" "is_fin b" "val b \<noteq> 0" "\<bar>val a / val b\<bar> \<le> 2 ^ 200"
  shows "is_fin (fdiv a b)" "val (fdiv a b) = rnd (val a / val b)"
  using mk_fin [OF assms(4)] is_fin_cases [OF assms(1)] is_fin_cases [OF assms(2)] assms
  by (simp_all add: fdiv_def Let_def)

lemma lit_fin: "\<bar>q\<bar> \<le> 2 ^ 200 \<Longrightarrow> is_fin (lit q)" "\<bar>q\<bar> \<le> 2 ^ 200 \<Longrightarrow> val (lit q) = rnd q"
  by (simp_all add: lit_def mk_fin)

lemma of_goint_fin:
  assumes "\<bar>n\<bar> \<le> 2 ^ 53" shows "is_fin (of_goint n)" "val (of_goint n) = of_int n"
proof -
  have "\<bar>of_int n :: rat\<bar> \<le> of_int (2 ^ 53)"
    using assms by (simp only: of_int_abs [symmetric] of_int_le_iff)
  then have "\<bar>of_int n :: rat\<bar> \<le> 2 ^ 200" by simp
  from mk_fin [OF this] assms show "is_fin (of_goint n)" "val (of_goint n) = of_int n"
    by (simp_all add: of_goint_def)
qed

lemma math_Abs_fin [simp]: "is_fin (math_Abs x) = is_fin x" "val (math_Abs x) = \<bar>val x\<bar>"
  by (cases x; simp)+

lemma flt_fin [simp]: "is_fin a \<Longrightarrow> is_fin b \<Longrightarrow> flt a b \<longleftrightarrow> val a < val b"
  by (cases a; cases b) (simp_all add: flt_def)

lemma fle_fin [simp]: "is_fin a \<Longrightarrow> is_fin b \<Longrightarrow> fle a b \<longleftrightarrow> val a \<le> val b"
  by (cases a; cases b) (simp_all add: fle_def flt_def not_less)

lemma feq_fin [simp]: "is_fin a \<Longrightarrow> is_fin b \<Longrightarrow> feq a b \<longleftrightarrow> val a = val b"
  by (auto simp: feq_def)

lemma math_Max_fin [simp]:
  "is_fin a \<Longrightarrow> is_fin b \<Longrightarrow> is_fin (math_Max a b)"
  "is_fin a \<Longrightarrow> is_fin b \<Longrightarrow> val (math_Max a b) = max (val a) (val b)"
  by (cases a; cases b; simp add: math_Max_def flt_def max_def)+

subsection \<open>Half away from zero\<close>

lemma round_away_of_int [simp]: "round_away (of_int n) = n"
  by (simp add: round_away_def floor_eq_iff)

lemma round_away_zero [simp]: "round_away 0 = 0"
  using round_away_of_int [of 0] by simp

lemma math_Round_fin [simp]:
  "is_fin (math_Round x) = is_fin x"
  "is_fin x \<Longrightarrow> val (math_Round x) = of_int (round_away (val x))"
  by (cases x, auto simp: Let_def)+

lemma round_away_minus: "round_away (- q) = - round_away q"
  by (cases "q = 0") (simp, simp add: round_away_def)

lemma round_away_mono: "p \<le> q \<Longrightarrow> round_away p \<le> round_away q"
proof -
  assume le: "p \<le> q"
  have nn: "0 \<le> round_away x" if "0 \<le> x" for x
    using that by (simp add: round_away_def)
  consider "0 \<le> p" | "p < 0" "0 \<le> q" | "q < 0" by linarith
  then show ?thesis
  proof cases
    case 2
    then show ?thesis using nn [of q] nn [of "- p"] by (simp add: round_away_minus)
  next
    case 3
    with le floor_mono [of "- q + 1 / 2" "- p + 1 / 2"] show ?thesis
      by (simp add: round_away_def)
  qed (use le in \<open>simp add: round_away_def floor_mono\<close>)
qed

lemma round_away_close: "\<bar>q - of_int n\<bar> < 1 / 2 \<Longrightarrow> round_away q = n"
  unfolding round_away_def abs_if by (auto simp: floor_eq_iff split: if_splits) linarith+

lemma round_away_err: "\<bar>of_int (round_away q) - q\<bar> \<le> 1 / 2"
  unfolding round_away_def by (auto simp: abs_if) linarith+

end
