(* ===== verification/Money.thy ===== *)
theory Money
  imports Float64
begin

text \<open>
  Amounts of money are \<open>float64\<close> yuan, rounded to two decimals by \<open>roundMoney\<close>
  (internal/service/service.go) and \<open>round2\<close> (internal/engine/tax.go).  The abstract value of
  an amount is its integer number of cents, \<open>to_cents\<close>.  The lemmas say that, up to
  \<open>2 ^ 48\<close> cents (about 2.8 trillion yuan), rounding after each addition or subtraction makes
  the floating point operations exact on cents, and that \<open>moneyEqual\<close> decides equality of cents.
\<close>

section \<open>The rounding functions\<close>

definition roundMoney :: "f64 \<Rightarrow> f64" where
  "roundMoney v = fdiv (math_Round (fmul v (lit 100))) (lit 100)"

definition round2 :: "f64 \<Rightarrow> f64" where
  "round2 v = fdiv (math_Round (fmul v (lit 100))) (lit 100)"

definition moneyEqual :: "f64 \<Rightarrow> f64 \<Rightarrow> bool" where
  "moneyEqual a b \<longleftrightarrow> flt (math_Abs (fsub (roundMoney a) (roundMoney b))) (lit (5 / 1000))"

lemma round2_roundMoney: "round2 = roundMoney"
  by (simp add: fun_eq_iff round2_def roundMoney_def)

lemmas [float_eval] = roundMoney_def round2_def moneyEqual_def

section \<open>Cents\<close>

definition to_cents :: "f64 \<Rightarrow> int" where
  "to_cents x = round_away (rnd (val x * 100))"

definition is_cents :: "f64 \<Rightarrow> int \<Rightarrow> bool" where
  "is_cents x k \<longleftrightarrow> is_fin x \<and> val x = rnd (of_int k / 100)"

text \<open>The largest number of cents the arithmetic lemmas cover.\<close>

definition cap :: int where "cap = 2 ^ 48"

lemma lit_100 [simp]: "is_fin (lit 100)" "val (lit 100) = 100"
  by (simp_all add: lit_fin)

lemma lit_zero [simp]: "lit 0 = Fin 0"
  by (simp add: lit_def mk_def)

lemma is_cents_fin: "is_cents x k \<Longrightarrow> is_fin x"
  by (simp add: is_cents_def)

lemma cents_bound_rat:
  assumes "\<bar>k\<bar> \<le> 2 ^ n" shows "\<bar>of_int k / 100 :: rat\<bar> \<le> 2 ^ n / 100"
proof -
  have "\<bar>of_int k :: rat\<bar> \<le> of_int (2 ^ n)"
    using assms by (simp only: of_int_abs [symmetric] of_int_le_iff)
  then show ?thesis by simp
qed

lemma is_cents_err:
  assumes "is_cents x k" "\<bar>k\<bar> \<le> 2 ^ n" "7 \<le> n"
  shows "\<bar>val x - of_int k / 100\<bar> \<le> 2 ^ n / 100 / 2 ^ 53"
proof -
  have "(100::rat) \<le> 2 ^ 7" by simp
  also have "\<dots> \<le> 2 ^ n" using assms(3) by (rule power_increasing) simp
  finally have "(1::rat) \<le> 2 ^ n / 100" by simp
  with rnd_err_1 [OF cents_bound_rat [OF assms(2)] this] assms(1) show ?thesis
    by (simp add: is_cents_def)
qed

lemma is_cents_small_err:
  assumes "is_cents x k" "\<bar>k\<bar> \<le> 2 * cap"
  shows "\<bar>val x - of_int k / 100\<bar> \<le> 1 / 800"
  using is_cents_err [of x k 49] assms by (simp add: cap_def)

lemma is_cents_bound:
  assumes "is_cents x k" "\<bar>k\<bar> \<le> 2 * cap" shows "\<bar>val x\<bar> \<le> 2 ^ 44"
proof -
  have "\<bar>of_int k / 100 :: rat\<bar> \<le> 2 ^ 50 / 100" using assms(2) by (intro cents_bound_rat) (simp add: cap_def)
  with is_cents_small_err [OF assms] show ?thesis by (simp add: abs_if split: if_splits)
qed

lemma cents_val_bound:
  assumes "is_cents x k" "\<bar>k\<bar> \<le> cap" shows "\<bar>val x\<bar> \<le> 2 ^ 42"
proof -
  have "\<bar>of_int k / 100 :: rat\<bar> \<le> 2 ^ 48 / 100" using assms(2) by (intro cents_bound_rat) (simp add: cap_def)
  then have "\<bar>of_int k / 100 :: rat\<bar> \<le> 2814749767107" by simp
  moreover have "\<bar>val x - of_int k / 100\<bar> \<le> 1 / 800" using is_cents_small_err [OF assms(1)] assms(2) by simp
  ultimately have "\<bar>val x\<bar> \<le> 2814749767108" by linarith
  then show ?thesis by simp
qed

text \<open>What \<open>roundMoney\<close> does to any finite amount, and to an amount close to \<open>k\<close> cents.\<close>

lemma roundMoney_to_cents:
  assumes "is_fin x" "\<bar>val x\<bar> \<le> 2 ^ 46"
  shows "is_cents (roundMoney x) (to_cents x)" "\<bar>to_cents x\<bar> \<le> 2 ^ 53"
proof -
  have b: "\<bar>val x * 100\<bar> \<le> 2 powi 53" using assms(2) by (simp add: abs_mult)
  have m: "is_fin (fmul x (lit 100))" "val (fmul x (lit 100)) = rnd (val x * 100)"
    using b fmul_fin [of x "lit 100"] assms(1) by simp_all
  have r: "\<bar>rnd (val x * 100)\<bar> \<le> 2 ^ 53" using rnd_bound [OF b] by simp
  have "round_away (rnd (val x * 100)) \<le> round_away (of_int (2 ^ 53))"
    "round_away (of_int (- (2 ^ 53))) \<le> round_away (rnd (val x * 100))"
    using r by (auto intro!: round_away_mono simp: abs_le_iff)
  then show n: "\<bar>to_cents x\<bar> \<le> 2 ^ 53" unfolding to_cents_def round_away_of_int by linarith
  have f: "is_fin (math_Round (fmul x (lit 100)))"
    "val (math_Round (fmul x (lit 100))) = of_int (to_cents x)"
    using m by (simp_all add: to_cents_def)
  have "\<bar>of_int (to_cents x) / 100 :: rat\<bar> \<le> 2 ^ 200"
    using cents_bound_rat [OF n] by simp
  with fdiv_fin [OF f(1) lit_100(1)] f(2) show "is_cents (roundMoney x) (to_cents x)"
    by (simp add: is_cents_def roundMoney_def)
qed

lemma to_cents_close:
  assumes "\<bar>val x - of_int k / 100\<bar> \<le> 1 / 400" "\<bar>k\<bar> \<le> 2 * cap"
  shows "to_cents x = k"
proof -
  have "\<bar>of_int k / 100 :: rat\<bar> \<le> 2 ^ 50 / 100" using assms(2) by (intro cents_bound_rat) (simp add: cap_def)
  with assms(1) have "\<bar>val x * 100\<bar> \<le> 2 ^ 50 + 1" by (simp add: abs_if split: if_splits)
  then have "\<bar>rnd (val x * 100) - val x * 100\<bar> \<le> (2 ^ 50 + 1) / 2 ^ 53" by (rule rnd_err_1) simp
  then have "\<bar>rnd (val x * 100) - of_int k\<bar> < 1 / 2" using assms(1) by (simp add: abs_if split: if_splits)
  then show ?thesis unfolding to_cents_def by (rule round_away_close)
qed

lemma close_bound:
  assumes "\<bar>q - of_int k / 100\<bar> \<le> 1 / 400" "\<bar>k\<bar> \<le> 2 * cap" shows "\<bar>q :: rat\<bar> \<le> 2 ^ 46"
proof -
  have "\<bar>of_int k / 100 :: rat\<bar> \<le> 2 ^ 50 / 100" using assms(2) by (intro cents_bound_rat) (simp add: cap_def)
  with assms(1) show ?thesis by (simp add: abs_if split: if_splits)
qed

lemma roundMoney_close:
  assumes "is_fin x" "\<bar>val x - of_int k / 100\<bar> \<le> 1 / 400" "\<bar>k\<bar> \<le> 2 * cap"
  shows "is_cents (roundMoney x) k"
  using roundMoney_to_cents(1) [OF assms(1) close_bound [OF assms(2,3)]] to_cents_close [OF assms(2,3)] by simp

lemma to_cents_is_cents: "is_cents x k \<Longrightarrow> \<bar>k\<bar> \<le> 2 * cap \<Longrightarrow> to_cents x = k"
  using is_cents_small_err [of x k] by (intro to_cents_close) auto

lemma is_cents_unique:
  "is_cents x k \<Longrightarrow> is_cents x l \<Longrightarrow> \<bar>k\<bar> \<le> 2 * cap \<Longrightarrow> \<bar>l\<bar> \<le> 2 * cap \<Longrightarrow> k = l"
  using to_cents_is_cents by metis

lemma is_cents_val_eq: "is_cents x k \<Longrightarrow> is_cents y k \<Longrightarrow> val x = val y"
  by (simp add: is_cents_def)

lemma is_cents_zero [simp]: "is_cents (Fin 0) 0" "is_cents NegZero 0"
  by (simp_all add: is_cents_def)

lemma is_cents_of_int: "\<bar>n\<bar> \<le> 2 ^ 53 \<Longrightarrow> is_cents (of_goint n) (100 * n)"
  by (simp add: is_cents_def of_goint_fin)

section \<open>Operations rounded to cents\<close>

lemma abs_combine:
  fixes r :: rat
  assumes "\<bar>r - (x + y)\<bar> \<le> e" "\<bar>x - a\<bar> \<le> d" "\<bar>y - b\<bar> \<le> d'" "e + d + d' \<le> t"
  shows "\<bar>r - (a + b)\<bar> \<le> t"
  using assms by linarith

lemma abs_apart:
  fixes v :: rat
  assumes "\<bar>v - d / 100\<bar> \<le> 1 / 400" "1 \<le> \<bar>d\<bar>" shows "3 / 400 \<le> \<bar>v\<bar>"
  using assms by linarith

lemma roundMoney_cents: "is_cents x k \<Longrightarrow> \<bar>k\<bar> \<le> 2 * cap \<Longrightarrow> is_cents (roundMoney x) k"
  using is_cents_small_err [of x k] by (intro roundMoney_close) (auto simp: is_cents_fin)

lemma fneg_cents [simp]: "is_cents (fneg x) (- k) \<longleftrightarrow> is_cents x k"
  by (auto simp: is_cents_def rnd_minus)

lemma fadd_cents_err:
  assumes "is_cents x a" "is_cents y b" "\<bar>a\<bar> \<le> cap" "\<bar>b\<bar> \<le> cap"
  shows "is_fin (fadd x y)" "\<bar>val (fadd x y) - of_int (a + b) / 100\<bar> \<le> 1 / 400"
proof -
  have B: "\<bar>of_int a / 100 :: rat\<bar> \<le> 2 ^ 48 / 100" "\<bar>of_int b / 100 :: rat\<bar> \<le> 2 ^ 48 / 100"
    using assms(3,4) by (intro cents_bound_rat; simp add: cap_def)+
  have e: "\<bar>val x - of_int a / 100\<bar> \<le> 2 ^ 48 / 100 / 2 ^ 53" "\<bar>val y - of_int b / 100\<bar> \<le> 2 ^ 48 / 100 / 2 ^ 53"
    using is_cents_err [of x a 48] is_cents_err [of y b 48] assms by (simp_all add: cap_def)
  have s: "\<bar>val x + val y\<bar> \<le> 2 ^ 43"
    using B e by (simp add: abs_if split: if_splits)
  have "is_fin x" "is_fin y" using assms by (simp_all add: is_cents_fin)
  then have f: "is_fin (fadd x y)" "val (fadd x y) = rnd (val x + val y)"
    using fadd_fin [of x y] s by simp_all
  have "\<bar>rnd (val x + val y) - (val x + val y)\<bar> \<le> 2 ^ 43 / 2 ^ 53" using s by (rule rnd_err_1) simp
  then show "\<bar>val (fadd x y) - of_int (a + b) / 100\<bar> \<le> 1 / 400"
    unfolding f of_int_add add_divide_distrib by (rule abs_combine [OF _ e]) simp
  show "is_fin (fadd x y)" by (rule f)
qed

lemma roundMoney_add:
  "is_cents x a \<Longrightarrow> is_cents y b \<Longrightarrow> \<bar>a\<bar> \<le> cap \<Longrightarrow> \<bar>b\<bar> \<le> cap \<Longrightarrow> is_cents (roundMoney (fadd x y)) (a + b)"
  using fadd_cents_err [of x a y b] by (intro roundMoney_close) auto

lemma roundMoney_sub:
  assumes "is_cents x a" "is_cents y b" "\<bar>a\<bar> \<le> cap" "\<bar>b\<bar> \<le> cap"
  shows "is_cents (roundMoney (fsub x y)) (a - b)"
  using roundMoney_add [of x a "fneg y" "- b"] assms by (simp add: fsub_def)

lemma roundMoney_neg: "is_cents x k \<Longrightarrow> \<bar>k\<bar> \<le> 2 * cap \<Longrightarrow> is_cents (roundMoney (fneg x)) (- k)"
  by (rule roundMoney_cents) auto

section \<open>Comparison\<close>

lemma cents_less:
  assumes "is_cents x a" "is_cents y b" "\<bar>a\<bar> \<le> 2 * cap" "\<bar>b\<bar> \<le> 2 * cap"
  shows "val x < val y \<longleftrightarrow> a < b" "val x \<le> val y \<longleftrightarrow> a \<le> b" "val x = val y \<longleftrightarrow> a = b"
proof -
  have mono: "val u \<le> val v" if "is_cents u k" "is_cents v l" "k \<le> l" for u v k l
    using that by (auto simp: is_cents_def intro!: rnd_mono divide_right_mono)
  have le: "val x \<le> val y \<longleftrightarrow> a \<le> b"
  proof
    assume "val x \<le> val y"
    show "a \<le> b"
    proof (rule ccontr)
      assume "\<not> a \<le> b"
      with mono [OF assms(2,1)] \<open>val x \<le> val y\<close> have "val x = val y" by simp
      then have "to_cents x = to_cents y" by (simp add: to_cents_def)
      with to_cents_is_cents assms have "a = b" by metis
      with \<open>\<not> a \<le> b\<close> show False by simp
    qed
  qed (rule mono [OF assms(1,2)])
  then show "val x \<le> val y \<longleftrightarrow> a \<le> b" .
  have ge: "val y \<le> val x \<longleftrightarrow> b \<le> a"
    using mono [OF assms(2,1)] to_cents_is_cents [OF assms(1,3)] to_cents_is_cents [OF assms(2,4)]
      mono [OF assms(1,2)] by (metis order_antisym linear to_cents_def)
  show "val x < val y \<longleftrightarrow> a < b" using ge by (simp flip: not_le)
  show "val x = val y \<longleftrightarrow> a = b" using le ge by (auto simp: order_eq_iff)
qed

lemma cents_sign:
  assumes "is_cents x k" "\<bar>k\<bar> \<le> 2 * cap"
  shows "flt x (Fin 0) \<longleftrightarrow> k < 0" "fle (Fin 0) x \<longleftrightarrow> 0 \<le> k" "fle x (Fin 0) \<longleftrightarrow> k \<le> 0" "flt (Fin 0) x \<longleftrightarrow> 0 < k"
  using cents_less [OF assms(1) is_cents_zero(1) assms(2)] cents_less [OF is_cents_zero(1) assms(1) _ assms(2)]
    is_cents_fin [OF assms(1)] by (simp_all add: cap_def)

lemma is_cents_val_zero: "is_cents x k \<Longrightarrow> \<bar>k\<bar> \<le> 2 * cap \<Longrightarrow> val x = 0 \<longleftrightarrow> k = 0"
  using cents_less(3) [of x k "Fin 0" 0] by (simp add: cap_def)

text \<open>The code's tolerance test compares exactly the cents.\<close>

lemma cents_tolerance:
  assumes "is_cents x a" "is_cents y b" "\<bar>a\<bar> \<le> cap" "\<bar>b\<bar> \<le> cap"
    and t: "is_fin t" "1 / 300 < val t" "val t < 3 / 400"
  shows "flt (math_Abs (fsub x y)) t \<longleftrightarrow> a = b"
proof -
  have f: "is_fin (fsub x y)" and e: "\<bar>val (fsub x y) - of_int (a - b) / 100\<bar> \<le> 1 / 400"
    using fadd_cents_err [of x a "fneg y" "- b"] assms by (simp_all add: fsub_def)
  have "flt (math_Abs (fsub x y)) t \<longleftrightarrow> \<bar>val (fsub x y)\<bar> < val t" using f t by simp
  also have "\<dots> \<longleftrightarrow> a = b"
  proof (cases "a = b")
    case True
    then have "val x = val y" using is_cents_val_eq assms by blast
    then have "val (fsub x y) = 0"
      using fsub_fin(2) [of x y] is_cents_fin [OF assms(1)] is_cents_fin [OF assms(2)] by simp
    with True t show ?thesis by simp
  next
    case False
    then have "1 \<le> \<bar>a - b\<bar>" by linarith
    then have "(1::rat) \<le> \<bar>of_int (a - b)\<bar>" by (simp only: of_int_abs [symmetric] of_int_1_le_iff)
    with abs_apart [OF e] t(3) have "val t \<le> \<bar>val (fsub x y)\<bar>" by linarith
    with False show ?thesis by simp
  qed
  finally show ?thesis .
qed

lemma half_cent: "is_fin (lit (5 / 1000))" "1 / 300 < val (lit (5 / 1000))" "val (lit (5 / 1000)) < 3 / 400"
  by (simp_all add: lit_fin float_eval)

lemma moneyEqual_to_cents:
  assumes "is_fin x" "is_fin y" "\<bar>val x\<bar> \<le> 2 ^ 41" "\<bar>val y\<bar> \<le> 2 ^ 41"
  shows "moneyEqual x y \<longleftrightarrow> to_cents x = to_cents y"
proof -
  have b: "\<bar>to_cents v\<bar> \<le> cap" if "\<bar>val v\<bar> \<le> 2 ^ 41" for v
  proof -
    have "\<bar>val v * 100\<bar> \<le> 2 powi 48" using that by (simp add: abs_mult)
    then have r: "\<bar>rnd (val v * 100)\<bar> \<le> 2 ^ 48" using rnd_bound [of _ 48] by simp
    have "round_away (rnd (val v * 100)) \<le> round_away (of_int (2 ^ 48))"
      "round_away (of_int (- (2 ^ 48))) \<le> round_away (rnd (val v * 100))"
      using r by (auto intro!: round_away_mono simp: abs_le_iff)
    then show ?thesis unfolding to_cents_def round_away_of_int cap_def by linarith
  qed
  show ?thesis unfolding moneyEqual_def
    using roundMoney_to_cents(1) assms b half_cent by (intro cents_tolerance) auto
qed

lemma moneyEqual_cents:
  assumes "is_cents x a" "is_cents y b" "\<bar>a\<bar> \<le> cap" "\<bar>b\<bar> \<le> cap"
  shows "moneyEqual x y \<longleftrightarrow> a = b"
  unfolding moneyEqual_def using assms half_cent
  by (intro cents_tolerance) (auto intro!: roundMoney_cents simp: cap_def)

lemma moneyEqual_close:
  assumes "is_fin x" "\<bar>val x - of_int a / 100\<bar> \<le> 1 / 400" "\<bar>a\<bar> \<le> cap"
    and "is_fin y" "\<bar>val y - of_int b / 100\<bar> \<le> 1 / 400" "\<bar>b\<bar> \<le> cap"
  shows "moneyEqual x y \<longleftrightarrow> a = b"
  unfolding moneyEqual_def using assms half_cent
  by (intro cents_tolerance) (auto intro!: roundMoney_close simp: cap_def)

section \<open>Sums without intermediate rounding\<close>

text \<open>
  \<open>validateBalanced\<close> adds the amounts of the lines in \<open>float64\<close> and rounds only in the final
  comparison.  Each addition errs by at most \<open>2 ^ 33 / 2 ^ 53\<close>, so up to a bounded number of lines
  the sum stays within a quarter of a cent of the exact one.
\<close>

definition fsum :: "f64 list \<Rightarrow> f64" where
  "fsum xs = foldl fadd (Fin 0) xs"

text \<open>
  The bounds under which the sum of a list of amounts is close enough to the exact one:
  at most 1000 amounts of together at most \<open>2 ^ 39\<close> cents (5.5 billion yuan).
\<close>

definition max_lines :: nat where "max_lines = 1000"
definition sum_cap :: int where "sum_cap = 2 ^ 39"

definition amounts_ok :: "int list \<Rightarrow> bool" where
  "amounts_ok ks \<longleftrightarrow> length ks \<le> max_lines \<and> sum_list (map abs ks) \<le> sum_cap"

lemma fsum_step_err:
  assumes acc: "is_fin acc" "\<bar>val acc - of_int s / 100\<bar> \<le> of_nat n / 2 ^ 19" "n \<le> max_lines"
    and x: "is_cents x k" and b: "\<bar>s\<bar> + \<bar>k\<bar> \<le> sum_cap"
  shows "is_fin (fadd acc x)" "\<bar>val (fadd acc x) - of_int (s + k) / 100\<bar> \<le> of_nat (Suc n) / 2 ^ 19"
proof -
  have n: "(of_nat n :: rat) \<le> 1000" using acc(3) of_nat_le_iff [of n 1000, where ?'a = rat] by (simp add: max_lines_def)
  have k: "\<bar>k\<bar> \<le> 2 ^ 39" "\<bar>s\<bar> \<le> 2 ^ 39" using b by (auto simp: sum_cap_def)
  have e: "\<bar>val x - of_int k / 100\<bar> \<le> 2 ^ 39 / 100 / 2 ^ 53" using is_cents_err [OF x k(1)] by simp
  have B: "\<bar>of_int s / 100 :: rat\<bar> \<le> 2 ^ 39 / 100" "\<bar>of_int k / 100 :: rat\<bar> \<le> 2 ^ 39 / 100"
    using k by (intro cents_bound_rat; simp)+
  have "\<bar>of_int s :: rat\<bar> + \<bar>of_int k\<bar> \<le> of_int (2 ^ 39)"
    using b unfolding sum_cap_def by (simp only: of_int_abs [symmetric] of_int_add [symmetric] of_int_le_iff)
  then have "\<bar>of_int s / 100 :: rat\<bar> + \<bar>of_int k / 100\<bar> \<le> 5500000000" by simp
  moreover have "\<bar>val acc - of_int s / 100\<bar> \<le> 1" using acc(2) n by simp
  moreover have "\<bar>val x - of_int k / 100\<bar> \<le> 1" using e by simp
  ultimately have "\<bar>val acc + val x\<bar> \<le> 8000000000" by linarith
  then have s: "\<bar>val acc + val x\<bar> \<le> 2 ^ 33" by simp
  have f: "is_fin (fadd acc x)" "val (fadd acc x) = rnd (val acc + val x)"
    using fadd_fin [of acc x] acc(1) is_cents_fin [OF x] s by simp_all
  have "\<bar>rnd (val acc + val x) - (val acc + val x)\<bar> \<le> 2 ^ 33 / 2 ^ 53" using s by (rule rnd_err_1) simp
  then show "\<bar>val (fadd acc x) - of_int (s + k) / 100\<bar> \<le> of_nat (Suc n) / 2 ^ 19"
    unfolding f of_int_add add_divide_distrib
    by (rule abs_combine [OF _ acc(2) e]) simp
  show "is_fin (fadd acc x)" by (rule f)
qed

lemma abs_sum_list: "\<bar>sum_list ks\<bar> \<le> sum_list (map abs (ks :: int list))"
  by (induction ks) auto

lemma amounts_ok_sum: "amounts_ok ks \<Longrightarrow> \<bar>sum_list ks\<bar> \<le> sum_cap"
  using abs_sum_list [of ks] by (simp add: amounts_ok_def)

lemma fsum_err:
  assumes "list_all2 is_cents xs ks" "amounts_ok ks"
  shows "is_fin (fsum xs) \<and> \<bar>val (fsum xs) - of_int (sum_list ks) / 100\<bar> \<le> of_nat (length ks) / 2 ^ 19"
  using assms
proof (induction xs arbitrary: ks rule: rev_induct)
  case Nil
  then show ?case by (simp add: fsum_def)
next
  case (snoc x xs)
  then obtain js k where ks: "ks = js @ [k]" "list_all2 is_cents xs js" "is_cents x k"
    by (auto simp: list_all2_append1 list_all2_Cons1)
  with snoc.prems have ok: "amounts_ok js" "length js \<le> max_lines"
    "\<bar>sum_list js\<bar> + \<bar>k\<bar> \<le> sum_cap"
    using abs_sum_list [of js] by (auto simp: amounts_ok_def)
  from snoc.IH [OF ks(2) ok(1)] fsum_step_err [of "fsum xs" "sum_list js" "length js" x k] ok ks
  show ?case by (simp add: fsum_def add.commute)
qed

lemma fsum_cents:
  assumes "list_all2 is_cents xs ks" "amounts_ok ks"
  shows "is_fin (fsum xs)" "\<bar>val (fsum xs) - of_int (sum_list ks) / 100\<bar> \<le> 1 / 400"
proof -
  have "(of_nat (length ks) :: rat) \<le> of_nat max_lines"
    using assms(2) unfolding of_nat_le_iff by (simp add: amounts_ok_def)
  then have "of_nat (length ks) / 2 ^ 19 \<le> (1 / 400 :: rat)" by (simp add: max_lines_def)
  with fsum_err [OF assms] show "is_fin (fsum xs)" "\<bar>val (fsum xs) - of_int (sum_list ks) / 100\<bar> \<le> 1 / 400"
    by auto
qed

text \<open>Sums rounded after each step are exact as long as the partial sums stay under the cap.\<close>

definition rsum :: "f64 list \<Rightarrow> f64" where
  "rsum xs = foldl (\<lambda>acc x. roundMoney (fadd acc x)) (Fin 0) xs"

lemma foldl_roundMoney_cents:
  assumes "list_all2 is_cents xs ks" "is_cents acc s" "\<bar>s\<bar> + sum_list (map abs ks) \<le> cap"
  shows "is_cents (foldl (\<lambda>acc x. roundMoney (fadd acc x)) acc xs) (s + sum_list ks)"
  using assms
proof (induction xs ks arbitrary: acc s rule: list_all2_induct)
  case (Cons x xs k ks)
  have nn: "0 \<le> sum_list (map abs ks)" by (rule sum_list_nonneg) auto
  with Cons.prems(2) have "\<bar>s\<bar> \<le> cap" "\<bar>k\<bar> \<le> cap" by simp_all
  with Cons.prems(1) Cons.hyps(1) have "is_cents (roundMoney (fadd acc x)) (s + k)"
    by (intro roundMoney_add)
  then show ?case
    using Cons.IH [of "roundMoney (fadd acc x)" "s + k"] Cons.prems by (simp add: add.assoc)
qed simp

lemma rsum_cents:
  "list_all2 is_cents xs ks \<Longrightarrow> sum_list (map abs ks) \<le> cap \<Longrightarrow> is_cents (rsum xs) (sum_list ks)"
  using foldl_roundMoney_cents [of xs ks "Fin 0" 0] by (simp add: rsum_def)

section \<open>Rates\<close>

lemma to_cents_mono: "val x \<le> val y \<Longrightarrow> to_cents x \<le> to_cents y"
  unfolding to_cents_def by (intro round_away_mono rnd_mono mult_right_mono) auto

lemma fmul_rate_fin:
  assumes "is_fin x" "\<bar>val x\<bar> \<le> 2 ^ 44" "is_fin r" "0 \<le> val r" "val r \<le> 1"
  shows "is_fin (fmul x r)" "val (fmul x r) = rnd (val x * val r)" "\<bar>val (fmul x r)\<bar> \<le> 2 ^ 44"
proof -
  have "\<bar>val x\<bar> * val r \<le> 2 ^ 44 * 1" using assms by (intro mult_mono) auto
  then have b: "\<bar>val x * val r\<bar> \<le> 2 powi 44" using assms by (simp add: abs_mult)
  then have "\<bar>val x * val r\<bar> \<le> 2 ^ 200" by simp
  from fmul_fin [OF assms(1,3) this] show f: "is_fin (fmul x r)" "val (fmul x r) = rnd (val x * val r)" .
  show "\<bar>val (fmul x r)\<bar> \<le> 2 ^ 44" using rnd_bound [OF b] unfolding f by simp
qed

lemma to_cents_nonneg: "0 \<le> val x \<Longrightarrow> 0 \<le> to_cents x"
  using to_cents_mono [of "Fin 0" x] by (simp add: to_cents_def)

text \<open>An amount of \<open>k\<close> cents times a rate, rounded: between 0 and \<open>k\<close> cents and within a cent.\<close>

lemma within_one: "\<bar>of_int m - of_int n\<bar> < (1 :: rat) \<Longrightarrow> m = n"
proof -
  assume "\<bar>of_int m - of_int n\<bar> < (1 :: rat)"
  then have "\<bar>of_int (m - n) :: rat\<bar> < 1" by simp
  then have "\<bar>m - n\<bar> < 1" by (simp only: of_int_abs [symmetric] of_int_less_1_iff)
  then show ?thesis by simp
qed

lemma rate_cents:
  assumes x: "is_cents x k" and k: "0 \<le> k" "k \<le> cap" and r: "is_fin r" "0 \<le> val r" "val r \<le> 1"
  defines "m \<equiv> to_cents (fmul x r)"
  shows "is_cents (roundMoney (fmul x r)) m" "0 \<le> m" "m \<le> k" "\<bar>of_int m - of_int k * val r\<bar> \<le> 15 / 16"
proof -
  have c: "\<bar>k\<bar> \<le> 2 * cap" using k by simp
  have b: "\<bar>val x\<bar> \<le> 2 ^ 44" by (rule is_cents_bound [OF x c])
  have xf: "is_fin x" by (rule is_cents_fin [OF x])
  note f = fmul_rate_fin [OF xf b r]
  have "\<bar>val (fmul x r)\<bar> \<le> 2 ^ 46" using f(3) by simp
  from roundMoney_to_cents(1) [OF f(1) this] show "is_cents (roundMoney (fmul x r)) m" by (simp add: m_def)
  have x0: "0 \<le> val x" using x k by (auto simp: is_cents_def intro!: rnd_nonneg)
  have "val x * val r \<le> val x * 1" using x0 r by (intro mult_left_mono) auto
  then have "val (fmul x r) \<le> val x"
    using x unfolding f(2) is_cents_def by (metis mult.right_neutral rnd_le repr_rnd)
  from to_cents_mono [OF this] to_cents_is_cents [OF x c] show "m \<le> k" by (simp add: m_def)
  have nn: "0 \<le> val (fmul x r)" unfolding f(2) using x0 r by (intro rnd_nonneg) simp
  from to_cents_nonneg [OF this] show "0 \<le> m" by (simp add: m_def)
  have e1: "\<bar>val x - of_int k / 100\<bar> \<le> 1 / 800" by (rule is_cents_small_err [OF x c])
  have "(of_int k :: rat) \<le> of_int cap" using k by (simp only: of_int_le_iff)
  then have "of_int k / 100 \<le> (2814749767107 :: rat)" by (simp add: cap_def)
  with e1 have "val x \<le> 2814749767108" by linarith
  then have x43: "val x \<le> 2 ^ 43" by simp
  then have "val x * val r \<le> 2 ^ 43 * 1" using x0 r by (intro mult_mono) auto
  then have p43: "\<bar>val x * val r\<bar> \<le> 2 ^ 43" using x0 r by simp
  then have e2: "\<bar>val (fmul x r) - val x * val r\<bar> \<le> 1 / 1024"
    unfolding f(2) using rnd_err_1 [of "val x * val r" "2 ^ 43"] by simp
  have "\<bar>(val x - of_int k / 100) * val r\<bar> \<le> 1 / 800 * 1"
    unfolding abs_mult using e1 r by (intro mult_mono) auto
  then have e1': "\<bar>val x * val r - of_int k * val r / 100\<bar> \<le> 1 / 800"
    by (simp add: left_diff_distrib)
  have e3: "\<bar>val (fmul x r) * 100 - of_int k * val r\<bar> \<le> 1 / 4"
    using e1' e2 by linarith
  have "\<bar>val (fmul x r)\<bar> \<le> 2 ^ 43" using rnd_bound [of "val x * val r" 43] p43 unfolding f(2) by simp
  then have "\<bar>val (fmul x r) * 100\<bar> \<le> 2 ^ 50" by (simp add: abs_mult)
  then have e4: "\<bar>rnd (val (fmul x r) * 100) - val (fmul x r) * 100\<bar> \<le> 1 / 8"
    using rnd_err_1 [of "val (fmul x r) * 100" "2 ^ 50"] by simp
  from e3 e4 round_away_err [of "rnd (val (fmul x r) * 100)"]
  show "\<bar>of_int m - of_int k * val r\<bar> \<le> 15 / 16"
    unfolding m_def to_cents_def by linarith
qed

lemma lit_rate: "0 \<le> q \<Longrightarrow> q \<le> 1 \<Longrightarrow> is_fin (lit q) \<and> 0 \<le> val (lit q) \<and> val (lit q) \<le> 1"
  using rnd_le [of q 1] by (simp add: lit_fin rnd_nonneg repr_of_int [of 1, simplified])

lemma rate_cents_lit:
  assumes x: "is_cents x k" and k: "0 \<le> k" "k \<le> cap" and q: "0 \<le> q" "q \<le> 1"
  defines "m \<equiv> to_cents (fmul x (lit q))"
  shows "is_cents (roundMoney (fmul x (lit q))) m" "0 \<le> m" "m \<le> k" "\<bar>of_int m - of_int k * q\<bar> < 1"
proof -
  note r = lit_rate [OF q]
  note c = rate_cents [OF x k, of "lit q"]
  show "is_cents (roundMoney (fmul x (lit q))) m" "0 \<le> m" "m \<le> k"
    unfolding m_def using c(1-3) r by auto
  have "\<bar>val (lit q) - q\<bar> \<le> 1 / 2 ^ 53" using q rnd_err_1 [of q 1] by (simp add: lit_fin)
  moreover have "\<bar>of_int k :: rat\<bar> \<le> of_int (2 ^ 48)"
    using k by (simp only: of_int_abs [symmetric] of_int_le_iff) (simp add: cap_def)
  ultimately have "\<bar>of_int k\<bar> * \<bar>val (lit q) - q\<bar> \<le> of_int (2 ^ 48) * (1 / 2 ^ 53)"
    by (intro mult_mono) auto
  then have "\<bar>of_int k * val (lit q) - of_int k * q\<bar> \<le> 1 / 32"
    by (simp add: abs_mult flip: right_diff_distrib)
  moreover have "\<bar>of_int m - of_int k * val (lit q)\<bar> \<le> 15 / 16"
    unfolding m_def using c(4) r by auto
  ultimately show "\<bar>of_int m - of_int k * q\<bar> < 1" by linarith
qed

definition short_cap :: int where "short_cap = 2 ^ 46"

text \<open>The amounts the engine theorems cover: finite, up to \<open>2 ^ 37\<close> yuan (137 billion).\<close>

definition money_ok :: "f64 \<Rightarrow> bool" where
  "money_ok x \<longleftrightarrow> is_fin x \<and> \<bar>val x\<bar> \<le> 2 ^ 37"

definition money_cap :: int where "money_cap = 2 ^ 44"

lemma money_ok_cents:
  assumes "money_ok x"
  shows "is_cents (roundMoney x) (to_cents x)" "\<bar>to_cents x\<bar> \<le> money_cap"
proof -
  show "is_cents (roundMoney x) (to_cents x)"
    using roundMoney_to_cents(1) [of x] assms by (simp add: money_ok_def)
  have "\<bar>val x * 100\<bar> \<le> 2 powi 44" using assms by (simp add: abs_mult money_ok_def)
  then have r: "\<bar>rnd (val x * 100)\<bar> \<le> 2 ^ 44" using rnd_bound [of _ 44] by simp
  have "round_away (rnd (val x * 100)) \<le> round_away (of_int (2 ^ 44))"
    "round_away (of_int (- (2 ^ 44))) \<le> round_away (rnd (val x * 100))"
    using r by (auto intro!: round_away_mono simp: abs_le_iff)
  then show "\<bar>to_cents x\<bar> \<le> money_cap" unfolding to_cents_def round_away_of_int money_cap_def by linarith
qed

lemma money_cap_simps [simp]: "money_cap \<le> cap" "money_cap \<le> 2 * cap" "0 \<le> cap" "4 * money_cap = short_cap" "short_cap \<le> cap"
  by (simp_all add: money_cap_def cap_def short_cap_def)

lemma money_cap_le: "\<bar>k\<bar> \<le> money_cap \<Longrightarrow> \<bar>k\<bar> \<le> cap" "\<bar>k\<bar> \<le> money_cap \<Longrightarrow> \<bar>k\<bar> \<le> 2 * cap"
  by (simp_all add: money_cap_def cap_def)

section \<open>Short sums\<close>

text \<open>
  \<open>near n x k\<close>: \<open>x\<close> is within \<open>n / 4096\<close> of \<open>k\<close> cents.  An amount in cents is \<open>near 1\<close>, an
  addition adds the errors of its operands and one; up to ten, rounding recovers \<open>k\<close>.
\<close>

definition near :: "nat \<Rightarrow> f64 \<Rightarrow> int \<Rightarrow> bool" where
  "near n x k \<longleftrightarrow> is_fin x \<and> \<bar>val x - of_int k / 100\<bar> \<le> of_nat n / 4096"

lemma near_cents: "is_cents x k \<Longrightarrow> \<bar>k\<bar> \<le> short_cap \<Longrightarrow> near 1 x k"
  using is_cents_err [of x k 46] by (auto simp: near_def short_cap_def is_cents_fin)

lemma near_add:
  assumes "near n x a" "near m y b" "\<bar>a\<bar> + \<bar>b\<bar> \<le> short_cap" "n + m \<le> 100"
  shows "near (Suc (n + m)) (fadd x y) (a + b)"
proof -
  have nm: "(of_nat n :: rat) \<le> of_nat 100" "(of_nat m :: rat) \<le> of_nat 100"
    using assms(4) by (simp_all only: of_nat_le_iff)
  have "\<bar>of_int a :: rat\<bar> + \<bar>of_int b\<bar> \<le> of_int (2 ^ 46)"
    using assms(3) unfolding short_cap_def by (simp only: of_int_abs [symmetric] of_int_add [symmetric] of_int_le_iff)
  then have s: "\<bar>of_int a / 100 :: rat\<bar> + \<bar>of_int b / 100\<bar> \<le> 703687441777" by simp
  have e: "\<bar>val x - of_int a / 100\<bar> \<le> of_nat n / 4096" "\<bar>val y - of_int b / 100\<bar> \<le> of_nat m / 4096"
    and f: "is_fin x" "is_fin y" using assms by (auto simp: near_def)
  have "\<bar>val x - of_int a / 100\<bar> \<le> 1" "\<bar>val y - of_int b / 100\<bar> \<le> 1" using e nm by simp_all
  with s have "\<bar>val x + val y\<bar> \<le> 703687441779" by linarith
  then have b: "\<bar>val x + val y\<bar> \<le> 2 ^ 40" by simp
  have g: "is_fin (fadd x y)" "val (fadd x y) = rnd (val x + val y)"
    using fadd_fin [of x y] f b by simp_all
  have "\<bar>rnd (val x + val y) - (val x + val y)\<bar> \<le> 2 ^ 40 / 2 ^ 53" using b by (rule rnd_err_1) simp
  then have "\<bar>rnd (val x + val y) - (of_int a / 100 + of_int b / 100)\<bar> \<le> of_nat (Suc (n + m)) / 4096"
    by (rule abs_combine [OF _ e]) (simp add: field_simps)
  with g show ?thesis by (simp add: near_def add_divide_distrib)
qed

lemma roundMoney_near: "near n x k \<Longrightarrow> n \<le> 10 \<Longrightarrow> \<bar>k\<bar> \<le> cap \<Longrightarrow> is_cents (roundMoney x) k"
proof -
  assume "near n x k" "n \<le> 10" "\<bar>k\<bar> \<le> cap"
  moreover have "of_nat n / 4096 \<le> (1 / 400 :: rat)"
    using of_nat_mono [OF \<open>n \<le> 10\<close>, where ?'a = rat] by simp
  ultimately show ?thesis by (intro roundMoney_close) (auto simp: near_def)
qed

lemma near_close: "near n x k \<Longrightarrow> n \<le> 10 \<Longrightarrow> \<bar>val x - of_int k / 100\<bar> \<le> 1 / 400"
  using of_nat_mono [of n 10, where ?'a = rat] by (simp add: near_def)

lemma short_sum3:
  assumes "is_cents x a" "is_cents y b" "is_cents z c" "\<bar>a\<bar> + \<bar>b\<bar> + \<bar>c\<bar> \<le> short_cap"
  shows "near 5 (fadd (fadd x y) z) (a + b + c)"
proof -
  have "near 3 (fadd x y) (a + b)"
    using near_add [OF near_cents near_cents, of x a y b] assms by (simp add: numeral_3_eq_3)
  moreover have "near 1 z c" using assms by (intro near_cents) auto
  ultimately show ?thesis using near_add [of 3 _ "a + b" 1 z c] assms(4)
    abs_triangle_ineq [of a b] by (simp add: eval_nat_numeral)
qed

lemma short_sum4:
  assumes "is_cents x a" "is_cents y b" "is_cents z c" "is_cents w d"
    and "\<bar>a\<bar> + \<bar>b\<bar> + \<bar>c\<bar> + \<bar>d\<bar> \<le> short_cap"
  shows "near 7 (fadd (fadd (fadd x y) z) w) (a + b + c + d)"
proof -
  have "near 5 (fadd (fadd x y) z) (a + b + c)" using assms by (intro short_sum3) auto
  moreover have "near 1 w d" using assms by (intro near_cents) auto
  ultimately show ?thesis using near_add [of 5 _ "a + b + c" 1 w d] assms(5)
    abs_triangle_ineq [of "a + b" c] abs_triangle_ineq [of a b] by (simp add: eval_nat_numeral)
qed

section \<open>Monotonicity\<close>

lemma fadd_mono:
  assumes "is_fin x" "is_fin y" "is_fin u" "is_fin v" "val x \<le> val y" "val u \<le> val v"
    and "\<bar>val x\<bar> \<le> 2 ^ 100" "\<bar>val y\<bar> \<le> 2 ^ 100" "\<bar>val u\<bar> \<le> 2 ^ 100" "\<bar>val v\<bar> \<le> 2 ^ 100"
  shows "val (fadd x u) \<le> val (fadd y v)"
proof -
  have "\<bar>val x + val u\<bar> \<le> 2 ^ 200" "\<bar>val y + val v\<bar> \<le> 2 ^ 200"
    using assms(7-10) by (auto simp: abs_le_iff)
  with assms(1-6) show ?thesis by (simp add: fadd_fin rnd_mono)
qed

lemma fsub_mono:
  assumes "is_fin x" "is_fin y" "is_fin u" "val x \<le> val y"
    and "\<bar>val x\<bar> \<le> 2 ^ 100" "\<bar>val y\<bar> \<le> 2 ^ 100" "\<bar>val u\<bar> \<le> 2 ^ 100"
  shows "val (fsub x u) \<le> val (fsub y u)"
  unfolding fsub_def using assms by (intro fadd_mono) auto

lemma fmul_rate_mono:
  assumes "is_fin x" "is_fin y" "is_fin r" "0 \<le> val r" "val r \<le> 1" "val x \<le> val y"
    and "\<bar>val x\<bar> \<le> 2 ^ 44" "\<bar>val y\<bar> \<le> 2 ^ 44"
  shows "val (fmul x r) \<le> val (fmul y r)"
  using fmul_rate_fin [of x r] fmul_rate_fin [of y r] assms by (simp add: rnd_mono mult_right_mono)

lemma is_cents_mono: "is_cents x k \<Longrightarrow> is_cents y l \<Longrightarrow> k \<le> l \<Longrightarrow> val x \<le> val y"
  by (auto simp: is_cents_def intro!: rnd_mono divide_right_mono)

lemma rate_mono_cents:
  assumes "is_cents x k" "is_cents y l" "k \<le> l" "\<bar>k\<bar> \<le> cap" "\<bar>l\<bar> \<le> cap" "is_fin r" "0 \<le> val r" "val r \<le> 1"
  shows "to_cents (fmul x r) \<le> to_cents (fmul y r)"
proof -
  have "\<bar>val x\<bar> \<le> 2 ^ 44" "\<bar>val y\<bar> \<le> 2 ^ 44"
    using is_cents_bound [OF assms(1)] is_cents_bound [OF assms(2)] assms(4,5) by linarith+
  then show ?thesis
    using assms by (intro to_cents_mono fmul_rate_mono is_cents_fin [OF assms(1)] is_cents_fin [OF assms(2)]
      is_cents_mono [OF assms(1,2)])
qed

text \<open>Rounding any amount of at most \<open>2 ^ 44\<close> yuan.\<close>

lemma roundMoney_cents_ex: "is_fin x \<Longrightarrow> \<bar>val x\<bar> \<le> 2 ^ 46 \<Longrightarrow> is_cents (roundMoney x) (to_cents x)"
  by (rule roundMoney_to_cents(1))

text \<open>How far the cents are from the exact value of an amount.\<close>

lemma to_cents_err:
  assumes "\<bar>val x\<bar> \<le> 2 ^ 40" shows "\<bar>of_int (to_cents x) - val x * 100\<bar> \<le> 5 / 8"
proof -
  have "\<bar>val x * 100\<bar> \<le> 2 ^ 50" using assms by (simp add: abs_mult)
  then have "\<bar>rnd (val x * 100) - val x * 100\<bar> \<le> 1 / 8" using rnd_err_1 [of "val x * 100" "2 ^ 50"] by simp
  with round_away_err [of "rnd (val x * 100)"] show ?thesis unfolding to_cents_def by linarith
qed

text \<open>The value of an amount times a rate, before rounding to cents.\<close>

lemma product_close:
  fixes v d r q :: rat
  assumes "\<bar>v - d\<bar> \<le> e" "\<bar>r - q\<bar> \<le> f" "0 \<le> r" "r \<le> 1" "\<bar>d\<bar> \<le> B"
  shows "\<bar>v * r - d * q\<bar> \<le> e + B * f"
proof -
  have "\<bar>v - d\<bar> * \<bar>r\<bar> \<le> e * 1" using assms by (intro mult_mono) auto
  then have "\<bar>v * r - d * r\<bar> \<le> e" by (simp add: abs_mult [symmetric] left_diff_distrib)
  moreover have "\<bar>d\<bar> * \<bar>r - q\<bar> \<le> B * f" using assms by (intro mult_mono) auto
  then have "\<bar>d * r - d * q\<bar> \<le> B * f" by (simp add: abs_mult [symmetric] right_diff_distrib)
  ultimately show ?thesis by linarith
qed

lemma rate_value:
  assumes x: "is_cents x k" and k: "\<bar>k\<bar> \<le> money_cap" and q: "0 \<le> q" "q \<le> 1"
  shows "is_fin (fmul x (lit q))" "\<bar>val (fmul x (lit q)) - of_int k / 100 * q\<bar> \<le> 1 / 4096"
    "\<bar>val (fmul x (lit q))\<bar> \<le> 2 ^ 39"
proof -
  have d: "\<bar>of_int k / 100 :: rat\<bar> \<le> 2 ^ 44 / 100" using k by (intro cents_bound_rat) (simp add: money_cap_def)
  then have d': "\<bar>of_int k / 100 :: rat\<bar> \<le> 175921860445" by simp
  have e: "\<bar>val x - of_int k / 100\<bar> \<le> 2 ^ 44 / 100 / 2 ^ 53"
    using is_cents_err [OF x, of 44] k by (simp add: money_cap_def)
  then have "\<bar>val x - of_int k / 100\<bar> \<le> 1" by simp
  with d' have vx: "\<bar>val x\<bar> \<le> 175921860446" by linarith
  then have vx44: "\<bar>val x\<bar> \<le> 2 ^ 44" by simp
  note r = lit_rate [OF q]
  have rq: "\<bar>val (lit q) - q\<bar> \<le> 1 / 2 ^ 53" using q rnd_err_1 [of q 1] by (simp add: lit_fin)
  note f = fmul_rate_fin [OF is_cents_fin [OF x] vx44, of "lit q"]
  show fin: "is_fin (fmul x (lit q))" using f(1) r by blast
  have "\<bar>val x\<bar> * \<bar>val (lit q)\<bar> \<le> 175921860446 * 1" using vx r by (intro mult_mono) auto
  then have b: "\<bar>val x * val (lit q)\<bar> \<le> 175921860446" by (simp add: abs_mult)
  then have "\<bar>rnd (val x * val (lit q)) - val x * val (lit q)\<bar> \<le> 175921860446 / 2 ^ 53" by (rule rnd_err_1) simp
  then have 1: "\<bar>val (fmul x (lit q)) - val x * val (lit q)\<bar> \<le> 175921860446 / 2 ^ 53" using f(2) r by simp
  have 2: "\<bar>val x * val (lit q) - of_int k / 100 * q\<bar> \<le> 2 ^ 44 / 100 / 2 ^ 53 + 2 ^ 44 / 100 * (1 / 2 ^ 53)"
    using r by (intro product_close [OF e rq _ _ d]) auto
  have c: "175921860446 / 2 ^ 53 + (2 ^ 44 / 100 / 2 ^ 53 + 2 ^ 44 / 100 * (1 / 2 ^ 53)) \<le> (1 / 4096 :: rat)" by simp
  from 1 2 c show "\<bar>val (fmul x (lit q)) - of_int k / 100 * q\<bar> \<le> 1 / 4096" by linarith
  have "\<bar>val (fmul x (lit q)) - val x * val (lit q)\<bar> \<le> 1" using 1 by simp
  with b have "\<bar>val (fmul x (lit q))\<bar> \<le> 175921860447" by linarith
  then show "\<bar>val (fmul x (lit q))\<bar> \<le> 2 ^ 39" by simp
qed

section \<open>Symmetry\<close>

lemma abs_mk_minus: "math_Abs (mk s q) = math_Abs (mk t (- q))"
  by (auto simp: mk_def Let_def rnd_minus)

lemma abs_fsub_commute: "math_Abs (fsub a b) = math_Abs (fsub b a)"
proof -
  have "math_Abs (mk s (x - y)) = math_Abs (mk t (y - x))" for s t x y
    using abs_mk_minus [of s "x - y" t] by simp
  then show ?thesis by (cases a; cases b) (simp_all add: fsub_def fadd_def, (metis minus_diff_eq abs_mk_minus diff_0 add_0)+)?
qed

lemma moneyEqual_commute: "moneyEqual a b = moneyEqual b a"
  unfolding moneyEqual_def by (subst abs_fsub_commute) simp

end
