(* ===== verification/GoStrings.thy ===== *)
theory GoStrings
  imports Float64 Prelude
begin

text \<open>
  The functions of packages \<open>strings\<close>, \<open>strconv\<close>, \<open>fmt\<close> and \<open>regexp\<close> that the program
  uses, on strings as byte sequences, and what the components need to know of them.
\<close>

section \<open>Prefixes, substrings, trimming\<close>

definition HasPrefix :: "string \<Rightarrow> string \<Rightarrow> bool" where
  "HasPrefix s p \<longleftrightarrow> take (length p) s = p"

fun Contains :: "string \<Rightarrow> string \<Rightarrow> bool" where
  "Contains [] p = (p = [])"
| "Contains (c # s) p = (HasPrefix (c # s) p \<or> Contains s p)"

text \<open>The encodings of the white space characters of Unicode.\<close>

definition spaces :: "string list" where
  "spaces =
     [[CHR 0x09], [CHR 0x0A], [CHR 0x0B], [CHR 0x0C], [CHR 0x0D], '' '',
      [CHR 0xC2, CHR 0x85], [CHR 0xC2, CHR 0xA0], [CHR 0xE1, CHR 0x9A, CHR 0x80],
      [CHR 0xE2, CHR 0x80, CHR 0x80], [CHR 0xE2, CHR 0x80, CHR 0x81], [CHR 0xE2, CHR 0x80, CHR 0x82],
      [CHR 0xE2, CHR 0x80, CHR 0x83], [CHR 0xE2, CHR 0x80, CHR 0x84], [CHR 0xE2, CHR 0x80, CHR 0x85],
      [CHR 0xE2, CHR 0x80, CHR 0x86], [CHR 0xE2, CHR 0x80, CHR 0x87], [CHR 0xE2, CHR 0x80, CHR 0x88],
      [CHR 0xE2, CHR 0x80, CHR 0x89], [CHR 0xE2, CHR 0x80, CHR 0x8A],
      [CHR 0xE2, CHR 0x80, CHR 0xA8], [CHR 0xE2, CHR 0x80, CHR 0xA9], [CHR 0xE2, CHR 0x80, CHR 0xAF],
      [CHR 0xE2, CHR 0x81, CHR 0x9F], [CHR 0xE3, CHR 0x80, CHR 0x80]]"

text \<open>
  \<open>strip_with ps s\<close> removes words of \<open>ps\<close> from the front of \<open>s\<close> as long as one is there; the
  recursion is bounded by the length of \<open>s\<close>, which no strip exceeds.
\<close>

definition lead :: "string list \<Rightarrow> string \<Rightarrow> nat" where
  "lead ps s = (case find (HasPrefix s) ps of None \<Rightarrow> 0 | Some p \<Rightarrow> length p)"

fun strip_with :: "nat \<Rightarrow> string list \<Rightarrow> string \<Rightarrow> string" where
  "strip_with 0 ps s = s"
| "strip_with (Suc n) ps s = (if lead ps s = 0 then s else strip_with n ps (drop (lead ps s) s))"

definition TrimLeft :: "string \<Rightarrow> string" where
  "TrimLeft s = strip_with (length s) spaces s"

definition TrimRight :: "string \<Rightarrow> string" where
  "TrimRight s = rev (strip_with (length s) (map rev spaces) (rev s))"

definition TrimSpace :: "string \<Rightarrow> string" where
  "TrimSpace s = TrimRight (TrimLeft s)"

text \<open>
  \<open>strings.Fields\<close>: the maximal non-space words; \<open>cur\<close> is the current word, reversed.
\<close>

fun fields_from :: "nat \<Rightarrow> string \<Rightarrow> string \<Rightarrow> string list" where
  "fields_from 0 cur s = (if cur = [] then [] else [rev cur])"
| "fields_from (Suc n) cur [] = (if cur = [] then [] else [rev cur])"
| "fields_from (Suc n) cur (c # s) =
     (let k = lead spaces (c # s) in
      if k = 0 then fields_from n (c # cur) s
      else (if cur = [] then [] else [rev cur]) @ fields_from n [] (drop k (c # s)))"

definition Fields :: "string \<Rightarrow> string list" where
  "Fields s = fields_from (Suc (length s)) [] s"

text \<open>
  \<open>strings.ToLower\<close> as far as the program can observe it: the results are only compared with
  lower-case ASCII words and searched for Chinese ones, so the letters with an ASCII lower case
  (the ASCII capitals, U+0130 and U+212A) are mapped and all other bytes kept.
\<close>

definition ascii_lower :: "char \<Rightarrow> char" where
  "ascii_lower c = (let n = of_char c :: nat in if 65 \<le> n \<and> n \<le> 90 then char_of (n + 32) else c)"

fun ToLower :: "string \<Rightarrow> string" where
  "ToLower [] = []"
| "ToLower (c # s) =
     (if c = CHR 0xC4 \<and> HasPrefix s [CHR 0xB0] then CHR ''i'' # ToLower (drop 1 s)
      else if c = CHR 0xE2 \<and> HasPrefix s [CHR 0x84, CHR 0xAA] then CHR ''k'' # ToLower (drop 2 s)
      else ascii_lower c # ToLower s)"

fun Join :: "string list \<Rightarrow> string \<Rightarrow> string" where
  "Join [] sep = []"
| "Join [x] sep = x"
| "Join (x # y # xs) sep = x @ sep @ Join (y # xs) sep"

text \<open>\<open>strings.SplitN (s, sep, 2)\<close> for a nonempty separator; \<open>acc\<close> is the part read, reversed.\<close>

fun split2_from :: "string \<Rightarrow> string \<Rightarrow> string \<Rightarrow> string list" where
  "split2_from sep acc [] = [rev acc]"
| "split2_from sep acc (c # s) =
     (if HasPrefix (c # s) sep then [rev acc, drop (length sep) (c # s)] else split2_from sep (c # acc) s)"

definition SplitN2 :: "string \<Rightarrow> string \<Rightarrow> string list" where
  "SplitN2 s sep = split2_from sep [] s"

section \<open>Numbers in text\<close>

definition digit :: "nat \<Rightarrow> char" where
  "digit d = char_of (48 + d)"

fun nat_str :: "nat \<Rightarrow> string" where
  "nat_str n = (if n < 10 then [digit n] else nat_str (n div 10) @ [digit (n mod 10)])"

declare nat_str.simps [simp del]

definition int_str :: "int \<Rightarrow> string" where
  "int_str i = (if i < 0 then ''-'' @ nat_str (nat (- i)) else nat_str (nat i))"

definition zero_pad :: "nat \<Rightarrow> string \<Rightarrow> string" where
  "zero_pad w s = replicate (w - length s) CHR ''0'' @ s"

text \<open>\<open>%0wd\<close>: zeros go between the sign and the digits.\<close>

definition int_str_pad :: "nat \<Rightarrow> int \<Rightarrow> string" where
  "int_str_pad w i =
     (if i < 0 then ''-'' @ zero_pad (w - 1) (nat_str (nat (- i))) else zero_pad w (nat_str (nat i)))"

text \<open>
  \<open>%.pf\<close>: the exact binary value is rounded to \<open>p\<close> decimals, half to even; negative zero and
  negative values rounded to zero keep their sign.
\<close>

definition fmt_f :: "nat \<Rightarrow> f64 \<Rightarrow> string" where
  "fmt_f p x =
     (case x of NaN \<Rightarrow> ''NaN'' | PInf \<Rightarrow> ''+Inf'' | NInf \<Rightarrow> ''-Inf''
      | _ \<Rightarrow> (let n = nat (rne (\<bar>val x\<bar> * 10 ^ p)) in
         (if signbit x then ''-'' else '''') @
         (if p = 0 then nat_str n
          else nat_str (n div 10 ^ p) @ ''.'' @ zero_pad p (nat_str (n mod 10 ^ p)))))"

abbreviation fmt2 :: "f64 \<Rightarrow> string" where
  "fmt2 \<equiv> fmt_f 2"

section \<open>Character classes\<close>

definition is_digit :: "char \<Rightarrow> bool" where
  "is_digit c \<longleftrightarrow> (let n = of_char c :: nat in 48 \<le> n \<and> n \<le> 57)"

definition is_upper :: "char \<Rightarrow> bool" where
  "is_upper c \<longleftrightarrow> (let n = of_char c :: nat in 65 \<le> n \<and> n \<le> 90)"

definition is_lower :: "char \<Rightarrow> bool" where
  "is_lower c \<longleftrightarrow> (let n = of_char c :: nat in 97 \<le> n \<and> n \<le> 122)"

definition digit_val :: "char \<Rightarrow> nat" where
  "digit_val c = of_char c - 48"

section \<open>Base64 (what encoding/json makes of a byte slice)\<close>

definition b64_char :: "nat \<Rightarrow> char" where
  "b64_char n =
     (if n < 26 then char_of (65 + n) else if n < 52 then char_of (97 + (n - 26))
      else if n < 62 then char_of (48 + (n - 52)) else if n = 62 then CHR ''+'' else CHR ''/'')"

fun base64 :: "string \<Rightarrow> string" where
  "base64 [] = []"
| "base64 [a] = (let x = of_char a :: nat in
     [b64_char (x div 4), b64_char (x mod 4 * 16), CHR ''='', CHR ''=''])"
| "base64 [a, b] = (let x = of_char a :: nat; y = of_char b :: nat in
     [b64_char (x div 4), b64_char (x mod 4 * 16 + y div 16), b64_char (y mod 16 * 4), CHR ''=''])"
| "base64 (a # b # c # s) = (let x = of_char a :: nat; y = of_char b :: nat; z = of_char c :: nat in
     [b64_char (x div 4), b64_char (x mod 4 * 16 + y div 16), b64_char (y mod 16 * 4 + z div 64), b64_char (z mod 64)]
     @ base64 s)"

section \<open>Facts\<close>

lemma HasPrefix_append [simp]: "HasPrefix (p @ s) p"
  by (simp add: HasPrefix_def)

lemma HasPrefix_Nil [simp]: "HasPrefix s []"
  by (simp add: HasPrefix_def)

lemma HasPrefix_iff: "HasPrefix s p \<longleftrightarrow> (\<exists>t. s = p @ t)"
  by (metis HasPrefix_append HasPrefix_def append_take_drop_id)

lemma lead_le: "lead ps s \<le> length s"
  by (auto simp: lead_def HasPrefix_iff split: option.split dest!: find_SomeD)

lemma digit_is_digit: "d < 10 \<Longrightarrow> is_digit (digit d)"
  by (simp add: is_digit_def digit_def)

lemma digit_val_digit [simp]: "d < 10 \<Longrightarrow> digit_val (digit d) = d"
  by (simp add: digit_val_def digit_def)

lemma nat_str_digits: "\<forall>c \<in> set (nat_str n). is_digit c"
proof (induction n rule: nat_str.induct)
  case (1 n)
  then show ?case
    by (subst nat_str.simps) (auto simp: digit_is_digit)
qed

text \<open>Reading the decimal digits back.\<close>

definition digits_val :: "string \<Rightarrow> nat" where
  "digits_val s = foldl (\<lambda>n c. n * 10 + digit_val c) 0 s"

lemma digits_val_nat_str: "digits_val (nat_str n) = n"
proof (induction n rule: nat_str.induct)
  case (1 n)
  then show ?case by (subst nat_str.simps) (simp add: digits_val_def)
qed

lemma digits_val_zeros: "digits_val (replicate k CHR ''0'' @ s) = digits_val s"
proof -
  have "digit_val (CHR ''0'') = 0" by (simp add: digit_val_def)
  then have "foldl (\<lambda>n c. n * 10 + digit_val c) 0 (replicate k CHR ''0'') = 0" by (induction k) simp_all
  then show ?thesis by (simp add: digits_val_def)
qed

lemma nat_str_inj: "nat_str m = nat_str n \<longleftrightarrow> m = n"
  by (metis digits_val_nat_str)

lemma zero_pad_inj: "zero_pad w (nat_str m) = zero_pad w (nat_str n) \<longleftrightarrow> m = n"
  by (metis digits_val_nat_str digits_val_zeros zero_pad_def)

lemma int_str_pad_inj: "0 \<le> a \<Longrightarrow> 0 \<le> b \<Longrightarrow> int_str_pad w a = int_str_pad w b \<longleftrightarrow> a = b"
  by (auto simp: int_str_pad_def zero_pad_inj)

end
