(* ===== verification/Engine_Tax.thy ===== *)
theory Engine_Tax
  imports Money GoStrings
begin

text \<open>
  Value-added tax and its surcharges (internal/engine/tax.go) and stamp tax
  (internal/engine/stamp.go).  The lemmas compute the results in whole cents.
\<close>

section \<open>VAT (internal/engine/tax.go)\<close>

definition TaxpayerGeneral :: string where "TaxpayerGeneral = ''general''"
definition TaxpayerSmallScale :: string where "TaxpayerSmallScale = ''small_scale''"

definition LocationCity :: string where "LocationCity = ''city''"
definition LocationTown :: string where "LocationTown = ''town''"
definition LocationOther :: string where "LocationOther = ''other''"

record VATInput =
  vi_TaxpayerType :: string
  vi_OutputTax :: f64
  vi_InputTax :: f64
  vi_SalesAmount :: f64
  vi_LevyRate :: f64

record VATOutput =
  vo_OutputTax :: f64
  vo_InputTax :: f64
  vo_VATPayable :: f64
  vo_UrbanConstructionTax :: f64
  vo_EducationSurcharge :: f64
  vo_LocalEducationSurcharge :: f64
  vo_TotalTax :: f64

definition urbanConstructionRate :: "string \<Rightarrow> f64" where
  "urbanConstructionRate loc =
     (if loc = LocationCity then lit (7 / 100) else if loc = LocationTown then lit (5 / 100) else lit (1 / 100))"

text \<open>The switch over the taxpayer type: the payable before the clamp at zero.\<close>

definition vat_payable :: "VATInput \<Rightarrow> string + f64" where
  "vat_payable inp =
     (if vi_TaxpayerType inp = TaxpayerGeneral then Inr (round2 (fsub (vi_OutputTax inp) (vi_InputTax inp)))
      else if vi_TaxpayerType inp = TaxpayerSmallScale then
        (let rate = (if fle (vi_LevyRate inp) (lit 0) then lit (3 / 100) else vi_LevyRate inp)
         in Inr (round2 (fmul (vi_SalesAmount inp) rate)))
      else Inl (''unknown taxpayer type: '' @ vi_TaxpayerType inp))"

definition Calculate :: "VATInput \<Rightarrow> string + VATOutput" where
  "Calculate input0 =
     (let input = input0 \<lparr> vi_OutputTax := round2 (vi_OutputTax input0),
                           vi_InputTax := round2 (vi_InputTax input0),
                           vi_SalesAmount := round2 (vi_SalesAmount input0) \<rparr> in
      if flt (vi_OutputTax input) (lit 0) \<or> flt (vi_InputTax input) (lit 0) \<or> flt (vi_SalesAmount input) (lit 0)
      then Inl ''tax amounts must be non-negative''
      else case vat_payable input of Inl e \<Rightarrow> Inl e
      | Inr p \<Rightarrow>
        (let payable = (if flt p (lit 0) then lit 0 else p);
             urban = round2 (fmul payable (urbanConstructionRate LocationCity));
             edu = round2 (fmul payable (lit (3 / 100)));
             local_edu = round2 (fmul payable (lit (2 / 100)))
         in Inr \<lparr> vo_OutputTax = vi_OutputTax input, vo_InputTax = vi_InputTax input, vo_VATPayable = payable,
                  vo_UrbanConstructionTax = urban, vo_EducationSurcharge = edu,
                  vo_LocalEducationSurcharge = local_edu,
                  vo_TotalTax = round2 (fadd (fadd (fadd payable urban) edu) local_edu) \<rparr>))"

definition CalculateWithLocation :: "VATInput \<Rightarrow> string \<Rightarrow> string + VATOutput" where
  "CalculateWithLocation input loc =
     (case Calculate input of Inl e \<Rightarrow> Inl e
      | Inr out \<Rightarrow>
        (let urban = round2 (fmul (vo_VATPayable out) (urbanConstructionRate loc))
         in Inr (out \<lparr> vo_UrbanConstructionTax := urban,
                      vo_TotalTax := round2 (fadd (fadd (fadd (vo_VATPayable out) urban)
                        (vo_EducationSurcharge out)) (vo_LocalEducationSurcharge out)) \<rparr>)))"

text \<open>The tax and whether the sales are exempt.\<close>

definition CalcSmallScaleVAT :: "f64 \<Rightarrow> f64 \<Rightarrow> int \<Rightarrow> f64 \<times> bool" where
  "CalcSmallScaleVAT sales0 levyRate0 periodMonths0 =
     (let sales = round2 sales0;
          periodMonths = (if periodMonths0 \<le> 0 then 3 else periodMonths0);
          levyRate = (if fle levyRate0 (lit 0) then lit (3 / 100) else levyRate0);
          monthlyAvg = fdiv sales (of_goint periodMonths)
      in if fle monthlyAvg (lit 100000) then (lit 0, True) else (round2 (fmul sales levyRate), False))"

section \<open>Stamp tax (internal/engine/stamp.go)\<close>

definition StampRateSalesContract :: f64 where "StampRateSalesContract = lit (3 / 10000)"
definition StampRateLoanContract :: f64 where "StampRateLoanContract = lit (5 / 100000)"
definition StampRateLeaseContract :: f64 where "StampRateLeaseContract = lit (1 / 1000)"
definition StampRateTechContract :: f64 where "StampRateTechContract = lit (3 / 10000)"
definition StampRatePropertyContract :: f64 where "StampRatePropertyContract = lit (5 / 10000)"
definition StampBookUnitTax :: f64 where "StampBookUnitTax = lit 5"

record StampTaxInput =
  si_Category :: string
  si_Amount :: f64
  si_Count :: int

record StampTaxOutput =
  so_Category :: string
  so_Amount :: f64
  so_Rate :: f64
  so_UnitTax :: f64
  so_TaxPayable :: f64

text \<open>The categories: purchase and sale, loan, lease, technology contract, property transfer, account book.\<close>

definition stamp_purchase_sale :: string where "stamp_purchase_sale = zh [0x8D2D, 0x9500, 0x5408, 0x540C]"
definition stamp_loan :: string where "stamp_loan = zh [0x501F, 0x6B3E, 0x5408, 0x540C]"
definition stamp_lease :: string where "stamp_lease = zh [0x79DF, 0x8D41, 0x5408, 0x540C]"
definition stamp_tech :: string where "stamp_tech = zh [0x6280, 0x672F, 0x5408, 0x540C]"
definition stamp_property :: string where "stamp_property = zh [0x4EA7, 0x6743, 0x8F6C, 0x79FB, 0x4E66, 0x636E]"
definition stamp_books :: string where "stamp_books = zh [0x8D26, 0x7C3F]"

definition CalcStampTax :: "StampTaxInput \<Rightarrow> string + StampTaxOutput" where
  "CalcStampTax input =
     (let amount = round2 (si_Amount input);
          at_rate = (\<lambda>r. Inr \<lparr> so_Category = si_Category input, so_Amount = amount, so_Rate = r,
                              so_UnitTax = lit 0, so_TaxPayable = round2 (fmul amount r) \<rparr>)
      in if flt amount (lit 0) then Inl ''amount must be non-negative''
      else if si_Count input < 0 then Inl ''count must be non-negative''
      else if si_Category input = stamp_purchase_sale then at_rate StampRateSalesContract
      else if si_Category input = stamp_loan then at_rate StampRateLoanContract
      else if si_Category input = stamp_lease then at_rate StampRateLeaseContract
      else if si_Category input = stamp_tech then at_rate StampRateTechContract
      else if si_Category input = stamp_property then at_rate StampRatePropertyContract
      else if si_Category input = stamp_books then
        (let n = (if si_Count input \<le> 0 then 1 else si_Count input)
         in Inr \<lparr> so_Category = si_Category input, so_Amount = amount, so_Rate = lit 0,
                  so_UnitTax = StampBookUnitTax, so_TaxPayable = round2 (fmul (of_goint n) StampBookUnitTax) \<rparr>)
      else at_rate StampRateSalesContract)"

section \<open>The results in cents\<close>

lemma round2_money: "money_ok x \<Longrightarrow> is_cents (round2 x) (to_cents x)"
  by (simp add: round2_roundMoney money_ok_cents)

lemma flt_zero_cents: "is_cents x k \<Longrightarrow> \<bar>k\<bar> \<le> 2 * cap \<Longrightarrow> flt x (lit 0) \<longleftrightarrow> k < 0"
  by (simp add: cents_sign)

text \<open>The clamp \<open>if x < 0 { x = 0 }\<close>.\<close>

lemma clamp_cents: "is_cents x k \<Longrightarrow> \<bar>k\<bar> \<le> 2 * cap \<Longrightarrow> is_cents (if flt x (lit 0) then lit 0 else x) (max 0 k)"
  using cents_sign(1) [of x k] by (auto simp: max_def)

text \<open>What the code computes from a payable of \<open>p\<close> cents.\<close>

definition surcharge_spec :: "int \<Rightarrow> rat \<Rightarrow> VATOutput \<Rightarrow> bool" where
  "surcharge_spec p urban_rate out \<longleftrightarrow>
     (\<exists>u e l. is_cents (vo_VATPayable out) p \<and> is_cents (vo_UrbanConstructionTax out) u \<and>
        is_cents (vo_EducationSurcharge out) e \<and> is_cents (vo_LocalEducationSurcharge out) l \<and>
        is_cents (vo_TotalTax out) (p + u + e + l) \<and>
        0 \<le> u \<and> u \<le> p \<and> 0 \<le> e \<and> e \<le> p \<and> 0 \<le> l \<and> l \<le> p \<and>
        \<bar>of_int u - of_int p * urban_rate\<bar> < 1 \<and>
        \<bar>of_int e - of_int p * (3 / 100)\<bar> < (1 :: rat) \<and>
        \<bar>of_int l - of_int p * (2 / 100)\<bar> < (1 :: rat))"

lemma total_cents:
  assumes "is_cents x p" "is_cents u a" "is_cents e b" "is_cents l c"
    "0 \<le> p" "p \<le> money_cap" "0 \<le> a" "a \<le> p" "0 \<le> b" "b \<le> p" "0 \<le> c" "c \<le> p"
  shows "is_cents (round2 (fadd (fadd (fadd x u) e) l)) (p + a + b + c)"
proof -
  have "\<bar>p\<bar> + \<bar>a\<bar> + \<bar>b\<bar> + \<bar>c\<bar> \<le> short_cap" using assms(5-) by (simp flip: money_cap_simps(4))
  moreover from this have "\<bar>p + a + b + c\<bar> \<le> cap" using money_cap_simps(5) by linarith
  ultimately show ?thesis using roundMoney_near [OF short_sum4 [OF assms(1-4)]] by (simp add: round2_roundMoney)
qed

lemma Calculate_from_payable:
  assumes inp: "money_ok (vi_OutputTax inp)" "money_ok (vi_InputTax inp)" "money_ok (vi_SalesAmount inp)"
    and nn: "0 \<le> to_cents (vi_OutputTax inp)" "0 \<le> to_cents (vi_InputTax inp)" "0 \<le> to_cents (vi_SalesAmount inp)"
    and p: "vat_payable (inp \<lparr> vi_OutputTax := round2 (vi_OutputTax inp), vi_InputTax := round2 (vi_InputTax inp),
               vi_SalesAmount := round2 (vi_SalesAmount inp) \<rparr>) = Inr x" "is_cents x k" "k \<le> money_cap" "- money_cap \<le> k"
  shows "\<exists>out. Calculate inp = Inr out \<and> surcharge_spec (max 0 k) (7 / 100) out"
proof -
  let ?p = "if flt x (lit 0) then lit 0 else x"
  have k: "\<bar>k\<bar> \<le> 2 * cap" using p(3,4) money_cap_simps by linarith
  have P: "is_cents ?p (max 0 k)" by (rule clamp_cents [OF p(2) k])
  have K: "0 \<le> max 0 k" "max 0 k \<le> cap" "max 0 k \<le> money_cap"
    using p(3) by (auto simp: cap_def money_cap_def)
  have "0 \<le> (7 / 100 :: rat)" "7 / 100 \<le> (1 :: rat)" by simp_all
  note u = rate_cents_lit [OF P K(1,2) this]
  have "0 \<le> (3 / 100 :: rat)" "3 / 100 \<le> (1 :: rat)" by simp_all
  note e = rate_cents_lit [OF P K(1,2) this]
  have "0 \<le> (2 / 100 :: rat)" "2 / 100 \<le> (1 :: rat)" by simp_all
  note l = rate_cents_lit [OF P K(1,2) this]
  have g: "\<not> flt (round2 x) (lit 0)" if "money_ok x" "0 \<le> to_cents x" for x
    using cents_sign(1) [OF round2_money [OF that(1)] money_cap_le(2) [OF money_ok_cents(2) [OF that(1)]]] that(2)
    by simp
  let ?u = "round2 (fmul ?p (lit (7 / 100)))" and ?e = "round2 (fmul ?p (lit (3 / 100)))"
    and ?l = "round2 (fmul ?p (lit (2 / 100)))"
  let ?out = "\<lparr> vo_OutputTax = round2 (vi_OutputTax inp), vo_InputTax = round2 (vi_InputTax inp), vo_VATPayable = ?p,
    vo_UrbanConstructionTax = ?u, vo_EducationSurcharge = ?e, vo_LocalEducationSurcharge = ?l,
    vo_TotalTax = round2 (fadd (fadd (fadd ?p ?u) ?e) ?l) \<rparr>"
  have "Calculate inp = Inr ?out"
    using p(1) g inp nn by (simp add: Calculate_def Let_def urbanConstructionRate_def del: lit_zero)
  moreover have "surcharge_spec (max 0 k) (7 / 100) ?out"
    unfolding surcharge_spec_def VATOutput.simps round2_roundMoney
    using total_cents [OF P u(1) e(1) l(1) K(1,3) u(2,3) e(2,3) l(2,3)] u e l P
    unfolding round2_roundMoney by blast
  ultimately show ?thesis by blast
qed

lemma vat_payable_general:
  "vi_TaxpayerType inp = TaxpayerGeneral \<Longrightarrow> vat_payable inp = Inr (round2 (fsub (vi_OutputTax inp) (vi_InputTax inp)))"
  by (simp add: vat_payable_def)

lemma Calculate_general:
  assumes "vi_TaxpayerType inp = TaxpayerGeneral"
    and "money_ok (vi_OutputTax inp)" "money_ok (vi_InputTax inp)" "money_ok (vi_SalesAmount inp)"
    and "0 \<le> to_cents (vi_OutputTax inp)" "0 \<le> to_cents (vi_InputTax inp)" "0 \<le> to_cents (vi_SalesAmount inp)"
  shows "\<exists>out. Calculate inp = Inr out \<and>
    surcharge_spec (max 0 (to_cents (vi_OutputTax inp) - to_cents (vi_InputTax inp))) (7 / 100) out"
proof -
  let ?o = "to_cents (vi_OutputTax inp)" and ?i = "to_cents (vi_InputTax inp)"
  have b: "\<bar>?o\<bar> \<le> money_cap" "\<bar>?i\<bar> \<le> money_cap"
    using money_ok_cents(2) [OF assms(2)] money_ok_cents(2) [OF assms(3)] by auto
  have "is_cents (round2 (fsub (round2 (vi_OutputTax inp)) (round2 (vi_InputTax inp)))) (?o - ?i)"
    unfolding round2_roundMoney
    using assms b by (intro roundMoney_sub money_ok_cents money_cap_le) auto
  with assms b show ?thesis
    by (intro Calculate_from_payable [OF assms(2-7)]) (auto simp: vat_payable_general)
qed

lemma surcharge_specI:
  "is_cents (vo_VATPayable out) p \<Longrightarrow> is_cents (vo_UrbanConstructionTax out) u \<Longrightarrow>
   is_cents (vo_EducationSurcharge out) e \<Longrightarrow> is_cents (vo_LocalEducationSurcharge out) l \<Longrightarrow>
   is_cents (vo_TotalTax out) (p + u + e + l) \<Longrightarrow>
   0 \<le> u \<and> u \<le> p \<and> 0 \<le> e \<and> e \<le> p \<and> 0 \<le> l \<and> l \<le> p \<Longrightarrow>
   \<bar>of_int u - of_int p * r\<bar> < 1 \<Longrightarrow> \<bar>of_int e - of_int p * (3 / 100)\<bar> < (1 :: rat) \<Longrightarrow>
   \<bar>of_int l - of_int p * (2 / 100)\<bar> < (1 :: rat) \<Longrightarrow> surcharge_spec p r out"
  unfolding surcharge_spec_def by blast

text \<open>The rate of the urban construction tax at a location.\<close>

definition urban_rate :: "string \<Rightarrow> rat" where
  "urban_rate loc = (if loc = LocationCity then 7 / 100 else if loc = LocationTown then 5 / 100 else 1 / 100)"

lemma urban_rate: "0 \<le> urban_rate loc" "urban_rate loc \<le> 1" "urbanConstructionRate loc = lit (urban_rate loc)"
  by (simp_all add: urban_rate_def urbanConstructionRate_def)

lemma CalculateWithLocation_spec:
  assumes "Calculate inp = Inr out" "surcharge_spec p r0 out" "0 \<le> p" "p \<le> money_cap"
  shows "\<exists>out'. CalculateWithLocation inp loc = Inr out' \<and> surcharge_spec p (urban_rate loc) out'"
proof -
  obtain u e l where o: "is_cents (vo_VATPayable out) p" "is_cents (vo_EducationSurcharge out) e"
    "is_cents (vo_LocalEducationSurcharge out) l" "0 \<le> e" "e \<le> p" "0 \<le> l" "l \<le> p"
    "\<bar>of_int e - of_int p * (3 / 100)\<bar> < (1 :: rat)" "\<bar>of_int l - of_int p * (2 / 100)\<bar> < (1 :: rat)"
    using assms(2) unfolding surcharge_spec_def by blast
  have "p \<le> cap" using assms(4) money_cap_simps(1) by linarith
  note u = rate_cents_lit [OF o(1) assms(3) this urban_rate(1,2), of loc]
  let ?u = "round2 (fmul (vo_VATPayable out) (lit (urban_rate loc)))"
  let ?out = "out \<lparr> vo_UrbanConstructionTax := ?u, vo_TotalTax := round2 (fadd (fadd (fadd (vo_VATPayable out) ?u)
       (vo_EducationSurcharge out)) (vo_LocalEducationSurcharge out)) \<rparr>"
  have "CalculateWithLocation inp loc = Inr ?out"
    using assms(1) by (simp add: CalculateWithLocation_def Let_def urban_rate(3))
  moreover have "surcharge_spec p (urban_rate loc) ?out"
    using total_cents [OF o(1) u(1) o(2,3) assms(3,4) u(2,3) o(4-7)] u o
    by (intro surcharge_specI [of _ _ "to_cents (fmul (vo_VATPayable out) (lit (urban_rate loc)))" e l])
      (simp_all add: round2_roundMoney)
  ultimately show ?thesis by blast
qed

text \<open>C35: VAT of a general taxpayer.  For nonnegative amounts of at most \<open>2 ^ 37\<close> yuan the calculation
  succeeds; the payable is exactly output tax minus input tax in cents, or zero when that is negative
  (excess input tax gives no negative payable); the urban construction tax is within a cent of the
  location's rate (city 7, town 5, elsewhere 1 percent) on the payable, the education surcharges
  within a cent of 3 and 2 percent, and the total is the exact sum of the four amounts in cents.\<close>

theorem VAT_general:
  assumes "vi_TaxpayerType inp = TaxpayerGeneral"
    and "money_ok (vi_OutputTax inp)" "money_ok (vi_InputTax inp)" "money_ok (vi_SalesAmount inp)"
    and "0 \<le> to_cents (vi_OutputTax inp)" "0 \<le> to_cents (vi_InputTax inp)" "0 \<le> to_cents (vi_SalesAmount inp)"
  shows "\<exists>out. CalculateWithLocation inp loc = Inr out \<and>
    surcharge_spec (max 0 (to_cents (vi_OutputTax inp) - to_cents (vi_InputTax inp))) (urban_rate loc) out"
proof -
  obtain out where "Calculate inp = Inr out"
    "surcharge_spec (max 0 (to_cents (vi_OutputTax inp) - to_cents (vi_InputTax inp))) (7 / 100) out"
    using Calculate_general [OF assms] by blast
  moreover have "to_cents (vi_OutputTax inp) - to_cents (vi_InputTax inp) \<le> money_cap"
    using money_ok_cents(2) [OF assms(2)] assms(6) by linarith
  moreover have "0 \<le> money_cap" by (simp add: money_cap_def)
  ultimately show ?thesis by (intro CalculateWithLocation_spec) auto
qed

definition vat_example :: VATInput where
  "vat_example = \<lparr> vi_TaxpayerType = ''general'', vi_OutputTax = lit 130, vi_InputTax = lit (3055 / 100),
                    vi_SalesAmount = lit 1000, vi_LevyRate = lit 0 \<rparr>"

lemma vat_example_ok:
  "vi_TaxpayerType vat_example = TaxpayerGeneral"
  "money_ok (vi_OutputTax vat_example)" "money_ok (vi_InputTax vat_example)" "money_ok (vi_SalesAmount vat_example)"
  "to_cents (vi_OutputTax vat_example) = 13000" "to_cents (vi_InputTax vat_example) = 3055"
  "to_cents (vi_SalesAmount vat_example) = 100000"
  by (simp_all add: vat_example_def TaxpayerGeneral_def money_ok_def to_cents_def float_eval)

theorem VAT_general_witness:
  "\<exists>out. CalculateWithLocation vat_example ''town'' = Inr out \<and> surcharge_spec 9945 (5 / 100) out"
  using VAT_general [of vat_example "''town''"] vat_example_ok
  by (simp add: urban_rate_def LocationCity_def LocationTown_def)

section \<open>The exemption of small-scale taxpayers\<close>

lemma quotient_threshold:
  assumes x: "is_cents x k" "\<bar>k\<bar> \<le> 2 * cap" and n: "1 \<le> n" "n \<le> 1000"
  shows "fle (fdiv x (of_goint n)) (lit 100000) \<longleftrightarrow> k \<le> 10000000 * n"
proof -
  let ?n = "of_int n :: rat"
  have n': "1 \<le> ?n" "?n \<le> 1000" using n by simp_all
  have nf: "is_fin (of_goint n)" "val (of_goint n) = ?n" using n by (simp_all add: of_goint_fin)
  have xf: "is_fin x" by (rule is_cents_fin [OF x(1)])
  have vx: "\<bar>val x\<bar> \<le> 2 ^ 44" by (rule is_cents_bound [OF x])
  have "\<bar>val x / ?n\<bar> \<le> 2 ^ 44 / 1" unfolding abs_divide using vx n' by (intro frac_le) auto
  then have q: "\<bar>val x / ?n\<bar> \<le> 2 ^ 200" by simp
  have d: "is_fin (fdiv x (of_goint n))" "val (fdiv x (of_goint n)) = rnd (val x / ?n)"
    using fdiv_fin [OF xf nf(1)] nf(2) n' q by simp_all
  have l: "is_fin (lit 100000)" "val (lit 100000) = 100000" by (simp_all add: lit_fin)
  have "rnd (val x / ?n) \<le> 100000 \<longleftrightarrow> k \<le> 10000000 * n"
  proof
    assume "k \<le> 10000000 * n"
    then have "of_int k \<le> (of_int (10000000 * n) :: rat)" by (simp only: of_int_le_iff)
    then have "of_int k / 100 \<le> (of_int (100000 * n) :: rat)" by simp
    moreover have "repr (of_int (100000 * n))" using n by (intro repr_of_int) auto
    ultimately have "val x \<le> of_int (100000 * n)"
      using x(1) by (simp only: is_cents_def rnd_le)
    then have "val x / ?n \<le> 100000" using n' by (simp add: divide_le_eq)
    moreover have "repr 100000" using repr_of_int [of 100000] by simp
    ultimately show "rnd (val x / ?n) \<le> 100000" by (rule rnd_le)
  next
    assume le: "rnd (val x / ?n) \<le> 100000"
    show "k \<le> 10000000 * n"
    proof (rule ccontr)
      assume "\<not> k \<le> 10000000 * n"
      then have "of_int (10000000 * n + 1) \<le> (of_int k :: rat)" unfolding of_int_le_iff by simp
      then have "100000 * ?n + 1 / 100 \<le> of_int k / 100" by simp
      with is_cents_small_err [OF x] have "100000 * ?n + 1 / 200 \<le> val x" by linarith
      then have "(100000 * ?n + 1 / 200) / ?n \<le> val x / ?n" using n' by (intro divide_right_mono) auto
      moreover have "1 / 200000 \<le> (1 / 200) / ?n" using n' by (simp add: field_simps)
      then have "100000 + 1 / 200000 \<le> (100000 * ?n + 1 / 200) / ?n" using n' by (simp add: add_divide_distrib)
      ultimately have "rnd (100000 + 1 / 200000) \<le> rnd (val x / ?n)" by (intro rnd_mono) linarith
      moreover have "(100000::rat) < rnd (100000 + 1 / 200000)"
        by (simp add: float_eval)
      ultimately show False using le by simp
    qed
  qed
  with d l show ?thesis by simp
qed

text \<open>The exemption of a small-scale taxpayer is decided exactly: for sales of at most \<open>2 ^ 37\<close> yuan
  and a period of 1 to 1000 months (3 when the argument is not positive), the sales are exempt and the
  tax is zero exactly when the sales in cents are at most 10,000,000 (100,000 yuan) per month; the
  floating point average of the code never misjudges an amount at the threshold.  Otherwise the tax
  is the sales times the levy rate, 3 percent when the given rate is not positive, within a cent.\<close>

theorem CalcSmallScaleVAT_threshold:
  assumes sales: "money_ok sales" "0 \<le> to_cents sales" and "months \<le> 1000" and q: "is_fin q" "val q \<le> 1"
  defines "n \<equiv> if months \<le> 0 then 3 else months" and "r \<equiv> if val q \<le> 0 then 3 / 100 else val q"
  shows "if to_cents sales \<le> 10000000 * n then CalcSmallScaleVAT sales q months = (lit 0, True)
         else \<exists>t m. CalcSmallScaleVAT sales q months = (t, False) \<and> is_cents t m \<and> 0 \<le> m \<and>
                \<bar>of_int m - of_int (to_cents sales) * r\<bar> < 1"
proof -
  define rate where "rate = (if fle q (lit 0) then lit (3 / 100) else q)"
  have n: "1 \<le> n" "n \<le> 1000" using assms(3) by (auto simp: n_def)
  have c: "\<bar>to_cents sales\<bar> \<le> 2 * cap" "to_cents sales \<le> cap"
    using money_cap_le [OF money_ok_cents(2) [OF sales(1)]] by auto
  have t: "fle (fdiv (round2 sales) (of_goint n)) (lit 100000) \<longleftrightarrow> to_cents sales \<le> 10000000 * n"
    by (rule quotient_threshold [OF round2_money [OF sales(1)] c(1) n])
  have e: "CalcSmallScaleVAT sales q months =
    (if to_cents sales \<le> 10000000 * n then (lit 0, True) else (round2 (fmul (round2 sales) rate), False))"
    unfolding CalcSmallScaleVAT_def Let_def n_def [symmetric] rate_def [symmetric] t ..
  have "\<exists>m. is_cents (round2 (fmul (round2 sales) rate)) m \<and> 0 \<le> m \<and> \<bar>of_int m - of_int (to_cents sales) * r\<bar> < 1"
  proof (cases "val q \<le> 0")
    case True
    then show ?thesis
      using rate_cents_lit [OF round2_money [OF sales(1)] sales(2) c(2), of "3 / 100"] q
      by (auto simp: rate_def r_def round2_roundMoney)
  next
    case False
    then show ?thesis
      using rate_cents [OF round2_money [OF sales(1)] sales(2) c(2) q(1) _ q(2)] q
      by (fastforce simp: rate_def r_def round2_roundMoney)
  qed
  then show ?thesis unfolding e by auto
qed

theorem CalcSmallScaleVAT_threshold_witness:
  "CalcSmallScaleVAT (lit 300000) (lit 0) 0 = (lit 0, True) \<and>
   (\<exists>t m. CalcSmallScaleVAT (lit (30000001 / 100)) (lit (1 / 100)) 3 = (t, False) \<and> is_cents t m \<and>
      \<bar>of_int m - of_int 30000001 * val (lit (1 / 100))\<bar> < 1)"
proof
  show "CalcSmallScaleVAT (lit 300000) (lit 0) 0 = (lit 0, True)"
    using CalcSmallScaleVAT_threshold [of "lit 300000" 0 "lit 0"]
    by (simp add: money_ok_def to_cents_def float_eval)
  have *: "money_ok (lit (30000001 / 100))" "to_cents (lit (30000001 / 100)) = 30000001"
    "is_fin (lit (1 / 100))" "val (lit (1 / 100)) \<le> 1" "\<not> val (lit (1 / 100)) \<le> 0"
    by (simp_all add: money_ok_def to_cents_def float_eval)
  then show "\<exists>t m. CalcSmallScaleVAT (lit (30000001 / 100)) (lit (1 / 100)) 3 = (t, False) \<and> is_cents t m \<and>
      \<bar>of_int m - of_int 30000001 * val (lit (1 / 100))\<bar> < 1"
    using CalcSmallScaleVAT_threshold [of "lit (30000001 / 100)" 3 "lit (1 / 100)"] by auto
qed

section \<open>Stamp tax in cents\<close>

lemma stamp_rate_spec:
  assumes "money_ok x" "0 \<le> to_cents x" "0 \<le> q" "q \<le> 1"
  shows "\<exists>m. is_cents (round2 (fmul (round2 x) (lit q))) m \<and> 0 \<le> m \<and> m \<le> to_cents x \<and>
    \<bar>of_int m - of_int (to_cents x) * q\<bar> < 1"
proof -
  have "to_cents x \<le> cap" using money_ok_cents(2) [OF assms(1)] money_cap_simps(1) by linarith
  from rate_cents_lit [OF round2_money [OF assms(1)] assms(2) this assms(3,4)] show ?thesis
    unfolding round2_roundMoney by blast
qed

text \<open>The rate of a category; categories outside the list are taxed like purchase and sale contracts.\<close>

definition stamp_rate :: "string \<Rightarrow> rat" where
  "stamp_rate c = (if c = stamp_loan then 5 / 100000 else if c = stamp_lease then 1 / 1000
     else if c = stamp_property then 5 / 10000 else 3 / 10000)"

lemma stamp_categories:
  "stamp_books \<noteq> stamp_purchase_sale" "stamp_books \<noteq> stamp_loan" "stamp_books \<noteq> stamp_lease"
  "stamp_books \<noteq> stamp_tech" "stamp_books \<noteq> stamp_property"
  "stamp_purchase_sale \<noteq> stamp_loan" "stamp_purchase_sale \<noteq> stamp_lease" "stamp_purchase_sale \<noteq> stamp_property"
  "stamp_tech \<noteq> stamp_loan" "stamp_tech \<noteq> stamp_lease" "stamp_tech \<noteq> stamp_property"
  by (simp_all add: stamp_books_def stamp_purchase_sale_def stamp_loan_def stamp_lease_def stamp_tech_def stamp_property_def zh_def utf8_def)

lemma CalcStampTax_by_rate:
  "CalcStampTax inp =
    (if flt (round2 (si_Amount inp)) (lit 0) then Inl ''amount must be non-negative''
     else if si_Count inp < 0 then Inl ''count must be non-negative''
     else if si_Category inp = stamp_books then
       Inr \<lparr> so_Category = si_Category inp, so_Amount = round2 (si_Amount inp), so_Rate = lit 0,
             so_UnitTax = StampBookUnitTax,
             so_TaxPayable = round2 (fmul (of_goint (max 1 (si_Count inp))) StampBookUnitTax) \<rparr>
     else Inr \<lparr> so_Category = si_Category inp, so_Amount = round2 (si_Amount inp),
             so_Rate = lit (stamp_rate (si_Category inp)), so_UnitTax = lit 0,
             so_TaxPayable = round2 (fmul (round2 (si_Amount inp)) (lit (stamp_rate (si_Category inp)))) \<rparr>)"
proof -
  consider "si_Category inp = stamp_purchase_sale" | "si_Category inp = stamp_loan" | "si_Category inp = stamp_lease"
    | "si_Category inp = stamp_tech" | "si_Category inp = stamp_property" | "si_Category inp = stamp_books"
    | "si_Category inp \<notin> {stamp_purchase_sale, stamp_loan, stamp_lease, stamp_tech, stamp_property, stamp_books}"
    by auto
  then show ?thesis
    unfolding CalcStampTax_def Let_def stamp_rate_def StampRateSalesContract_def StampRateLoanContract_def
      StampRateLeaseContract_def StampRateTechContract_def StampRatePropertyContract_def
    by cases (simp_all add: stamp_categories stamp_categories [symmetric] max_def del: lit_zero)
qed

lemma stamp_books_cents: "1 \<le> n \<Longrightarrow> n \<le> 2 ^ 30 \<Longrightarrow> is_cents (round2 (fmul (of_goint n) StampBookUnitTax)) (500 * n)"
proof -
  assume that: "1 \<le> n" "n \<le> 2 ^ 30"
  have v: "is_fin StampBookUnitTax" "val StampBookUnitTax = 5" by (simp_all add: StampBookUnitTax_def lit_fin)
  have f: "is_fin (of_goint n)" "val (of_goint n) = of_int n" using that by (simp_all add: of_goint_fin)
  have "(of_int n :: rat) \<le> of_int (2 ^ 30)" using that unfolding of_int_le_iff by simp
  then have b: "\<bar>val (of_goint n) * val StampBookUnitTax\<bar> \<le> 2 ^ 200"
    using that unfolding f v by (simp add: abs_mult)
  have "rnd (of_int (n * 5)) = of_int (n * 5)" using that by (intro rnd_of_int) auto
  then have "val (fmul (of_goint n) StampBookUnitTax) = of_int (5 * n)"
    unfolding fmul_fin(2) [OF f(1) v(1) b] f v by (simp add: mult.commute)
  then show ?thesis unfolding round2_roundMoney
    using fmul_fin(1) [OF f(1) v(1) b] that by (intro roundMoney_close) (auto simp: cap_def)
qed

text \<open>Stamp tax.  A negative amount (after rounding to cents) or a negative count is refused;
  otherwise the calculation succeeds.  Contracts pay the rate of their category on the amount, within a
  cent and never more than the amount; account books pay exactly 5 yuan each, at least one book, and
  an unlisted category pays the rate of purchase and sale contracts.\<close>

theorem CalcStampTax_cases:
  assumes "money_ok (si_Amount inp)" and "si_Count inp \<le> 2 ^ 30"
  shows "case CalcStampTax inp of
      Inl _ \<Rightarrow> to_cents (si_Amount inp) < 0 \<or> si_Count inp < 0
    | Inr out \<Rightarrow> 0 \<le> to_cents (si_Amount inp) \<and> 0 \<le> si_Count inp \<and>
        so_Category out = si_Category inp \<and> is_cents (so_Amount out) (to_cents (si_Amount inp)) \<and>
        (if si_Category inp = stamp_books then is_cents (so_TaxPayable out) (500 * max 1 (si_Count inp))
         else \<exists>m. is_cents (so_TaxPayable out) m \<and> 0 \<le> m \<and> m \<le> to_cents (si_Amount inp) \<and>
           \<bar>of_int m - of_int (to_cents (si_Amount inp)) * stamp_rate (si_Category inp)\<bar> < 1)"
proof -
  have neg: "flt (round2 (si_Amount inp)) (Fin 0) \<longleftrightarrow> to_cents (si_Amount inp) < 0"
    by (rule cents_sign(1) [OF round2_money [OF assms(1)] money_cap_le(2) [OF money_ok_cents(2) [OF assms(1)]]])
  have rate: "0 \<le> stamp_rate (si_Category inp)" "stamp_rate (si_Category inp) \<le> 1"
    by (simp_all add: stamp_rate_def)
  show ?thesis
    using neg stamp_rate_spec [OF assms(1) _ rate] stamp_books_cents [of "max 1 (si_Count inp)"] assms(2)
      round2_money [OF assms(1)]
    unfolding CalcStampTax_by_rate by (auto simp: not_less)
qed

theorem CalcStampTax_cases_witness:
  "\<exists>out. CalcStampTax \<lparr> si_Category = stamp_books, si_Amount = lit 0, si_Count = 3 \<rparr> = Inr out \<and>
     is_cents (so_TaxPayable out) 1500"
  using CalcStampTax_cases [of "\<lparr> si_Category = stamp_books, si_Amount = lit 0, si_Count = 3 \<rparr>"]
  by (auto simp: money_ok_def to_cents_def split: sum.splits)

end
