(* ===== verification/Engine_CIT.thy ===== *)
theory Engine_CIT
  imports Engine_Tax
begin

text \<open>
  Corporate income tax (internal/engine/cit.go) and the tax adjustments of expenses
  (internal/engine/adjustments.go).
\<close>

section \<open>Corporate income tax (internal/engine/cit.go)\<close>

record CITOutput =
  co_TaxableIncome :: f64
  co_ApplicableRate :: f64
  co_Deduction :: f64
  co_TaxPayable :: f64
  co_AccumulatedPaid :: f64
  co_TaxDue :: f64
  co_EffectiveRate :: f64

definition CalcQuarterlyPrepay :: "f64 \<Rightarrow> f64 \<Rightarrow> f64 \<Rightarrow> string + f64" where
  "CalcQuarterlyPrepay accumulatedProfit0 applicableRate alreadyPaid0 =
     (let accumulatedProfit = round2 accumulatedProfit0;
          alreadyPaid = round2 alreadyPaid0
      in if flt accumulatedProfit (lit 0) then Inl ''accumulated profit must be non-negative''
      else if fle applicableRate (lit 0) \<or> flt (lit 1) applicableRate then Inl ''applicable rate must be between 0 and 1''
      else
        (let accumulatedTax = round2 (fmul accumulatedProfit applicableRate);
             prepay = round2 (fsub accumulatedTax alreadyPaid)
         in Inr (if flt prepay (lit 0) then lit 0 else prepay)))"

text \<open>The tax and the effective rate; the constant products of the middle bracket are exact in Go.\<close>

definition CalcSmallProfitCIT :: "f64 \<Rightarrow> f64 \<times> f64" where
  "CalcSmallProfitCIT taxableIncome0 =
     (let taxableIncome = round2 taxableIncome0 in
      if fle taxableIncome (lit 0) then (lit 0, lit 0)
      else
        (let tax = (if fle taxableIncome (lit 1000000) then round2 (fmul taxableIncome (lit (5 / 100)))
                    else if fle taxableIncome (lit 3000000) then
                      round2 (fadd (lit 50000) (fmul (fsub taxableIncome (lit 1000000)) (lit (10 / 100))))
                    else round2 (fmul taxableIncome (lit (25 / 100))))
         in (tax, fdiv (math_Round (fmul (fdiv tax taxableIncome) (lit 10000))) (lit 10000))))"

definition CalcAnnualSettlement :: "f64 \<Rightarrow> f64 \<Rightarrow> f64 \<Rightarrow> f64 \<Rightarrow> bool \<Rightarrow> string + CITOutput" where
  "CalcAnnualSettlement totalProfit0 totalAdjustments0 applicableRate prepaid0 isSmallProfit =
     (let totalProfit = round2 totalProfit0;
          totalAdjustments = round2 totalAdjustments0;
          prepaid = round2 prepaid0
      in if fle applicableRate (lit 0) \<or> flt (lit 1) applicableRate then Inl ''applicable rate must be between 0 and 1''
      else
        (let income0 = round2 (fadd totalProfit totalAdjustments);
             taxableIncome = (if flt income0 (lit 0) then lit 0 else income0);
             (taxPayable, effRate) =
               (if isSmallProfit \<and> fle taxableIncome (lit 3000000) then CalcSmallProfitCIT taxableIncome
                else (round2 (fmul taxableIncome applicableRate), applicableRate));
             standardTax = round2 (fmul taxableIncome applicableRate);
             deduction0 = round2 (fsub standardTax taxPayable);
             deduction = (if flt deduction0 (lit 0) then lit 0 else deduction0);
             taxDue = round2 (fsub taxPayable prepaid)
         in Inr \<lparr> co_TaxableIncome = taxableIncome, co_ApplicableRate = applicableRate, co_Deduction = deduction,
                  co_TaxPayable = taxPayable, co_AccumulatedPaid = prepaid, co_TaxDue = taxDue,
                  co_EffectiveRate = effRate \<rparr>))"

section \<open>Adjustments (internal/engine/adjustments.go)\<close>

record AdjustmentResult =
  ar_Category :: string
  ar_BookAmount :: f64
  ar_Deductible :: f64
  ar_Adjustment :: f64
  ar_Formula :: string

text \<open>Business entertainment: the smaller of 60 percent of the expense and 0.5 percent of the revenue.\<close>

definition CalcEntertainmentAdjustment :: "f64 \<Rightarrow> f64 \<Rightarrow> string + AdjustmentResult" where
  "CalcEntertainmentAdjustment actualExpense0 salesRevenue0 =
     (let actualExpense = round2 actualExpense0;
          salesRevenue = round2 salesRevenue0
      in if flt actualExpense (lit 0) \<or> flt salesRevenue (lit 0) then Inl ''amounts must be non-negative''
      else
        (let limitByExpense = round2 (fmul actualExpense (lit (60 / 100)));
             limitByRevenue = round2 (fmul salesRevenue (lit (5 / 1000)));
             deductible = (if flt limitByRevenue limitByExpense then limitByRevenue else limitByExpense);
             adjustment = round2 (fsub actualExpense deductible)
         in Inr \<lparr> ar_Category = zh [0x4E1A, 0x52A1, 0x62DB, 0x5F85, 0x8D39], ar_BookAmount = actualExpense, ar_Deductible = deductible,
                  ar_Adjustment = adjustment,
                  ar_Formula = ''min('' @ fmt2 actualExpense @ ''x60%, '' @ fmt2 salesRevenue @ ''x0.5%) = '' @ fmt2 deductible \<rparr>))"

text \<open>Advertising: at most 15 percent of the revenue.\<close>

definition CalcAdvertisingAdjustment :: "f64 \<Rightarrow> f64 \<Rightarrow> string + AdjustmentResult" where
  "CalcAdvertisingAdjustment actualExpense0 salesRevenue0 =
     (let actualExpense = round2 actualExpense0;
          salesRevenue = round2 salesRevenue0
      in if flt actualExpense (lit 0) \<or> flt salesRevenue (lit 0) then Inl ''amounts must be non-negative''
      else
        (let limit = round2 (fmul salesRevenue (lit (15 / 100)));
             deductible = (if flt actualExpense limit then actualExpense else limit);
             adjustment = round2 (fsub actualExpense deductible)
         in Inr \<lparr> ar_Category = zh [0x5E7F, 0x544A, 0x8D39], ar_BookAmount = actualExpense, ar_Deductible = deductible,
                  ar_Adjustment = adjustment,
                  ar_Formula = ''min('' @ fmt2 actualExpense @ '', '' @ fmt2 salesRevenue @ ''x15%) = '' @ fmt2 deductible \<rparr>))"

text \<open>Employee welfare: at most 14 percent of the salaries.\<close>

definition CalcWelfareAdjustment :: "f64 \<Rightarrow> f64 \<Rightarrow> string + AdjustmentResult" where
  "CalcWelfareAdjustment actualExpense0 totalSalary0 =
     (let actualExpense = round2 actualExpense0;
          totalSalary = round2 totalSalary0
      in if flt actualExpense (lit 0) \<or> flt totalSalary (lit 0) then Inl ''amounts must be non-negative''
      else
        (let limit = round2 (fmul totalSalary (lit (14 / 100)));
             deductible = (if flt actualExpense limit then actualExpense else limit);
             adjustment = round2 (fsub actualExpense deductible)
         in Inr \<lparr> ar_Category = zh [0x804C, 0x5DE5, 0x798F, 0x5229, 0x8D39], ar_BookAmount = actualExpense, ar_Deductible = deductible,
                  ar_Adjustment = adjustment,
                  ar_Formula = ''min('' @ fmt2 actualExpense @ '', '' @ fmt2 totalSalary @ ''x14%) = '' @ fmt2 deductible \<rparr>))"

text \<open>The super-deduction of research expenses: a negative adjustment on top of the expense.\<close>

definition CalcRDSuperDeduction :: "f64 \<Rightarrow> f64 \<Rightarrow> string + AdjustmentResult" where
  "CalcRDSuperDeduction rdExpense0 rate0 =
     (let rdExpense = round2 rdExpense0 in
      if flt rdExpense (lit 0) then Inl ''rd expense must be non-negative''
      else
        (let rate = (if fle rate0 (lit 0) then lit 1 else rate0);
             deduction = round2 (fmul rdExpense rate)
         in Inr \<lparr> ar_Category = zh [0x7814, 0x53D1, 0x8D39, 0x7528, 0x52A0, 0x8BA1, 0x6263, 0x9664], ar_BookAmount = rdExpense, ar_Deductible = rdExpense,
                  ar_Adjustment = round2 (fneg deduction),
                  ar_Formula = fmt2 rdExpense @ '' x '' @ fmt_f 0 (fmul rate (lit 100)) @ ''% = '' @ fmt2 deduction @ ('' ('' @ zh [0x8C03, 0x51CF] @ '')'') \<rparr>))"

definition CalcAssetImpairmentAdjustment :: "f64 \<Rightarrow> string + AdjustmentResult" where
  "CalcAssetImpairmentAdjustment impairment0 =
     (let impairment = round2 impairment0 in
      if flt impairment (lit 0) then Inl ''impairment must be non-negative''
      else Inr \<lparr> ar_Category = zh [0x8D44, 0x4EA7, 0x51CF, 0x503C, 0x635F, 0x5931], ar_BookAmount = impairment, ar_Deductible = lit 0,
                ar_Adjustment = impairment,
                ar_Formula = fmt2 impairment @ ('' '' @ zh [0x5168, 0x989D, 0x8C03, 0x589E] @ '' ('' @ zh [0x8D44, 0x4EA7, 0x51CF, 0x503C, 0x4E0D, 0x5F97, 0x7A0E, 0x524D, 0x6263, 0x9664] @ '')'') \<rparr>)"

section \<open>Properties of the settlement\<close>

text \<open>The small-profit tax as a step over brackets in cents.\<close>

definition small_profit_tax :: "int \<Rightarrow> rat" where
  "small_profit_tax k =
     (if k \<le> 0 then 0 else if k \<le> 100000000 then of_int k * (5 / 100)
      else if k \<le> 300000000 then 5000000 + of_int (k - 100000000) * (10 / 100)
      else of_int k * (25 / 100))"

text \<open>The three brackets of the code.\<close>

definition sp1 :: "f64 \<Rightarrow> f64" where "sp1 x = fmul x (lit (5 / 100))"
definition sp2 :: "f64 \<Rightarrow> f64" where
  "sp2 x = fadd (lit 50000) (fmul (fsub x (lit 1000000)) (lit (10 / 100)))"
definition sp3 :: "f64 \<Rightarrow> f64" where "sp3 x = fmul x (lit (25 / 100))"

lemma small_profit_brackets:
  assumes r: "is_cents (round2 x) k" and "\<bar>k\<bar> \<le> cap"
  shows "fst (CalcSmallProfitCIT x) =
    (if k \<le> 0 then lit 0 else if k \<le> 100000000 then round2 (sp1 (round2 x))
     else if k \<le> 300000000 then round2 (sp2 (round2 x)) else round2 (sp3 (round2 x)))"
proof -
  have k: "\<bar>k\<bar> \<le> 2 * cap" using assms(2) by linarith
  have m: "is_cents (lit 1000000) 100000000" "is_cents (lit 3000000) 300000000"
    using of_goint_fin [of 1000000] of_goint_fin [of 3000000] by (simp_all add: is_cents_def lit_fin)
  have c: "fle (round2 x) (lit 1000000) \<longleftrightarrow> k \<le> 100000000" "fle (round2 x) (lit 3000000) \<longleftrightarrow> k \<le> 300000000"
    using cents_less(2) [OF r m(1) k] cents_less(2) [OF r m(2) k] is_cents_fin [OF r] is_cents_fin [OF m(1)]
      is_cents_fin [OF m(2)] by (simp_all add: cap_def)
  show ?thesis
    using cents_sign(3) [OF r k] by (simp add: CalcSmallProfitCIT_def Let_def c sp1_def sp2_def sp3_def)
qed

lemma bounded_product:
  fixes v r :: rat
  assumes "\<bar>v - d / 100\<bar> \<le> 1 / 2 ^ 20" "0 \<le> d" "d \<le> 200000000" "\<bar>r - 1 / 10\<bar> \<le> 1 / 2 ^ 53" "0 \<le> r" "r \<le> 1"
  shows "\<bar>v * r - d / 1000\<bar> \<le> 1 / 2 ^ 19"
proof -
  have "\<bar>v - d / 100\<bar> * \<bar>r\<bar> \<le> 1 / 2 ^ 20 * 1" using assms by (intro mult_mono) auto
  then have 1: "\<bar>v * r - d / 100 * r\<bar> \<le> 1 / 2 ^ 20" by (simp add: abs_mult [symmetric] left_diff_distrib)
  have "\<bar>d / 100\<bar> * \<bar>r - 1 / 10\<bar> \<le> 2000000 * (1 / 2 ^ 53)" using assms by (intro mult_mono) auto
  moreover have "d / 100 * r - d / 1000 = d / 100 * (r - 1 / 10)" by (simp add: right_diff_distrib)
  ultimately have "\<bar>d / 100 * r - d / 1000\<bar> \<le> 2000000 / 2 ^ 53" by (simp only: abs_mult)
  moreover have "2000000 / 2 ^ 53 \<le> (1 / 2 ^ 20 :: rat)" "1 / 2 ^ 20 + 1 / 2 ^ 20 = (1 / 2 ^ 19 :: rat)" by simp_all
  ultimately show ?thesis using 1 by linarith
qed

lemma sp2_value:
  assumes x: "is_cents x k" and k: "100000000 \<le> k" "k \<le> 300000000"
  shows "is_fin (sp2 x)" "\<bar>val (sp2 x) - (50000 + of_int (k - 100000000) / 1000)\<bar> \<le> 1 / 2 ^ 18"
    "\<bar>val (sp2 x)\<bar> \<le> 2 ^ 40"
proof -
  define d :: rat where "d = of_int (k - 100000000)"
  have d: "0 \<le> d" "d \<le> 200000000" using k unfolding d_def by simp_all
  have kd: "of_int k = d + 100000000" by (simp add: d_def)
  have e: "\<bar>val x - of_int k / 100\<bar> \<le> 2 ^ 29 / 100 / 2 ^ 53" using is_cents_err [OF x, of 29] k by simp
  then have "\<bar>val x - of_int k / 100\<bar> \<le> 1 / 2 ^ 21" by simp
  moreover have "val x - 1000000 - d / 100 = val x - of_int k / 100" by (simp add: kd add_divide_distrib)
  ultimately have x2: "\<bar>val x - 1000000 - d / 100\<bar> \<le> 1 / 2 ^ 21" by (simp only:)
  have m: "is_fin (lit 1000000)" "val (lit 1000000) = 1000000" "is_fin (lit 50000)" "val (lit 50000) = 50000"
    by (simp_all add: lit_fin)
  have "\<bar>val x - 1000000 - d / 100\<bar> \<le> 1" using x2 by simp
  with d have "\<bar>val x - 1000000\<bar> \<le> 2000001" by linarith
  then have b: "\<bar>val x - 1000000\<bar> \<le> 2 ^ 22" by simp
  have y: "is_fin (fsub x (lit 1000000))" "val (fsub x (lit 1000000)) = rnd (val x - 1000000)"
    using fsub_fin [of x "lit 1000000"] is_cents_fin [OF x] m b by simp_all
  have "\<bar>rnd (val x - 1000000) - (val x - 1000000)\<bar> \<le> 2 ^ 22 / 2 ^ 53" using b by (rule rnd_err_1) simp
  moreover have "2 ^ 22 / 2 ^ 53 + 1 / 2 ^ 21 \<le> (1 / 2 ^ 20 :: rat)" by simp
  ultimately have y2: "\<bar>val (fsub x (lit 1000000)) - d / 100\<bar> \<le> 1 / 2 ^ 20" using x2 unfolding y by linarith
  define r where "r = val (lit (10 / 100))"
  have r: "is_fin (lit (10 / 100))" "0 \<le> r" "r \<le> 1" "\<bar>r - 1 / 10\<bar> \<le> 1 / 2 ^ 53"
    by (simp_all add: r_def float_eval)
  have "\<bar>val (fsub x (lit 1000000)) - d / 100\<bar> \<le> 1" using y2 by simp
  with d have "\<bar>val (fsub x (lit 1000000))\<bar> \<le> 2000001" by linarith
  then have yb': "\<bar>val (fsub x (lit 1000000))\<bar> \<le> 2 ^ 44" by simp
  note z = fmul_rate_fin [OF y(1) yb' r(1) r(2,3) [unfolded r_def]]
  have p: "\<bar>val (fsub x (lit 1000000)) * r - d / 1000\<bar> \<le> 1 / 2 ^ 19"
    by (rule bounded_product [OF y2 d r(4,2,3)])
  then have "\<bar>val (fsub x (lit 1000000)) * r - d / 1000\<bar> \<le> 1" by simp
  with d have "\<bar>val (fsub x (lit 1000000)) * r\<bar> \<le> 200001" by linarith
  then have pb: "\<bar>val (fsub x (lit 1000000)) * r\<bar> \<le> 2 ^ 22" by simp
  have "\<bar>rnd (val (fsub x (lit 1000000)) * r) - val (fsub x (lit 1000000)) * r\<bar> \<le> 2 ^ 22 / 2 ^ 53"
    using pb by (rule rnd_err_1) simp
  with p have z2: "\<bar>val (fmul (fsub x (lit 1000000)) (lit (10 / 100))) - d / 1000\<bar> \<le> 1 / 2 ^ 19 + 2 ^ 22 / 2 ^ 53"
    unfolding z(2) r_def [symmetric] by linarith
  then have "\<bar>val (fmul (fsub x (lit 1000000)) (lit (10 / 100))) - d / 1000\<bar> \<le> 1" by simp
  with d have "\<bar>50000 + val (fmul (fsub x (lit 1000000)) (lit (10 / 100)))\<bar> \<le> 250001" by linarith
  then have zb: "\<bar>50000 + val (fmul (fsub x (lit 1000000)) (lit (10 / 100)))\<bar> \<le> 2 ^ 22" by simp
  have w: "is_fin (sp2 x)" "val (sp2 x) = rnd (50000 + val (fmul (fsub x (lit 1000000)) (lit (10 / 100))))"
    using fadd_fin [of "lit 50000"] m z(1) zb by (simp_all add: sp2_def)
  have "\<bar>val (sp2 x) - (50000 + val (fmul (fsub x (lit 1000000)) (lit (10 / 100))))\<bar> \<le> 2 ^ 22 / 2 ^ 53"
    unfolding w using zb by (rule rnd_err_1) simp
  moreover have "2 ^ 22 / 2 ^ 53 + (1 / 2 ^ 19 + 2 ^ 22 / 2 ^ 53) \<le> (1 / 2 ^ 18 :: rat)" by simp
  ultimately show v: "\<bar>val (sp2 x) - (50000 + of_int (k - 100000000) / 1000)\<bar> \<le> 1 / 2 ^ 18"
    using z2 unfolding d_def [symmetric] by linarith
  show "is_fin (sp2 x)" by (rule w)
  have "\<bar>val (sp2 x) - (50000 + d / 1000)\<bar> \<le> 1" using v unfolding d_def [symmetric] by simp
  with d have "\<bar>val (sp2 x)\<bar> \<le> 250001" by linarith
  then show "\<bar>val (sp2 x)\<bar> \<le> 2 ^ 40" by simp
qed

text \<open>The cents of the tax, before the case distinction is resolved.\<close>

definition sp_cents :: "f64 \<Rightarrow> int \<Rightarrow> int" where
  "sp_cents x k = (if k \<le> 0 then 0 else if k \<le> 100000000 then to_cents (sp1 x)
     else if k \<le> 300000000 then to_cents (sp2 x) else to_cents (sp3 x))"

lemma sp1_cents:
  assumes "is_cents x k" "0 \<le> k" "k \<le> cap"
  shows "is_cents (round2 (sp1 x)) (to_cents (sp1 x))" "0 \<le> to_cents (sp1 x)" "to_cents (sp1 x) \<le> k"
    "\<bar>of_int (to_cents (sp1 x)) - of_int k * (5 / 100)\<bar> < (1 :: rat)"
  using rate_cents_lit [OF assms, of "5 / 100"] by (simp_all add: sp1_def round2_roundMoney)

lemma sp3_cents:
  assumes "is_cents x k" "0 \<le> k" "k \<le> cap"
  shows "is_cents (round2 (sp3 x)) (to_cents (sp3 x))" "0 \<le> to_cents (sp3 x)" "to_cents (sp3 x) \<le> k"
    "\<bar>of_int (to_cents (sp3 x)) - of_int k * (25 / 100)\<bar> < (1 :: rat)"
  using rate_cents_lit [OF assms, of "25 / 100"] by (simp_all add: sp3_def round2_roundMoney)

lemma sp2_cents:
  assumes "is_cents x k" "100000000 \<le> k" "k \<le> 300000000"
  shows "is_cents (round2 (sp2 x)) (to_cents (sp2 x))"
    "\<bar>of_int (to_cents (sp2 x)) - (5000000 + of_int (k - 100000000) * (10 / 100))\<bar> < (1 :: rat)"
    "0 \<le> to_cents (sp2 x)" "to_cents (sp2 x) \<le> k"
proof -
  note v = sp2_value [OF assms]
  show "is_cents (round2 (sp2 x)) (to_cents (sp2 x))"
    unfolding round2_roundMoney using v by (intro roundMoney_to_cents) auto
  have "\<bar>val (sp2 x) - (50000 + of_int (k - 100000000) / 1000)\<bar> \<le> 1 / 262144" using v(2) by simp
  then have "\<bar>val (sp2 x) * 100 - (5000000 + of_int (k - 100000000) / 10)\<bar> \<le> 1 / 8" by linarith
  with to_cents_err [OF v(3)] have e': "\<bar>of_int (to_cents (sp2 x)) - (5000000 + of_int (k - 100000000) / 10)\<bar> < (1 :: rat)"
    by linarith
  then show e: "\<bar>of_int (to_cents (sp2 x)) - (5000000 + of_int (k - 100000000) * (10 / 100))\<bar> < (1 :: rat)"
    by simp
  have d: "0 \<le> (of_int (k - 100000000) :: rat)" "of_int (k - 100000000) + 100000000 = (of_int k :: rat)"
    using assms by simp_all
  define D T K :: rat where "D = of_int (k - 100000000)" and "T = of_int (to_cents (sp2 x))" and "K = of_int k"
  have "\<bar>T - (5000000 + D / 10)\<bar> < 1" "0 \<le> D" "D + 100000000 = K" using e' d by (simp_all add: D_def T_def K_def)
  then have "0 \<le> T" "T \<le> K" by (simp_all add: abs_less_iff)
  then have "(0::rat) \<le> of_int (to_cents (sp2 x))" "(of_int (to_cents (sp2 x)) :: rat) \<le> of_int k"
    by (simp_all add: T_def K_def)
  then show "0 \<le> to_cents (sp2 x)" "to_cents (sp2 x) \<le> k" by simp_all
qed

lemma small_profit_cents:
  assumes r: "is_cents (round2 x) k" and "\<bar>k\<bar> \<le> cap"
  shows "is_cents (fst (CalcSmallProfitCIT x)) (sp_cents (round2 x) k)"
    "\<bar>of_int (sp_cents (round2 x) k) - small_profit_tax k\<bar> < 1" "0 \<le> sp_cents (round2 x) k" "k \<le> 0 \<or> sp_cents (round2 x) k \<le> k"
proof -
  consider "k \<le> 0" | "0 < k" "k \<le> 100000000" | "100000000 < k" "k \<le> 300000000" | "300000000 < k" by linarith
  then show "is_cents (fst (CalcSmallProfitCIT x)) (sp_cents (round2 x) k)"
    "\<bar>of_int (sp_cents (round2 x) k) - small_profit_tax k\<bar> < 1" "0 \<le> sp_cents (round2 x) k" "k \<le> 0 \<or> sp_cents (round2 x) k \<le> k"
    unfolding small_profit_brackets [OF assms] sp_cents_def small_profit_tax_def
    using sp1_cents [OF r] sp2_cents [OF r] sp3_cents [OF r] assms(2)
    by (cases; simp)+
qed

lemma sp1_mono: "is_cents x k \<Longrightarrow> is_cents y l \<Longrightarrow> k \<le> l \<Longrightarrow> \<bar>k\<bar> \<le> cap \<Longrightarrow> \<bar>l\<bar> \<le> cap \<Longrightarrow> to_cents (sp1 x) \<le> to_cents (sp1 y)"
  unfolding sp1_def using lit_rate [of "5 / 100"] by (intro rate_mono_cents [of x k y l]) simp_all

lemma sp3_mono: "is_cents x k \<Longrightarrow> is_cents y l \<Longrightarrow> k \<le> l \<Longrightarrow> \<bar>k\<bar> \<le> cap \<Longrightarrow> \<bar>l\<bar> \<le> cap \<Longrightarrow> to_cents (sp3 x) \<le> to_cents (sp3 y)"
  unfolding sp3_def using lit_rate [of "25 / 100"] by (intro rate_mono_cents [of x k y l]) simp_all

lemma sp2_mono:
  assumes "is_cents x k" "is_cents y l" "k \<le> l" "\<bar>k\<bar> \<le> cap" "\<bar>l\<bar> \<le> cap"
  shows "to_cents (sp2 x) \<le> to_cents (sp2 y)"
proof -
  have b: "\<bar>v\<bar> \<le> 2 ^ 100" if "\<bar>v\<bar> \<le> 2 ^ 45" for v :: rat using that by simp
  have l: "is_fin (lit 1000000)" "val (lit 1000000) = 1000000" "is_fin (lit 50000)" "val (lit 50000) = 50000"
    "is_fin (lit (10 / 100))" "0 \<le> val (lit (10 / 100))" "val (lit (10 / 100)) \<le> 1"
    using lit_rate [of "10 / 100"] by (simp_all add: lit_fin)
  have f: "is_fin x" "is_fin y" using assms is_cents_fin by auto
  have x43: "\<bar>val x\<bar> \<le> 2 ^ 43" "\<bar>val y\<bar> \<le> 2 ^ 43"
    using cents_val_bound [OF assms(1,4)] cents_val_bound [OF assms(2,5)] by simp_all
  then have d: "\<bar>val x - 1000000\<bar> \<le> 2 powi 44" "\<bar>val y - 1000000\<bar> \<le> 2 powi 44" by (auto simp: abs_le_iff)
  then have s: "is_fin (fsub x (lit 1000000))" "is_fin (fsub y (lit 1000000))"
    "val (fsub x (lit 1000000)) = rnd (val x - 1000000)" "val (fsub y (lit 1000000)) = rnd (val y - 1000000)"
    using fsub_fin [of x "lit 1000000"] fsub_fin [of y "lit 1000000"] f l by simp_all
  have s44: "\<bar>val (fsub x (lit 1000000))\<bar> \<le> 2 ^ 44" "\<bar>val (fsub y (lit 1000000))\<bar> \<le> 2 ^ 44"
    using rnd_bound [OF d(1)] rnd_bound [OF d(2)] unfolding s by simp_all
  have le: "val (fsub x (lit 1000000)) \<le> val (fsub y (lit 1000000))"
    unfolding s using is_cents_mono [OF assms(1-3)] by (intro rnd_mono) simp
  note mx = fmul_rate_fin [OF s(1) s44(1) l(5-7)]
  note my = fmul_rate_fin [OF s(2) s44(2) l(5-7)]
  have "val (fmul (fsub x (lit 1000000)) (lit (10 / 100))) \<le> val (fmul (fsub y (lit 1000000)) (lit (10 / 100)))"
    by (rule fmul_rate_mono [OF s(1,2) l(5-7) le s44])
  then show ?thesis
    unfolding sp2_def using mx my l by (intro to_cents_mono fadd_mono b) auto
qed

text \<open>The corporate income tax of a small-profit enterprise, for taxable incomes of at most \<open>2 ^ 37\<close>
  yuan: the tax is a whole number of cents within one cent of the statutory step function (5 percent up
  to 1,000,000, then 50,000 plus 10 percent of the excess up to 3,000,000, then 25 percent of the whole
  income), it is never negative and never exceeds a positive income.\<close>

theorem CalcSmallProfitCIT_spec:
  assumes "money_ok x"
  shows "\<exists>m. is_cents (fst (CalcSmallProfitCIT x)) m \<and> 0 \<le> m \<and> (0 < to_cents x \<longrightarrow> m \<le> to_cents x) \<and>
    \<bar>of_int m - small_profit_tax (to_cents x)\<bar> < 1"
proof -
  have c: "\<bar>to_cents x\<bar> \<le> cap" by (rule money_cap_le(1) [OF money_ok_cents(2) [OF assms]])
  show ?thesis using small_profit_cents [OF round2_money [OF assms] c] by force
qed

theorem CalcSmallProfitCIT_spec_witness:
  "\<exists>m. is_cents (fst (CalcSmallProfitCIT (lit 1500000))) m \<and> m = 10000000"
proof -
  have "money_ok (lit 1500000)" "to_cents (lit 1500000) = 150000000"
    by (simp_all add: money_ok_def to_cents_def float_eval)
  with CalcSmallProfitCIT_spec [of "lit 1500000"] obtain m
    where "is_cents (fst (CalcSmallProfitCIT (lit 1500000))) m" "\<bar>of_int m - (10000000 :: rat)\<bar> < 1"
    by (auto simp: small_profit_tax_def)
  moreover from this(2) have "m = 10000000"
    using within_one [of m 10000000] by simp
  ultimately show ?thesis by blast
qed

lemma sp_cents_mono:
  assumes x: "is_cents x k" "\<bar>k\<bar> \<le> cap" and y: "is_cents y l" "\<bar>l\<bar> \<le> cap" and le: "k \<le> l"
  shows "sp_cents x k \<le> sp_cents y l"
proof -
  have c: "is_cents (lit 1000000) 100000000" "is_cents (lit 3000000) 300000000"
    "\<bar>100000000\<bar> \<le> cap" "\<bar>300000000\<bar> \<le> cap"
    using of_goint_fin [of 1000000] of_goint_fin [of 3000000] by (simp_all add: is_cents_def lit_fin cap_def)
  have v: "to_cents (sp1 (lit 1000000)) = 5000000" "to_cents (sp2 (lit 1000000)) = 5000000"
    "to_cents (sp2 (lit 3000000)) = 25000000" "to_cents (sp3 (lit 3000000)) = 75000000"
    by (simp_all add: sp1_def sp2_def sp3_def to_cents_def float_eval)
  have nn: "0 \<le> sp_cents y l"
    using sp1_cents(2) [OF y(1)] sp2_cents(3) [OF y(1)] sp3_cents(2) [OF y(1)] y(2) by (simp add: sp_cents_def)
  have u1: "to_cents (sp1 x) \<le> 5000000" if "k \<le> 100000000"
    using sp1_mono [OF x(1) c(1) that x(2) c(3)] v by simp
  have u2: "to_cents (sp2 x) \<le> 25000000" if "k \<le> 300000000"
    using sp2_mono [OF x(1) c(2) that x(2) c(4)] v by simp
  have l2: "5000000 \<le> to_cents (sp2 y)" if "100000000 \<le> l"
    using sp2_mono [OF c(1) y(1) that c(3) y(2)] v by simp
  have l3: "75000000 \<le> to_cents (sp3 y)" if "300000000 \<le> l"
    using sp3_mono [OF c(2) y(1) that c(4) y(2)] v by simp
  show ?thesis
    using le nn u1 u2 l2 l3 sp1_mono [OF x(1) y(1) le x(2) y(2)] sp2_mono [OF x(1) y(1) le x(2) y(2)]
      sp3_mono [OF x(1) y(1) le x(2) y(2)]
    unfolding sp_cents_def by (auto split: if_splits)
qed

text \<open>The small-profit tax never decreases when the taxable income grows, compared in whole cents
  over all brackets, including the steps at 1,000,000 and 3,000,000 where the formula changes.\<close>

theorem CalcSmallProfitCIT_mono:
  assumes "money_ok x" "money_ok y" "to_cents x \<le> to_cents y"
  shows "fle (fst (CalcSmallProfitCIT x)) (fst (CalcSmallProfitCIT y))"
proof -
  have c: "\<bar>to_cents x\<bar> \<le> cap" "\<bar>to_cents y\<bar> \<le> cap"
    using money_cap_le(1) money_ok_cents(2) assms(1,2) by blast+
  note r = round2_money [OF assms(1)] round2_money [OF assms(2)]
  have "val (fst (CalcSmallProfitCIT x)) \<le> val (fst (CalcSmallProfitCIT y))"
    using is_cents_mono [OF small_profit_cents(1) [OF r(1) c(1)] small_profit_cents(1) [OF r(2) c(2)]]
      sp_cents_mono [OF r(1) c(1) r(2) c(2) assms(3)] by blast
  moreover have "is_fin (fst (CalcSmallProfitCIT x))" "is_fin (fst (CalcSmallProfitCIT y))"
    using small_profit_cents(1) [OF r(1) c(1)] small_profit_cents(1) [OF r(2) c(2)] is_cents_fin by blast+
  ultimately show ?thesis by simp
qed

theorem CalcSmallProfitCIT_mono_witness:
  "fle (fst (CalcSmallProfitCIT (lit 3000000))) (fst (CalcSmallProfitCIT (lit (300000001 / 100))))"
  by (rule CalcSmallProfitCIT_mono) (simp_all add: money_ok_def to_cents_def float_eval)

section \<open>Annual settlement\<close>

lemma one_cents: "is_fin (lit 1)" "val (lit 1) = 1"
  by (simp_all add: lit_fin)

text \<open>C33: the annual settlement, for a rate in (0, 1] and amounts of at most \<open>2 ^ 37\<close> yuan: it succeeds;
  taxable income is profit plus adjustments in exact cents, zero when negative; the tax due is exactly
  the tax payable minus the prepaid tax (negative for a refund); the deduction is exactly the standard
  tax minus the tax payable, zero when negative; and the tax payable is within a cent of the small-profit
  step function when the small-profit scheme applies (income at most 3,000,000) and of income times
  rate otherwise.\<close>

theorem CalcAnnualSettlement_spec:
  assumes "money_ok profit" "money_ok adj" "money_ok prepaid" and r: "is_fin r" "0 < val r" "val r \<le> 1"
  defines "k \<equiv> max 0 (to_cents profit + to_cents adj)"
  shows "\<exists>out m s. CalcAnnualSettlement profit adj r prepaid small = Inr out \<and>
     is_cents (co_TaxableIncome out) k \<and> is_cents (co_TaxPayable out) m \<and>
     is_cents (co_TaxDue out) (m - to_cents prepaid) \<and> is_cents (co_Deduction out) (max 0 (s - m)) \<and>
     \<bar>of_int s - of_int k * val r\<bar> < 1 \<and>
     \<bar>of_int m - (if small \<and> k \<le> 300000000 then small_profit_tax k else of_int k * val r)\<bar> < 1"
proof -
  let ?p = "to_cents profit" and ?a = "to_cents adj" and ?d = "to_cents prepaid"
  have b: "\<bar>?p\<bar> \<le> money_cap" "\<bar>?a\<bar> \<le> money_cap" "\<bar>?d\<bar> \<le> money_cap"
    using money_ok_cents(2) assms(1-3) by blast+
  define I0 where "I0 = round2 (fadd (round2 profit) (round2 adj))"
  define I where "I = (if flt I0 (lit 0) then lit 0 else I0)"
  have i0: "is_cents I0 (?p + ?a)" unfolding I0_def round2_roundMoney
    using assms b by (intro roundMoney_add money_ok_cents money_cap_le)
  have i: "is_cents I k" unfolding I_def k_def using b by (intro clamp_cents [OF i0]) (simp add: cap_def money_cap_def)
  have k: "0 \<le> k" "k \<le> 2 * money_cap" "k \<le> cap" "\<bar>k\<bar> \<le> cap" "\<bar>k\<bar> \<le> 2 * cap"
    using b by (auto simp: k_def cap_def money_cap_def)
  note st = rate_cents [OF i k(1,3) r(1) _ r(3)]
  define s where "s = to_cents (fmul I r)"
  have s: "is_cents (round2 (fmul I r)) s" "0 \<le> s" "s \<le> k" "\<bar>of_int s - of_int k * val r\<bar> < 1"
    using st r by (auto simp: s_def round2_roundMoney)
  have m3: "is_cents (lit 3000000) 300000000" using of_goint_fin [of 3000000] by (simp add: is_cents_def lit_fin)
  have c3: "fle I (lit 3000000) \<longleftrightarrow> k \<le> 300000000"
    using cents_less(2) [OF i m3 k(5)] is_cents_fin [OF i] is_cents_fin [OF m3] by (simp add: cap_def)
  define P where "P = (if small \<and> k \<le> 300000000 then fst (CalcSmallProfitCIT I) else round2 (fmul I r))"
  define m where "m = (if small \<and> k \<le> 300000000 then sp_cents (round2 I) k else s)"
  have ri: "is_cents (round2 I) k" using i k by (simp add: round2_roundMoney roundMoney_cents)
  have P: "is_cents P m" "0 \<le> m" "m \<le> max 0 k"
    "\<bar>of_int m - (if small \<and> k \<le> 300000000 then small_profit_tax k else of_int k * val r)\<bar> < 1"
    using small_profit_cents [OF ri k(4)] s k(1) by (auto simp: P_def m_def sp_cents_def)
  have mb: "\<bar>m\<bar> \<le> cap" "\<bar>s\<bar> \<le> cap" "\<bar>s - m\<bar> \<le> 2 * cap" "\<bar>?d\<bar> \<le> cap"
    using P s k b by (auto simp: cap_def money_cap_def)
  have due: "is_cents (round2 (fsub P (round2 prepaid))) (m - ?d)"
    unfolding round2_roundMoney using assms(3) mb by (intro roundMoney_sub P money_ok_cents) auto
  have ded0: "is_cents (round2 (fsub (round2 (fmul I r)) P)) (s - m)"
    unfolding round2_roundMoney using mb s by (intro roundMoney_sub P) (auto simp: round2_roundMoney)
  note ded = clamp_cents [OF ded0 mb(3)]
  have ok: "\<not> fle r (lit 0)" "\<not> flt (lit 1) r" using r one_cents by simp_all
  let ?out = "\<lparr> co_TaxableIncome = I, co_ApplicableRate = r,
      co_Deduction = (if flt (round2 (fsub (round2 (fmul I r)) P)) (lit 0) then lit 0 else round2 (fsub (round2 (fmul I r)) P)),
      co_TaxPayable = P, co_AccumulatedPaid = round2 prepaid, co_TaxDue = round2 (fsub P (round2 prepaid)),
      co_EffectiveRate = (if small \<and> k \<le> 300000000 then snd (CalcSmallProfitCIT I) else r) \<rparr>"
  have "CalcAnnualSettlement profit adj r prepaid small = Inr ?out"
    using ok unfolding CalcAnnualSettlement_def Let_def I0_def [symmetric] I_def [symmetric] c3
    by (simp add: P_def case_prod_beta del: lit_zero)
  with i P due ded s(4) show ?thesis by (intro exI [of _ ?out] exI [of _ m] exI [of _ s]) simp
qed

theorem CalcAnnualSettlement_spec_witness:
  "\<exists>out m. CalcAnnualSettlement (lit 2000000) (lit 50000) (lit (25 / 100)) (lit 100000) True = Inr out \<and>
     is_cents (co_TaxPayable out) m \<and> is_cents (co_TaxDue out) (m - 10000000) \<and> m = 15500000"
proof -
  have ok: "money_ok (lit 2000000)" "money_ok (lit 50000)" "money_ok (lit 100000)"
    "to_cents (lit 2000000) = 200000000" "to_cents (lit 50000) = 5000000" "to_cents (lit 100000) = 10000000"
    "is_fin (lit (25 / 100))" "0 < val (lit (25 / 100))" "val (lit (25 / 100)) \<le> 1"
    by (simp_all add: money_ok_def to_cents_def float_eval)
  from CalcAnnualSettlement_spec [OF ok(1-3) ok(7-9), of True] obtain out m where
    "CalcAnnualSettlement (lit 2000000) (lit 50000) (lit (25 / 100)) (lit 100000) True = Inr out"
    "is_cents (co_TaxPayable out) m" "is_cents (co_TaxDue out) (m - 10000000)"
    "\<bar>of_int m - (of_int 15500000 :: rat)\<bar> < 1"
    unfolding ok(4-6) by (auto simp: small_profit_tax_def)
  with within_one [of m 15500000] show ?thesis by blast
qed

section \<open>Adjustments\<close>

text \<open>What an adjustment of \<open>k\<close> cents booked, with at most \<open>m\<close> cents deductible, promises.\<close>

definition adjustment_spec :: "int \<Rightarrow> int \<Rightarrow> AdjustmentResult \<Rightarrow> bool" where
  "adjustment_spec k m res \<longleftrightarrow>
     is_cents (ar_BookAmount res) k \<and> is_cents (ar_Deductible res) (min k m) \<and>
     is_cents (ar_Adjustment res) (k - min k m)"

lemma min_cents:
  assumes "is_cents x a" "is_cents y b" "\<bar>a\<bar> \<le> cap" "\<bar>b\<bar> \<le> cap"
  shows "is_cents (if flt x y then x else y) (min a b)"
proof -
  have "flt x y \<longleftrightarrow> a < b"
    using cents_less(1) [OF assms(1,2)] assms is_cents_fin by simp
  then show ?thesis using assms by (simp add: min_def)
qed

lemma adjustment_specI:
  assumes "is_cents (ar_BookAmount res) k" "is_cents (ar_Deductible res) (min k m)" "\<bar>k\<bar> \<le> cap" "0 \<le> k" "0 \<le> m"
    and "ar_Adjustment res = round2 (fsub (ar_BookAmount res) (ar_Deductible res))"
  shows "adjustment_spec k m res"
  unfolding adjustment_spec_def assms(6) round2_roundMoney
  using assms by (auto intro!: roundMoney_sub)

text \<open>A limit that is a share of a base amount.\<close>

definition share_of :: "int \<Rightarrow> int \<Rightarrow> rat \<Rightarrow> bool" where
  "share_of m k q \<longleftrightarrow> 0 \<le> m \<and> m \<le> k \<and> \<bar>of_int m - of_int k * q\<bar> < 1"

lemma share_of_rate:
  assumes "money_ok x" "0 \<le> to_cents x" "0 \<le> q" "q \<le> 1"
  shows "is_cents (round2 (fmul (round2 x) (lit q))) (to_cents (fmul (round2 x) (lit q)))"
    "share_of (to_cents (fmul (round2 x) (lit q))) (to_cents x) q"
proof -
  have "to_cents x \<le> cap" using money_cap_le(1) [OF money_ok_cents(2) [OF assms(1)]] by simp
  from rate_cents_lit [OF round2_money [OF assms(1)] assms(2) this assms(3,4)]
  show "is_cents (round2 (fmul (round2 x) (lit q))) (to_cents (fmul (round2 x) (lit q)))"
    "share_of (to_cents (fmul (round2 x) (lit q))) (to_cents x) q"
    by (simp_all add: share_of_def round2_roundMoney)
qed

lemma not_negative: "money_ok x \<Longrightarrow> flt (round2 x) (Fin 0) \<longleftrightarrow> to_cents x < 0"
  by (rule cents_sign(1) [OF round2_money money_cap_le(2) [OF money_ok_cents(2)]])

text \<open>C34: the capped expenses.  For nonnegative expense and base of at most \<open>2 ^ 37\<close> yuan, each of the
  three calculations succeeds; the deductible amount is the smaller of the expense and the limit (15
  percent of revenue for advertising, 14 percent of salaries for welfare, for entertainment the smaller
  of 60 percent of the expense and 0.5 percent of revenue), each share within a cent; and deductible plus
  adjustment is exactly the booked expense in cents, so nothing is lost or counted twice.\<close>

theorem capped_adjustments:
  assumes "money_ok expense" "money_ok base" "0 \<le> to_cents expense" "0 \<le> to_cents base"
  shows "(\<exists>res m. CalcAdvertisingAdjustment expense base = Inr res \<and> share_of m (to_cents base) (15 / 100) \<and>
       adjustment_spec (to_cents expense) m res) \<and>
    (\<exists>res m. CalcWelfareAdjustment expense base = Inr res \<and> share_of m (to_cents base) (14 / 100) \<and>
       adjustment_spec (to_cents expense) m res) \<and>
    (\<exists>res m n. CalcEntertainmentAdjustment expense base = Inr res \<and> share_of m (to_cents base) (5 / 1000) \<and>
       share_of n (to_cents expense) (60 / 100) \<and> adjustment_spec (to_cents expense) (min m n) res)"
proof (intro conjI)
  let ?k = "to_cents expense"
  have nn: "\<not> flt (round2 expense) (Fin 0)" "\<not> flt (round2 base) (Fin 0)"
    using assms by (simp_all add: not_negative)
  have k: "\<bar>?k\<bar> \<le> cap" "to_cents base \<le> cap"
    using money_cap_le(1) [OF money_ok_cents(2) [OF assms(1)]] money_cap_le(1) [OF money_ok_cents(2) [OF assms(2)]] by auto
  note e = round2_money [OF assms(1)]
  have lim: "adjustment_spec ?k m res"
    if "is_cents l m" "0 \<le> m" "m \<le> cap" "ar_BookAmount res = round2 expense"
      "ar_Deductible res = (if flt (round2 expense) l then round2 expense else l)"
      "ar_Adjustment res = round2 (fsub (ar_BookAmount res) (ar_Deductible res))" for l m res
    using that min_cents [OF e that(1)] k assms(3) e by (intro adjustment_specI) auto
  have q: "0 \<le> (15 / 100 :: rat)" "15 / 100 \<le> (1 :: rat)" "0 \<le> (14 / 100 :: rat)" "14 / 100 \<le> (1 :: rat)"
    "0 \<le> (5 / 1000 :: rat)" "5 / 1000 \<le> (1 :: rat)" "0 \<le> (60 / 100 :: rat)" "60 / 100 \<le> (1 :: rat)" by simp_all
  note s15 = share_of_rate [OF assms(2,4) q(1,2)] and s14 = share_of_rate [OF assms(2,4) q(3,4)]
    and s5 = share_of_rate [OF assms(2,4) q(5,6)] and s60 = share_of_rate [OF assms(1,3) q(7,8)]
  have "share_of m (to_cents base) q \<Longrightarrow> 0 \<le> m \<and> m \<le> cap" for m q using k(2) by (auto simp: share_of_def)
  note sb = this
  let ?l = "round2 (fmul (round2 base) (lit (15 / 100)))"
  obtain res where "CalcAdvertisingAdjustment expense base = Inr res" "ar_BookAmount res = round2 expense"
    "ar_Deductible res = (if flt (round2 expense) ?l then round2 expense else ?l)"
    "ar_Adjustment res = round2 (fsub (ar_BookAmount res) (ar_Deductible res))"
    using nn by (simp add: CalcAdvertisingAdjustment_def Let_def)
  then show "\<exists>res m. CalcAdvertisingAdjustment expense base = Inr res \<and> share_of m (to_cents base) (15 / 100) \<and> adjustment_spec ?k m res"
    using lim [OF s15(1)] sb [OF s15(2)] s15(2) by blast
  let ?l14 = "round2 (fmul (round2 base) (lit (14 / 100)))"
  obtain res1 where "CalcWelfareAdjustment expense base = Inr res1" "ar_BookAmount res1 = round2 expense"
    "ar_Deductible res1 = (if flt (round2 expense) ?l14 then round2 expense else ?l14)"
    "ar_Adjustment res1 = round2 (fsub (ar_BookAmount res1) (ar_Deductible res1))"
    using nn by (simp add: CalcWelfareAdjustment_def Let_def)
  then show "\<exists>res m. CalcWelfareAdjustment expense base = Inr res \<and> share_of m (to_cents base) (14 / 100) \<and> adjustment_spec ?k m res"
    using lim [OF s14(1)] sb [OF s14(2)] s14(2) by blast
  let ?m = "to_cents (fmul (round2 base) (lit (5 / 1000)))" and ?n = "to_cents (fmul (round2 expense) (lit (60 / 100)))"
    and ?lr = "round2 (fmul (round2 base) (lit (5 / 1000)))" and ?le = "round2 (fmul (round2 expense) (lit (60 / 100)))"
  obtain res2 where r: "CalcEntertainmentAdjustment expense base = Inr res2" "ar_BookAmount res2 = round2 expense"
    "ar_Deductible res2 = (if flt ?lr ?le then ?lr else ?le)"
    "ar_Adjustment res2 = round2 (fsub (ar_BookAmount res2) (ar_Deductible res2))"
    using nn by (simp add: CalcEntertainmentAdjustment_def Let_def)
  have n: "0 \<le> ?n" "?n \<le> ?k" "0 \<le> ?m" "?m \<le> cap" using s60(2) sb [OF s5(2)] by (auto simp: share_of_def)
  have "is_cents (ar_Deductible res2) (min ?m ?n)"
    unfolding r(3) using min_cents [OF s5(1) s60(1)] n k by simp
  moreover have "min ?k (min ?m ?n) = min ?m ?n" using n by simp
  ultimately have "adjustment_spec ?k (min ?m ?n) res2"
    using e k n assms(3) r by (intro adjustment_specI) auto
  with r(1) s5(2) s60(2) show "\<exists>res m n. CalcEntertainmentAdjustment expense base = Inr res \<and>
      share_of m (to_cents base) (5 / 1000) \<and> share_of n ?k (60 / 100) \<and> adjustment_spec ?k (min m n) res"
    by blast
qed

theorem capped_adjustments_witness:
  "\<exists>res m. CalcAdvertisingAdjustment (lit 20000) (lit 100000) = Inr res \<and>
     adjustment_spec 2000000 m res \<and> \<bar>of_int m - (1500000 :: rat)\<bar> < 1"
proof -
  have "money_ok (lit 20000)" "money_ok (lit 100000)" "to_cents (lit 20000) = 2000000" "to_cents (lit 100000) = 10000000"
    by (simp_all add: money_ok_def to_cents_def float_eval)
  with capped_adjustments [of "lit 20000" "lit 100000"] show ?thesis
    unfolding share_of_def by auto
qed

end
