(* ===== verification/Engine_PIT.thy ===== *)
theory Engine_PIT
  imports Engine_CIT
begin

text \<open>
  Withholding of individual income tax by the cumulative method (internal/engine/pit.go).
\<close>

section \<open>Constants and brackets\<close>

definition PITBasicDeductionPerMonth :: f64 where "PITBasicDeductionPerMonth = lit 5000"
definition PITChildrenEducation :: f64 where "PITChildrenEducation = lit 2000"
definition PITContinuingEducation :: f64 where "PITContinuingEducation = lit 400"
definition PITHousingLoanInterest :: f64 where "PITHousingLoanInterest = lit 1000"
definition PITHousingRentTier1 :: f64 where "PITHousingRentTier1 = lit 1500"
definition PITHousingRentTier2 :: f64 where "PITHousingRentTier2 = lit 1100"
definition PITHousingRentTier3 :: f64 where "PITHousingRentTier3 = lit 800"
definition PITElderlySupportOnlyChild :: f64 where "PITElderlySupportOnlyChild = lit 3000"
definition PITElderlySupportSharedMax :: f64 where "PITElderlySupportSharedMax = lit 1500"
definition PITInfantCare :: f64 where "PITInfantCare = lit 2000"

text \<open>The rate and the quick deduction of a cumulative taxable income.\<close>

definition pitBracket :: "f64 \<Rightarrow> f64 \<times> f64" where
  "pitBracket x =
     (if fle x (lit 36000) then (lit (3 / 100), lit 0)
      else if fle x (lit 144000) then (lit (10 / 100), lit 2520)
      else if fle x (lit 300000) then (lit (20 / 100), lit 16920)
      else if fle x (lit 420000) then (lit (25 / 100), lit 31920)
      else if fle x (lit 660000) then (lit (30 / 100), lit 52920)
      else if fle x (lit 960000) then (lit (35 / 100), lit 85920)
      else (lit (45 / 100), lit 181920))"

section \<open>Inputs and outputs\<close>

record SpecialAdditionalItems =
  sa_ChildrenEducation :: int
  sa_ContinuingEducation :: bool
  sa_HousingLoanInterest :: bool
  sa_HousingRentTier :: int
  sa_ElderlySupport :: int
  sa_InfantCare :: int

record PITInput =
  pi_MonthlySalary :: f64
  pi_AccumulatedSalary :: f64
  pi_Months :: int
  pi_AccumulatedSpecialDeduction :: f64
  pi_AccumulatedSpecialAdditional :: f64
  pi_AccumulatedOtherDeduction :: f64
  pi_AccumulatedPrepaidTax :: f64
  pi_SpecialAdditionalItems :: "SpecialAdditionalItems option"

record PITOutput =
  po_MonthlySalary :: f64
  po_AccumulatedSalary :: f64
  po_Months :: int
  po_BasicDeduction :: f64
  po_AccumulatedSpecialDeduction :: f64
  po_AccumulatedSpecialAdditional :: f64
  po_AccumulatedOtherDeduction :: f64
  po_TotalDeductions :: f64
  po_AccumulatedTaxableIncome :: f64
  po_ApplicableRate :: f64
  po_QuickDeduction :: f64
  po_AccumulatedTaxPayable :: f64
  po_AccumulatedPrepaidTax :: f64
  po_CurrentMonthTax :: f64
  po_Formula :: string

section \<open>The monthly special additional deductions\<close>

definition CalcMonthlySpecialAdditional :: "SpecialAdditionalItems \<Rightarrow> f64" where
  "CalcMonthlySpecialAdditional items =
     (let t1 = fadd (lit 0) (fmul (of_goint (sa_ChildrenEducation items)) PITChildrenEducation);
          t2 = (if sa_ContinuingEducation items then fadd t1 PITContinuingEducation else t1);
          t3 = (if sa_HousingLoanInterest items then fadd t2 PITHousingLoanInterest else t2);
          t4 = (if sa_HousingRentTier items = 1 then fadd t3 PITHousingRentTier1
                else if sa_HousingRentTier items = 2 then fadd t3 PITHousingRentTier2
                else if sa_HousingRentTier items = 3 then fadd t3 PITHousingRentTier3 else t3);
          shared = of_goint (sa_ElderlySupport items);
          t5 = (if sa_ElderlySupport items = 1 then fadd t4 PITElderlySupportOnlyChild
                else if 1 < sa_ElderlySupport items then
                  fadd t4 (if flt PITElderlySupportSharedMax shared then PITElderlySupportSharedMax else shared)
                else t4)
      in round2 (fadd t5 (fmul (of_goint (sa_InfantCare items)) PITInfantCare)))"

section \<open>The calculation\<close>

text \<open>All amounts rounded to cents.\<close>

definition pit_rounded :: "PITInput \<Rightarrow> PITInput" where
  "pit_rounded i = i \<lparr> pi_MonthlySalary := round2 (pi_MonthlySalary i),
     pi_AccumulatedSalary := round2 (pi_AccumulatedSalary i),
     pi_AccumulatedSpecialDeduction := round2 (pi_AccumulatedSpecialDeduction i),
     pi_AccumulatedSpecialAdditional := round2 (pi_AccumulatedSpecialAdditional i),
     pi_AccumulatedOtherDeduction := round2 (pi_AccumulatedOtherDeduction i),
     pi_AccumulatedPrepaidTax := round2 (pi_AccumulatedPrepaidTax i) \<rparr>"

definition pit_checks :: "PITInput \<Rightarrow> string option" where
  "pit_checks i =
     (if flt (pi_MonthlySalary i) (lit 0) \<or> flt (pi_AccumulatedSalary i) (lit 0) then Some ''salary must be non-negative''
      else if pi_Months i < 1 then Some ''months must be >= 1''
      else if flt (pi_AccumulatedSpecialDeduction i) (lit 0) \<or> flt (pi_AccumulatedSpecialAdditional i) (lit 0)
        \<or> flt (pi_AccumulatedOtherDeduction i) (lit 0) \<or> flt (pi_AccumulatedPrepaidTax i) (lit 0)
        then Some ''deductions and prepaid tax must be non-negative''
      else if flt (pi_AccumulatedSalary i) (pi_MonthlySalary i) then Some ''accumulated salary must be >= monthly salary''
      else None)"

text \<open>The itemised deductions stand in when no accumulated amount is given.\<close>

definition pit_additional :: "PITInput \<Rightarrow> f64" where
  "pit_additional i =
     (case pi_SpecialAdditionalItems i of
        Some items \<Rightarrow> if feq (pi_AccumulatedSpecialAdditional i) (lit 0)
          then round2 (fmul (CalcMonthlySpecialAdditional items) (of_goint (pi_Months i)))
          else pi_AccumulatedSpecialAdditional i
      | None \<Rightarrow> pi_AccumulatedSpecialAdditional i)"

text \<open>The tax on a cumulative taxable income: rate, quick deduction and tax, clamped at zero.\<close>

definition pit_tax :: "f64 \<Rightarrow> f64 \<times> f64 \<times> f64" where
  "pit_tax taxableIncome =
     (let (rate, qd) = pitBracket taxableIncome;
          t = round2 (fsub (fmul taxableIncome rate) qd)
      in (rate, qd, if flt t (lit 0) then lit 0 else t))"

definition CalcPIT :: "PITInput \<Rightarrow> string + PITOutput" where
  "CalcPIT input0 =
     (let i = pit_rounded input0 in
      case pit_checks i of Some e \<Rightarrow> Inl e
      | None \<Rightarrow>
        (let additional = pit_additional i;
             basicDeduction = round2 (fmul (of_goint (pi_Months i)) PITBasicDeductionPerMonth);
             totalDeductions = round2 (fadd (fadd (fadd basicDeduction (pi_AccumulatedSpecialDeduction i))
               additional) (pi_AccumulatedOtherDeduction i));
             income0 = round2 (fsub (pi_AccumulatedSalary i) totalDeductions);
             taxableIncome = (if flt income0 (lit 0) then lit 0 else income0);
             (rate, qd, accumulatedTax) = pit_tax taxableIncome;
             month0 = round2 (fsub accumulatedTax (pi_AccumulatedPrepaidTax i));
             currentMonthTax = (if flt month0 (lit 0) then lit 0 else month0);
             formula = ''('' @ fmt2 (pi_AccumulatedSalary i) @ '' - '' @ fmt2 basicDeduction @ '' - '' @
               fmt2 (pi_AccumulatedSpecialDeduction i) @ '' - '' @ fmt2 additional @ '' - '' @
               fmt2 (pi_AccumulatedOtherDeduction i) @ '') x '' @ fmt_f 0 (fmul rate (lit 100)) @ ''% - '' @
               fmt2 qd @ '' = '' @ fmt2 accumulatedTax
         in Inr \<lparr> po_MonthlySalary = pi_MonthlySalary i, po_AccumulatedSalary = pi_AccumulatedSalary i,
              po_Months = pi_Months i, po_BasicDeduction = basicDeduction,
              po_AccumulatedSpecialDeduction = pi_AccumulatedSpecialDeduction i,
              po_AccumulatedSpecialAdditional = additional,
              po_AccumulatedOtherDeduction = pi_AccumulatedOtherDeduction i,
              po_TotalDeductions = totalDeductions, po_AccumulatedTaxableIncome = taxableIncome,
              po_ApplicableRate = rate, po_QuickDeduction = qd, po_AccumulatedTaxPayable = accumulatedTax,
              po_AccumulatedPrepaidTax = pi_AccumulatedPrepaidTax i, po_CurrentMonthTax = currentMonthTax,
              po_Formula = formula \<rparr>))"

section \<open>The tax function in cents\<close>

definition pit_rate :: "int \<Rightarrow> rat" where
  "pit_rate k = (if k \<le> 3600000 then 3 / 100 else if k \<le> 14400000 then 10 / 100 else if k \<le> 30000000 then 20 / 100
     else if k \<le> 42000000 then 25 / 100 else if k \<le> 66000000 then 30 / 100 else if k \<le> 96000000 then 35 / 100
     else 45 / 100)"

definition pit_quick :: "int \<Rightarrow> int" where
  "pit_quick k = (if k \<le> 3600000 then 0 else if k \<le> 14400000 then 2520 else if k \<le> 30000000 then 16920
     else if k \<le> 42000000 then 31920 else if k \<le> 66000000 then 52920 else if k \<le> 96000000 then 85920
     else 181920)"

text \<open>Tax in cents by the marginal brackets of the law, without quick deductions.\<close>

definition slice :: "int \<Rightarrow> int \<Rightarrow> int \<Rightarrow> rat" where
  "slice lo hi k = of_int (max 0 (min k hi - lo))"

definition pit_marginal :: "int \<Rightarrow> rat" where
  "pit_marginal k =
     slice 0 3600000 k * (3 / 100) + slice 3600000 14400000 k * (10 / 100) + slice 14400000 30000000 k * (20 / 100) +
     slice 30000000 42000000 k * (25 / 100) + slice 42000000 66000000 k * (30 / 100) +
     slice 66000000 96000000 k * (35 / 100) + slice 96000000 k k * (45 / 100)"

lemma pit_quick_marginal: "0 \<le> k \<Longrightarrow> of_int k * pit_rate k - 100 * of_int (pit_quick k) = pit_marginal k"
  unfolding pit_rate_def pit_quick_def pit_marginal_def slice_def
  by (simp add: max_def min_def diff_divide_distrib)

lemma goint_cents: "\<bar>n\<bar> \<le> 2 ^ 53 \<Longrightarrow> is_cents (lit (of_int n)) (100 * n)"
  using is_cents_of_int [of n] by (simp add: lit_def of_goint_def)

lemma fle_goint:
  assumes x: "is_cents x k" "\<bar>k\<bar> \<le> cap" and n: "\<bar>n\<bar> \<le> 2 ^ 40"
  shows "fle x (lit (of_int n)) \<longleftrightarrow> k \<le> 100 * n"
proof -
  have l: "is_cents (lit (of_int n)) (100 * n)" using n by (intro goint_cents) simp
  have "\<bar>100 * n\<bar> \<le> 2 * cap" using n by (simp add: cap_def abs_mult)
  with cents_less(2) [OF x(1) l _ this] x(2) is_cents_fin [OF x(1)] is_cents_fin [OF l] show ?thesis by simp
qed

lemma pitBracket_cents:
  assumes "is_cents x k" "\<bar>k\<bar> \<le> cap"
  shows "pitBracket x = (lit (pit_rate k), lit (of_int (pit_quick k)))"
  using fle_goint [OF assms, of 36000] fle_goint [OF assms, of 144000] fle_goint [OF assms, of 300000]
    fle_goint [OF assms, of 420000] fle_goint [OF assms, of 660000] fle_goint [OF assms, of 960000]
  unfolding pitBracket_def pit_rate_def pit_quick_def by simp

text \<open>One bracket of the code: the unrounded tax at rate \<open>q\<close> and quick deduction \<open>n\<close>.\<close>

definition bracket_tax :: "rat \<Rightarrow> int \<Rightarrow> f64 \<Rightarrow> f64" where
  "bracket_tax q n x = fsub (fmul x (lit q)) (lit (of_int n))"

lemma bracket_tax_value:
  assumes x: "is_cents x k" "\<bar>k\<bar> \<le> money_cap" and q: "0 \<le> q" "q \<le> 1" and n: "0 \<le> n" "n \<le> 200000"
  shows "is_fin (bracket_tax q n x)" "\<bar>of_int (to_cents (bracket_tax q n x)) - (of_int k * q - 100 * of_int n)\<bar> < 1"
    "\<bar>val (bracket_tax q n x)\<bar> \<le> 2 ^ 40"
proof -
  note v = rate_value [OF x q]
  have l: "is_fin (lit (of_int n))" "val (lit (of_int n)) = of_int n" using n by (simp_all add: lit_fin)
  have nb: "0 \<le> (of_int n :: rat)" "of_int n \<le> (200000 :: rat)"
    using n of_int_le_iff [of n 200000, where ?'a = rat] by simp_all
  have "\<bar>val (fmul x (lit q))\<bar> \<le> 549755813888" using v(3) by simp
  with nb have "\<bar>val (fmul x (lit q)) - of_int n\<bar> \<le> 600000000000" by linarith
  then have b: "\<bar>val (fmul x (lit q)) - of_int n\<bar> \<le> 2 powi 40" by simp
  have f: "is_fin (bracket_tax q n x)" "val (bracket_tax q n x) = rnd (val (fmul x (lit q)) - of_int n)"
    unfolding bracket_tax_def using fsub_fin [OF v(1) l(1)] l(2) b by simp_all
  show "is_fin (bracket_tax q n x)" by (rule f)
  show vb: "\<bar>val (bracket_tax q n x)\<bar> \<le> 2 ^ 40" using rnd_bound [OF b] unfolding f by simp
  have "\<bar>rnd (val (fmul x (lit q)) - of_int n) - (val (fmul x (lit q)) - of_int n)\<bar> \<le> 2 powi 40 / 2 ^ 53"
    using b by (rule rnd_err_1) simp
  then have "\<bar>val (bracket_tax q n x) - (val (fmul x (lit q)) - of_int n)\<bar> \<le> 1 / 8192" unfolding f by simp
  with v(2) have "\<bar>val (bracket_tax q n x) * 100 - (of_int k * q - 100 * of_int n)\<bar> \<le> 1 / 4" by linarith
  with to_cents_err [OF vb]
  show "\<bar>of_int (to_cents (bracket_tax q n x)) - (of_int k * q - 100 * of_int n)\<bar> < 1" by linarith
qed

lemma bracket_tax_mono:
  assumes x: "is_cents x k" "\<bar>k\<bar> \<le> money_cap" and y: "is_cents y l" "\<bar>l\<bar> \<le> money_cap"
    and "k \<le> l" and q: "0 \<le> q" "q \<le> 1" and n: "0 \<le> n" "n \<le> 200000"
  shows "to_cents (bracket_tax q n x) \<le> to_cents (bracket_tax q n y)"
proof -
  have b: "\<bar>v\<bar> \<le> 2 ^ 100" if "\<bar>v\<bar> \<le> 2 ^ 44" for v :: rat using that by simp
  have l: "is_fin (lit (of_int n))" "\<bar>val (lit (of_int n))\<bar> \<le> 2 ^ 100" 
    using n of_int_le_iff [of n 200000, where ?'a = rat] by (simp_all add: lit_fin)
  have vb: "\<bar>val x\<bar> \<le> 2 ^ 44" "\<bar>val y\<bar> \<le> 2 ^ 44"
    using cents_val_bound [OF x(1) money_cap_le(1) [OF x(2)]] cents_val_bound [OF y(1) money_cap_le(1) [OF y(2)]] by simp_all
  note r = lit_rate [OF q]
  have "val (fmul x (lit q)) \<le> val (fmul y (lit q))"
    using is_cents_fin [OF x(1)] is_cents_fin [OF y(1)] is_cents_mono [OF x(1) y(1) \<open>k \<le> l\<close>] vb r
    by (intro fmul_rate_mono) auto
  moreover have "\<bar>val (fmul x (lit q))\<bar> \<le> 2 ^ 44" "\<bar>val (fmul y (lit q))\<bar> \<le> 2 ^ 44"
    using rate_value(3) [OF x q] rate_value(3) [OF y q] by simp_all
  ultimately show ?thesis
    unfolding bracket_tax_def using rate_value(1) [OF x q] rate_value(1) [OF y q] l b
    by (intro to_cents_mono fsub_mono) auto
qed

lemma pit_rate_bounds: "0 \<le> pit_rate k" "pit_rate k \<le> 1" "0 \<le> pit_quick k" "pit_quick k \<le> 200000"
  by (simp_all add: pit_rate_def pit_quick_def)

lemma pit_marginal_nonneg: "0 \<le> k \<Longrightarrow> 0 \<le> pit_marginal k"
  by (simp add: pit_marginal_def slice_def)

text \<open>The tax of the code in cents.\<close>

definition pit_cents :: "f64 \<Rightarrow> int \<Rightarrow> int" where
  "pit_cents x k = max 0 (to_cents (bracket_tax (pit_rate k) (pit_quick k) x))"

lemma pit_marginal_le: "0 \<le> k \<Longrightarrow> pit_marginal k \<le> of_int k * (45 / 100)"
  unfolding pit_quick_marginal [symmetric] pit_rate_def pit_quick_def by simp

lemma pit_tax_cents:
  assumes x: "is_cents x k" and k: "0 \<le> k" "k \<le> money_cap"
  shows "pit_tax x = (lit (pit_rate k), lit (of_int (pit_quick k)), snd (snd (pit_tax x)))"
    "is_cents (snd (snd (pit_tax x))) (pit_cents x k)"
    "\<bar>of_int (pit_cents x k) - pit_marginal k\<bar> < 1" "0 \<le> pit_cents x k" "pit_cents x k \<le> k"
proof -
  have k': "\<bar>k\<bar> \<le> money_cap" using k by simp
  have kc: "\<bar>k\<bar> \<le> cap" by (rule money_cap_le(1) [OF k'])
  let ?b = "bracket_tax (pit_rate k) (pit_quick k) x"
  note v = bracket_tax_value [OF x k' pit_rate_bounds, of k k]
  have t: "snd (snd (pit_tax x)) = (if flt (round2 ?b) (lit 0) then lit 0 else round2 ?b)"
    "pit_tax x = (lit (pit_rate k), lit (of_int (pit_quick k)), snd (snd (pit_tax x)))"
    by (simp_all add: pit_tax_def pitBracket_cents [OF x kc] bracket_tax_def Let_def)
  show "pit_tax x = (lit (pit_rate k), lit (of_int (pit_quick k)), snd (snd (pit_tax x)))" by (rule t)
  have e: "\<bar>of_int (to_cents ?b) - pit_marginal k\<bar> < 1"
    using v(2) unfolding pit_quick_marginal [OF k(1)] .
  have nn: "0 \<le> pit_marginal k" by (rule pit_marginal_nonneg [OF k(1)])
  show "0 \<le> pit_cents x k" by (simp add: pit_cents_def)
  show c: "\<bar>of_int (pit_cents x k) - pit_marginal k\<bar> < 1"
    using e nn by (auto simp: pit_cents_def max_def abs_if split: if_splits)
  have "of_int (pit_cents x k) < of_int k * (45 / 100) + (1 :: rat)"
    using c pit_marginal_le [OF k(1)] by linarith
  moreover have "k = 0 \<or> 1 \<le> (of_int k :: rat)" using k(1) by auto
  ultimately have "of_int (pit_cents x k) < (of_int (k + 1) :: rat)" by auto
  then show pk: "pit_cents x k \<le> k" by (simp only: of_int_less_iff)
  have "to_cents ?b \<le> k" using pk by (simp add: pit_cents_def)
  moreover have "- 1 \<le> to_cents ?b"
  proof -
    have "- 1 < (of_int (to_cents ?b) :: rat)" using e nn by linarith
    then have "of_int (- 1) < (of_int (to_cents ?b) :: rat)" by simp
    then show ?thesis by (simp only: of_int_less_iff)
  qed
  ultimately have tb: "\<bar>to_cents ?b\<bar> \<le> 2 * cap" using k by (simp add: cap_def money_cap_def)
  have "is_cents (round2 ?b) (to_cents ?b)"
    unfolding round2_roundMoney using v(1,3) by (intro roundMoney_to_cents) auto
  from clamp_cents [OF this tb] show "is_cents (snd (snd (pit_tax x))) (pit_cents x k)"
    unfolding t(1) pit_cents_def .
qed

text \<open>The brackets meet: at each boundary both formulas give the same cents.\<close>

lemma brackets_meet:
  "to_cents (bracket_tax (3 / 100) 0 (lit 36000)) = 108000"
  "to_cents (bracket_tax (10 / 100) 2520 (lit 36000)) = 108000"
  "to_cents (bracket_tax (10 / 100) 2520 (lit 144000)) = 1188000"
  "to_cents (bracket_tax (20 / 100) 16920 (lit 144000)) = 1188000"
  "to_cents (bracket_tax (20 / 100) 16920 (lit 300000)) = 4308000"
  "to_cents (bracket_tax (25 / 100) 31920 (lit 300000)) = 4308000"
  "to_cents (bracket_tax (25 / 100) 31920 (lit 420000)) = 7308000"
  "to_cents (bracket_tax (30 / 100) 52920 (lit 420000)) = 7308000"
  "to_cents (bracket_tax (30 / 100) 52920 (lit 660000)) = 14508000"
  "to_cents (bracket_tax (35 / 100) 85920 (lit 660000)) = 14508000"
  "to_cents (bracket_tax (35 / 100) 85920 (lit 960000)) = 25008000"
  "to_cents (bracket_tax (45 / 100) 181920 (lit 960000)) = 25008000"
  by (simp_all add: bracket_tax_def to_cents_def float_eval)

lemma bracket_below:
  assumes x: "is_cents x k" "\<bar>k\<bar> \<le> money_cap" and w: "0 \<le> w" "w \<le> 1000000"
    and q: "0 \<le> q" "q \<le> 1" "0 \<le> n" "n \<le> 200000"
  shows "k \<le> 100 * w \<Longrightarrow> to_cents (bracket_tax q n x) \<le> to_cents (bracket_tax q n (lit (of_int w)))"
    "100 * w \<le> k \<Longrightarrow> to_cents (bracket_tax q n (lit (of_int w))) \<le> to_cents (bracket_tax q n x)"
proof -
  have l: "is_cents (lit (of_int w)) (100 * w)" "\<bar>100 * w\<bar> \<le> money_cap"
    using w by (auto intro!: goint_cents simp: money_cap_def)
  show "k \<le> 100 * w \<Longrightarrow> to_cents (bracket_tax q n x) \<le> to_cents (bracket_tax q n (lit (of_int w)))"
    "100 * w \<le> k \<Longrightarrow> to_cents (bracket_tax q n (lit (of_int w))) \<le> to_cents (bracket_tax q n x)"
    using bracket_tax_mono [OF x l] bracket_tax_mono [OF l x] q by blast+
qed

text \<open>The bracket of an income, numbered.\<close>

definition bracket_no :: "int \<Rightarrow> nat" where
  "bracket_no k = (if k \<le> 3600000 then 0 else if k \<le> 14400000 then 1 else if k \<le> 30000000 then 2
     else if k \<le> 42000000 then 3 else if k \<le> 66000000 then 4 else if k \<le> 96000000 then 5 else 6)"

text \<open>The tax at the upper end of a bracket, in cents.\<close>

definition bracket_top :: "nat \<Rightarrow> int" where
  "bracket_top j = [108000, 1188000, 4308000, 7308000, 14508000, 25008000] ! j"

lemma bracket_top_mono: "i \<le> j \<Longrightarrow> j < 6 \<Longrightarrow> bracket_top i \<le> bracket_top j"
  by (auto simp: bracket_top_def less_Suc_eq numeral_eq_Suc le_Suc_eq)

definition code_tax :: "f64 \<Rightarrow> int \<Rightarrow> int" where
  "code_tax x k = to_cents (bracket_tax (pit_rate k) (pit_quick k) x)"

lemma code_tax_range:
  assumes x: "is_cents x k" "\<bar>k\<bar> \<le> money_cap"
  shows "bracket_no k < 6 \<Longrightarrow> code_tax x k \<le> bracket_top (bracket_no k)"
    "0 < bracket_no k \<Longrightarrow> bracket_top (bracket_no k - 1) \<le> code_tax x k"
proof -
  note up = bracket_below(1) [OF x] and down = bracket_below(2) [OF x]
  note m = brackets_meet
  show "bracket_no k < 6 \<Longrightarrow> code_tax x k \<le> bracket_top (bracket_no k)"
    using up [of 36000 "3 / 100" 0] up [of 144000 "10 / 100" 2520] up [of 300000 "20 / 100" 16920]
      up [of 420000 "25 / 100" 31920] up [of 660000 "30 / 100" 52920] up [of 960000 "35 / 100" 85920] m
    unfolding code_tax_def bracket_no_def pit_rate_def pit_quick_def bracket_top_def
    by (simp split: if_splits)
  show "0 < bracket_no k \<Longrightarrow> bracket_top (bracket_no k - 1) \<le> code_tax x k"
    using down [of 36000 "10 / 100" 2520] down [of 144000 "20 / 100" 16920] down [of 300000 "25 / 100" 31920]
      down [of 420000 "30 / 100" 52920] down [of 660000 "35 / 100" 85920] down [of 960000 "45 / 100" 181920] m
    unfolding code_tax_def bracket_no_def pit_rate_def pit_quick_def bracket_top_def
    by (simp split: if_splits)
qed

lemma same_bracket: "bracket_no k = bracket_no l \<Longrightarrow> pit_rate k = pit_rate l \<and> pit_quick k = pit_quick l"
  by (simp add: bracket_no_def pit_rate_def pit_quick_def split: if_splits)

lemma bracket_no_mono: "k \<le> l \<Longrightarrow> bracket_no k \<le> bracket_no l" "bracket_no k \<le> 6"
  by (auto simp: bracket_no_def)

lemma code_tax_mono:
  assumes x: "is_cents x k" "\<bar>k\<bar> \<le> money_cap" and y: "is_cents y l" "\<bar>l\<bar> \<le> money_cap" and le: "k \<le> l"
  shows "code_tax x k \<le> code_tax y l"
proof (cases "bracket_no k = bracket_no l")
  case True
  then show ?thesis
    using bracket_tax_mono [OF x y le pit_rate_bounds, of l l] same_bracket [OF True] by (simp add: code_tax_def)
next
  case False
  with bracket_no_mono(1) [OF le] have lt: "bracket_no k < bracket_no l" "bracket_no l \<le> 6"
    using bracket_no_mono(2) by auto
  then have "code_tax x k \<le> bracket_top (bracket_no k)" by (intro code_tax_range [OF x]) simp
  also have "\<dots> \<le> bracket_top (bracket_no l - 1)" using lt by (intro bracket_top_mono) auto
  also have "\<dots> \<le> code_tax y l" using lt by (intro code_tax_range [OF y]) simp
  finally show ?thesis .
qed

text \<open>The cumulative tax never decreases when the taxable income grows, compared in whole cents and
  across all seven brackets: the quick deductions of the code make neighbouring brackets meet, in
  floating point as well.\<close>

theorem pit_tax_mono:
  assumes "is_cents x k" "is_cents y l" "0 \<le> k" "k \<le> l" "l \<le> money_cap"
  shows "fle (snd (snd (pit_tax x))) (snd (snd (pit_tax y)))"
proof -
  note tx = pit_tax_cents [OF assms(1,3)] and ty = pit_tax_cents [OF assms(2)]
  have "code_tax x k \<le> code_tax y l" using assms by (intro code_tax_mono) auto
  then have "pit_cents x k \<le> pit_cents y l" by (auto simp: pit_cents_def code_tax_def)
  then have "val (snd (snd (pit_tax x))) \<le> val (snd (snd (pit_tax y)))"
    using tx ty assms by (intro is_cents_mono [of _ "pit_cents x k" _ "pit_cents y l"]) auto
  then show ?thesis using tx(2) ty(2) assms is_cents_fin by simp
qed

theorem pit_tax_mono_witness:
  "fle (snd (snd (pit_tax (lit 36000)))) (snd (snd (pit_tax (lit (3600001 / 100)))))"
proof (rule pit_tax_mono)
  show "is_cents (lit 36000) 3600000" "is_cents (lit (3600001 / 100)) 3600001"
    by (simp_all add: is_cents_def float_eval)
qed (simp_all add: money_cap_def)

text \<open>When no itemised deductions stand in for a zero amount.\<close>

definition pit_plain :: "PITInput \<Rightarrow> bool" where
  "pit_plain i \<longleftrightarrow> pi_SpecialAdditionalItems i = None \<or> to_cents (pi_AccumulatedSpecialAdditional i) \<noteq> 0"

definition pit_valid :: "PITInput \<Rightarrow> bool" where
  "pit_valid i \<longleftrightarrow>
     list_all (\<lambda>x. is_fin x \<and> \<bar>val x\<bar> \<le> 2 ^ 30 \<and> 0 \<le> to_cents x)
       [pi_MonthlySalary i, pi_AccumulatedSalary i, pi_AccumulatedSpecialDeduction i,
        pi_AccumulatedSpecialAdditional i, pi_AccumulatedOtherDeduction i, pi_AccumulatedPrepaidTax i] \<and>
     1 \<le> pi_Months i \<and> pi_Months i \<le> 1000 \<and> to_cents (pi_MonthlySalary i) \<le> to_cents (pi_AccumulatedSalary i)"

lemma small_cents:
  assumes "is_fin x" "\<bar>val x\<bar> \<le> 2 ^ 30"
  shows "money_ok x" "\<bar>to_cents x\<bar> \<le> 2 ^ 37"
proof -
  show "money_ok x" using assms by (simp add: money_ok_def)
  have "\<bar>val x * 100\<bar> \<le> 2 powi 37" using assms by (simp add: abs_mult)
  then have r: "\<bar>rnd (val x * 100)\<bar> \<le> 2 ^ 37" using rnd_bound [of _ 37] by simp
  have "round_away (rnd (val x * 100)) \<le> round_away (of_int (2 ^ 37))"
    "round_away (of_int (- (2 ^ 37))) \<le> round_away (rnd (val x * 100))"
    using r by (auto intro!: round_away_mono simp: abs_le_iff)
  then show "\<bar>to_cents x\<bar> \<le> 2 ^ 37" unfolding to_cents_def round_away_of_int by linarith
qed

lemma basic_deduction_cents:
  assumes "1 \<le> n" "n \<le> 1000"
  shows "is_cents (round2 (fmul (of_goint n) PITBasicDeductionPerMonth)) (500000 * n)"
proof -
  have v: "is_fin PITBasicDeductionPerMonth" "val PITBasicDeductionPerMonth = 5000"
    by (simp_all add: PITBasicDeductionPerMonth_def lit_fin)
  have f: "is_fin (of_goint n)" "val (of_goint n) = of_int n" using assms by (simp_all add: of_goint_fin)
  have "(of_int n :: rat) \<le> of_int 1000" using assms unfolding of_int_le_iff by simp
  then have b: "\<bar>val (of_goint n) * val PITBasicDeductionPerMonth\<bar> \<le> 2 ^ 200"
    using assms unfolding f v by (simp add: abs_mult)
  have "rnd (of_int (n * 5000)) = of_int (n * 5000)" using assms by (intro rnd_of_int) auto
  then have "val (fmul (of_goint n) PITBasicDeductionPerMonth) = of_int (5000 * n)"
    unfolding fmul_fin(2) [OF f(1) v(1) b] f v by (simp add: mult.commute)
  then show ?thesis unfolding round2_roundMoney
    using fmul_fin(1) [OF f(1) v(1) b] assms by (intro roundMoney_close) (auto simp: cap_def)
qed

lemma pit_checks_ok:
  assumes "pit_valid i" shows "pit_checks (pit_rounded i) = None"
proof -
  have nn: "\<not> flt (round2 x) (Fin 0)" if "is_fin x \<and> \<bar>val x\<bar> \<le> 2 ^ 30 \<and> 0 \<le> to_cents x" for x
    using that not_negative small_cents by auto
  have le: "\<not> flt (round2 (pi_AccumulatedSalary i)) (round2 (pi_MonthlySalary i))"
  proof -
    have m: "money_ok (pi_AccumulatedSalary i)" "money_ok (pi_MonthlySalary i)"
      using assms small_cents by (auto simp: pit_valid_def)
    note c = round2_money [OF m(1)] round2_money [OF m(2)]
    note b = money_cap_le(2) [OF money_ok_cents(2) [OF m(1)]] money_cap_le(2) [OF money_ok_cents(2) [OF m(2)]]
    show ?thesis unfolding flt_fin [OF c [THEN is_cents_fin]] cents_less(1) [OF c b]
      using assms by (simp add: pit_valid_def)
  qed
  show ?thesis
    using assms nn le by (simp add: pit_checks_def pit_rounded_def pit_valid_def)
qed

text \<open>C32: monthly withholding.  For valid inputs (nonnegative amounts of at most \<open>2 ^ 30\<close> yuan, 1 to 1000
  months, accumulated at least monthly salary) without itemised deductions the calculation succeeds; the
  taxable income is exactly the accumulated salary minus 5,000 yuan per month and the three deductions, in
  cents, zero when negative; the accumulated tax is within a cent of the marginal tax of the law on it;
  and the tax of the month is exactly the accumulated tax minus the prepaid tax, zero when negative.\<close>

theorem CalcPIT_spec:
  assumes "pit_valid i" "pit_plain i"
  defines "k \<equiv> max 0 (to_cents (pi_AccumulatedSalary i) - (500000 * pi_Months i +
      to_cents (pi_AccumulatedSpecialDeduction i) + to_cents (pi_AccumulatedSpecialAdditional i) +
      to_cents (pi_AccumulatedOtherDeduction i)))"
  shows "\<exists>out t. CalcPIT i = Inr out \<and> is_cents (po_AccumulatedTaxableIncome out) k \<and>
     is_cents (po_AccumulatedTaxPayable out) t \<and> 0 \<le> t \<and> \<bar>of_int t - pit_marginal k\<bar> < 1 \<and>
     is_cents (po_CurrentMonthTax out) (max 0 (t - to_cents (pi_AccumulatedPrepaidTax i)))"
proof -
  let ?r = "pit_rounded i" and ?n = "pi_Months i"
  let ?s = "to_cents (pi_AccumulatedSalary i)" and ?a = "to_cents (pi_AccumulatedSpecialDeduction i)"
    and ?b = "to_cents (pi_AccumulatedSpecialAdditional i)" and ?c = "to_cents (pi_AccumulatedOtherDeduction i)"
    and ?p = "to_cents (pi_AccumulatedPrepaidTax i)"
  have n: "1 \<le> ?n" "?n \<le> 1000" using assms(1) by (auto simp: pit_valid_def)
  have nn: "0 \<le> ?s" "0 \<le> ?a" "0 \<le> ?b" "0 \<le> ?c" "0 \<le> ?p"
    using assms(1) by (auto simp: pit_valid_def)
  have bd: "?s \<le> 2 ^ 37" "?a \<le> 2 ^ 37" "?b \<le> 2 ^ 37" "?c \<le> 2 ^ 37" "?p \<le> 2 ^ 37"
    using assms(1) small_cents(2) by (fastforce simp: pit_valid_def)+
  have ok: "money_ok (pi_AccumulatedSalary i)" "money_ok (pi_AccumulatedSpecialDeduction i)"
    "money_ok (pi_AccumulatedSpecialAdditional i)" "money_ok (pi_AccumulatedOtherDeduction i)"
    "money_ok (pi_AccumulatedPrepaidTax i)"
    using assms(1) small_cents(1) by (auto simp: pit_valid_def)
  note c = ok [THEN round2_money]
  have add: "pit_additional ?r = round2 (pi_AccumulatedSpecialAdditional i)"
  proof (cases "pi_SpecialAdditionalItems i")
    case (Some items)
    then have "?b \<noteq> 0" using assms(2) by (simp add: pit_plain_def)
    with is_cents_val_zero [OF c(3)] nn bd have "\<not> feq (round2 (pi_AccumulatedSpecialAdditional i)) (lit 0)"
      using is_cents_fin [OF c(3)] by (simp add: cap_def)
    with Some show ?thesis by (simp add: pit_additional_def pit_rounded_def)
  qed (simp add: pit_additional_def pit_rounded_def)
  define basic where "basic = round2 (fmul (of_goint ?n) PITBasicDeductionPerMonth)"
  have basic: "is_cents basic (500000 * ?n)" unfolding basic_def by (rule basic_deduction_cents [OF n])
  define total where "total = round2 (fadd (fadd (fadd basic (pi_AccumulatedSpecialDeduction ?r)) (pit_additional ?r))
    (pi_AccumulatedOtherDeduction ?r))"
  have "near 7 (fadd (fadd (fadd basic (pi_AccumulatedSpecialDeduction ?r)) (pit_additional ?r))
    (pi_AccumulatedOtherDeduction ?r)) (500000 * ?n + ?a + ?b + ?c)"
    unfolding add using basic c nn bd n by (intro short_sum4) (auto simp: pit_rounded_def short_cap_def)
  then have total: "is_cents total (500000 * ?n + ?a + ?b + ?c)"
    unfolding total_def round2_roundMoney using nn bd n by (elim roundMoney_near) (auto simp: cap_def)
  define I0 where "I0 = round2 (fsub (pi_AccumulatedSalary ?r) total)"
  define I where "I = (if flt I0 (lit 0) then lit 0 else I0)"
  have "is_cents I0 (?s - (500000 * ?n + ?a + ?b + ?c))" unfolding I0_def round2_roundMoney
    using c(1) total nn bd n by (intro roundMoney_sub) (auto simp: pit_rounded_def cap_def round2_roundMoney)
  then have I: "is_cents I k" unfolding I_def k_def using nn bd n by (intro clamp_cents) (auto simp: cap_def)
  have k: "0 \<le> k" "k \<le> money_cap" using nn bd n by (auto simp: k_def money_cap_def)
  note t = pit_tax_cents [OF I k]
  define m0 where "m0 = round2 (fsub (snd (snd (pit_tax I))) (pi_AccumulatedPrepaidTax ?r))"
  have "is_cents m0 (pit_cents I k - ?p)" unfolding m0_def round2_roundMoney
    using t(2,4,5) c(5) nn bd k
    by (intro roundMoney_sub) (auto simp: pit_rounded_def cap_def money_cap_def round2_roundMoney)
  then have m: "is_cents (if flt m0 (lit 0) then lit 0 else m0) (max 0 (pit_cents I k - ?p))"
    using t(4,5) nn bd k by (intro clamp_cents) (auto simp: cap_def money_cap_def)
  obtain out where "CalcPIT i = Inr out" "po_AccumulatedTaxableIncome out = I"
    "po_AccumulatedTaxPayable out = snd (snd (pit_tax I))" "po_CurrentMonthTax out = (if flt m0 (lit 0) then lit 0 else m0)"
    unfolding CalcPIT_def Let_def pit_checks_ok [OF assms(1)] m0_def I_def I0_def total_def basic_def
    by (simp add: case_prod_beta pit_rounded_def del: lit_zero)
  with I t m show ?thesis by (intro exI [of _ out] exI [of _ "pit_cents I k"]) simp
qed

definition pit_example :: PITInput where
  "pit_example = \<lparr> pi_MonthlySalary = lit 20000, pi_AccumulatedSalary = lit 60000, pi_Months = 3,
     pi_AccumulatedSpecialDeduction = lit 6000, pi_AccumulatedSpecialAdditional = lit 3000,
     pi_AccumulatedOtherDeduction = lit 0, pi_AccumulatedPrepaidTax = lit 700,
     pi_SpecialAdditionalItems = None \<rparr>"

theorem CalcPIT_spec_witness:
  "\<exists>out t. CalcPIT pit_example = Inr out \<and> is_cents (po_AccumulatedTaxableIncome out) 3600000 \<and>
     t = 108000 \<and> is_cents (po_AccumulatedTaxPayable out) t \<and> is_cents (po_CurrentMonthTax out) 38000"
proof -
  have ok: "pit_valid pit_example" "pit_plain pit_example"
    "to_cents (pi_AccumulatedSalary pit_example) = 6000000" "pi_Months pit_example = 3"
    "to_cents (pi_AccumulatedSpecialDeduction pit_example) = 600000"
    "to_cents (pi_AccumulatedSpecialAdditional pit_example) = 300000"
    "to_cents (pi_AccumulatedOtherDeduction pit_example) = 0" "to_cents (pi_AccumulatedPrepaidTax pit_example) = 70000"
    by (simp_all add: pit_example_def pit_valid_def pit_plain_def to_cents_def float_eval)
  from CalcPIT_spec [OF ok(1,2)] obtain out t where o: "CalcPIT pit_example = Inr out"
    "is_cents (po_AccumulatedTaxableIncome out) 3600000" "is_cents (po_AccumulatedTaxPayable out) t"
    "\<bar>of_int t - (of_int 108000 :: rat)\<bar> < 1" "is_cents (po_CurrentMonthTax out) (max 0 (t - 70000))"
    unfolding ok(3-8) by (auto simp: pit_marginal_def slice_def)
  from within_one [OF o(4)] o show ?thesis by auto
qed

end
