(* ===== verification/Engine_Consistency.thy ===== *)
theory Engine_Consistency
  imports Engine_Tax
begin

text \<open>
  The cross-source consistency checks (internal/engine/consistency.go).
\<close>

record ConsistencyResult =
  cr_CheckType :: string
  cr_CheckName :: string
  cr_SourceValue :: f64
  cr_TargetValue :: f64
  cr_Difference :: f64
  cr_Tolerance :: f64
  cr_Passed :: bool
  cr_Detail :: string

definition CheckInvoiceToVAT :: "f64 \<Rightarrow> f64 \<Rightarrow> f64 \<Rightarrow> f64 \<Rightarrow> ConsistencyResult" where
  "CheckInvoiceToVAT invoiceOutputTax invoiceInputTax vatOutputTax vatInputTax =
     (let diffOutput = round2 (fsub invoiceOutputTax vatOutputTax);
          diffInput = round2 (fsub invoiceInputTax vatInputTax);
          tolerance0 = round2 (fmul (math_Max vatOutputTax vatInputTax) (lit (1 / 100)));
          tolerance = (if flt tolerance0 (lit 1) then lit 1 else tolerance0);
          totalDiff = round2 (fadd (math_Abs diffOutput) (math_Abs diffInput))
      in \<lparr> cr_CheckType = ''invoice_to_vat'', cr_CheckName = (zh [0x53D1, 0x7968, 0x7A0E, 0x989D, 0x4E0E] @ ''VAT'' @ zh [0x7533, 0x62A5, 0x4E00, 0x81F4, 0x6027]),
           cr_SourceValue = invoiceOutputTax, cr_TargetValue = vatOutputTax, cr_Difference = totalDiff,
           cr_Tolerance = tolerance, cr_Passed = fle totalDiff tolerance,
           cr_Detail = (zh [0x53D1, 0x7968, 0x9500, 0x9879] @ '' '') @ fmt2 invoiceOutputTax @ ('' vs VAT'' @ zh [0x9500, 0x9879] @ '' '') @ fmt2 vatOutputTax @ ('' ('' @ zh [0x5DEE]) @
             fmt2 diffOutput @ (''), '' @ zh [0x53D1, 0x7968, 0x8FDB, 0x9879] @ '' '') @ fmt2 invoiceInputTax @ ('' vs VAT'' @ zh [0x8FDB, 0x9879] @ '' '') @ fmt2 vatInputTax @
             ('' ('' @ zh [0x5DEE]) @ fmt2 diffInput @ '')'' \<rparr>)"

definition CheckInvoiceToJournal :: "int \<Rightarrow> int \<Rightarrow> f64 \<Rightarrow> f64 \<Rightarrow> ConsistencyResult" where
  "CheckInvoiceToJournal approvedCount journalCount approvedAmount journalAmount =
     (let countDiff = approvedCount - journalCount;
          amountDiff = round2 (fsub approvedAmount journalAmount);
          passed = (countDiff = 0 \<and> flt (math_Abs amountDiff) (lit (2 / 100)));
          detail = (if passed then (zh [0x53D1, 0x7968, 0x4E0E, 0x51ED, 0x8BC1, 0x5B8C, 0x5168, 0x5339, 0x914D])
            else (zh [0x5DF2, 0x5BA1, 0x6279, 0x53D1, 0x7968] @ '' '') @ int_str approvedCount @ ('' '' @ zh [0x5F20] @ '' ('') @ fmt2 approvedAmount @ ('')'' @ zh [0xFF0C, 0x5BF9, 0x5E94, 0x51ED, 0x8BC1] @ '' '') @
              int_str journalCount @ ('' '' @ zh [0x5F20] @ '' ('') @ fmt2 journalAmount @ '')'')
      in \<lparr> cr_CheckType = ''invoice_to_journal'', cr_CheckName = (zh [0x53D1, 0x7968, 0x4E0E, 0x51ED, 0x8BC1, 0x4E00, 0x81F4, 0x6027]),
           cr_SourceValue = of_goint approvedCount, cr_TargetValue = of_goint journalCount,
           cr_Difference = amountDiff, cr_Tolerance = lit (2 / 100), cr_Passed = passed, cr_Detail = detail \<rparr>)"

definition CheckVATToCITRevenue :: "f64 \<Rightarrow> f64 \<Rightarrow> ConsistencyResult" where
  "CheckVATToCITRevenue vatRevenue citRevenue =
     (let diff = round2 (fsub vatRevenue citRevenue);
          tolerance0 = round2 (fmul (math_Max (math_Abs vatRevenue) (math_Abs citRevenue)) (lit (5 / 100)));
          tolerance = (if flt tolerance0 (lit 1) then lit 1 else tolerance0)
      in \<lparr> cr_CheckType = ''vat_to_cit_revenue'', cr_CheckName = (zh [0x589E, 0x503C, 0x7A0E, 0x4E0E, 0x6240, 0x5F97, 0x7A0E, 0x6536, 0x5165, 0x4E00, 0x81F4, 0x6027]),
           cr_SourceValue = vatRevenue, cr_TargetValue = citRevenue, cr_Difference = diff,
           cr_Tolerance = tolerance, cr_Passed = fle (math_Abs diff) tolerance,
           cr_Detail = (zh [0x589E, 0x503C, 0x7A0E, 0x6536, 0x5165] @ '' '') @ fmt2 vatRevenue @ (zh [0xFF0C, 0x6240, 0x5F97, 0x7A0E, 0x6536, 0x5165] @ '' '') @ fmt2 citRevenue @ (zh [0xFF0C, 0x5DEE, 0x5F02] @ '' '') @ fmt2 diff @
             ('' ('' @ zh [0x5BB9, 0x5FCD, 0x5EA6] @ '' '') @ fmt2 tolerance @ '')'' \<rparr>)"

definition CheckJournalToBank :: "f64 \<Rightarrow> f64 \<Rightarrow> ConsistencyResult" where
  "CheckJournalToBank journalAmount bankAmount =
     (let diff = round2 (fsub journalAmount bankAmount);
          tolerance0 = round2 (fmul (math_Max (math_Abs journalAmount) (math_Abs bankAmount)) (lit (1 / 100)));
          tolerance = (if flt tolerance0 (lit (2 / 100)) then lit (2 / 100) else tolerance0)
      in \<lparr> cr_CheckType = ''journal_to_bank'', cr_CheckName = (zh [0x51ED, 0x8BC1, 0x4E0E, 0x94F6, 0x884C, 0x5BF9, 0x8D26, 0x4E00, 0x81F4, 0x6027]),
           cr_SourceValue = journalAmount, cr_TargetValue = bankAmount, cr_Difference = diff,
           cr_Tolerance = tolerance, cr_Passed = fle (math_Abs diff) tolerance,
           cr_Detail = (zh [0x51ED, 0x8BC1, 0x94F6, 0x884C, 0x79D1, 0x76EE, 0x5408, 0x8BA1] @ '' '') @ fmt2 journalAmount @ (zh [0xFF0C, 0x94F6, 0x884C, 0x4EA4, 0x6613, 0x5408, 0x8BA1] @ '' '') @ fmt2 bankAmount @ (zh [0xFF0C, 0x5DEE, 0x5F02] @ '' '') @
             fmt2 diff \<rparr>)"

section \<open>What the checks decide\<close>

lemma two_cents: "is_cents (lit (2 / 100)) 2"
  by (simp add: is_cents_def lit_fin)

lemma math_Abs_cents: "is_cents x k \<Longrightarrow> is_cents (math_Abs x) \<bar>k\<bar>"
  by (auto simp: is_cents_def rnd_abs)

lemma math_Max_cents:
  "is_cents x a \<Longrightarrow> is_cents y b \<Longrightarrow> is_cents (math_Max x y) (max a b)"
  using is_cents_mono [of x a y b] is_cents_mono [of y b x a]
  by (auto simp: is_cents_def max_def intro: order_antisym)

lemma max_tolerance_cents:
  assumes "is_cents x a" "is_cents y b" "\<bar>a\<bar> \<le> cap" "\<bar>b\<bar> \<le> cap"
  shows "is_cents (if flt x y then y else x) (max a b)"
proof -
  have "flt x y \<longleftrightarrow> a < b" using cents_less(1) [OF assms(1,2)] assms is_cents_fin by simp
  then show ?thesis using assms by (cases "a = b") (auto simp: max_def)
qed

text \<open>Reconciliation of the ledger with the bank.  For amounts given in cents (up to \<open>2 ^ 44\<close>) the
  check passes exactly when the difference in cents is at most the tolerance in cents, where the tolerance
  is two cents or 1 percent of the larger magnitude (within a cent), whichever is larger; swapping the two
  amounts does not change the verdict.\<close>

theorem CheckJournalToBank_spec:
  assumes "is_cents x a" "is_cents y b" "\<bar>a\<bar> \<le> money_cap" "\<bar>b\<bar> \<le> money_cap"
  shows "\<exists>t. (cr_Passed (CheckJournalToBank x y) \<longleftrightarrow> \<bar>a - b\<bar> \<le> max 2 t) \<and>
      (cr_Passed (CheckJournalToBank y x) \<longleftrightarrow> \<bar>a - b\<bar> \<le> max 2 t) \<and>
      is_cents (cr_Difference (CheckJournalToBank x y)) (a - b) \<and>
      \<bar>of_int t - of_int (max \<bar>a\<bar> \<bar>b\<bar>) * (1 / 100)\<bar> < (1 :: rat)"
proof -
  let ?M = "max \<bar>a\<bar> \<bar>b\<bar>"
  have M: "0 \<le> ?M" "?M \<le> cap" using money_cap_le(1) assms(3,4) by auto
  have c: "\<bar>a\<bar> \<le> cap" "\<bar>b\<bar> \<le> cap" using money_cap_le(1) assms(3,4) by auto
  have r: "0 \<le> (1 / 100 :: rat)" "1 / 100 \<le> (1 :: rat)" by simp_all
  define t1 where "t1 = to_cents (fmul (math_Max (math_Abs x) (math_Abs y)) (lit (1 / 100)))"
  have main: "(cr_Passed (CheckJournalToBank u v) \<longleftrightarrow> \<bar>k - l\<bar> \<le> max 2 (to_cents (fmul (math_Max (math_Abs u) (math_Abs v)) (lit (1 / 100))))) \<and>
      is_cents (cr_Difference (CheckJournalToBank u v)) (k - l) \<and>
      \<bar>of_int (to_cents (fmul (math_Max (math_Abs u) (math_Abs v)) (lit (1 / 100)))) - of_int (max \<bar>k\<bar> \<bar>l\<bar>) * (1 / 100)\<bar> < (1 :: rat)"
    if u: "is_cents u k" and v: "is_cents v l" and kl: "\<bar>k\<bar> \<le> money_cap" "\<bar>l\<bar> \<le> money_cap" for u v k l
  proof -
    have M: "0 \<le> max \<bar>k\<bar> \<bar>l\<bar>" "max \<bar>k\<bar> \<bar>l\<bar> \<le> cap" using money_cap_le(1) kl by auto
    note m = math_Max_cents [OF math_Abs_cents [OF u] math_Abs_cents [OF v]]
    note t = rate_cents_lit [OF m M r]
    let ?t = "to_cents (fmul (math_Max (math_Abs u) (math_Abs v)) (lit (1 / 100)))"
    have d: "is_cents (round2 (fsub u v)) (k - l)"
      unfolding round2_roundMoney using u v kl money_cap_le(1) by (intro roundMoney_sub) auto
    have tb: "\<bar>?t\<bar> \<le> cap" using t(2,3) M by linarith
    have "is_cents (if flt (roundMoney (fmul (math_Max (math_Abs u) (math_Abs v)) (lit (1 / 100)))) (lit (2 / 100))
      then lit (2 / 100) else roundMoney (fmul (math_Max (math_Abs u) (math_Abs v)) (lit (1 / 100)))) (max ?t 2)"
      using tb by (intro max_tolerance_cents [OF t(1) two_cents]) (auto simp: cap_def)
    note tol = this
    have kl': "\<bar>\<bar>k - l\<bar>\<bar> \<le> 2 * cap" "\<bar>max ?t 2\<bar> \<le> 2 * cap"
      using kl tb by (auto simp: cap_def money_cap_def)
    have "cr_Passed (CheckJournalToBank u v) \<longleftrightarrow> \<bar>k - l\<bar> \<le> max ?t 2"
      using cents_less(2) [OF math_Abs_cents [OF d] tol kl'] is_cents_fin [OF d] is_cents_fin [OF tol]
      by (simp add: CheckJournalToBank_def Let_def round2_roundMoney)
    with d t(4) show ?thesis by (simp add: CheckJournalToBank_def Let_def max.commute)
  qed
  have "math_Max (math_Abs x) (math_Abs y) = math_Max (math_Abs y) (math_Abs x)"
    using is_cents_fin [OF assms(1)] is_cents_fin [OF assms(2)]
    by (cases x; cases y) (auto simp: math_Max_def flt_def)
  with main [OF assms] main [OF assms(2,1,4,3)] show ?thesis
    by (intro exI [of _ t1]) (simp add: t1_def abs_minus_commute)
qed

theorem CheckJournalToBank_spec_witness:
  "\<exists>t. (cr_Passed (CheckJournalToBank (lit 100) (lit 99)) \<longleftrightarrow> 100 \<le> max 2 t) \<and> \<bar>of_int t - (100 :: rat)\<bar> < 1"
proof -
  have "is_cents (lit 100) 10000" "is_cents (lit 99) 9900" by (simp_all add: is_cents_def lit_fin)
  from CheckJournalToBank_spec [OF this] show ?thesis by (auto simp: money_cap_def)
qed

end
