(* ===== verification/Engine_Risk.thy ===== *)
theory Engine_Risk
  imports Engine_Tax
begin

text \<open>
  The risk detectors and the risk score (internal/engine/risk.go).  A Go map read by key is a function
  to \<open>option\<close>; a map the code ranges over is the list of its entries in the order of the visit.
  A pointer result that may be nil is an \<open>option\<close>.
\<close>

section \<open>Zero filing and consecutive losses\<close>

record ZeroFilingRisk =
  zf_ConsecutiveMonths :: int
  zf_Periods :: "string list"
  zf_Level :: string

record ConsecutiveLossRisk =
  cl_ConsecutiveYears :: int
  cl_Years :: "int list"
  cl_Level :: string

text \<open>The loop shared by both detectors: \<open>run\<close> is the current run; runs of two or more are emitted.\<close>

definition emit_run :: "'a list \<Rightarrow> 'a list list" where
  "emit_run run = (if 2 \<le> length run then [run] else [])"

fun collect_runs :: "('a \<Rightarrow> bool) \<Rightarrow> 'a list \<Rightarrow> 'a list \<Rightarrow> 'a list list" where
  "collect_runs P run [] = emit_run run"
| "collect_runs P run (x # xs) =
     (if P x then collect_runs P (run @ [x]) xs else emit_run run @ collect_runs P [] xs)"

definition run_level :: "'a list \<Rightarrow> string" where
  "run_level run = (if 3 \<le> length run then ''danger'' else ''warning'')"

definition zero_filed :: "(string \<Rightarrow> f64 option) \<Rightarrow> string \<Rightarrow> bool" where
  "zero_filed taxPayable p = (case taxPayable p of Some v \<Rightarrow> feq v (lit 0) | None \<Rightarrow> False)"

definition DetectZeroFiling :: "string list \<Rightarrow> (string \<Rightarrow> f64 option) \<Rightarrow> ZeroFilingRisk list" where
  "DetectZeroFiling periods taxPayable =
     (if periods = [] then []
      else map (\<lambda>run. \<lparr> zf_ConsecutiveMonths = int (length run), zf_Periods = run, zf_Level = run_level run \<rparr>)
        (collect_runs (zero_filed taxPayable) [] (sort periods)))"

definition loss_year :: "(int \<Rightarrow> f64 option) \<Rightarrow> int \<Rightarrow> bool" where
  "loss_year operatingProfit y = (case operatingProfit y of Some v \<Rightarrow> flt v (lit 0) | None \<Rightarrow> False)"

definition DetectConsecutiveLosses :: "int list \<Rightarrow> (int \<Rightarrow> f64 option) \<Rightarrow> ConsecutiveLossRisk list" where
  "DetectConsecutiveLosses years operatingProfit =
     (if years = [] then []
      else map (\<lambda>run. \<lparr> cl_ConsecutiveYears = int (length run), cl_Years = run, cl_Level = run_level run \<rparr>)
        (collect_runs (loss_year operatingProfit) [] (sort years)))"

section \<open>Tax burden\<close>

record TaxBurdenDeviation =
  tb_EffectiveRate :: f64
  tb_IndustryAvg :: f64
  tb_DeviationRatio :: f64
  tb_Level :: string

definition IndustryAvgManufacturing :: f64 where "IndustryAvgManufacturing = lit (30 / 1000)"
definition IndustryAvgWholesale :: f64 where "IndustryAvgWholesale = lit (8 / 1000)"
definition IndustryAvgServices :: f64 where "IndustryAvgServices = lit (25 / 1000)"
definition IndustryAvgConstruction :: f64 where "IndustryAvgConstruction = lit (20 / 1000)"
definition IndustryAvgDefault :: f64 where "IndustryAvgDefault = lit (20 / 1000)"

text \<open>The four named groups of industries of both switches, after lower-casing.\<close>

definition is_manufacturing :: "string \<Rightarrow> bool" where
  "is_manufacturing s \<longleftrightarrow> s = ''manufacturing'' \<or> s = (zh [0x5236, 0x9020, 0x4E1A])"

definition is_wholesale :: "string \<Rightarrow> bool" where
  "is_wholesale s \<longleftrightarrow> s = ''wholesale'' \<or> s = (zh [0x6279, 0x53D1, 0x96F6, 0x552E]) \<or> s = (zh [0x6279, 0x53D1]) \<or> s = (zh [0x96F6, 0x552E])"

definition is_services :: "string \<Rightarrow> bool" where
  "is_services s \<longleftrightarrow> s = ''services'' \<or> s = (zh [0x670D, 0x52A1, 0x4E1A]) \<or> s = (zh [0x4FE1, 0x606F, 0x6280, 0x672F]) \<or> s = (zh [0x8F6F, 0x4EF6])"

definition is_construction :: "string \<Rightarrow> bool" where
  "is_construction s \<longleftrightarrow> s = ''construction'' \<or> s = (zh [0x5EFA, 0x7B51, 0x4E1A]) \<or> s = (zh [0x5EFA, 0x7B51])"

definition burden_average :: "string \<Rightarrow> f64" where
  "burden_average industry =
     (let s = ToLower industry in
      if is_manufacturing s then IndustryAvgManufacturing
      else if is_wholesale s then IndustryAvgWholesale
      else if is_services s then IndustryAvgServices
      else if is_construction s then IndustryAvgConstruction
      else IndustryAvgDefault)"

definition CalcTaxBurdenBenchmark :: "f64 \<Rightarrow> string \<Rightarrow> string \<Rightarrow> TaxBurdenDeviation option" where
  "CalcTaxBurdenBenchmark effectiveRate industry taxpayerType =
     (let avg0 = burden_average industry;
          industryAvg = (if taxpayerType = ''small_scale'' \<or> taxpayerType = (zh [0x5C0F, 0x89C4, 0x6A21, 0x7EB3, 0x7A0E, 0x4EBA])
                         then fmul avg0 (lit (5 / 10)) else avg0)
      in if fle effectiveRate (lit 0) \<or> fle industryAvg (lit 0) then None
      else
        (let ratio = round2 (fdiv effectiveRate industryAvg);
             result = (\<lambda>level. Some \<lparr> tb_EffectiveRate = effectiveRate, tb_IndustryAvg = industryAvg,
                                     tb_DeviationRatio = ratio, tb_Level = level \<rparr>)
         in if flt ratio (lit (4 / 10)) then result ''danger''
            else if flt ratio (lit (6 / 10)) then result ''warning''
            else None))"

section \<open>Texts\<close>

definition FormatZeroFilingRisk :: "ZeroFilingRisk \<Rightarrow> string" where
  "FormatZeroFilingRisk risk =
     (zh [0x8FDE, 0x7EED] @ '' '') @ int_str (zf_ConsecutiveMonths risk) @ ('' '' @ zh [0x4E2A, 0x6708, 0x96F6, 0x7533, 0x62A5, 0xFF08]) @ Join (zf_Periods risk) '', '' @
     (zh [0xFF09, 0xFF0C, 0x6613, 0x89E6, 0x53D1, 0x7A0E, 0x52A1, 0x6838, 0x67E5, 0x3002, 0x8BF7, 0x786E, 0x8BA4, 0x662F, 0x5426, 0x6709, 0x672A, 0x7533, 0x62A5, 0x6536, 0x5165, 0x3002])"

definition FormatConsecutiveLossRisk :: "ConsecutiveLossRisk \<Rightarrow> string" where
  "FormatConsecutiveLossRisk risk =
     (zh [0x8FDE, 0x7EED] @ '' '') @ int_str (cl_ConsecutiveYears risk) @ ('' '' @ zh [0x5E74, 0x4E8F, 0x635F, 0xFF08]) @ Join (map int_str (cl_Years risk)) '', '' @
     (zh [0xFF09, 0xFF0C, 0x8FDE, 0x7EED, 0x4E8F, 0x635F, 0x8D85, 0x8FC7] @ '' 2 '' @ zh [0x5E74, 0x5C06, 0x89E6, 0x53D1, 0x7A0E, 0x52A1, 0x7EA6, 0x8C08, 0x3002, 0x8BF7, 0x6838, 0x5B9E, 0x4E8F, 0x635F, 0x5408, 0x7406, 0x6027, 0x3002])"

definition FormatTaxBurdenDeviation :: "TaxBurdenDeviation \<Rightarrow> string" where
  "FormatTaxBurdenDeviation d =
     (zh [0x5B9E, 0x9645, 0x7A0E, 0x8D1F, 0x7387] @ '' '') @ fmt_f 1 (fmul (tb_EffectiveRate d) (lit 100)) @ (''%'' @ zh [0xFF0C, 0x4EC5, 0x4E3A, 0x884C, 0x4E1A, 0x5747, 0x503C] @ '' '') @
     fmt_f 1 (fmul (tb_IndustryAvg d) (lit 100)) @ (''% '' @ zh [0x7684] @ '' '') @ fmt_f 0 (fmul (tb_DeviationRatio d) (lit 100)) @
     (''%'' @ zh [0xFF0C, 0x663E, 0x8457, 0x504F, 0x4F4E, 0xFF0C, 0x53EF, 0x80FD, 0x89E6, 0x53D1, 0x7A0E, 0x52A1, 0x6838, 0x67E5, 0x3002])"

section \<open>Invoice revenue against declared revenue\<close>

record InvoiceRevenueMismatchRisk =
  im_InvoiceRevenue :: f64
  im_DeclaredRevenue :: f64
  im_Difference :: f64
  im_DeviationRate :: f64
  im_Level :: string

definition DetectInvoiceRevenueMismatch :: "f64 \<Rightarrow> f64 \<Rightarrow> InvoiceRevenueMismatchRisk option" where
  "DetectInvoiceRevenueMismatch invoiceRevenue declaredRevenue =
     (if fle declaredRevenue (lit 0) then None
      else
        (let diff = round2 (fsub invoiceRevenue declaredRevenue);
             rate = round2 (fdiv diff declaredRevenue);
             absRate = (if flt rate (lit 0) then fneg rate else rate)
         in if fle absRate (lit (5 / 100)) then None
            else Some \<lparr> im_InvoiceRevenue = invoiceRevenue, im_DeclaredRevenue = declaredRevenue,
                        im_Difference = diff, im_DeviationRate = rate,
                        im_Level = (if flt (lit (15 / 100)) absRate then ''danger'' else ''warning'') \<rparr>))"

section \<open>Expense ratio\<close>

record ExpenseRatioRisk =
  er_TotalExpense :: f64
  er_Revenue :: f64
  er_Ratio :: f64
  er_IndustryAvg :: f64
  er_Level :: string

definition expense_average :: "string \<Rightarrow> f64" where
  "expense_average industry =
     (let s = ToLower industry in
      if is_manufacturing s then lit (75 / 100)
      else if is_wholesale s then lit (92 / 100)
      else if is_services s then lit (85 / 100)
      else if is_construction s then lit (80 / 100)
      else lit (85 / 100))"

definition DetectExpenseToRevenueRatio :: "f64 \<Rightarrow> f64 \<Rightarrow> string \<Rightarrow> ExpenseRatioRisk option" where
  "DetectExpenseToRevenueRatio totalExpense revenue industry =
     (if fle revenue (lit 0) then None
      else
        (let ratio = round2 (fdiv totalExpense revenue);
             industryAvg = expense_average industry
         in if fle ratio industryAvg then None
            else Some \<lparr> er_TotalExpense = totalExpense, er_Revenue = revenue, er_Ratio = ratio,
                        er_IndustryAvg = industryAvg,
                        er_Level = (if flt (lit 1) ratio then ''danger'' else ''warning'') \<rparr>))"

section \<open>Large round transactions\<close>

record RoundTransactionRisk =
  rt_InvoiceNo :: string
  rt_Amount :: f64
  rt_IsRounded :: bool
  rt_Level :: string

record RoundTransactionInput =
  rti_InvoiceNo :: string
  rti_AmountWithTax :: f64

text \<open>
  \<open>int(x)\<close> truncates towards zero; outside the range of \<open>int\<close> the result is up to the implementation
  of Go, the parameter \<open>oor\<close>.
\<close>

definition goint_of_f64 :: "(f64 \<Rightarrow> int) \<Rightarrow> f64 \<Rightarrow> int" where
  "goint_of_f64 oor x =
     (let n = (if 0 \<le> val x then \<lfloor>val x\<rfloor> else - \<lfloor>- val x\<rfloor>)
      in if is_fin x \<and> - (2 ^ 63) \<le> n \<and> n < 2 ^ 63 then n else oor x)"

definition round_remainder :: "(f64 \<Rightarrow> int) \<Rightarrow> f64 \<Rightarrow> f64" where
  "round_remainder oor x =
     (let m = fsub x (fmul (of_goint (goint_of_f64 oor (fdiv x (lit 10000)))) (lit 10000))
      in if flt m (lit 0) then fneg m else m)"

definition is_large_round :: "(f64 \<Rightarrow> int) \<Rightarrow> f64 \<Rightarrow> bool" where
  "is_large_round oor x \<longleftrightarrow> \<not> flt x (lit 50000) \<and> flt (round_remainder oor x) (lit (1 / 100))"

definition DetectLargeRoundTransactions ::
    "(f64 \<Rightarrow> int) \<Rightarrow> RoundTransactionInput list \<Rightarrow> RoundTransactionRisk list" where
  "DetectLargeRoundTransactions oor invoices =
     map (\<lambda>inv. \<lparr> rt_InvoiceNo = rti_InvoiceNo inv, rt_Amount = rti_AmountWithTax inv,
                 rt_IsRounded = True, rt_Level = ''info'' \<rparr>)
       (filter (\<lambda>inv. is_large_round oor (rti_AmountWithTax inv)) invoices)"

section \<open>Supplier concentration\<close>

record SupplierConcentrationRisk =
  sc_TopSupplier :: string
  sc_TopAmount :: f64
  sc_TotalInput :: f64
  sc_Concentration :: f64
  sc_Level :: string

text \<open>One pass: the top supplier, its amount and the total.\<close>

fun top_supplier :: "string \<times> f64 \<times> f64 \<Rightarrow> (string \<times> f64) list \<Rightarrow> string \<times> f64 \<times> f64" where
  "top_supplier acc [] = acc"
| "top_supplier (best, topAmount, totalSoFar) ((seller, amt) # rest) =
     (let totalNext = fadd totalSoFar amt in
      if flt topAmount amt then top_supplier (seller, amt, totalNext) rest
      else top_supplier (best, topAmount, totalNext) rest)"

definition DetectSupplierConcentration :: "(string \<times> f64) list \<Rightarrow> SupplierConcentrationRisk option" where
  "DetectSupplierConcentration sellerAmounts =
     (if sellerAmounts = [] then None
      else
        (let (topSupplier, topAmount, total) = top_supplier ('''', lit 0, lit 0) sellerAmounts in
         if fle total (lit 0) \<or> fle topAmount (lit 0) then None
         else
           (let concentration = round2 (fdiv topAmount total) in
            if flt concentration (lit (50 / 100)) then None
            else Some \<lparr> sc_TopSupplier = topSupplier, sc_TopAmount = topAmount, sc_TotalInput = total,
                        sc_Concentration = concentration,
                        sc_Level = (if flt (lit (70 / 100)) concentration then ''danger'' else ''warning'') \<rparr>)))"

section \<open>Sudden change of revenue\<close>

record SuddenRevenueChangeRisk =
  sr_CurrentRevenue :: f64
  sr_PreviousRevenue :: f64
  sr_ChangeRate :: f64
  sr_Direction :: string
  sr_Level :: string

definition DetectSuddenRevenueChange :: "f64 \<Rightarrow> f64 \<Rightarrow> SuddenRevenueChangeRisk option" where
  "DetectSuddenRevenueChange currentRevenue previousRevenue =
     (if fle previousRevenue (lit 0) then None
      else
        (let change = round2 (fdiv (fsub currentRevenue previousRevenue) previousRevenue);
             absChange = (if flt change (lit 0) then fneg change else change)
         in if fle absChange (lit (50 / 100)) then None
            else Some \<lparr> sr_CurrentRevenue = currentRevenue, sr_PreviousRevenue = previousRevenue,
                        sr_ChangeRate = change,
                        sr_Direction = (if flt change (lit 0) then ''drop'' else ''surge''),
                        sr_Level = (if flt (lit 1) absChange then ''danger'' else ''warning'') \<rparr>))"

section \<open>The score\<close>

record RiskFinding =
  rf_RuleCode :: string
  rf_Category :: string
  rf_Severity :: string
  rf_Title :: string
  rf_Detail :: string
  rf_Suggestion :: string
  rf_Amount :: f64
  rf_Score :: f64

definition severity_points :: "string \<Rightarrow> int" where
  "severity_points s =
     (if s = ''blocking'' then 25 else if s = ''danger'' then 15 else if s = ''warning'' then 5
      else if s = ''info'' then 1 else 1)"

definition score_level :: "f64 \<Rightarrow> string" where
  "score_level points =
     (if flt (lit 50) points then ''critical'' else if flt (lit 30) points then ''high''
      else if flt (lit 10) points then ''medium'' else ''low'')"

definition ScoreRiskFindings :: "RiskFinding list \<Rightarrow> f64 \<times> string" where
  "ScoreRiskFindings findings =
     (let total = foldl (\<lambda>t f. fadd t (lit (of_int (severity_points (rf_Severity f))))) (lit 0) findings
      in (total, score_level total))"

section \<open>The detectors find exactly the maximal runs\<close>

text \<open>\<open>r\<close> is a maximal run of two or more elements satisfying \<open>P\<close> in \<open>xs\<close>, between \<open>pre\<close> and \<open>post\<close>.\<close>

definition maximal_run :: "('a \<Rightarrow> bool) \<Rightarrow> 'a list \<Rightarrow> 'a list \<Rightarrow> bool" where
  "maximal_run P xs r \<longleftrightarrow> (\<exists>pre post. xs = pre @ r @ post \<and> (\<forall>x \<in> set r. P x) \<and> 2 \<le> length r \<and>
     (pre = [] \<or> \<not> P (last pre)) \<and> (post = [] \<or> \<not> P (hd post)))"

lemma maximal_run_all:
  assumes "\<forall>x \<in> set run. P x" shows "maximal_run P run r \<longleftrightarrow> r \<in> set (emit_run run)"
proof
  assume "maximal_run P run r"
  then obtain pre post where d: "run = pre @ r @ post" "2 \<le> length r" "pre = [] \<or> \<not> P (last pre)"
    "post = [] \<or> \<not> P (hd post)" by (auto simp: maximal_run_def)
  have "pre = []" using d(1,3) assms by (cases pre rule: rev_cases) auto
  moreover have "post = []" using d(1,4) assms by (cases post) auto
  ultimately show "r \<in> set (emit_run run)" using d by (simp add: emit_run_def)
next
  assume "r \<in> set (emit_run run)"
  then show "maximal_run P run r"
    using assms unfolding maximal_run_def emit_run_def
    by (intro exI [of _ "[]"]) (auto split: if_splits)
qed

lemma append_split:
  "as @ bs = cs @ ds \<Longrightarrow> (\<exists>us. as = cs @ us \<and> us @ bs = ds) \<or> (\<exists>us. cs = as @ us \<and> bs = us @ ds \<and> us \<noteq> [])"
proof -
  assume "as @ bs = cs @ ds"
  then obtain us where "as = cs @ us \<and> us @ bs = ds \<or> as @ us = cs \<and> bs = us @ ds"
    by (auto simp: append_eq_append_conv2)
  then show ?thesis by (cases "us = []") auto
qed

lemma maximal_run_split:
  assumes run: "\<forall>x \<in> set run. P x" and x: "\<not> P x"
  shows "maximal_run P (run @ x # xs) r \<longleftrightarrow> r \<in> set (emit_run run) \<or> maximal_run P xs r"
proof
  assume "maximal_run P (run @ x # xs) r"
  then obtain pre post where d: "run @ x # xs = pre @ r @ post" "\<forall>x \<in> set r. P x" "2 \<le> length r"
    "pre = [] \<or> \<not> P (last pre)" "post = [] \<or> \<not> P (hd post)" by (auto simp: maximal_run_def)
  from append_split [OF d(1)] consider us where "run = pre @ us" "us @ x # xs = r @ post"
    | us where "pre = run @ us" "x # xs = us @ r @ post" "us \<noteq> []"
    by blast
  then show "r \<in> set (emit_run run) \<or> maximal_run P xs r"
  proof cases
    case 1
    have pre: "pre = []" using 1(1) d(4) run by (cases pre rule: rev_cases) auto
    from append_split [OF 1(2)] consider vs where "us = r @ vs" "vs @ x # xs = post"
      | vs where "r = us @ vs" "x # xs = vs @ post" "vs \<noteq> []"
      by blast
    then show ?thesis
    proof cases
      case 1
      then have "vs = []" using d(5) run \<open>run = pre @ us\<close> by (cases vs) auto
      with 1 pre \<open>run = pre @ us\<close> d(3) show ?thesis by (simp add: emit_run_def)
    next
      case 2
      then have "x \<in> set r" by (cases vs) auto
      with d(2) x show ?thesis by blast
    qed
  next
    case 2
    then obtain us' where us: "us = x # us'" "xs = us' @ r @ post" by (cases us) auto
    then have "us' = [] \<or> \<not> P (last us')" using d(4) 2(1) by (cases us' rule: rev_cases) auto
    with us(2) d show ?thesis unfolding maximal_run_def by blast
  qed
next
  assume "r \<in> set (emit_run run) \<or> maximal_run P xs r"
  then show "maximal_run P (run @ x # xs) r"
  proof
    assume "r \<in> set (emit_run run)"
    then show ?thesis using run x unfolding maximal_run_def emit_run_def
      by (intro exI [of _ "[]"] exI [of _ "x # xs"]) (auto split: if_splits)
  next
    assume "maximal_run P xs r"
    then obtain pre post where "xs = pre @ r @ post" "\<forall>x \<in> set r. P x" "2 \<le> length r"
      "pre = [] \<or> \<not> P (last pre)" "post = [] \<or> \<not> P (hd post)" by (auto simp: maximal_run_def)
    then show ?thesis using x unfolding maximal_run_def
      by (intro exI [of _ "run @ x # pre"] exI [of _ post]) (auto split: if_splits)
  qed
qed

lemma collect_runs_maximal:
  "\<forall>x \<in> set run. P x \<Longrightarrow> r \<in> set (collect_runs P run xs) \<longleftrightarrow> maximal_run P (run @ xs) r"
proof (induction P run xs rule: collect_runs.induct)
  case (1 P run)
  then show ?case by (simp add: maximal_run_all)
next
  case (2 P run x xs)
  show ?case
  proof (cases "P x")
    case True
    with 2 show ?thesis by simp
  next
    case False
    with 2 show ?thesis by (simp add: maximal_run_split)
  qed
qed

text \<open>Zero filing.  A list of periods is reported exactly when it is a maximal run of at least two
  consecutive periods, in the sorted list of all periods, whose recorded tax is zero; it is reported with
  its length, as a warning for two and as danger for three or more.  A period with no record ends a run.\<close>

theorem DetectZeroFiling_exact:
  "r \<in> set (DetectZeroFiling periods tax) \<longleftrightarrow>
     maximal_run (zero_filed tax) (sort periods) (zf_Periods r) \<and>
     zf_ConsecutiveMonths r = int (length (zf_Periods r)) \<and>
     zf_Level r = (if length (zf_Periods r) = 2 then ''warning'' else ''danger'')"
  (is "?l \<longleftrightarrow> ?r")
proof -
  have empty: "\<not> maximal_run P [] q" for P :: "string \<Rightarrow> bool" and q by (auto simp: maximal_run_def)
  have two: "maximal_run P xs q \<Longrightarrow> 2 \<le> length q" for P :: "string \<Rightarrow> bool" and xs q by (auto simp: maximal_run_def)
  have mem: "q \<in> set (collect_runs P [] xs) \<longleftrightarrow> maximal_run P xs q" for P :: "string \<Rightarrow> bool" and q xs
    using collect_runs_maximal [of "[]" P q xs] by simp
  show ?thesis
  proof (cases "periods = []")
    case True
    then show ?thesis by (simp add: DetectZeroFiling_def empty)
  next
    case False
    then show ?thesis
      using two [of "zero_filed tax" "sort periods" "zf_Periods r"]
      by (cases r) (auto simp: DetectZeroFiling_def mem run_level_def image_iff)
  qed
qed

section \<open>Round amounts\<close>

lemma quotient_floor:
  fixes v :: rat
  assumes v: "\<bar>v - of_int (1000000 * m + j) / 100\<bar> \<le> 1 / 2 ^ 14" and j: "0 \<le> j" "j < 1000000" and m: "0 \<le> m" "m \<le> 2 ^ 25"
    and exact: "j = 0 \<Longrightarrow> v = of_int (10000 * m)"
  shows "\<lfloor>rnd (v / 10000)\<rfloor> = m"
proof (cases "j = 0")
  case True
  then have "v / 10000 = of_int m" using exact by simp
  then show ?thesis using m by simp
next
  case False
  define J M where "J = (of_int j :: rat)" and "M = (of_int m :: rat)"
  have "of_int 1 \<le> (of_int j :: rat)" "(of_int j :: rat) \<le> of_int 999999" using False j unfolding of_int_le_iff by auto
  then have J: "1 \<le> J" "J \<le> 999999" by (simp_all add: J_def)
  have "(of_int m :: rat) \<le> of_int (2 ^ 25)" using m(2) unfolding of_int_le_iff .
  then have M: "0 \<le> M" "M \<le> 33554432" using m by (simp_all add: M_def)
  have v': "\<bar>v - (10000 * M + J / 100)\<bar> \<le> 1 / 16384" using v by (simp add: J_def M_def add_divide_distrib)
  then have lo: "M + 1 / 2000000 \<le> v / 10000" and hi: "v / 10000 \<le> M + 9999995 / 10000000"
    using J by linarith+
  have b: "\<bar>v / 10000\<bar> \<le> 33554434" using lo hi M by linarith
  then have e: "\<bar>rnd (v / 10000) - v / 10000\<bar> \<le> 33554434 / 2 ^ 53" by (rule rnd_err_1) simp
  moreover have "33554434 / 2 ^ 53 < (1 / 10000000 :: rat)" by simp
  ultimately have "M \<le> rnd (v / 10000)" "rnd (v / 10000) < M + 1" using lo hi by linarith+
  then show ?thesis by (simp add: floor_eq_iff M_def)
qed

lemma round_remainder_value:
  assumes x: "is_cents x k" and k: "k = 1000000 * m + j" "0 \<le> j" "j < 1000000" "0 \<le> m" "m \<le> 2 ^ 25"
  shows "is_fin (round_remainder oor x)" "j = 0 \<Longrightarrow> val (round_remainder oor x) = 0"
    "2 \<le> j \<Longrightarrow> 15 / 1000 \<le> val (round_remainder oor x)"
proof -
  have kb: "\<bar>k\<bar> \<le> 2 ^ 45" using k by simp
  have v: "\<bar>val x - of_int k / 100\<bar> \<le> 1 / 2 ^ 14" using is_cents_err [OF x kb] by simp
  have exact: "val x = of_int (10000 * m)" if "j = 0"
  proof -
    have "of_int k / 100 = (of_int (10000 * m) :: rat)" using that k(1) by simp
    with x k show ?thesis by (simp only: is_cents_def) (intro rnd_of_int, auto)
  qed
  have xf: "is_fin x" by (rule is_cents_fin [OF x])
  have fl: "\<lfloor>rnd (val x / 10000)\<rfloor> = m"
    using quotient_floor [OF v [unfolded k(1)] k(2-5)] exact by blast
  have t: "is_fin (lit 10000)" "val (lit 10000) = 10000" by (simp_all add: lit_fin)
  have "\<bar>val x\<bar> \<le> 2 ^ 42" using cents_val_bound [OF x] kb by (simp add: cap_def)
  then have b42: "\<bar>val x\<bar> \<le> 4398046511104" by simp
  then have "\<bar>val x / 10000\<bar> \<le> 4398046511104" by (simp add: abs_le_iff)
  then have "\<bar>val x / 10000\<bar> \<le> 2 ^ 200" by simp
  then have q: "is_fin (fdiv x (lit 10000))" "val (fdiv x (lit 10000)) = rnd (val x / 10000)"
    using fdiv_fin [OF xf t(1)] t(2) by simp_all
  have x0: "0 \<le> val x" using x k by (auto simp: is_cents_def intro!: rnd_nonneg)
  have "0 \<le> rnd (val x / 10000)" using x0 by (intro rnd_nonneg) simp
  then have n: "goint_of_f64 oor (fdiv x (lit 10000)) = m"
    using q fl k by (simp add: goint_of_f64_def)
  have mi: "is_fin (of_goint m)" "val (of_goint m) = of_int m" using k by (simp_all add: of_goint_fin)
  have mb: "\<bar>m * 10000\<bar> \<le> 2 ^ 53" using k by simp
  then have "\<bar>of_int (m * 10000) :: rat\<bar> \<le> of_int (2 ^ 53)" by (simp only: of_int_abs [symmetric] of_int_le_iff)
  then have mb2: "\<bar>of_int m * 10000 :: rat\<bar> \<le> 9007199254740992" by simp
  then have "\<bar>val (of_goint m) * val (lit 10000)\<bar> \<le> 2 ^ 200" using mi t by simp
  from fmul_fin [OF mi(1) t(1) this] rnd_of_int [OF mb]
  have p: "is_fin (fmul (of_goint m) (lit 10000))" "val (fmul (of_goint m) (lit 10000)) = of_int m * 10000"
    unfolding mi t by simp_all
  define d where "d = fsub x (fmul (of_goint m) (lit 10000))"
  have "\<bar>val x - of_int m * 10000\<bar> \<le> 2 ^ 200" using b42 mb2 by (simp add: abs_le_iff)
  then have d: "is_fin d" "val d = rnd (val x - of_int m * 10000)"
    unfolding d_def using fsub_fin [OF xf p(1)] p(2) by simp_all
  have r: "is_fin (round_remainder oor x)" "val (round_remainder oor x) = \<bar>val d\<bar>"
    using d(1) by (auto simp: round_remainder_def Let_def n d_def [symmetric])
  show "is_fin (round_remainder oor x)" by (rule r)
  show "val (round_remainder oor x) = 0" if "j = 0"
    unfolding r d using exact [OF that] by simp
  show "15 / 1000 \<le> val (round_remainder oor x)" if "2 \<le> j"
  proof -
    have J: "2 \<le> (of_int j :: rat)" using that by simp
    have "\<bar>val x - (of_int m * 10000 + of_int j / 100)\<bar> \<le> 1 / 16384" using v k(1) by (simp add: add_divide_distrib mult.commute)
    with J have lo: "19 / 1000 \<le> val x - of_int m * 10000" by linarith
    then have "rnd (19 / 1000) \<le> val d" unfolding d by (rule rnd_mono)
    moreover have "15 / 1000 \<le> rnd (19 / 1000)" by (simp add: float_eval)
    ultimately show ?thesis unfolding r by linarith
  qed
qed

text \<open>Large round invoices, for amounts in cents up to \<open>2 ^ 44\<close>: an amount below 50,000 yuan is never
  flagged; every multiple of 10,000 yuan from 50,000 on, exactly 50,000 included, is flagged; an amount two
  cents or more away from the multiple below it is not.  (One cent above a multiple, the floating point
  remainder may fall either side of 0.01.)\<close>

theorem large_round_amounts:
  assumes "is_cents x k" "0 \<le> k" "k \<le> money_cap"
  shows "(k < 5000000 \<longrightarrow> \<not> is_large_round oor x) \<and>
    (5000000 \<le> k \<and> k mod 1000000 = 0 \<longrightarrow> is_large_round oor x) \<and>
    (2 \<le> k mod 1000000 \<longrightarrow> \<not> is_large_round oor x)"
proof -
  define m j where "m = k div 1000000" and "j = k mod 1000000"
  have k: "k = 1000000 * m + j" "0 \<le> j" "j < 1000000" "0 \<le> m" "m \<le> 2 ^ 25"
    using assms(2,3) by (auto simp: m_def j_def money_cap_def)
  have kc: "\<bar>k\<bar> \<le> cap" using assms by (intro money_cap_le) simp
  have l5: "is_cents (lit 50000) 5000000" by (simp add: is_cents_def lit_fin)
  have a: "flt x (lit 50000) \<longleftrightarrow> k < 5000000"
    using cents_less(1) [OF assms(1) l5] kc is_cents_fin [OF assms(1)] is_cents_fin [OF l5] by (simp add: cap_def)
  have r: "j = 0 \<Longrightarrow> val (round_remainder oor x) = 0 \<and> is_fin (round_remainder oor x)"
    "2 \<le> j \<Longrightarrow> 15 / 1000 \<le> val (round_remainder oor x) \<and> is_fin (round_remainder oor x)"
    using round_remainder_value [OF assms(1) k] by auto
  have c: "is_fin (lit (1 / 100))" "0 < val (lit (1 / 100))" "val (lit (1 / 100)) < 15 / 1000"
    by (simp_all add: float_eval)
  show ?thesis
    using r c unfolding is_large_round_def a j_def [symmetric] by auto
qed

theorem large_round_amounts_witness:
  "\<not> is_large_round (\<lambda>_. 0) (lit 49999) \<and> is_large_round (\<lambda>_. 0) (lit 50000) \<and> \<not> is_large_round (\<lambda>_. 0) (lit (7000002 / 100))"
proof -
  have c: "is_cents (lit 49999) 4999900" "is_cents (lit 50000) 5000000" "is_cents (lit (7000002 / 100)) 7000002"
    by (simp_all add: is_cents_def lit_fin float_eval)
  from large_round_amounts [of _ _ "\<lambda>_. 0", OF c(1)] large_round_amounts [of _ _ "\<lambda>_. 0", OF c(2)] large_round_amounts [of _ _ "\<lambda>_. 0", OF c(3)]
  show ?thesis by (simp add: money_cap_def)
qed

lemma one_cent_off_flagged: "is_large_round oor (lit (7000001 / 100))" "\<not> is_large_round oor (lit (6000001 / 100))"
  by (simp_all add: is_large_round_def round_remainder_def goint_of_f64_def float_eval)

section \<open>The score is exact\<close>

lemma severity_points_range: "1 \<le> severity_points s" "severity_points s \<le> 25"
  by (simp_all add: severity_points_def)

lemma fadd_int:
  assumes "is_fin x" "val x = of_int a" "is_fin y" "val y = of_int b" "\<bar>a + b\<bar> \<le> 2 ^ 53"
  shows "is_fin (fadd x y)" "val (fadd x y) = of_int (a + b)"
proof -
  have "(\<bar>of_int (a + b)\<bar> :: rat) \<le> of_int (2 ^ 53)"
    using assms(5) by (simp only: of_int_abs [symmetric] of_int_le_iff)
  then have "\<bar>val x + val y\<bar> \<le> 2 ^ 200" using assms by simp
  from fadd_fin [OF assms(1,3) this] rnd_of_int [OF assms(5)] assms(2,4)
  show "is_fin (fadd x y)" "val (fadd x y) = of_int (a + b)" by simp_all
qed

lemma score_total:
  assumes "is_fin t" "val t = of_int a" "0 \<le> a" "a + 25 * int (length fs) \<le> 2 ^ 53"
  shows "is_fin (foldl (\<lambda>t f. fadd t (lit (of_int (severity_points (rf_Severity f))))) t fs) \<and>
    val (foldl (\<lambda>t f. fadd t (lit (of_int (severity_points (rf_Severity f))))) t fs) =
      of_int (a + sum_list (map (\<lambda>f. severity_points (rf_Severity f)) fs))"
  using assms
proof (induction fs arbitrary: t a)
  case (Cons f fs)
  let ?p = "severity_points (rf_Severity f)"
  have p: "1 \<le> ?p" "?p \<le> 25" by (rule severity_points_range)+
  have l: "is_fin (lit (of_int ?p))" "val (lit (of_int ?p)) = of_int ?p"
    using of_goint_fin [of ?p] p by (simp_all add: of_goint_def lit_def)
  have "is_fin (fadd t (lit (of_int ?p)))" "val (fadd t (lit (of_int ?p))) = of_int (a + ?p)"
    using fadd_int [OF Cons.prems(1,2) l] Cons.prems p by simp_all
  from Cons.IH [OF this] Cons.prems p show ?case by (simp add: add.assoc)
qed simp

text \<open>The risk score is the exact sum of the points of the findings (25 blocking, 15 danger, 5 warning, 1
  otherwise), for up to \<open>2 ^ 40\<close> findings, so it does not depend on their order; the level is critical above
  50 points, high above 30, medium above 10 and low otherwise.\<close>

theorem ScoreRiskFindings_exact:
  assumes "int (length fs) \<le> 2 ^ 40"
  defines "n \<equiv> sum_list (map (\<lambda>f. severity_points (rf_Severity f)) fs)"
  shows "is_fin (fst (ScoreRiskFindings fs)) \<and> val (fst (ScoreRiskFindings fs)) = of_int n \<and>
    snd (ScoreRiskFindings fs) =
      (if 50 < n then ''critical'' else if 30 < n then ''high'' else if 10 < n then ''medium'' else ''low'')"
proof -
  from assms(1) have "0 + 25 * int (length fs) \<le> 2 ^ 53" by simp
  with score_total [of "lit 0" 0 fs] have t: "is_fin (fst (ScoreRiskFindings fs))" "val (fst (ScoreRiskFindings fs)) = of_int n"
    by (simp_all add: ScoreRiskFindings_def Let_def n_def)
  have "flt (lit 50) (fst (ScoreRiskFindings fs)) \<longleftrightarrow> 50 < n" "flt (lit 30) (fst (ScoreRiskFindings fs)) \<longleftrightarrow> 30 < n"
    "flt (lit 10) (fst (ScoreRiskFindings fs)) \<longleftrightarrow> 10 < n"
    using t by (simp_all add: lit_fin)
  with t show ?thesis by (simp add: ScoreRiskFindings_def Let_def score_level_def)
qed

definition risk_example :: "RiskFinding list" where
  "risk_example = map (\<lambda>s. \<lparr> rf_RuleCode = [], rf_Category = [], rf_Severity = s, rf_Title = [], rf_Detail = [],
     rf_Suggestion = [], rf_Amount = lit 0, rf_Score = lit 0 \<rparr>) [''danger'', ''danger'', ''info'']"

theorem ScoreRiskFindings_exact_witness:
  "val (fst (ScoreRiskFindings risk_example)) = 31 \<and> snd (ScoreRiskFindings risk_example) = ''high''"
  using ScoreRiskFindings_exact [of risk_example] by (simp add: risk_example_def severity_points_def)

end
