(* ===== verification/Engine_Report.thy ===== *)
theory Engine_Report
  imports Money GoStrings
begin

text \<open>
  The report builder (internal/engine/report.go): journal lines are sorted into report lines by account
  selectors, subtotals are evaluated from formulas, and the result is a profit statement or a balance sheet.

  \<open>sort.Slice\<close> leaves the order of mappings with equal display order unspecified, so the sorted slice
  is the result of a parameter \<open>srt\<close>; the lemmas need only that it permutes its argument.
\<close>

section \<open>Mappings and lines\<close>

record AccountSelector =
  as_Prefixes :: "string list"
  as_Categories :: "string list"
  as_Direction :: string
  as_ExcludePrefixes :: "string list"

record ReportMapping =
  rm_LineCode :: string
  rm_LineLabel :: string
  rm_DisplayOrder :: int
  rm_AccountingStandard :: string
  rm_AccountSelector :: AccountSelector
  rm_IsSubtotal :: bool
  rm_ParentLineCode :: string
  rm_Formula :: string

record ReportLine =
  rl_AccountCode :: string
  rl_Direction :: string
  rl_Amount :: f64

section \<open>Reports\<close>

record ProfitStatementLine =
  psl_LineCode :: string
  psl_Label :: string
  psl_Amount :: f64
  psl_IsSubtotal :: bool

record ProfitStatement =
  ps_Revenue :: f64
  ps_Cost :: f64
  ps_TaxAndSurcharge :: f64
  ps_SellingExpense :: f64
  ps_AdminExpense :: f64
  ps_FinanceExpense :: f64
  ps_AssetImpairment :: f64
  ps_FairValueGain :: f64
  ps_InvestmentIncome :: f64
  ps_OperatingProfit :: f64
  ps_NonOpIncome :: f64
  ps_NonOpExpense :: f64
  ps_TotalProfit :: f64
  ps_IncomeTax :: f64
  ps_NetProfit :: f64
  ps_Lines :: "ProfitStatementLine list"

record BalanceSheetLine =
  bsl_LineCode :: string
  bsl_Label :: string
  bsl_Amount :: f64
  bsl_IsSubtotal :: bool
  bsl_Section :: string

record BalanceSheet =
  bs_Assets :: "BalanceSheetLine list"
  bs_Liabilities :: "BalanceSheetLine list"
  bs_Equity :: "BalanceSheetLine list"
  bs_TotalAssets :: f64
  bs_TotalLiabilities :: f64
  bs_TotalEquity :: f64
  bs_TotalLiabEquity :: f64

section \<open>Selectors\<close>

definition matchSelector :: "string \<Rightarrow> string \<Rightarrow> AccountSelector \<Rightarrow> bool" where
  "matchSelector code direction sel =
     (if as_Direction sel \<noteq> '''' \<and> as_Direction sel \<noteq> ''either'' \<and> as_Direction sel \<noteq> direction then False
      else if list_ex (HasPrefix code) (as_ExcludePrefixes sel) then False
      else if as_Prefixes sel \<noteq> [] \<and> \<not> list_ex (HasPrefix code) (as_Prefixes sel) then False
      else True)"

section \<open>Numbers in formulas (strconv.ParseFloat)\<close>

text \<open>
  Decimal and hexadecimal literals and the names of infinities and NaN; \<open>None\<close> stands for an error,
  a value out of range included.  (Underscores, which Go permits in hexadecimal literals only, are not covered.)
\<close>

definition is_hex :: "char \<Rightarrow> bool" where
  "is_hex c \<longleftrightarrow> is_digit c \<or> (let n = of_char (ascii_lower c) :: nat in 97 \<le> n \<and> n \<le> 102)"

definition hex_val :: "char \<Rightarrow> nat" where
  "hex_val c = (if is_digit c then digit_val c else of_char (ascii_lower c) - 87)"

definition mantissa :: "(char \<Rightarrow> bool) \<Rightarrow> string \<Rightarrow> string \<times> string \<times> string" where
  "mantissa P s =
     (let a = takeWhile P s; r = dropWhile P s
      in if r \<noteq> [] \<and> hd r = CHR ''.'' then (a, takeWhile P (tl r), dropWhile P (tl r)) else (a, [], r))"

definition split_sign :: "string \<Rightarrow> bool \<times> string" where
  "split_sign s = (if s \<noteq> [] \<and> hd s = CHR ''-'' then (True, tl s) else if s \<noteq> [] \<and> hd s = CHR ''+'' then (False, tl s) else (False, s))"

definition exponent :: "string \<Rightarrow> int option" where
  "exponent s =
     (let (neg, ds) = split_sign s;
          e = foldl (\<lambda>e c. if e < 10000 then e * 10 + int (digit_val c) else e) 0 ds
      in if ds \<noteq> [] \<and> list_all is_digit ds then Some (if neg then - e else e) else None)"

definition in_range :: "f64 \<Rightarrow> f64 option" where
  "in_range x = (if x = PInf \<or> x = NInf then None else Some x)"

definition dec_literal :: "bool \<Rightarrow> string \<Rightarrow> f64 option" where
  "dec_literal neg s =
     (let (a, f, r) = mantissa is_digit s;
          m = of_nat (digits_val (a @ f)) :: rat;
          result = (\<lambda>e. let q = m * 10 powi (e - int (length f)) in in_range (mk neg (if neg then - q else q)))
      in if a @ f = [] then None
         else if r = [] then result 0
         else if ascii_lower (hd r) = CHR ''e'' then (case exponent (tl r) of None \<Rightarrow> None | Some e \<Rightarrow> result e)
         else None)"

definition hex_literal :: "bool \<Rightarrow> string \<Rightarrow> f64 option" where
  "hex_literal neg s =
     (let (a, f, r) = mantissa is_hex s;
          m = of_nat (foldl (\<lambda>n c. n * 16 + hex_val c) 0 (a @ f)) :: rat
      in if a @ f = [] \<or> r = [] \<or> ascii_lower (hd r) \<noteq> CHR ''p'' then None
         else case exponent (tl r) of None \<Rightarrow> None
           | Some e \<Rightarrow> (let q = m * 2 powi (e - 4 * int (length f)) in in_range (mk neg (if neg then - q else q))))"

definition ParseFloat :: "string \<Rightarrow> f64 option" where
  "ParseFloat s =
     (let (neg, t) = split_sign s; l = map ascii_lower t
      in if map ascii_lower s = ''nan'' then Some NaN
         else if l = ''inf'' \<or> l = ''infinity'' then Some (if neg then NInf else PInf)
         else if take 2 l = ''0x'' then hex_literal neg (drop 2 t)
         else dec_literal neg t)"

section \<open>Formulas\<close>

type_synonym amounts = "string \<Rightarrow> f64 option"

definition amount_of :: "amounts \<Rightarrow> string \<Rightarrow> f64" where
  "amount_of am code = (case am code of Some v \<Rightarrow> v | None \<Rightarrow> lit 0)"

definition resolve :: "amounts \<Rightarrow> string \<Rightarrow> f64" where
  "resolve am token =
     (case am token of Some v \<Rightarrow> v
      | None \<Rightarrow> (case ParseFloat token of Some f \<Rightarrow> f | None \<Rightarrow> lit 0))"

text \<open>Operator and operand pairs, left to right; a trailing operator without operand is ignored.\<close>

fun eval_ops :: "amounts \<Rightarrow> f64 \<Rightarrow> string list \<Rightarrow> string + f64" where
  "eval_ops am v (op # r # rest) =
     (if op = ''+'' then eval_ops am (round2 (fadd v (resolve am r))) rest
      else if op = ''-'' then eval_ops am (round2 (fsub v (resolve am r))) rest
      else Inl (''unsupported operator: '' @ op))"
| "eval_ops am v rest = Inr v"

definition evalFormula :: "string \<Rightarrow> amounts \<Rightarrow> string + f64" where
  "evalFormula formula am =
     (let f = TrimSpace formula in
      if f = [] then Inr (lit 0)
      else case Fields f of [] \<Rightarrow> Inr (lit 0) | t # ts \<Rightarrow> eval_ops am (resolve am t) ts)"

section \<open>The builder\<close>

text \<open>\<open>NewReportBuilder\<close>: no builder without mappings; otherwise the mappings in display order.\<close>

definition NewReportBuilder :: "(ReportMapping list \<Rightarrow> ReportMapping list) \<Rightarrow> ReportMapping list \<Rightarrow> ReportMapping list option" where
  "NewReportBuilder srt mappings = (if mappings = [] then None else Some (srt mappings))"

definition add_to_mapping :: "ReportLine \<Rightarrow> amounts \<Rightarrow> ReportMapping \<Rightarrow> amounts" where
  "add_to_mapping l am m =
     (if \<not> rm_IsSubtotal m \<and> matchSelector (rl_AccountCode l) (rl_Direction l) (rm_AccountSelector m)
      then am(rm_LineCode m \<mapsto> round2 (fadd (amount_of am (rm_LineCode m)) (rl_Amount l)))
      else am)"

definition collect_amounts :: "ReportMapping list \<Rightarrow> ReportLine list \<Rightarrow> amounts" where
  "collect_amounts mappings lines = foldl (\<lambda>am l. foldl (add_to_mapping l) am mappings) Map.empty lines"

fun eval_subtotals :: "ReportMapping list \<Rightarrow> amounts \<Rightarrow> string + amounts" where
  "eval_subtotals [] am = Inr am"
| "eval_subtotals (m # ms) am =
     (if \<not> rm_IsSubtotal m \<or> rm_Formula m = '''' then eval_subtotals ms am
      else case evalFormula (rm_Formula m) am of
        Inl e \<Rightarrow> Inl (''evaluate '' @ rm_LineCode m @ '' ('' @ rm_Formula m @ ''): '' @ e)
      | Inr v \<Rightarrow> eval_subtotals ms (am(rm_LineCode m \<mapsto> v)))"

definition ps_empty :: ProfitStatement where
  "ps_empty = \<lparr> ps_Revenue = lit 0, ps_Cost = lit 0, ps_TaxAndSurcharge = lit 0, ps_SellingExpense = lit 0,
     ps_AdminExpense = lit 0, ps_FinanceExpense = lit 0, ps_AssetImpairment = lit 0, ps_FairValueGain = lit 0,
     ps_InvestmentIncome = lit 0, ps_OperatingProfit = lit 0, ps_NonOpIncome = lit 0, ps_NonOpExpense = lit 0,
     ps_TotalProfit = lit 0, ps_IncomeTax = lit 0, ps_NetProfit = lit 0, ps_Lines = [] \<rparr>"

definition ps_set :: "string \<Rightarrow> f64 \<Rightarrow> ProfitStatement \<Rightarrow> ProfitStatement" where
  "ps_set code amt ps =
     (if code = ''revenue'' then ps\<lparr>ps_Revenue := amt\<rparr>
      else if code = ''cost'' then ps\<lparr>ps_Cost := amt\<rparr>
      else if code = ''tax_surcharge'' then ps\<lparr>ps_TaxAndSurcharge := amt\<rparr>
      else if code = ''selling_expense'' then ps\<lparr>ps_SellingExpense := amt\<rparr>
      else if code = ''admin_expense'' then ps\<lparr>ps_AdminExpense := amt\<rparr>
      else if code = ''finance_expense'' then ps\<lparr>ps_FinanceExpense := amt\<rparr>
      else if code = ''asset_impairment'' then ps\<lparr>ps_AssetImpairment := amt\<rparr>
      else if code = ''fair_value_gain'' then ps\<lparr>ps_FairValueGain := amt\<rparr>
      else if code = ''investment_income'' then ps\<lparr>ps_InvestmentIncome := amt\<rparr>
      else if code = ''operating_profit'' then ps\<lparr>ps_OperatingProfit := amt\<rparr>
      else if code = ''non_op_income'' then ps\<lparr>ps_NonOpIncome := amt\<rparr>
      else if code = ''non_op_expense'' then ps\<lparr>ps_NonOpExpense := amt\<rparr>
      else if code = ''total_profit'' then ps\<lparr>ps_TotalProfit := amt\<rparr>
      else if code = ''income_tax'' then ps\<lparr>ps_IncomeTax := amt\<rparr>
      else if code = ''net_profit'' then ps\<lparr>ps_NetProfit := amt\<rparr>
      else ps)"

definition BuildProfitStatement :: "ReportMapping list option \<Rightarrow> ReportLine list \<Rightarrow> string + ProfitStatement" where
  "BuildProfitStatement rb lines =
     (case rb of None \<Rightarrow> Inl ''no report mappings configured''
      | Some mappings \<Rightarrow>
        (case eval_subtotals mappings (collect_amounts mappings lines) of Inl e \<Rightarrow> Inl e
         | Inr evaluated \<Rightarrow>
           Inr (foldl (\<lambda>ps m. let amt = amount_of evaluated (rm_LineCode m) in
               ps_set (rm_LineCode m) amt (ps\<lparr>ps_Lines := ps_Lines ps @
                 [\<lparr> psl_LineCode = rm_LineCode m, psl_Label = rm_LineLabel m, psl_Amount = amt,
                    psl_IsSubtotal = rm_IsSubtotal m \<rparr>]\<rparr>)) ps_empty mappings)))"

definition sectionOrder :: "string \<Rightarrow> string" where
  "sectionOrder code =
     (if code \<in> {''cash'', ''receivables'', ''prepayments'', ''other_receivables'', ''inventory'',
                 ''fixed_assets_net'', ''intangibles_net'', ''total_assets''} then ''assets''
      else if code \<in> {''short_term_loans'', ''payables'', ''advance_receipts'', ''employee_payable'',
                      ''tax_payable'', ''other_payables'', ''total_liabilities''} then ''liabilities''
      else if code \<in> {''paid_in_capital'', ''capital_reserve'', ''surplus_reserve'', ''retained_earnings'',
                      ''total_equity'', ''total_liab_equity''} then ''equity''
      else '''')"

definition bs_empty :: BalanceSheet where
  "bs_empty = \<lparr> bs_Assets = [], bs_Liabilities = [], bs_Equity = [], bs_TotalAssets = lit 0,
     bs_TotalLiabilities = lit 0, bs_TotalEquity = lit 0, bs_TotalLiabEquity = lit 0 \<rparr>"

definition bs_add :: "BalanceSheetLine \<Rightarrow> BalanceSheet \<Rightarrow> BalanceSheet" where
  "bs_add l bs =
     (if bsl_Section l = ''assets'' then bs\<lparr>bs_Assets := bs_Assets bs @ [l]\<rparr>
      else if bsl_Section l = ''liabilities'' then bs\<lparr>bs_Liabilities := bs_Liabilities bs @ [l]\<rparr>
      else if bsl_Section l = ''equity'' then bs\<lparr>bs_Equity := bs_Equity bs @ [l]\<rparr>
      else bs)"

definition bs_set :: "string \<Rightarrow> f64 \<Rightarrow> BalanceSheet \<Rightarrow> BalanceSheet" where
  "bs_set code amt bs =
     (if code = ''total_assets'' then bs\<lparr>bs_TotalAssets := amt\<rparr>
      else if code = ''total_liabilities'' then bs\<lparr>bs_TotalLiabilities := amt\<rparr>
      else if code = ''total_equity'' then bs\<lparr>bs_TotalEquity := amt\<rparr>
      else if code = ''total_liab_equity'' then bs\<lparr>bs_TotalLiabEquity := amt\<rparr>
      else bs)"

definition BuildBalanceSheet :: "ReportMapping list option \<Rightarrow> ReportLine list \<Rightarrow> string + BalanceSheet" where
  "BuildBalanceSheet rb lines =
     (case rb of None \<Rightarrow> Inl ''no report mappings configured''
      | Some mappings \<Rightarrow>
        (case eval_subtotals mappings (collect_amounts mappings lines) of Inl e \<Rightarrow> Inl e
         | Inr evaluated \<Rightarrow>
           Inr (foldl (\<lambda>bs m. let amt = amount_of evaluated (rm_LineCode m) in
               bs_set (rm_LineCode m) amt (bs_add \<lparr> bsl_LineCode = rm_LineCode m, bsl_Label = rm_LineLabel m,
                 bsl_Amount = amt, bsl_IsSubtotal = rm_IsSubtotal m, bsl_Section = sectionOrder (rm_LineCode m) \<rparr> bs))
             bs_empty mappings)))"

section \<open>Amounts of report lines are exact\<close>

text \<open>The mappings a journal line counts towards.\<close>

definition selects :: "ReportMapping \<Rightarrow> ReportLine \<Rightarrow> bool" where
  "selects m l \<longleftrightarrow> \<not> rm_IsSubtotal m \<and> matchSelector (rl_AccountCode l) (rl_Direction l) (rm_AccountSelector m)"

lemma add_to_mapping_other: "c \<noteq> rm_LineCode m \<Longrightarrow> add_to_mapping l am m c = am c"
  by (simp add: add_to_mapping_def)

lemma fold_mappings_other: "c \<notin> rm_LineCode ` set ms \<Longrightarrow> foldl (add_to_mapping l) am ms c = am c"
  by (induction ms arbitrary: am) (auto simp: add_to_mapping_other)

lemma fold_mappings_one:
  assumes "m \<in> set ms" "distinct (map rm_LineCode ms)"
  shows "foldl (add_to_mapping l) am ms (rm_LineCode m) =
    (if selects m l then Some (round2 (fadd (amount_of am (rm_LineCode m)) (rl_Amount l))) else am (rm_LineCode m))"
  using assms
proof (induction ms arbitrary: am)
  case (Cons n ms)
  show ?case
  proof (cases "n = m")
    case True
    with Cons.prems show ?thesis
      by (simp add: fold_mappings_other) (simp add: add_to_mapping_def selects_def)
  next
    case False
    with Cons.prems have "m \<in> set ms" "rm_LineCode n \<noteq> rm_LineCode m" by auto
    with Cons show ?thesis by (simp add: add_to_mapping_other amount_of_def)
  qed
qed simp

lemma collect_amounts_rsum:
  assumes "m \<in> set ms" "distinct (map rm_LineCode ms)"
  shows "collect_amounts ms lines (rm_LineCode m) =
    (if filter (selects m) lines = [] then None else Some (rsum (map rl_Amount (filter (selects m) lines))))"
proof (induction lines rule: rev_induct)
  case (snoc l lines)
  have "amount_of (collect_amounts ms lines) (rm_LineCode m) = rsum (map rl_Amount (filter (selects m) lines))"
    using snoc by (simp add: amount_of_def rsum_def)
  then show ?case
    using snoc fold_mappings_one [OF assms, of l] by (simp add: collect_amounts_def rsum_def round2_roundMoney)
qed (simp add: collect_amounts_def)

lemma list_all2_filter_zip:
  assumes "list_all2 is_cents (map rl_Amount lines) ks"
  shows "list_all2 is_cents (map rl_Amount (filter P lines)) (map snd (filter (\<lambda>(l, k). P l) (zip lines ks)))"
    "sum_list (map abs (map snd (filter (\<lambda>(l, k). P l) (zip lines ks)))) \<le> sum_list (map abs ks)"
  using assms
proof (induction lines arbitrary: ks)
  case (Cons l lines)
  { case 1 with Cons show ?case by (auto simp: list_all2_Cons1) }
  { case 2 with Cons.IH(2) show ?case by (fastforce simp: list_all2_Cons1) }
qed simp_all

text \<open>Each report line that is not a subtotal holds the exact sum, in cents, of the journal lines its
  selector matches: with distinct line codes and amounts in cents whose magnitudes add up to at most
  \<open>2 ^ 48\<close>, the repeated rounding of the code loses nothing; a line no journal line matches stays unset.\<close>

theorem collect_amounts_exact:
  assumes "m \<in> set mappings" "distinct (map rm_LineCode mappings)"
    and "list_all2 is_cents (map rl_Amount lines) ks" "sum_list (map abs ks) \<le> cap"
  shows "if list_ex (selects m) lines then
      \<exists>v. collect_amounts mappings lines (rm_LineCode m) = Some v \<and>
        is_cents v (sum_list (map snd (filter (\<lambda>(l, k). selects m l) (zip lines ks))))
    else collect_amounts mappings lines (rm_LineCode m) = None"
proof -
  have "filter (selects m) lines = [] \<longleftrightarrow> \<not> list_ex (selects m) lines"
    by (simp add: filter_empty_conv list_ex_iff)
  moreover have "is_cents (rsum (map rl_Amount (filter (selects m) lines)))
      (sum_list (map snd (filter (\<lambda>(l, k). selects m l) (zip lines ks))))"
    using list_all2_filter_zip [OF assms(3), of "selects m"] assms(4) by (intro rsum_cents) auto
  ultimately show ?thesis using collect_amounts_rsum [OF assms(1,2), of lines] by simp
qed

definition mapping_example :: ReportMapping where
  "mapping_example = \<lparr> rm_LineCode = ''revenue'', rm_LineLabel = ''Revenue'', rm_DisplayOrder = 10,
     rm_AccountingStandard = ''gaap'', rm_AccountSelector = \<lparr> as_Prefixes = [''6001'', ''6051''], as_Categories = [],
     as_Direction = ''credit'', as_ExcludePrefixes = [] \<rparr>, rm_IsSubtotal = False, rm_ParentLineCode = [], rm_Formula = [] \<rparr>"

definition lines_example :: "ReportLine list" where
  "lines_example = [\<lparr> rl_AccountCode = ''6001'', rl_Direction = ''credit'', rl_Amount = lit (1 / 10) \<rparr>,
     \<lparr> rl_AccountCode = ''1002'', rl_Direction = ''debit'', rl_Amount = lit 5 \<rparr>,
     \<lparr> rl_AccountCode = ''605101'', rl_Direction = ''credit'', rl_Amount = lit (2 / 10) \<rparr>]"

theorem collect_amounts_exact_witness:
  "\<exists>v. collect_amounts [mapping_example] lines_example ''revenue'' = Some v \<and> is_cents v 30"
proof -
  have "list_all2 is_cents (map rl_Amount lines_example) [10, 500, 20]"
    by (simp add: lines_example_def is_cents_def lit_fin float_eval)
  moreover have "selects mapping_example (lines_example ! 0)" "\<not> selects mapping_example (lines_example ! 1)"
    "selects mapping_example (lines_example ! 2)"
    by (simp_all add: selects_def mapping_example_def lines_example_def matchSelector_def HasPrefix_def)
  ultimately show ?thesis
    using collect_amounts_exact [of mapping_example "[mapping_example]" lines_example "[10, 500, 20]"]
    by (simp add: lines_example_def cap_def) (simp add: mapping_example_def)
qed

end
