(* ===== verification/Domain.thy ===== *)
theory Domain
  imports Money GoStrings
begin

text \<open>
  The data of the program (internal/domain): books, periods, accounts, journals, invoices, audit entries,
  reconciliation, risk and tax records, their status constants, and the validation of extracted invoices.
  A field keeps the order of the Go struct; byte slices are strings, and the JSON documents that the database
  stores are kept as the values they encode.
\<close>

section \<open>Books and periods (domain/book.go, domain/period.go)\<close>

record AccountingBook =
  bk_ID :: string
  bk_EntityID :: string
  bk_Code :: string
  bk_Name :: string
  bk_AccountingStandard :: string
  bk_BaseCurrency :: string
  bk_StartPeriod :: string
  bk_IsDefault :: bool
  bk_Status :: string
  bk_CreatedAt :: string
  bk_UpdatedAt :: string

definition BookStatusActive :: string where "BookStatusActive = ''active''"
definition BookStatusInactive :: string where "BookStatusInactive = ''inactive''"

record AccountingPeriod =
  pd_ID :: string
  pd_EntityID :: string
  pd_BookID :: string
  pd_Period :: string
  pd_Status :: string
  pd_OpenedAt :: string
  pd_ClosingAt :: string
  pd_ClosedAt :: string
  pd_LockedAt :: string
  pd_ClosedBy :: string
  pd_Metadata :: string

definition PeriodStatusOpen :: string where "PeriodStatusOpen = ''open''"
definition PeriodStatusClosing :: string where "PeriodStatusClosing = ''closing''"
definition PeriodStatusClosed :: string where "PeriodStatusClosed = ''closed''"
definition PeriodStatusLocked :: string where "PeriodStatusLocked = ''locked''"

record CloseCheck =
  cc_Category :: string
  cc_Label :: string
  cc_Passed :: bool
  cc_Detail :: string
  cc_Severity :: string

record CloseCheckResult =
  ccr_Passed :: bool
  ccr_Period :: string
  ccr_Checks :: "CloseCheck list"
  ccr_Summary :: string

section \<open>Accounts (domain/account.go)\<close>

text \<open>A nil slice of keywords is \<open>None\<close>.\<close>

record ChartAccount =
  ac_ID :: string
  ac_EntityID :: string
  ac_BookID :: string
  ac_Code :: string
  ac_Name :: string
  ac_Category :: string
  ac_BalanceType :: string
  ac_ParentID :: string
  ac_IsSystem :: bool
  ac_TaxRelevant :: bool
  ac_Keywords :: "string list option"
  ac_CreatedAt :: string
  ac_UpdatedAt :: string

definition BalanceTypeDebit :: string where "BalanceTypeDebit = ''debit''"
definition BalanceTypeCredit :: string where "BalanceTypeCredit = ''credit''"

record AccountListQuery =
  alq_EntityID :: string
  alq_Category :: string
  alq_Keyword :: string
  alq_Limit :: int
  alq_Offset :: int

record AccountListResponse =
  alr_Items :: "ChartAccount list"
  alr_Total :: int
  alr_Limit :: int
  alr_Offset :: int

section \<open>Journal entries (domain/journal.go)\<close>

record JournalLine =
  jl_ID :: string
  jl_EntityID :: string
  jl_JournalEntryID :: string
  jl_AccountID :: string
  jl_AccountCode :: string
  jl_AccountName :: string
  jl_Direction :: string
  jl_DebitAmount :: f64
  jl_CreditAmount :: f64
  jl_Currency :: string
  jl_LineNo :: int
  jl_Auxiliary :: string

record JournalEntry =
  je_ID :: string
  je_EntityID :: string
  je_BookID :: string
  je_Period :: string
  je_VoucherNo :: string
  je_VoucherWord :: string
  je_EntryDate :: string
  je_Summary :: string
  je_SourceType :: string
  je_SourceID :: string
  je_Status :: string
  je_CreatedBy :: string
  je_PostedBy :: string
  je_PostedAt :: string
  je_Lines :: "JournalLine list"
  je_CreatedAt :: string
  je_UpdatedAt :: string

definition JournalStatusDraft :: string where "JournalStatusDraft = ''draft''"
definition JournalStatusPosted :: string where "JournalStatusPosted = ''posted''"
definition JournalStatusVoided :: string where "JournalStatusVoided = ''voided''"
definition DirectionDebit :: string where "DirectionDebit = ''debit''"
definition DirectionCredit :: string where "DirectionCredit = ''credit''"

text \<open>The voucher word "ji" (record).\<close>

definition VoucherWordJi :: string where "VoucherWordJi = (zh [0x8BB0])"

record JournalListQuery =
  jlq_EntityID :: string
  jlq_BookID :: string
  jlq_Status :: string
  jlq_Period :: string
  jlq_Limit :: int
  jlq_Offset :: int

section \<open>Audit log (domain/audit.go)\<close>

text \<open>The payload is the JSON object of its fields, given as its list of pairs.\<close>

record AuditEntry =
  ae_ID :: string
  ae_EntityID :: string
  ae_BookID :: string
  ae_CapabilityID :: string
  ae_V2CapabilityID :: string
  ae_ActorType :: string
  ae_ActorID :: string
  ae_TraceID :: string
  ae_WorkflowRunID :: string
  ae_ApprovalGrantID :: string
  ae_IdempotencyKey :: string
  ae_ObjectType :: string
  ae_ObjectID :: string
  ae_Action :: string
  ae_Outcome :: string
  ae_Payload :: "(string \<times> string) list"
  ae_CreatedAt :: string

record AuditListQuery =
  auq_EntityID :: string
  auq_BookID :: string
  auq_Action :: string
  auq_Limit :: int
  auq_Offset :: int

section \<open>Invoices (domain/invoice.go)\<close>

record InvoiceLine =
  il_ID :: string
  il_EntityID :: string
  il_InvoiceID :: string
  il_LineNo :: int
  il_ItemName :: string
  il_ItemCode :: string
  il_Quantity :: f64
  il_UnitPrice :: f64
  il_Amount :: f64
  il_TaxRate :: f64
  il_TaxAmount :: f64
  il_GoodsServiceCode :: string
  il_Metadata :: string

record Invoice =
  iv_ID :: string
  iv_EntityID :: string
  iv_BookID :: string
  iv_InvoiceNo :: string
  iv_InvoiceType :: string
  iv_Direction :: string
  iv_IssueDate :: string
  iv_SellerName :: string
  iv_SellerTaxNo :: string
  iv_BuyerName :: string
  iv_BuyerTaxNo :: string
  iv_AmountWithoutTax :: f64
  iv_TaxAmount :: f64
  iv_AmountWithTax :: f64
  iv_Currency :: string
  iv_Status :: string
  iv_Source :: string
  iv_InvoiceKind :: string
  iv_DigitalInvoiceNo :: string
  iv_BusinessTag :: string
  iv_VerificationStatus :: string
  iv_UsageStatus :: string
  iv_DeductionStatus :: string
  iv_RedLetterStatus :: string
  iv_OriginalInvoiceID :: string
  iv_TaxAccountPayload :: string
  iv_Extraction :: string
  iv_EvidenceRefs :: string
  iv_InvoiceLines :: "InvoiceLine list"
  iv_CreatedAt :: string
  iv_UpdatedAt :: string
definition DirectionInput :: string where "DirectionInput = ''input''"
definition DirectionOutput :: string where "DirectionOutput = ''output''"

definition StatusDraft :: string where "StatusDraft = ''draft''"
definition StatusPendingReview :: string where "StatusPendingReview = ''pending_review''"
definition StatusApproved :: string where "StatusApproved = ''approved''"
definition StatusRejected :: string where "StatusRejected = ''rejected''"
definition StatusPosted :: string where "StatusPosted = ''posted''"
definition StatusVoided :: string where "StatusVoided = ''voided''"
definition StatusRedLettered :: string where "StatusRedLettered = ''red_lettered''"

definition InvoiceKindElectronic :: string where "InvoiceKindElectronic = ''electronic''"
definition VerStatusUnchecked :: string where "VerStatusUnchecked = ''unchecked''"
definition VerStatusVerified :: string where "VerStatusVerified = ''verified''"
definition UsageStatusUnconfirmed :: string where "UsageStatusUnconfirmed = ''unconfirmed''"
definition DeductionStatusNotDeducted :: string where "DeductionStatusNotDeducted = ''not_deducted''"
definition RedLetterStatusPartially :: string where "RedLetterStatusPartially = ''partially''"
definition RedLetterStatusFully :: string where "RedLetterStatusFully = ''fully''"

record ExtractionResult =
  ex_InvoiceType :: string
  ex_InvoiceCode :: string
  ex_InvoiceNo :: string
  ex_IssueDate :: string
  ex_CounterpartyName :: string
  ex_SellerTaxID :: string
  ex_BuyerTaxID :: string
  ex_TaxCategoryCode :: string
  ex_TaxRate :: f64
  ex_AmountWithoutTax :: f64
  ex_TaxAmount :: f64
  ex_AmountWithTax :: f64
  ex_Direction :: string
  ex_DigitalInvoiceNo :: string
  ex_InvoiceKind :: string
  ex_BusinessTag :: string
  ex_SuggestedEntry :: string
  ex_ExtractionConfidence :: f64
  ex_InvoiceLines :: "InvoiceLine list"

text \<open>The three patterns: tax ids (15 or 18 digits and capitals), invoice codes (10 or 12 digits), numbers.\<close>

definition taxIDPattern :: "string \<Rightarrow> bool" where
  "taxIDPattern s \<longleftrightarrow> list_all (\<lambda>c. is_digit c \<or> is_upper c) s \<and> (length s = 15 \<or> length s = 18)"

definition invCodePat :: "string \<Rightarrow> bool" where
  "invCodePat s \<longleftrightarrow> list_all is_digit s \<and> (length s = 10 \<or> length s = 12)"

definition invNoPat :: "string \<Rightarrow> bool" where
  "invNoPat s \<longleftrightarrow> list_all (\<lambda>c. is_upper c \<or> is_lower c \<or> is_digit c \<or> c = CHR ''-'') s \<and>
     1 \<le> length s \<and> length s \<le> 40"

definition validRates :: "f64 list" where
  "validRates = [lit 0, lit (5 / 1000), lit (1 / 100), lit (3 / 100), lit (5 / 100), lit (6 / 100), lit (9 / 100), lit (13 / 100)]"

definition amount_diff :: "f64 \<Rightarrow> f64 \<Rightarrow> f64 \<Rightarrow> f64" where
  "amount_diff withTax withoutTax tax = math_Abs (fsub (fsub withTax withoutTax) tax)"

text \<open>\<open>None\<close> is a nil error, \<open>Some\<close> the message.\<close>

definition Validate :: "ExtractionResult \<Rightarrow> string option" where
  "Validate e =
     (if TrimSpace (ex_InvoiceNo e) = '''' then Some ''invoice_no is required''
      else if \<not> invNoPat (TrimSpace (ex_InvoiceNo e)) then Some (''invoice_no format invalid: '' @ ex_InvoiceNo e)
      else if ex_InvoiceCode e \<noteq> '''' \<and> \<not> invCodePat (TrimSpace (ex_InvoiceCode e))
        then Some (''invoice_code format invalid: '' @ ex_InvoiceCode e)
      else if ex_SellerTaxID e \<noteq> '''' \<and> \<not> taxIDPattern (TrimSpace (ex_SellerTaxID e))
        then Some (''seller_tax_id format invalid: '' @ ex_SellerTaxID e)
      else if ex_BuyerTaxID e \<noteq> '''' \<and> \<not> taxIDPattern (TrimSpace (ex_BuyerTaxID e))
        then Some (''buyer_tax_id format invalid: '' @ ex_BuyerTaxID e)
      else if \<not> feq (ex_TaxRate e) (lit 0) \<and> \<not> list_ex (feq (ex_TaxRate e)) validRates
        then Some (''tax_rate invalid: '' @ fmt2 (ex_TaxRate e))
      else if ex_Direction e \<noteq> '''' \<and> ex_Direction e \<noteq> DirectionInput \<and> ex_Direction e \<noteq> DirectionOutput
        then Some (''direction must be 'input' or 'output': '' @ ex_Direction e)
      else (let diff = amount_diff (ex_AmountWithTax e) (ex_AmountWithoutTax e) (ex_TaxAmount e) in
        if flt (lit (2 / 100)) diff
        then Some (''amount mismatch: without_tax + tax_amount != with_tax (diff='' @ fmt2 diff @ '')'')
        else None))"

section \<open>Reconciliation (domain/reconciliation.go)\<close>

record LogisticsRecord =
  lg_ID :: string
  lg_EntityID :: string
  lg_InvoiceID :: string
  lg_WaybillNo :: string
  lg_Carrier :: string
  lg_Status :: string
  lg_ShipDate :: string
  lg_DeliveryDate :: string
  lg_Items :: string
  lg_Notes :: string
  lg_CreatedAt :: string
  lg_UpdatedAt :: string

record BankTransaction =
  bt_ID :: string
  bt_EntityID :: string
  bt_BookID :: string
  bt_TransactionDate :: string
  bt_CounterpartyName :: string
  bt_CounterpartyAccount :: string
  bt_Amount :: f64
  bt_Direction :: string
  bt_Summary :: string
  bt_BankReference :: string
  bt_MatchedInvoiceID :: string
  bt_MatchConfidence :: f64
  bt_CreatedAt :: string
  bt_UpdatedAt :: string

definition BankDirectionIn :: string where "BankDirectionIn = ''in''"
definition BankDirectionOut :: string where "BankDirectionOut = ''out''"
definition MatchStatusMatched :: string where "MatchStatusMatched = ''matched''"
definition MatchStatusUnmatched :: string where "MatchStatusUnmatched = ''unmatched''"
definition MatchStatusNotApplicable :: string where "MatchStatusNotApplicable = ''not_applicable''"

record ThreeWayRow =
  tw_InvoiceID :: string
  tw_InvoiceNo :: string
  tw_CounterpartyName :: string
  tw_AmountWithTax :: f64
  tw_Direction :: string
  tw_LogisticsStatus :: string
  tw_LogisticsID :: string
  tw_WaybillNo :: string
  tw_BankStatus :: string
  tw_BankTxID :: string
  tw_BankAmount :: f64

record ThreeWaySummary =
  tws_Period :: string
  tws_Rows :: "ThreeWayRow list"
  tws_TotalCount :: int
  tws_FullMatch :: int
  tws_MissingLogistics :: int
  tws_MissingBank :: int

section \<open>Risk and consistency records (domain/risk.go)\<close>

record RiskScan =
  rs_ID :: string
  rs_EntityID :: string
  rs_BookID :: string
  rs_Period :: string
  rs_ScanType :: string
  rs_RulesTriggered :: string
  rs_Findings :: string
  rs_TotalScore :: f64
  rs_RiskLevel :: string
  rs_EngineVersion :: string
  rs_CreatedAt :: string

record ConsistencyCheck =
  ck_ID :: string
  ck_EntityID :: string
  ck_BookID :: string
  ck_Period :: string
  ck_CheckType :: string
  ck_CheckName :: string
  ck_SourceValue :: f64
  ck_TargetValue :: f64
  ck_Difference :: f64
  ck_Tolerance :: f64
  ck_Passed :: bool
  ck_Detail :: string
  ck_CreatedAt :: string

record TaxRiskItem =
  tri_Level :: string
  tri_Category :: string
  tri_Title :: string
  tri_Detail :: string
  tri_Suggestion :: string
  tri_Amount :: f64

record TaxRiskReport =
  trr_Period :: string
  trr_Risks :: "TaxRiskItem list"
  trr_TotalRisks :: int
  trr_DangerCount :: int
  trr_WarnCount :: int

section \<open>Tax records (domain/tax.go)\<close>

record AdjustmentRecord =
  aj_ID :: string
  aj_EntityID :: string
  aj_BookID :: string
  aj_TaxYear :: string
  aj_Category :: string
  aj_BookAmount :: f64
  aj_TaxBase :: f64
  aj_Adjustment :: f64
  aj_Formula :: string
  aj_Detail :: string
  aj_CreatedAt :: string

record AdjustmentListQuery =
  ajq_EntityID :: string
  ajq_TaxYear :: string
  ajq_Category :: string
  ajq_Limit :: int
  ajq_Offset :: int

record TaxProfile =
  tp_ID :: string
  tp_EntityID :: string
  tp_BookID :: string
  tp_TaxpayerType :: string
  tp_VATTaxpayerType :: string
  tp_CITRateType :: string
  tp_TaxRegistrationNo :: string
  tp_TaxOffice :: string
  tp_Industry :: string
  tp_CreatedAt :: string
  tp_UpdatedAt :: string

record TaxReturn =
  tr_ID :: string
  tr_EntityID :: string
  tr_BookID :: string
  tr_TaxYear :: string
  tr_TaxPeriod :: string
  tr_ReturnType :: string
  tr_Payload :: string
  tr_Status :: string
  tr_CreatedAt :: string

section \<open>Reports (domain/report.go)\<close>

record TrialBalanceRow =
  tbr_AccountCode :: string
  tbr_AccountName :: string
  tbr_DebitAmount :: f64
  tbr_CreditAmount :: f64
  tbr_NetAmount :: f64

record TrialBalance =
  tbal_Period :: string
  tbal_TotalDebit :: f64
  tbal_TotalCredit :: f64
  tbal_Balanced :: bool
  tbal_Rows :: "TrialBalanceRow list"

record AccountBalanceRow =
  abr_AccountCode :: string
  abr_AccountName :: string
  abr_DebitAmount :: f64
  abr_CreditAmount :: f64
  abr_EndingDebit :: f64
  abr_EndingCredit :: f64

record AccountBalance =
  abal_Period :: string
  abal_Rows :: "AccountBalanceRow list"

record VATSummary =
  vs_Period :: string
  vs_InvoiceCount :: int
  vs_InputAmountWithoutTax :: f64
  vs_InputTaxAmount :: f64
  vs_InputAmountWithTax :: f64
  vs_OutputInvoiceCount :: int
  vs_OutputAmountWithoutTax :: f64
  vs_OutputTaxAmount :: f64
  vs_OutputAmountWithTax :: f64

text \<open>The VAT cross-check and the VAT return.\<close>

record VATRateRow =
  vr_TaxRate :: f64
  vr_InvoiceCount :: int
  vr_AmountWithoutTax :: f64
  vr_TaxAmount :: f64
  vr_AmountWithTax :: f64

record VATCrossCheck =
  vc_OutputRates :: "VATRateRow list"
  vc_InputRates :: "VATRateRow list"
  vc_OutputTotal :: f64
  vc_InputTotal :: f64
  vc_NetPayable :: f64
  vc_Warnings :: "string list"

record VATReturnRow =
  vrr_RowNo :: int
  vrr_Description :: string
  vrr_TaxRate :: f64
  vrr_AmountWithoutTax :: f64
  vrr_TaxAmount :: f64

record VATMainTable =
  vm_OutputTax :: f64
  vm_InputTax :: f64
  vm_TaxPayable :: f64
  vm_UrbanConstruction :: f64
  vm_EducationSurcharge :: f64
  vm_LocalEducation :: f64
  vm_TotalTaxBurden :: f64

record VATReturn =
  vret_Schedule1 :: "VATReturnRow list"
  vret_Schedule2 :: "VATReturnRow list"
  vret_Main :: VATMainTable

record CrossTaxValidation =
  cx_VATSales :: f64
  cx_CITRevenue :: f64
  cx_Difference :: f64
  cx_DeviationRate :: f64
  cx_Consistent :: bool
  cx_Warnings :: "string list"

text \<open>The annual report of the corporate income tax (domain/tax.go).\<close>

definition CITRateSmallProfit :: string where "CITRateSmallProfit = ''small_profit''"

record CITReport =
  crep_ID :: string
  crep_EntityID :: string
  crep_BookID :: string
  crep_TaxYear :: string
  crep_ReportType :: string
  crep_TotalRevenue :: f64
  crep_TotalCost :: f64
  crep_TotalExpense :: f64
  crep_OperatingProfit :: f64
  crep_AdjustmentTotal :: f64
  crep_TaxableIncome :: f64
  crep_ApplicableRate :: f64
  crep_TaxPayable :: f64
  crep_Deduction :: f64
  crep_PrepaidTax :: f64
  crep_TaxDue :: f64
  crep_Status :: string
  crep_GeneratedBy :: string
  crep_CreatedAt :: string

text \<open>The statements as the service returns them (domain/report.go); the engine has records of its own.\<close>

record DomainProfitStatementLine =
  dpl_LineCode :: string
  dpl_Label :: string
  dpl_Amount :: f64
  dpl_IsSubtotal :: bool

record DomainProfitStatement =
  dps_Revenue :: f64
  dps_Cost :: f64
  dps_TaxAndSurcharge :: f64
  dps_SellingExpense :: f64
  dps_AdminExpense :: f64
  dps_FinanceExpense :: f64
  dps_AssetImpairment :: f64
  dps_FairValueGain :: f64
  dps_InvestmentIncome :: f64
  dps_OperatingProfit :: f64
  dps_NonOpIncome :: f64
  dps_NonOpExpense :: f64
  dps_TotalProfit :: f64
  dps_IncomeTax :: f64
  dps_NetProfit :: f64
  dps_Lines :: "DomainProfitStatementLine list"

record DomainBalanceSheetLine =
  dbl_LineCode :: string
  dbl_Label :: string
  dbl_Amount :: f64
  dbl_IsSubtotal :: bool
  dbl_Section :: string

record DomainBalanceSheet =
  dbs_Assets :: "DomainBalanceSheetLine list"
  dbs_Liabilities :: "DomainBalanceSheetLine list"
  dbs_Equity :: "DomainBalanceSheetLine list"
  dbs_TotalAssets :: f64
  dbs_TotalLiabilities :: f64
  dbs_TotalEquity :: f64
  dbs_TotalLiabEquity :: f64

section \<open>What validation accepts\<close>

lemma Validate_None_iff:
  "Validate e = None \<longleftrightarrow>
     invNoPat (TrimSpace (ex_InvoiceNo e)) \<and>
     (ex_InvoiceCode e = '''' \<or> invCodePat (TrimSpace (ex_InvoiceCode e))) \<and>
     (ex_SellerTaxID e = '''' \<or> taxIDPattern (TrimSpace (ex_SellerTaxID e))) \<and>
     (ex_BuyerTaxID e = '''' \<or> taxIDPattern (TrimSpace (ex_BuyerTaxID e))) \<and>
     (feq (ex_TaxRate e) (lit 0) \<or> list_ex (feq (ex_TaxRate e)) validRates) \<and>
     (ex_Direction e = '''' \<or> ex_Direction e = DirectionInput \<or> ex_Direction e = DirectionOutput) \<and>
     \<not> flt (lit (2 / 100)) (amount_diff (ex_AmountWithTax e) (ex_AmountWithoutTax e) (ex_TaxAmount e))"
  by (auto simp: Validate_def Let_def invNoPat_def)

lemma abs_abs_close: "\<bar>v - d / 100\<bar> \<le> e \<Longrightarrow> \<bar>\<bar>v\<bar> - \<bar>d\<bar> / 100\<bar> \<le> (e :: rat)"
  by linarith

lemma close_small: "\<bar>v - d / 100\<bar> \<le> 5 / 4096 \<Longrightarrow> d \<le> 1 \<Longrightarrow> v \<le> (15 / 1000 :: rat)"
  and close_big: "\<bar>v - d / 100\<bar> \<le> 5 / 4096 \<Longrightarrow> 3 \<le> d \<Longrightarrow> (25 / 1000 :: rat) \<le> v"
  by linarith+

lemma amount_diff_near:
  assumes "is_cents w a" "is_cents n b" "is_cents t c" "\<bar>a\<bar> + \<bar>b\<bar> + \<bar>c\<bar> \<le> short_cap"
  shows "is_fin (amount_diff w n t)" "\<bar>val (amount_diff w n t) - \<bar>of_int (a - b - c)\<bar> / 100\<bar> \<le> 5 / 4096"
proof -
  have "near 5 (fsub (fsub w n) t) (a - b - c)"
    using short_sum3 [of w a "fneg n" "- b" "fneg t" "- c"] assms by (simp add: fsub_def)
  then have f: "is_fin (fsub (fsub w n) t)" and e: "\<bar>val (fsub (fsub w n) t) - of_int (a - b - c) / 100\<bar> \<le> 5 / 4096"
    by (simp_all add: near_def)
  show "is_fin (amount_diff w n t)" using f by (simp add: amount_diff_def)
  show "\<bar>val (amount_diff w n t) - \<bar>of_int (a - b - c)\<bar> / 100\<bar> \<le> 5 / 4096"
    unfolding amount_diff_def math_Abs_fin by (rule abs_abs_close [OF e])
qed

text \<open>Validation of extracted invoices.  The text fields decide independently of the amounts: they must
  match the patterns, the tax rate must be zero or one of the statutory rates and the direction empty, input
  or output.  For amounts in cents, an invoice whose parts are right and whose total is off by at most one cent
  is accepted, and one off by three cents or more is always refused.\<close>

theorem Validate_amounts:
  assumes "is_cents (ex_AmountWithTax e) a" "is_cents (ex_AmountWithoutTax e) b" "is_cents (ex_TaxAmount e) c"
    and "\<bar>a\<bar> + \<bar>b\<bar> + \<bar>c\<bar> \<le> short_cap"
  defines "parts \<equiv> invNoPat (TrimSpace (ex_InvoiceNo e)) \<and>
     (ex_InvoiceCode e = '''' \<or> invCodePat (TrimSpace (ex_InvoiceCode e))) \<and>
     (ex_SellerTaxID e = '''' \<or> taxIDPattern (TrimSpace (ex_SellerTaxID e))) \<and>
     (ex_BuyerTaxID e = '''' \<or> taxIDPattern (TrimSpace (ex_BuyerTaxID e))) \<and>
     (feq (ex_TaxRate e) (lit 0) \<or> list_ex (feq (ex_TaxRate e)) validRates) \<and>
     (ex_Direction e = '''' \<or> ex_Direction e = DirectionInput \<or> ex_Direction e = DirectionOutput)"
  shows "(\<bar>a - b - c\<bar> \<le> 1 \<longrightarrow> (Validate e = None \<longleftrightarrow> parts)) \<and> (3 \<le> \<bar>a - b - c\<bar> \<longrightarrow> Validate e \<noteq> None)"
proof -
  let ?d = "amount_diff (ex_AmountWithTax e) (ex_AmountWithoutTax e) (ex_TaxAmount e)"
  note n = amount_diff_near [OF assms(1-4)]
  have l: "is_fin (lit (2 / 100))" "15 / 1000 < val (lit (2 / 100))" "val (lit (2 / 100)) < 25 / 1000"
    by (simp_all add: float_eval)
  have small: "\<not> flt (lit (2 / 100)) ?d" if "\<bar>a - b - c\<bar> \<le> 1"
  proof -
    have "\<bar>of_int (a - b - c)\<bar> \<le> (1 :: rat)" using that by (simp only: of_int_abs [symmetric] of_int_le_1_iff)
    with n(2) have "val ?d \<le> 15 / 1000" by (rule close_small)
    with n(1) l show ?thesis by simp
  qed
  have big: "flt (lit (2 / 100)) ?d" if "3 \<le> \<bar>a - b - c\<bar>"
  proof -
    have "of_int 3 \<le> (\<bar>of_int (a - b - c)\<bar> :: rat)" using that by (simp only: of_int_abs [symmetric] of_int_le_iff)
    then have "3 \<le> (\<bar>of_int (a - b - c)\<bar> :: rat)" by simp
    with n(2) have "25 / 1000 \<le> val ?d" by (rule close_big)
    with n(1) l show ?thesis by simp
  qed
  show ?thesis unfolding Validate_None_iff parts_def using small big by auto
qed

definition extraction_example :: ExtractionResult where
  "extraction_example = \<lparr> ex_InvoiceType = [], ex_InvoiceCode = [], ex_InvoiceNo = '' INV-1 '', ex_IssueDate = ''2025-01-15'',
     ex_CounterpartyName = [], ex_SellerTaxID = ''91350100M000100Y43'', ex_BuyerTaxID = [], ex_TaxCategoryCode = [],
     ex_TaxRate = lit (13 / 100), ex_AmountWithoutTax = lit 100, ex_TaxAmount = lit 13, ex_AmountWithTax = lit (11301 / 100),
     ex_Direction = ''input'', ex_DigitalInvoiceNo = [], ex_InvoiceKind = [], ex_BusinessTag = [], ex_SuggestedEntry = [],
     ex_ExtractionConfidence = lit 1, ex_InvoiceLines = [] \<rparr>"

theorem Validate_amounts_witness:
  "Validate extraction_example = None \<and>
   Validate (extraction_example\<lparr>ex_AmountWithTax := lit (11303 / 100)\<rparr>) \<noteq> None"
proof -
  let ?e = "extraction_example\<lparr>ex_AmountWithTax := lit (11303 / 100)\<rparr>"
  have c: "is_cents (ex_AmountWithTax extraction_example) 11301" "is_cents (ex_AmountWithoutTax extraction_example) 10000"
    "is_cents (ex_TaxAmount extraction_example) 1300" "is_cents (ex_AmountWithTax ?e) 11303"
    "is_cents (ex_AmountWithoutTax ?e) 10000" "is_cents (ex_TaxAmount ?e) 1300"
    by (simp_all add: extraction_example_def is_cents_def lit_fin float_eval)
  have t: "TrimSpace '' INV-1 '' = ''INV-1''" "TrimSpace ''91350100M000100Y43'' = ''91350100M000100Y43''"
    by (simp_all add: TrimSpace_def TrimLeft_def TrimRight_def lead_def spaces_def HasPrefix_def eval_nat_numeral)
  have r: "list_ex (feq (lit (13 / 100))) validRates" by (simp add: validRates_def lit_fin)
  show ?thesis
    using Validate_amounts [OF c(1-3)] Validate_amounts [OF c(4-6)] r
    by (simp add: extraction_example_def t short_cap_def invNoPat_def taxIDPattern_def is_digit_def is_upper_def
      is_lower_def DirectionInput_def)
qed

end
