(* ===== verification/Store.thy ===== *)
theory Store
  imports Domain
begin

text \<open>
  The database behind internal/store/postgres: tables, statements that may fail, the environment a call runs in,
  and what all stores share.

  A table is the list of its rows in insertion order; the constraints of the migrations (primary keys, unique
  keys, foreign keys) are checked by the insert statements.  Each SQL statement of the code is one function on
  the tables; it fails when the connection does (\<open>fault\<close>) or a constraint is violated.  PostgreSQL itself is not
  part of the program: how it converts and orders values is a parameter of the environment.
\<close>

section \<open>Errors\<close>

text \<open>
  The SQL statements of the stores, to tell which one failed.  Statements run in a loop carry the line number,
  and the query that reads a row back after an update is told apart from the one before it.
\<close>

datatype stmt =
    Begin | Commit
  | Book_Insert | Book_GetByID | Book_GetDefault | Book_List | Book_Update | Book_ClearDefault | Book_SetDefault
  | Period_Insert | Period_Get | Period_List | Period_IsClosed | Period_Update string string
  | Account_Insert | Account_Get | Account_Count | Account_List | Account_Update | Account_Delete
  | Journal_InsertEntry | Journal_InsertLine int | Journal_Get | Journal_Reread | Journal_Lines | Journal_List | Journal_Post
  | Journal_Void | Journal_PostedLines | Journal_Count
  | Invoice_Insert | Invoice_Update | Invoice_Get | Invoice_Reread | Invoice_List | Invoice_FindByNo | Invoice_FindByDigitalNo
  | Invoice_FindByOriginal | Invoice_SetStatus string string | Invoice_ListPosted | Invoice_SetVerification
  | Invoice_SetUsage | Invoice_SetDeduction | Invoice_SetRedLetter
  | InvoiceLine_Insert int | InvoiceLine_Upsert int | InvoiceLine_Delete | InvoiceLine_List
  | Audit_Insert | Audit_List | Idempotency_Get | Idempotency_Save
  | Logistics_Upsert | Logistics_Get | Logistics_Delete | Bank_Upsert | Bank_Get | Bank_Match | Bank_Unmatch | Bank_Unmatched
  | ThreeWay_Match | Mapping_List | Mapping_ListAll
  | Adjustment_Upsert string | Adjustment_Delete | Adjustment_List | Adjustment_DeleteByCategory | Adjustment_Sum
  | TaxProfile_Upsert | TaxProfile_Get | TaxReturn_Upsert | TaxReturn_Get
  | RiskScan_Insert | RiskScan_List | RiskScan_Latest | Consistency_Insert string | Consistency_List

text \<open>
  The sentinel errors of internal/service and of pgx, an error of the driver for a statement, a formatted
  message, and a message that wraps another error (\<open>Wrap pre e post\<close> prints \<open>pre\<close>, the error and \<open>post\<close>).
\<close>

datatype err =
    ErrInvalidRequest | ErrNotConfigured | ErrPeriodClosed | ErrPeriodLocked | ErrBookNotFound | ErrBookScopeMismatch
  | ErrNoRows
  | DbError stmt
  | Msg string
  | Wrap string err string

fun err_text :: "(stmt \<Rightarrow> string) \<Rightarrow> err \<Rightarrow> string" where
  "err_text db ErrInvalidRequest = ''invalid request''"
| "err_text db ErrNotConfigured = ''feature not configured''"
| "err_text db ErrPeriodClosed = ''period is closed or locked''"
| "err_text db ErrPeriodLocked = ''period is locked''"
| "err_text db ErrBookNotFound = ''book not found''"
| "err_text db ErrBookScopeMismatch = ''book does not belong to entity''"
| "err_text db ErrNoRows = ''no rows in result set''"
| "err_text db (DbError s) = db s"
| "err_text db (Msg m) = m"
| "err_text db (Wrap pre e post) = pre @ err_text db e @ post"

text \<open>The root of a chain of wrapped errors (\<open>errors.Is\<close> compares with it).\<close>

fun err_root :: "err \<Rightarrow> err" where
  "err_root (Wrap pre e post) = err_root e"
| "err_root e = e"

section \<open>The environment of a call\<close>

text \<open>
  \<open>now\<close>: \<open>time.Now().UTC()\<close> in RFC 3339, \<open>db_now\<close>: what the database prints for \<open>now()\<close>;
  \<open>fault\<close>: the statements the connection fails; \<open>uuid\<close>: the sequence of generated identifiers;
  \<open>numeric p s\<close>: storing a float64 in a NUMERIC(p,s) column and reading it back, \<open>None\<close> when out of range;
  \<open>to_date\<close>: a DATE column written and printed, \<open>None\<close> for text that is no date; \<open>jsonb\<close>: a JSONB column
  likewise; \<open>assign_date\<close>: a text expression assigned to a DATE column (\<open>None\<close> when the database refuses the statement,
  \<open>Some None\<close> for NULL); \<open>scan_date\<close>: what the driver makes of a DATE it is to scan into a string; \<open>sum_numeric\<close>: the SUM of a
  NUMERIC column, read as a float64; \<open>collate\<close>: the key by which the database orders a text column; \<open>pick\<close>: which of several matching
  rows (given their number) a query without an order returns; \<open>ilike\<close>: the match of a text with a pattern.
\<close>

record env =
  now :: string
  db_now :: string
  fault :: "stmt \<Rightarrow> bool"
  uuid :: "nat \<Rightarrow> string"
  numeric :: "nat \<Rightarrow> nat \<Rightarrow> f64 \<Rightarrow> f64 option"
  to_date :: "string \<Rightarrow> string option"
  jsonb :: "string \<Rightarrow> string option"
  assign_date :: "string \<Rightarrow> string option option"
  scan_date :: "string \<Rightarrow> string option"
  sum_numeric :: "f64 list \<Rightarrow> f64"
  collate :: "string \<Rightarrow> string"
  pick :: "nat \<Rightarrow> nat"
  ilike :: "string \<Rightarrow> string \<Rightarrow> bool"

text \<open>\<open>time.Now().UTC().Format("2006-01-02")\<close> and \<open>Format("2006-01")\<close>.\<close>

definition today :: "env \<Rightarrow> string" where "today e = take 10 (now e)"
definition this_month :: "env \<Rightarrow> string" where "this_month e = take 7 (now e)"

section \<open>The tables\<close>

record IdempotencyRecord =
  ir_EntityID :: string
  ir_CapabilityID :: string
  ir_IdempotencyKey :: string
  ir_InputHash :: string
  ir_Result :: string
  ir_Status :: string
  ir_CreatedAt :: string

text \<open>
  A row of \<open>report_mappings\<close>; \<open>account_selector\<close> is the JSON text of the column.  A bank transaction is stored with its
  nullable column \<open>matched_invoice_id\<close> beside it.
\<close>

record MappingRow =
  mp_ID :: string
  mp_ReportType :: string
  mp_LineCode :: string
  mp_LineLabel :: string
  mp_DisplayOrder :: int
  mp_AccountingStandard :: string
  mp_AccountSelector :: string
  mp_IsSubtotal :: bool
  mp_ParentLineCode :: string
  mp_Formula :: string

record db =
  accounting_books :: "AccountingBook list"
  accounting_periods :: "AccountingPeriod list"
  invoices :: "Invoice list"
  invoice_lines :: "InvoiceLine list"
  chart_of_accounts :: "ChartAccount list"
  journal_entries :: "JournalEntry list"
  journal_lines :: "JournalLine list"
  finance_audit_log :: "AuditEntry list"
  idempotency_records :: "IdempotencyRecord list"
  logistics_records :: "LogisticsRecord list"
  bank_transactions :: "(BankTransaction \<times> string option) list"
  report_mappings :: "MappingRow list"
  tax_adjustments :: "AdjustmentRecord list"
  tax_profiles :: "TaxProfile list"
  tax_returns :: "TaxReturn list"
  risk_scans :: "RiskScan list"
  consistency_checks :: "ConsistencyCheck list"

definition empty_db :: db where
  "empty_db = \<lparr> accounting_books = [], accounting_periods = [], invoices = [], invoice_lines = [],
     chart_of_accounts = [], journal_entries = [], journal_lines = [], finance_audit_log = [],
     idempotency_records = [], logistics_records = [], bank_transactions = [], report_mappings = [], tax_adjustments = [],
     tax_profiles = [], tax_returns = [], risk_scans = [], consistency_checks = [] \<rparr>"

text \<open>\<open>ORDER BY\<close> on a text column, and \<open>ORDER BY created_at DESC\<close> with newer rows first among equals.\<close>

definition order_by :: "env \<Rightarrow> ('a \<Rightarrow> string) \<Rightarrow> 'a list \<Rightarrow> 'a list" where
  "order_by e f xs = sort_key (\<lambda>x. collate e (f x)) xs"

definition newest_first :: "('a \<Rightarrow> string) \<Rightarrow> 'a list \<Rightarrow> 'a list" where
  "newest_first f xs = rev (sort_key f xs)"

text \<open>The row a single-row query without an order returns.\<close>

definition pick_row :: "env \<Rightarrow> 'a list \<Rightarrow> 'a option" where
  "pick_row e xs = (if xs = [] then None else Some (xs ! (pick e (length xs) mod length xs)))"

lemma pick_row_None [simp]: "pick_row e xs = None \<longleftrightarrow> xs = []"
  by (simp add: pick_row_def)

lemma pick_row_in: "pick_row e xs = Some x \<Longrightarrow> x \<in> set xs"
  by (auto simp: pick_row_def split: if_splits)

text \<open>The range of an INTEGER column.\<close>

definition int4 :: "int \<Rightarrow> bool" where "int4 n \<longleftrightarrow> - (2 ^ 31) \<le> n \<and> n < 2 ^ 31"

text \<open>\<open>LIMIT l OFFSET o\<close>; the database refuses negative values.\<close>

definition page :: "stmt \<Rightarrow> int \<Rightarrow> int \<Rightarrow> 'a list \<Rightarrow> err + 'a list" where
  "page s l off xs = (if l < 0 \<or> off < 0 then Inl (DbError s) else Inr (take (nat l) (drop (nat off) xs)))"

section \<open>Guarded changes of status\<close>

text \<open>
  Periods, invoices and journal entries share one pattern: a statement
  \<open>UPDATE ... SET status = target WHERE key AND status IN froms\<close> that reports whether a row was changed.
  \<open>wf\<close> is what the pattern needs of the tables (the key is unique).
\<close>

locale guarded_status =
  fixes wf :: "'d \<Rightarrow> bool"
    and status_of :: "'d \<Rightarrow> 'k \<Rightarrow> string option"
    and change :: "'k \<Rightarrow> 'd \<Rightarrow> 'd option"
    and froms :: "string list"
    and target :: string
  assumes change_iff: "wf d \<Longrightarrow> change k d \<noteq> None \<longleftrightarrow> (\<exists>s \<in> set froms. status_of d k = Some s)"
    and change_status: "wf d \<Longrightarrow> change k d = Some d' \<Longrightarrow>
      status_of d' k' = (if k' = k then Some target else status_of d k')"
    and change_wf: "wf d \<Longrightarrow> change k d = Some d' \<Longrightarrow> wf d'"
    and target_new: "target \<notin> set froms"
begin

text \<open>The same change does not succeed twice.\<close>

lemma change_once: "wf d \<Longrightarrow> change k d = Some d' \<Longrightarrow> change k d' = None"
  using change_iff [of d' k] change_wf [of d k d'] change_status [of d k d' k] target_new by auto

text \<open>It reports no change exactly when the row is missing or in another status.\<close>

lemma change_none: "wf d \<Longrightarrow> change k d = None \<longleftrightarrow> (\<forall>s \<in> set froms. status_of d k \<noteq> Some s)"
  using change_iff [of d k] by blast

text \<open>Changes of different rows commute in their effect on every status.\<close>

lemma change_commute:
  assumes "wf d" "k \<noteq> l" "change k d = Some d1" "change l d = Some d2"
  shows "\<exists>d12 d21. change l d1 = Some d12 \<and> change k d2 = Some d21 \<and> status_of d12 = status_of d21"
proof -
  have w: "wf d1" "wf d2" using assms change_wf by blast+
  have "change l d1 \<noteq> None" "change k d2 \<noteq> None"
    using change_iff [OF assms(1), of l] change_iff [OF assms(1), of k] change_iff [OF w(1), of l] change_iff [OF w(2), of k]
      change_status [OF assms(1,3), of l] change_status [OF assms(1,4), of k] assms by auto
  then obtain d12 d21 where c: "change l d1 = Some d12" "change k d2 = Some d21" by blast
  have "status_of d12 j = status_of d21 j" for j
    using change_status [OF w(1) c(1), of j] change_status [OF w(2) c(2), of j]
      change_status [OF assms(1,3), of j] change_status [OF assms(1,4), of j] assms(2)
    by (cases "j = k"; cases "j = l") simp_all
  with c show ?thesis by blast
qed

end

text \<open>The pattern on a list of rows.\<close>

definition status_update :: "('r \<Rightarrow> bool) \<Rightarrow> ('r \<Rightarrow> string) \<Rightarrow> string list \<Rightarrow> ('r \<Rightarrow> 'r) \<Rightarrow> 'r list \<Rightarrow> 'r list option" where
  "status_update p st froms f rows =
     (if list_ex (\<lambda>r. p r \<and> st r \<in> set froms) rows
      then Some (update_where (\<lambda>r. p r \<and> st r \<in> set froms) f rows) else None)"

lemma status_update_length: "status_update p st froms f rows = Some rows' \<Longrightarrow> length rows' = length rows"
  by (auto simp: status_update_def split: if_splits)

lemma status_update_map:
  "status_update p st froms f rows = Some rows' \<Longrightarrow> (\<And>r. g (f r) = g r) \<Longrightarrow> map g rows' = map g rows"
  by (auto simp: status_update_def map_update_where split: if_splits)

text \<open>With a key unique in the table, the pattern satisfies the laws of the interface.\<close>

lemma find_key_unique:
  assumes "distinct (map key rows)" "r \<in> set rows" shows "find (\<lambda>x. key x = key r) rows = Some r"
  using assms by (induction rows) (auto simp: image_iff)

lemma status_update_laws:
  fixes key :: "'r \<Rightarrow> 'k"
  assumes dist: "distinct (map key rows)"
    and keep: "\<And>r. key (f r) = key r" and new: "\<And>r. st (f r) = target"
  shows "status_update (\<lambda>r. key r = k) st froms f rows \<noteq> None \<longleftrightarrow>
      (\<exists>s \<in> set froms. map_option st (find (\<lambda>r. key r = k) rows) = Some s)"
    and "status_update (\<lambda>r. key r = k) st froms f rows = Some rows' \<Longrightarrow>
      map_option st (find (\<lambda>r. key r = k') rows') =
        (if k' = k then Some target else map_option st (find (\<lambda>r. key r = k') rows))"
    and "status_update (\<lambda>r. key r = k) st froms f rows = Some rows' \<Longrightarrow> map key rows' = map key rows"
proof -
  have ex: "list_ex (\<lambda>r. key r = k \<and> st r \<in> set froms) rows \<longleftrightarrow>
      (\<exists>r. find (\<lambda>r. key r = k) rows = Some r \<and> st r \<in> set froms)"
    using find_key_unique [OF dist] by (auto simp: list_ex_iff dest!: find_SomeD)
  then show "status_update (\<lambda>r. key r = k) st froms f rows \<noteq> None \<longleftrightarrow>
      (\<exists>s \<in> set froms. map_option st (find (\<lambda>r. key r = k) rows) = Some s)"
    by (auto simp: status_update_def)
  assume u: "status_update (\<lambda>r. key r = k) st froms f rows = Some rows'"
  then show "map key rows' = map key rows" by (rule status_update_map) (rule keep)
  from u have r': "rows' = update_where (\<lambda>r. key r = k \<and> st r \<in> set froms) f rows"
    and "list_ex (\<lambda>r. key r = k \<and> st r \<in> set froms) rows" by (auto simp: status_update_def split: if_splits)
  with ex obtain r where r: "find (\<lambda>r. key r = k) rows = Some r" "st r \<in> set froms" by blast
  have "find (\<lambda>r. key r = k') rows' =
      map_option (\<lambda>x. if key x = k \<and> st x \<in> set froms then f x else x) (find (\<lambda>r. key r = k') rows)"
    unfolding r' by (rule find_update_where) (simp add: keep)
  then show "map_option st (find (\<lambda>r. key r = k') rows') =
        (if k' = k then Some target else map_option st (find (\<lambda>r. key r = k') rows))"
  proof (cases "k' = k")
    case True
    with r new \<open>find (\<lambda>r. key r = k') rows' = _\<close> show ?thesis by (auto dest!: find_SomeD)
  next
    case False
    with \<open>find (\<lambda>r. key r = k') rows' = _\<close> show ?thesis
      by (cases "find (\<lambda>r. key r = k') rows") (auto dest: find_SomeD)
  qed
qed

section \<open>An example environment\<close>

text \<open>A connection that never fails and a database that stores what it is given.\<close>

definition plain_env :: env where
  "plain_env = \<lparr> now = ''2025-03-14T09:26:53Z'', db_now = ''2025-03-14T09:26:53Z'', fault = (\<lambda>_. False),
     uuid = (\<lambda>n. ''id-'' @ nat_str n), numeric = (\<lambda>p s x. Some x), to_date = Some, jsonb = Some,
     assign_date = (\<lambda>s. if s = [] then Some None else Some (Some s)), scan_date = Some, sum_numeric = foldl fadd (Fin 0),
     collate = (\<lambda>s. s), pick = (\<lambda>n. 0), ilike = (\<lambda>s t. Contains s t) \<rparr>"

end
