(* ===== verification/Store_Books.thy ===== *)
theory Store_Books
  imports Store
begin

text \<open>
  The stores of books and accounts (internal/store/postgres/book.go, account.go), of the audit log (audit.go)
  and of the idempotency records (idempotency.go).  Reads return an error or the rows; writes return an error
  or the new tables.
\<close>

section \<open>Books\<close>

definition book_Create :: "env \<Rightarrow> AccountingBook \<Rightarrow> db \<Rightarrow> err + db" where
  "book_Create e b d =
     (if fault e Book_Insert \<or>
         list_ex (\<lambda>x. bk_ID x = bk_ID b \<or> bk_EntityID x = bk_EntityID b \<and> bk_Code x = bk_Code b) (accounting_books d)
      then Inl (DbError Book_Insert)
      else Inr (d\<lparr>accounting_books := accounting_books d @ [b\<lparr>bk_CreatedAt := db_now e, bk_UpdatedAt := db_now e\<rparr>]\<rparr>))"

definition find_book :: "db \<Rightarrow> string \<Rightarrow> string \<Rightarrow> AccountingBook option" where
  "find_book d entityID bookID = find (\<lambda>b. bk_ID b = bookID \<and> bk_EntityID b = entityID) (accounting_books d)"

definition book_GetByID :: "env \<Rightarrow> db \<Rightarrow> string \<Rightarrow> string \<Rightarrow> err + AccountingBook option" where
  "book_GetByID e d entityID bookID =
     (if fault e Book_GetByID then Inl (DbError Book_GetByID) else Inr (find_book d entityID bookID))"

definition book_GetDefault :: "env \<Rightarrow> db \<Rightarrow> string \<Rightarrow> err + AccountingBook option" where
  "book_GetDefault e d entityID =
     (if fault e Book_GetDefault then Inl (DbError Book_GetDefault)
      else Inr (pick_row e (filter (\<lambda>b. bk_EntityID b = entityID \<and> bk_IsDefault b) (accounting_books d))))"

definition book_List :: "env \<Rightarrow> db \<Rightarrow> string \<Rightarrow> err + AccountingBook list" where
  "book_List e d entityID =
     (if fault e Book_List then Inl (DbError Book_List)
      else Inr (order_by e bk_Code (filter (\<lambda>b. bk_EntityID b = entityID) (accounting_books d))))"

definition book_Update :: "env \<Rightarrow> AccountingBook \<Rightarrow> db \<Rightarrow> err + db" where
  "book_Update e b d =
     (let p = (\<lambda>x. bk_ID x = bk_ID b \<and> bk_EntityID x = bk_EntityID b) in
      if fault e Book_Update then Inl (DbError Book_Update)
      else if \<not> list_ex p (accounting_books d) then Inl (Msg (''book not found: '' @ bk_ID b))
      else Inr (d\<lparr>accounting_books := update_where p
        (\<lambda>x. x\<lparr>bk_Name := bk_Name b, bk_AccountingStandard := bk_AccountingStandard b,
          bk_BaseCurrency := bk_BaseCurrency b, bk_Status := bk_Status b, bk_UpdatedAt := db_now e\<rparr>) (accounting_books d)\<rparr>))"

text \<open>Two updates in one transaction; an error on the way rolls both back.\<close>

definition book_SetDefault :: "env \<Rightarrow> string \<Rightarrow> string \<Rightarrow> db \<Rightarrow> err + db" where
  "book_SetDefault e entityID bookID d =
     (let p = (\<lambda>x. bk_ID x = bookID \<and> bk_EntityID x = entityID);
          cleared = update_where (\<lambda>x. bk_EntityID x = entityID) (bk_IsDefault_update (\<lambda>_. False)) (accounting_books d)
      in if fault e Begin then Inl (DbError Begin)
         else if fault e Book_ClearDefault then Inl (DbError Book_ClearDefault)
         else if fault e Book_SetDefault then Inl (DbError Book_SetDefault)
         else if \<not> list_ex p cleared then Inl (Msg (''book not found: '' @ bookID))
         else if fault e Commit then Inl (DbError Commit)
         else Inr (d\<lparr>accounting_books := update_where p (bk_IsDefault_update (\<lambda>_. True)) cleared\<rparr>))"

section \<open>Accounts\<close>

text \<open>A nil slice of keywords is NULL, which the column does not accept.\<close>

definition account_Create :: "env \<Rightarrow> ChartAccount \<Rightarrow> db \<Rightarrow> err + db" where
  "account_Create e a d =
     (if fault e Account_Insert \<or> ac_Keywords a = None \<or>
         list_ex (\<lambda>x. ac_ID x = ac_ID a \<or>
           ac_EntityID x = ac_EntityID a \<and> ac_BookID x = ac_BookID a \<and> ac_Code x = ac_Code a) (chart_of_accounts d)
      then Inl (DbError Account_Insert)
      else Inr (d\<lparr>chart_of_accounts := chart_of_accounts d @ [a\<lparr>ac_CreatedAt := db_now e, ac_UpdatedAt := db_now e\<rparr>]\<rparr>))"

definition find_account :: "db \<Rightarrow> string \<Rightarrow> string \<Rightarrow> string \<Rightarrow> ChartAccount option" where
  "find_account d entityID bookID code =
     find (\<lambda>a. ac_EntityID a = entityID \<and> ac_BookID a = bookID \<and> ac_Code a = code) (chart_of_accounts d)"

definition account_GetByCode :: "env \<Rightarrow> db \<Rightarrow> string \<Rightarrow> string \<Rightarrow> string \<Rightarrow> err + ChartAccount option" where
  "account_GetByCode e d entityID bookID code =
     (if fault e Account_Get then Inl (DbError Account_Get) else Inr (find_account d entityID bookID code))"

text \<open>\<open>name ILIKE '%keyword%' OR code ILIKE '%keyword%'\<close>; the second component is the count without paging.\<close>

definition account_List :: "env \<Rightarrow> db \<Rightarrow> AccountListQuery \<Rightarrow> err + ChartAccount list \<times> int" where
  "account_List e d q =
     (let pat = ''%'' @ alq_Keyword q @ ''%'';
          rows = filter (\<lambda>a. ac_EntityID a = alq_EntityID q \<and>
            (alq_Category q \<noteq> '''' \<longrightarrow> ac_Category a = alq_Category q) \<and>
            (alq_Keyword q \<noteq> '''' \<longrightarrow> ilike e (ac_Name a) pat \<or> ilike e (ac_Code a) pat)) (chart_of_accounts d)
      in if fault e Account_Count then Inl (DbError Account_Count)
         else if fault e Account_List then Inl (DbError Account_List)
         else case page Account_List (alq_Limit q) (alq_Offset q) (order_by e ac_Code rows) of
           Inl x \<Rightarrow> Inl x
         | Inr items \<Rightarrow> Inr (items, int (length rows)))"

definition account_Update :: "env \<Rightarrow> ChartAccount \<Rightarrow> db \<Rightarrow> err + db" where
  "account_Update e a d =
     (let p = (\<lambda>x. ac_ID x = ac_ID a \<and> ac_EntityID x = ac_EntityID a \<and> ac_Code x = ac_Code a) in
      if fault e Account_Update \<or> ac_Keywords a = None \<and> list_ex p (chart_of_accounts d) then Inl (DbError Account_Update)
      else if \<not> list_ex p (chart_of_accounts d) then Inl (Msg (''account not found: '' @ ac_Code a))
      else Inr (d\<lparr>chart_of_accounts := update_where p
        (\<lambda>x. x\<lparr>ac_Name := ac_Name a, ac_Category := ac_Category a, ac_BalanceType := ac_BalanceType a,
          ac_Keywords := ac_Keywords a, ac_TaxRelevant := ac_TaxRelevant a, ac_UpdatedAt := db_now e\<rparr>) (chart_of_accounts d)\<rparr>))"

definition account_Delete :: "env \<Rightarrow> string \<Rightarrow> string \<Rightarrow> db \<Rightarrow> err + db" where
  "account_Delete e entityID accountID d =
     (let p = (\<lambda>x. ac_ID x = accountID \<and> ac_EntityID x = entityID) in
      if fault e Account_Delete then Inl (DbError Account_Delete)
      else if \<not> list_ex p (chart_of_accounts d) then Inl (Msg (''account not found: '' @ accountID))
      else Inr (d\<lparr>chart_of_accounts := filter (\<lambda>x. \<not> p x) (chart_of_accounts d)\<rparr>))"

section \<open>Audit log\<close>

definition audit_Append :: "env \<Rightarrow> AuditEntry \<Rightarrow> db \<Rightarrow> err + db" where
  "audit_Append e a d =
     (if fault e Audit_Insert \<or> list_ex (\<lambda>x. ae_ID x = ae_ID a) (finance_audit_log d) then Inl (DbError Audit_Insert)
      else Inr (d\<lparr>finance_audit_log := finance_audit_log d @ [a\<lparr>ae_CreatedAt := db_now e\<rparr>]\<rparr>))"

definition audit_limit :: "int \<Rightarrow> int" where
  "audit_limit l = (let l1 = (if l \<le> 0 then 50 else l) in if 200 < l1 then 200 else l1)"

definition audit_List :: "env \<Rightarrow> db \<Rightarrow> AuditListQuery \<Rightarrow> err + AuditEntry list" where
  "audit_List e d q =
     (if fault e Audit_List then Inl (DbError Audit_List)
      else page Audit_List (audit_limit (auq_Limit q)) (auq_Offset q) (newest_first ae_CreatedAt
        (filter (\<lambda>a. ae_EntityID a = auq_EntityID q \<and> (auq_BookID q \<noteq> '''' \<longrightarrow> ae_BookID a = auq_BookID q) \<and>
          (auq_Action q \<noteq> '''' \<longrightarrow> ae_Action a = auq_Action q)) (finance_audit_log d))))"

section \<open>Idempotency records\<close>

definition ir_key :: "IdempotencyRecord \<Rightarrow> string \<times> string \<times> string" where
  "ir_key r = (ir_EntityID r, ir_CapabilityID r, ir_IdempotencyKey r)"

definition idem_Get :: "env \<Rightarrow> db \<Rightarrow> string \<Rightarrow> string \<Rightarrow> string \<Rightarrow> err + IdempotencyRecord option" where
  "idem_Get e d entityID capabilityID key =
     (if fault e Idempotency_Get then Inl (DbError Idempotency_Get)
      else Inr (find (\<lambda>r. ir_key r = (entityID, capabilityID, key)) (idempotency_records d)))"

text \<open>\<open>ON CONFLICT DO NOTHING\<close>: the first record of a key stays.\<close>

definition idem_Save :: "env \<Rightarrow> IdempotencyRecord \<Rightarrow> db \<Rightarrow> err + db" where
  "idem_Save e r d =
     (if fault e Idempotency_Save then Inl (DbError Idempotency_Save)
      else case jsonb e (ir_Result r) of
        None \<Rightarrow> Inl (DbError Idempotency_Save)
      | Some res \<Rightarrow>
          Inr (if list_ex (\<lambda>x. ir_key x = ir_key r) (idempotency_records d) then d
               else d\<lparr>idempotency_records := idempotency_records d @ [r\<lparr>ir_Result := res, ir_CreatedAt := db_now e\<rparr>]\<rparr>))"

section \<open>Facts\<close>

text \<open>Each write touches its own table.\<close>

lemma book_account_frames [store_simps]:
  "book_Create e b d = Inr d' \<Longrightarrow> journal_entries d' = journal_entries d \<and> journal_lines d' = journal_lines d \<and>
     accounting_periods d' = accounting_periods d \<and> invoices d' = invoices d"
  "account_Create e a d = Inr d' \<Longrightarrow> journal_entries d' = journal_entries d \<and> journal_lines d' = journal_lines d \<and>
     accounting_periods d' = accounting_periods d \<and> invoices d' = invoices d"
  "audit_Append e x d = Inr d' \<Longrightarrow> journal_entries d' = journal_entries d \<and> journal_lines d' = journal_lines d \<and>
     accounting_periods d' = accounting_periods d \<and> invoices d' = invoices d"
  by (auto simp: book_Create_def account_Create_def audit_Append_def split: if_splits)

lemma audit_limit_range: "1 \<le> audit_limit l \<and> audit_limit l \<le> 200"
  by (simp add: audit_limit_def Let_def)

text \<open>What a lookup returns after a save.\<close>

lemma idem_Get_Save:
  assumes "idem_Save e r d = Inr d'" "\<not> fault e Idempotency_Get"
  shows "idem_Get e d' en ca k =
     (if (en, ca, k) = ir_key r \<and> idem_Get e d en ca k = Inr None
      then Inr (Some (r\<lparr>ir_Result := the (jsonb e (ir_Result r)), ir_CreatedAt := db_now e\<rparr>))
      else idem_Get e d en ca k)"
proof -
  let ?f = "\<lambda>k xs. find (\<lambda>x. ir_key x = k) xs"
  obtain res where res: "jsonb e (ir_Result r) = Some res" and
    d': "d' = (if ?f (ir_key r) (idempotency_records d) \<noteq> None then d
      else d\<lparr>idempotency_records := idempotency_records d @ [r\<lparr>ir_Result := res, ir_CreatedAt := db_now e\<rparr>]\<rparr>)"
    using assms(1) by (auto simp: idem_Save_def find_None_set list_ex_iff split: if_splits option.splits)
  have key: "ir_key (r\<lparr>ir_Result := res, ir_CreatedAt := db_now e\<rparr>) = ir_key r" by (simp add: ir_key_def)
  have "?f k (xs @ [r\<lparr>ir_Result := res, ir_CreatedAt := db_now e\<rparr>]) =
      (if k = ir_key r \<and> ?f k xs = None then Some (r\<lparr>ir_Result := res, ir_CreatedAt := db_now e\<rparr>) else ?f k xs)" for k xs
    by (auto simp: find_append key split: option.split)
  then show ?thesis using assms(2) d' res by (auto simp: idem_Get_def)
qed

text \<open>Setting the default book.  When it succeeds the named book belongs to the entity and is, if identifiers
  are unique, its only default, so the default lookup returns it; no other entity and no other field
  changes.  When it fails nothing changes (the transaction is rolled back), and without a fault it fails only
  when the entity has no such book.\<close>

theorem SetDefault_spec:
  assumes "distinct (map bk_ID (accounting_books d))"
  shows "(book_SetDefault e entityID bookID d = Inr d' \<longrightarrow>
      (\<exists>b. find_book d entityID bookID = Some b \<and>
        filter (\<lambda>x. bk_EntityID x = entityID \<and> bk_IsDefault x) (accounting_books d') = [b\<lparr>bk_IsDefault := True\<rparr>] \<and>
        (\<not> fault e Book_GetDefault \<longrightarrow> book_GetDefault e d' entityID = Inr (Some (b\<lparr>bk_IsDefault := True\<rparr>)))) \<and>
      map (bk_IsDefault_update (\<lambda>_. False)) (accounting_books d') = map (bk_IsDefault_update (\<lambda>_. False)) (accounting_books d) \<and>
      filter (\<lambda>x. bk_EntityID x \<noteq> entityID) (accounting_books d') = filter (\<lambda>x. bk_EntityID x \<noteq> entityID) (accounting_books d) \<and>
      d'\<lparr>accounting_books := []\<rparr> = d\<lparr>accounting_books := []\<rparr>) \<and>
    (\<not> fault e Begin \<and> \<not> fault e Book_ClearDefault \<and> \<not> fault e Book_SetDefault \<and> \<not> fault e Commit \<longrightarrow>
      (is_ok (book_SetDefault e entityID bookID d) \<longleftrightarrow> find_book d entityID bookID \<noteq> None))"
proof -
  let ?p = "\<lambda>x. bk_ID x = bookID \<and> bk_EntityID x = entityID"
  let ?clear = "update_where (\<lambda>x. bk_EntityID x = entityID) (bk_IsDefault_update (\<lambda>_. False))"
  let ?new = "\<lambda>xs. update_where ?p (bk_IsDefault_update (\<lambda>_. True)) (?clear xs)"
  have ex: "list_ex ?p (?clear xs) \<longleftrightarrow> find ?p xs \<noteq> None" for xs
    by (induction xs) auto
  have none: "find ?p xs = None \<Longrightarrow> filter (\<lambda>x. bk_EntityID x = entityID \<and> bk_IsDefault x) (?new xs) = []" for xs
    by (induction xs) (auto split: if_splits)
  have one: "distinct (map bk_ID xs) \<Longrightarrow> find ?p xs = Some b \<Longrightarrow>
      filter (\<lambda>x. bk_EntityID x = entityID \<and> bk_IsDefault x) (?new xs) = [b\<lparr>bk_IsDefault := True\<rparr>]" for xs b
  proof (induction xs)
    case (Cons x xs)
    show ?case
    proof (cases "?p x")
      case True
      then have "find ?p xs = None" using Cons.prems(1) by (auto simp: find_None_set image_iff)
      with True Cons.prems none [of xs] show ?thesis by simp
    next
      case False
      with Cons show ?thesis by auto
    qed
  qed simp
  have same: "map (bk_IsDefault_update (\<lambda>_. False)) (?new xs) = map (bk_IsDefault_update (\<lambda>_. False)) xs" for xs
    by (induction xs) auto
  have other: "filter (\<lambda>x. bk_EntityID x \<noteq> entityID) (?new xs) = filter (\<lambda>x. bk_EntityID x \<noteq> entityID) xs" for xs
    by (induction xs) auto
  have S: "book_SetDefault e entityID bookID d = Inr d' \<Longrightarrow>
      d' = d\<lparr>accounting_books := ?new (accounting_books d)\<rparr> \<and> find ?p (accounting_books d) \<noteq> None"
    using ex [of "accounting_books d"] by (auto simp: book_SetDefault_def Let_def split: if_splits)
  have ok: "\<not> fault e Begin \<and> \<not> fault e Book_ClearDefault \<and> \<not> fault e Book_SetDefault \<and> \<not> fault e Commit \<Longrightarrow>
      is_ok (book_SetDefault e entityID bookID d) \<longleftrightarrow> find_book d entityID bookID \<noteq> None"
    using ex [of "accounting_books d"] by (auto simp: book_SetDefault_def find_book_def Let_def)
  have pick1: "pick_row e [y] = Some y" for y :: AccountingBook by (simp add: pick_row_def)
  show ?thesis
    using S ok one [OF assms] same [of "accounting_books d"] other [of "accounting_books d"]
    by (auto simp: find_book_def book_GetDefault_def pick1)
qed

definition book_example :: "string \<Rightarrow> bool \<Rightarrow> AccountingBook" where
  "book_example i def = \<lparr> bk_ID = i, bk_EntityID = ''e1'', bk_Code = i, bk_Name = ''Main'', bk_AccountingStandard = ''gaap'',
     bk_BaseCurrency = ''CNY'', bk_StartPeriod = ''2025-01'', bk_IsDefault = def, bk_Status = BookStatusActive,
     bk_CreatedAt = '''', bk_UpdatedAt = '''' \<rparr>"

theorem SetDefault_spec_witness:
  "\<exists>d'. book_SetDefault plain_env ''e1'' ''b2'' (empty_db\<lparr>accounting_books := [book_example ''b1'' True, book_example ''b2'' False]\<rparr>)
      = Inr d' \<and> book_GetDefault plain_env d' ''e1'' = Inr (Some (book_example ''b2'' True))"
proof -
  let ?d = "empty_db\<lparr>accounting_books := [book_example ''b1'' True, book_example ''b2'' False]\<rparr>"
  have "distinct (map bk_ID (accounting_books ?d))" by (simp add: book_example_def)
  note spec = SetDefault_spec [OF this, of plain_env "''e1''" "''b2''"]
  have "is_ok (book_SetDefault plain_env ''e1'' ''b2'' ?d)"
    using spec by (simp add: plain_env_def find_book_def book_example_def)
  then obtain d' where s: "book_SetDefault plain_env ''e1'' ''b2'' ?d = Inr d'"
    by (cases "book_SetDefault plain_env ''e1'' ''b2'' ?d") auto
  then have "book_GetDefault plain_env d' ''e1'' = Inr (Some (book_example ''b2'' True))"
    using spec [of d'] by (auto simp: find_book_def book_example_def plain_env_def)
  with s show ?thesis by blast
qed

end
