(* ===== verification/Store_Journals.thy ===== *)
theory Store_Journals
  imports Store
begin

text \<open>
  The journal store (internal/store/postgres/journal.go): entries and lines, the numbering of vouchers and the
  life cycle of an entry.  Entries are rows without their lines; the lines are rows of their own table.

  The operations with a transaction take \<open>tx\<close>: \<open>None\<close> when the statements run on the pool, \<open>Some p\<close> inside a
  transaction that began when the tables were \<open>p\<close>.  The read back at the end of an update goes through the pool
  in both cases, so inside a transaction it sees \<open>p\<close>.
\<close>

section \<open>Inserts\<close>

definition je_key :: "JournalEntry \<Rightarrow> string \<times> string" where
  "je_key j = (je_ID j, je_EntityID j)"

definition je_voucher :: "JournalEntry \<Rightarrow> string \<times> string \<times> string \<times> string" where
  "je_voucher j = (je_EntityID j, je_BookID j, je_Period j, je_VoucherNo j)"

definition journal_insert_entry :: "env \<Rightarrow> JournalEntry \<Rightarrow> db \<Rightarrow> err + db" where
  "journal_insert_entry e j d =
     (if fault e Journal_InsertEntry \<or>
         list_ex (\<lambda>x. je_ID x = je_ID j \<or> je_voucher x = je_voucher j) (journal_entries d)
      then Inl (DbError Journal_InsertEntry)
      else case to_date e (je_EntryDate j) of
        None \<Rightarrow> Inl (DbError Journal_InsertEntry)
      | Some date \<Rightarrow> Inr (d\<lparr>journal_entries := journal_entries d @
          [j\<lparr>je_EntryDate := date, je_PostedBy := '''', je_PostedAt := '''', je_Lines := [],
            je_CreatedAt := db_now e, je_UpdatedAt := db_now e\<rparr>]\<rparr>))"

definition jl_slot :: "JournalLine \<Rightarrow> string \<times> string \<times> int" where
  "jl_slot l = (jl_EntityID l, jl_JournalEntryID l, jl_LineNo l)"

definition journal_insert_line :: "env \<Rightarrow> JournalLine \<Rightarrow> db \<Rightarrow> err + db" where
  "journal_insert_line e l d =
     (let bad = Inl (DbError (Journal_InsertLine (jl_LineNo l))) in
      if fault e (Journal_InsertLine (jl_LineNo l)) \<or> \<not> int4 (jl_LineNo l) \<or>
         \<not> list_ex (\<lambda>j. je_ID j = jl_JournalEntryID l) (journal_entries d) \<or>
         list_ex (\<lambda>x. jl_ID x = jl_ID l \<or> jl_slot x = jl_slot l) (journal_lines d)
      then bad
      else case (numeric e 18 2 (jl_DebitAmount l), numeric e 18 2 (jl_CreditAmount l), jsonb e (jl_Auxiliary l)) of
        (Some debit, Some credit, Some aux) \<Rightarrow> Inr (d\<lparr>journal_lines := journal_lines d @
          [l\<lparr>jl_DebitAmount := debit, jl_CreditAmount := credit, jl_Auxiliary := aux\<rparr>]\<rparr>)
      | _ \<Rightarrow> bad)"

fun journal_insert_lines :: "env \<Rightarrow> JournalLine list \<Rightarrow> db \<Rightarrow> err option \<times> db" where
  "journal_insert_lines e [] d = (None, d)"
| "journal_insert_lines e (l # ls) d =
     (case journal_insert_line e l d of Inl x \<Rightarrow> (Some x, d) | Inr d' \<Rightarrow> journal_insert_lines e ls d')"

text \<open>What the loop of \<open>CreateTx\<close> writes into the lines of the entry, and the row it inserts for a line.\<close>

definition journal_own_line :: "JournalEntry \<Rightarrow> JournalLine \<Rightarrow> JournalLine" where
  "journal_own_line j l = l\<lparr>jl_EntityID := je_EntityID j, jl_JournalEntryID := je_ID j\<rparr>"

definition journal_row :: "JournalEntry \<Rightarrow> JournalLine \<Rightarrow> JournalLine" where
  "journal_row j l = (let l' = journal_own_line j l in if jl_Auxiliary l' = '''' then l'\<lparr>jl_Auxiliary := ''{}''\<rparr> else l')"

text \<open>
  The statements run one by one, on the pool or in the transaction: the tables returned with an error hold
  what was inserted before it (a caller in a transaction rolls back).
\<close>

definition journal_CreateTx :: "env \<Rightarrow> JournalEntry \<Rightarrow> db \<Rightarrow> err option \<times> db" where
  "journal_CreateTx e j d =
     (case journal_insert_entry e j d of
        Inl x \<Rightarrow> (Some x, d)
      | Inr d1 \<Rightarrow> journal_insert_lines e (map (journal_row j) (je_Lines j)) d1)"

section \<open>Reads\<close>

definition find_entry :: "db \<Rightarrow> string \<times> string \<Rightarrow> JournalEntry option" where
  "find_entry d k = find (\<lambda>j. je_key j = k) (journal_entries d)"

definition entry_lines :: "db \<Rightarrow> string \<Rightarrow> string \<Rightarrow> JournalLine list" where
  "entry_lines d entityID journalID = sort_key jl_LineNo
     (filter (\<lambda>l. jl_EntityID l = entityID \<and> jl_JournalEntryID l = journalID) (journal_lines d))"

definition journal_read :: "stmt \<Rightarrow> env \<Rightarrow> db \<Rightarrow> string \<Rightarrow> string \<Rightarrow> err + JournalEntry option" where
  "journal_read s e d entityID journalID =
     (if fault e s then Inl (DbError s)
      else case find_entry d (journalID, entityID) of
        None \<Rightarrow> Inr None
      | Some j \<Rightarrow> if fault e Journal_Lines then Inl (DbError Journal_Lines)
          else Inr (Some (j\<lparr>je_Lines := entry_lines d entityID journalID\<rparr>)))"

abbreviation journal_Get :: "env \<Rightarrow> db \<Rightarrow> string \<Rightarrow> string \<Rightarrow> err + JournalEntry option" where
  "journal_Get \<equiv> journal_read Journal_Get"

text \<open>In the list an error of the lines query is ignored: the entry comes without lines.\<close>

definition journal_List :: "env \<Rightarrow> db \<Rightarrow> JournalListQuery \<Rightarrow> err + JournalEntry list" where
  "journal_List e d q =
     (if fault e Journal_List then Inl (DbError Journal_List)
      else case page Journal_List (jlq_Limit q) (jlq_Offset q) (newest_first je_CreatedAt
          (filter (\<lambda>j. je_EntityID j = jlq_EntityID q \<and> (jlq_BookID q \<noteq> '''' \<longrightarrow> je_BookID j = jlq_BookID q) \<and>
            (jlq_Status q \<noteq> '''' \<longrightarrow> je_Status j = jlq_Status q) \<and>
            (jlq_Period q \<noteq> '''' \<longrightarrow> je_Period j = jlq_Period q)) (journal_entries d))) of
        Inl x \<Rightarrow> Inl x
      | Inr rows \<Rightarrow> Inr (map (\<lambda>j. j\<lparr>je_Lines :=
          if fault e Journal_Lines then [] else entry_lines d (jlq_EntityID q) (je_ID j)\<rparr>) rows))"

definition journal_ListPostedLines :: "env \<Rightarrow> db \<Rightarrow> string \<Rightarrow> string \<Rightarrow> string \<Rightarrow> err + JournalLine list" where
  "journal_ListPostedLines e d entityID bookID period =
     (if fault e Journal_PostedLines then Inl (DbError Journal_PostedLines)
      else Inr (order_by e jl_AccountCode (filter (\<lambda>l. jl_EntityID l = entityID \<and>
        list_ex (\<lambda>j. je_ID j = jl_JournalEntryID l \<and> je_BookID j = bookID \<and> je_Period j = period \<and>
          je_Status j = JournalStatusPosted) (journal_entries d)) (journal_lines d))))"

definition voucher_count :: "db \<Rightarrow> string \<Rightarrow> string \<Rightarrow> string \<Rightarrow> nat" where
  "voucher_count d entityID bookID period =
     length (filter (\<lambda>j. je_EntityID j = entityID \<and> je_BookID j = bookID \<and> je_Period j = period) (journal_entries d))"

text \<open>The format is the voucher word ji, the period and the number with three digits.\<close>

definition voucher_no :: "string \<Rightarrow> nat \<Rightarrow> string" where
  "voucher_no period n = VoucherWordJi @ ''-'' @ period @ ''-'' @ int_str_pad 3 (int n)"

definition journal_NextVoucherNo :: "env \<Rightarrow> db \<Rightarrow> string \<Rightarrow> string \<Rightarrow> string \<Rightarrow> err + string" where
  "journal_NextVoucherNo e d entityID bookID period =
     (if fault e Journal_Count then Inl (DbError Journal_Count)
      else Inr (voucher_no period (voucher_count d entityID bookID period + 1)))"

section \<open>Changes of status\<close>

definition journal_stamp :: "env \<Rightarrow> string \<Rightarrow> JournalEntry \<Rightarrow> JournalEntry" where
  "journal_stamp e t j =
     (if t = JournalStatusPosted then j\<lparr>je_Status := t, je_PostedAt := db_now e, je_UpdatedAt := db_now e\<rparr>
      else j\<lparr>je_Status := t, je_UpdatedAt := db_now e\<rparr>)"

definition journal_change :: "env \<Rightarrow> string list \<Rightarrow> string \<Rightarrow> string \<times> string \<Rightarrow> db \<Rightarrow> db option" where
  "journal_change e froms t k d =
     map_option (\<lambda>js. d\<lparr>journal_entries := js\<rparr>)
       (status_update (\<lambda>j. je_key j = k) je_Status froms (journal_stamp e t) (journal_entries d))"

definition journal_PostTx :: "env \<Rightarrow> db option \<Rightarrow> string \<Rightarrow> string \<Rightarrow> db \<Rightarrow> (err + JournalEntry option) \<times> db" where
  "journal_PostTx e tx entityID journalID d =
     (if fault e Journal_Post then (Inl (DbError Journal_Post), d)
      else case journal_change e [JournalStatusDraft] JournalStatusPosted (journalID, entityID) d of
        None \<Rightarrow> (Inl (Msg (''journal entry not found or not in draft status: '' @ journalID)), d)
      | Some d' \<Rightarrow> (journal_read Journal_Reread e (case tx of None \<Rightarrow> d' | Some p \<Rightarrow> p) entityID journalID, d'))"

definition journal_VoidTx :: "env \<Rightarrow> db option \<Rightarrow> string \<Rightarrow> string \<Rightarrow> db \<Rightarrow> (err + JournalEntry option) \<times> db" where
  "journal_VoidTx e tx entityID journalID d =
     (if fault e Journal_Void then (Inl (DbError Journal_Void), d)
      else case journal_change e [JournalStatusDraft, JournalStatusPosted] JournalStatusVoided (journalID, entityID) d of
        None \<Rightarrow> (Inl (Msg (''journal entry not found: '' @ journalID)), d)
      | Some d' \<Rightarrow> (journal_read Journal_Reread e (case tx of None \<Rightarrow> d' | Some p \<Rightarrow> p) entityID journalID, d'))"

section \<open>The life cycle of an entry\<close>

datatype phase = Draft | Posted | Voided

instantiation phase :: linorder
begin

fun phase_rank :: "phase \<Rightarrow> nat" where
  "phase_rank Draft = 0" | "phase_rank Posted = 1" | "phase_rank Voided = 2"

definition less_eq_phase :: "phase \<Rightarrow> phase \<Rightarrow> bool" where "less_eq_phase a b \<longleftrightarrow> phase_rank a \<le> phase_rank b"
definition less_phase :: "phase \<Rightarrow> phase \<Rightarrow> bool" where "less_phase a b \<longleftrightarrow> phase_rank a < phase_rank b"

lemma phase_rank_inj: "phase_rank a = phase_rank b \<Longrightarrow> a = b"
  by (cases a; cases b) simp_all

instance
  by intro_classes (auto simp: less_eq_phase_def less_phase_def intro: phase_rank_inj)

end

definition phase_of :: "string \<Rightarrow> phase option" where
  "phase_of s = (if s = JournalStatusDraft then Some Draft else if s = JournalStatusPosted then Some Posted
     else if s = JournalStatusVoided then Some Voided else None)"

lemma journal_status_distinct [simp]:
  "JournalStatusDraft \<noteq> JournalStatusPosted" "JournalStatusPosted \<noteq> JournalStatusDraft"
  "JournalStatusDraft \<noteq> JournalStatusVoided" "JournalStatusVoided \<noteq> JournalStatusDraft"
  "JournalStatusPosted \<noteq> JournalStatusVoided" "JournalStatusVoided \<noteq> JournalStatusPosted"
  by (simp_all add: JournalStatusDraft_def JournalStatusPosted_def JournalStatusVoided_def)

lemma phase_of_simps [simp]:
  "phase_of JournalStatusDraft = Some Draft" "phase_of JournalStatusPosted = Some Posted"
  "phase_of JournalStatusVoided = Some Voided"
  by (simp_all add: phase_of_def)

text \<open>Well-formed tables: what the constraints of the migrations promise.\<close>

definition jl_entry :: "JournalLine \<Rightarrow> string \<times> string" where
  "jl_entry l = (jl_JournalEntryID l, jl_EntityID l)"

definition journals_wf :: "db \<Rightarrow> bool" where
  "journals_wf d \<longleftrightarrow> distinct (map je_ID (journal_entries d)) \<and> distinct (map je_voucher (journal_entries d)) \<and>
     distinct (map jl_ID (journal_lines d)) \<and> distinct (map jl_slot (journal_lines d)) \<and>
     (\<forall>l \<in> set (journal_lines d). jl_entry l \<in> set (map je_key (journal_entries d))) \<and>
     set (map je_Lines (journal_entries d)) \<subseteq> {[]}"

lemma journals_wf_keys: "journals_wf d \<Longrightarrow> distinct (map je_key (journal_entries d))"
  by (auto simp: journals_wf_def je_key_def distinct_map inj_on_def)

lemma journals_wf_same_id:
  "journals_wf d \<Longrightarrow> i \<in> set (journal_entries d) \<Longrightarrow> j \<in> set (journal_entries d) \<Longrightarrow> je_ID i = je_ID j \<Longrightarrow> i = j"
  by (auto simp: journals_wf_def distinct_map inj_on_def)

lemma find_entry_iff:
  assumes "journals_wf d"
  shows "find_entry d k = Some j \<longleftrightarrow> j \<in> set (journal_entries d) \<and> je_key j = k"
  unfolding find_entry_def using find_key_unique [OF journals_wf_keys [OF assms]] by (auto dest: find_SomeD)

definition journal_status :: "db \<Rightarrow> string \<times> string \<Rightarrow> string option" where
  "journal_status d k = map_option je_Status (find_entry d k)"

lemma journal_stamp_simps [simp]:
  "je_key (journal_stamp e t j) = je_key j" "je_ID (journal_stamp e t j) = je_ID j"
  "je_voucher (journal_stamp e t j) = je_voucher j" "je_Status (journal_stamp e t j) = t"
  "je_EntityID (journal_stamp e t j) = je_EntityID j" "je_BookID (journal_stamp e t j) = je_BookID j"
  "je_Period (journal_stamp e t j) = je_Period j" "je_Lines (journal_stamp e t j) = je_Lines j"
  "je_SourceType (journal_stamp e t j) = je_SourceType j" "je_SourceID (journal_stamp e t j) = je_SourceID j"
  by (simp_all add: journal_stamp_def je_key_def je_voucher_def)

lemma journal_change_frame [store_simps]:
  assumes "journal_change e f t k d = Some d'"
  shows "journal_lines d' = journal_lines d" "accounting_periods d' = accounting_periods d" "invoices d' = invoices d"
    "invoice_lines d' = invoice_lines d" "accounting_books d' = accounting_books d"
    "chart_of_accounts d' = chart_of_accounts d" "finance_audit_log d' = finance_audit_log d"
    "idempotency_records d' = idempotency_records d"
  using assms by (auto simp: journal_change_def)

lemma journal_change_entries:
  "journal_change e f t k d = Some d' \<Longrightarrow>
   journal_entries d' = update_where (\<lambda>j. je_key j = k \<and> je_Status j \<in> set f) (journal_stamp e t) (journal_entries d)"
  by (auto simp: journal_change_def status_update_def split: if_splits)

lemma journal_change_maps:
  assumes "journal_change e f t k d = Some d'"
  shows "map je_ID (journal_entries d') = map je_ID (journal_entries d)"
    "map je_voucher (journal_entries d') = map je_voucher (journal_entries d)"
    "map je_key (journal_entries d') = map je_key (journal_entries d)"
    "map je_Lines (journal_entries d') = map je_Lines (journal_entries d)"
  unfolding journal_change_entries [OF assms] by (simp_all add: map_update_where)

lemma journal_change_wf: "journals_wf d \<Longrightarrow> journal_change e f t k d = Some d' \<Longrightarrow> journals_wf d'"
  using journal_change_frame(1) [of e f t k d d'] journal_change_maps [of e f t k d d']
  by (simp add: journals_wf_def)

lemma journal_change_laws:
  assumes "journals_wf d"
  shows "journal_change e f t k d \<noteq> None \<longleftrightarrow> (\<exists>s \<in> set f. journal_status d k = Some s)"
    and "journal_change e f t k d = Some d' \<Longrightarrow>
      journal_status d' k' = (if k' = k then Some t else journal_status d k')"
proof -
  note laws = status_update_laws [OF journals_wf_keys [OF assms], of "journal_stamp e t" je_Status t k f, simplified]
  show "journal_change e f t k d \<noteq> None \<longleftrightarrow> (\<exists>s \<in> set f. journal_status d k = Some s)"
    using laws(1) by (auto simp: journal_change_def journal_status_def find_entry_def)
  assume "journal_change e f t k d = Some d'"
  then obtain js where "d' = d\<lparr>journal_entries := js\<rparr>"
    "status_update (\<lambda>j. je_key j = k) je_Status f (journal_stamp e t) (journal_entries d) = Some js"
    by (auto simp: journal_change_def)
  with laws(2) [of js k'] show "journal_status d' k' = (if k' = k then Some t else journal_status d k')"
    by (simp add: journal_status_def find_entry_def)
qed

interpretation post_entry: guarded_status journals_wf journal_status
    "journal_change e [JournalStatusDraft] JournalStatusPosted" "[JournalStatusDraft]" JournalStatusPosted for e
  by unfold_locales (use journal_change_laws journal_change_wf in auto)

interpretation void_entry: guarded_status journals_wf journal_status
    "journal_change e [JournalStatusDraft, JournalStatusPosted] JournalStatusVoided"
    "[JournalStatusDraft, JournalStatusPosted]" JournalStatusVoided for e
  by unfold_locales (use journal_change_laws journal_change_wf in auto)

section \<open>What an insert does\<close>

text \<open>The row a line is stored as: the database rounds its amounts and normalises its JSON.\<close>

definition line_stored :: "env \<Rightarrow> JournalLine \<Rightarrow> JournalLine \<Rightarrow> bool" where
  "line_stored e l r \<longleftrightarrow> (\<exists>debit credit aux. numeric e 18 2 (jl_DebitAmount l) = Some debit \<and>
     numeric e 18 2 (jl_CreditAmount l) = Some credit \<and> jsonb e (jl_Auxiliary l) = Some aux \<and>
     r = l\<lparr>jl_DebitAmount := debit, jl_CreditAmount := credit, jl_Auxiliary := aux\<rparr>)"

lemma line_stored_fields:
  "line_stored e l r \<Longrightarrow> jl_ID r = jl_ID l \<and> jl_EntityID r = jl_EntityID l \<and> jl_JournalEntryID r = jl_JournalEntryID l \<and>
     jl_LineNo r = jl_LineNo l \<and> jl_slot r = jl_slot l \<and> jl_AccountCode r = jl_AccountCode l \<and> jl_AccountName r = jl_AccountName l"
  by (auto simp: line_stored_def jl_slot_def)

lemma insert_line_InrD:
  assumes "journal_insert_line e l d = Inr d'"
  obtains r where "d' = d\<lparr>journal_lines := journal_lines d @ [r]\<rparr>" "line_stored e l r"
    "\<exists>j \<in> set (journal_entries d). je_ID j = jl_JournalEntryID l"
    "\<forall>x \<in> set (journal_lines d). jl_ID x \<noteq> jl_ID l \<and> jl_slot x \<noteq> jl_slot l"
  using assms that
  by (auto simp: journal_insert_line_def Let_def line_stored_def list_ex_iff split: if_splits option.splits)

lemma insert_lines_shape:
  "journal_insert_lines e ls d = (r, d') \<Longrightarrow>
   \<exists>stored. d' = d\<lparr>journal_lines := journal_lines d @ stored\<rparr> \<and> list_all2 (line_stored e) (take (length stored) ls) stored \<and>
     (r = None \<longrightarrow> length stored = length ls)"
proof (induction ls arbitrary: d)
  case (Cons l ls)
  show ?case
  proof (cases "journal_insert_line e l d")
    case (Inl x)
    with Cons.prems show ?thesis by (intro exI [of _ "[]"]) auto
  next
    case (Inr d1)
    then obtain s where s: "d1 = d\<lparr>journal_lines := journal_lines d @ [s]\<rparr>" "line_stored e l s"
      by (auto elim: insert_line_InrD)
    obtain stored where "d' = d1\<lparr>journal_lines := journal_lines d1 @ stored\<rparr>"
      "list_all2 (line_stored e) (take (length stored) ls) stored" "r = None \<longrightarrow> length stored = length ls"
      using Cons.IH [of d1] Cons.prems Inr by auto
    with s show ?thesis by (intro exI [of _ "s # stored"]) auto
  qed
qed (auto intro: exI [of _ "[]"])

definition entry_row :: "env \<Rightarrow> JournalEntry \<Rightarrow> JournalEntry" where
  "entry_row e j = j\<lparr>je_EntryDate := the (to_date e (je_EntryDate j)), je_PostedBy := '''', je_PostedAt := '''',
     je_Lines := [], je_CreatedAt := db_now e, je_UpdatedAt := db_now e\<rparr>"

lemma entry_row_simps [simp]:
  "je_ID (entry_row e j) = je_ID j" "je_key (entry_row e j) = je_key j" "je_voucher (entry_row e j) = je_voucher j"
  "je_Status (entry_row e j) = je_Status j" "je_EntityID (entry_row e j) = je_EntityID j"
  "je_BookID (entry_row e j) = je_BookID j" "je_Period (entry_row e j) = je_Period j" "je_Lines (entry_row e j) = []"
  by (simp_all add: entry_row_def je_key_def je_voucher_def)

lemma journal_row_simps [simp]:
  "jl_entry (journal_row j l) = (je_ID j, je_EntityID j)" "jl_LineNo (journal_row j l) = jl_LineNo l"
  "jl_ID (journal_row j l) = jl_ID l" "jl_EntityID (journal_row j l) = je_EntityID j"
  "jl_JournalEntryID (journal_row j l) = je_ID j" "jl_AccountCode (journal_row j l) = jl_AccountCode l"
  "jl_AccountName (journal_row j l) = jl_AccountName l" "jl_DebitAmount (journal_row j l) = jl_DebitAmount l"
  "jl_CreditAmount (journal_row j l) = jl_CreditAmount l"
  by (simp_all add: journal_row_def journal_own_line_def jl_entry_def Let_def)

lemma insert_entry_InrD:
  "journal_insert_entry e j d = Inr d' \<Longrightarrow>
   d' = d\<lparr>journal_entries := journal_entries d @ [entry_row e j]\<rparr> \<and> je_ID j \<notin> set (map je_ID (journal_entries d)) \<and>
   je_voucher j \<notin> set (map je_voucher (journal_entries d)) \<and> to_date e (je_EntryDate j) \<noteq> None"
  by (auto simp: journal_insert_entry_def entry_row_def list_ex_iff split: if_splits option.splits)

text \<open>Either nothing was inserted, or the entry and the first lines, all of them when there is no error.\<close>

lemma create_cases:
  assumes "journal_CreateTx e j d = (r, d')"
  obtains (none) "r \<noteq> None" "d' = d"
  | (rows) stored where
      "d' = d\<lparr>journal_entries := journal_entries d @ [entry_row e j], journal_lines := journal_lines d @ stored\<rparr>"
      "list_all2 (line_stored e) (take (length stored) (map (journal_row j) (je_Lines j))) stored"
      "r = None \<Longrightarrow> length stored = length (je_Lines j)"
      "je_ID j \<notin> set (map je_ID (journal_entries d))"
proof (cases "journal_insert_entry e j d")
  case (Inl x)
  with assms show ?thesis by (intro none) (auto simp: journal_CreateTx_def)
next
  case (Inr d1)
  note D = insert_entry_InrD [OF Inr]
  have "journal_insert_lines e (map (journal_row j) (je_Lines j)) d1 = (r, d')"
    using assms Inr by (simp add: journal_CreateTx_def)
  from insert_lines_shape [OF this] obtain stored where
    "d' = d1\<lparr>journal_lines := journal_lines d1 @ stored\<rparr>"
    "list_all2 (line_stored e) (take (length stored) (map (journal_row j) (je_Lines j))) stored"
    "r = None \<longrightarrow> length stored = length (map (journal_row j) (je_Lines j))" by blast
  with D show ?thesis by (intro rows [of stored]) auto
qed

lemma stored_entry:
  assumes "list_all2 (line_stored e) (take n (map (journal_row j) ls)) stored" "r \<in> set stored"
  shows "jl_entry r = (je_ID j, je_EntityID j)"
proof -
  obtain l where "line_stored e (journal_row j l) r" using list_all2_member [OF assms] by (metis imageE in_set_takeD list.set_map)
  from line_stored_fields [OF this] show ?thesis by (simp add: jl_entry_def)
qed

lemma insert_lines_wf:
  "journals_wf d \<Longrightarrow> \<forall>l \<in> set ls. jl_entry l \<in> set (map je_key (journal_entries d)) \<Longrightarrow>
   journal_insert_lines e ls d = (r, d') \<Longrightarrow> journals_wf d'"
proof (induction ls arbitrary: d)
  case (Cons l ls)
  show ?case
  proof (cases "journal_insert_line e l d")
    case (Inr d1)
    then obtain s where s: "d1 = d\<lparr>journal_lines := journal_lines d @ [s]\<rparr>" "line_stored e l s"
      "\<forall>x \<in> set (journal_lines d). jl_ID x \<noteq> jl_ID l \<and> jl_slot x \<noteq> jl_slot l"
      by (rule insert_line_InrD)
    with Cons.prems(1,2) have "journals_wf d1"
      by (auto simp: journals_wf_def jl_entry_def dest!: line_stored_fields)
    with Cons Inr s show ?thesis by simp
  qed (use Cons in auto)
qed simp

lemma create_wf: "journals_wf d \<Longrightarrow> journal_CreateTx e j d = (r, d') \<Longrightarrow> journals_wf d'"
proof (cases "journal_insert_entry e j d")
  case (Inr d1)
  assume wf: "journals_wf d" and c: "journal_CreateTx e j d = (r, d')"
  note D = insert_entry_InrD [OF Inr]
  with wf have "journals_wf d1" by (auto simp: journals_wf_def)
  moreover have "\<forall>l \<in> set (map (journal_row j) (je_Lines j)). jl_entry l \<in> set (map je_key (journal_entries d1))"
    using D by (auto simp: je_key_def)
  ultimately show ?thesis using c Inr
    by (intro insert_lines_wf [of d1 "map (journal_row j) (je_Lines j)" e r d']) (auto simp: journal_CreateTx_def)
qed (auto simp: journal_CreateTx_def)

lemma create_frame [store_simps]:
  assumes "journal_CreateTx e j d = (r, d')"
  shows "accounting_periods d' = accounting_periods d" "invoices d' = invoices d"
    "invoice_lines d' = invoice_lines d" "accounting_books d' = accounting_books d"
    "chart_of_accounts d' = chart_of_accounts d" "finance_audit_log d' = finance_audit_log d"
    "idempotency_records d' = idempotency_records d"
  using assms by (auto elim!: create_cases)

lemma no_lines_yet:
  assumes "journals_wf d" "i \<notin> set (map je_ID (journal_entries d))"
  shows "filter (\<lambda>l. jl_EntityID l = en \<and> jl_JournalEntryID l = i) (journal_lines d) = []"
  using assms by (fastforce simp: journals_wf_def jl_entry_def je_key_def filter_empty_conv)

lemma stored_line_numbers:
  "list_all2 (line_stored e) (map (journal_row j) ls) stored \<Longrightarrow> map jl_LineNo stored = map jl_LineNo ls"
  by (auto simp: list_all2_conv_all_nth intro!: nth_equalityI dest!: line_stored_fields)

text \<open>An entry created without error reads back with the rows of its lines, in their order; the others keep theirs.\<close>

lemma create_lines:
  assumes "journals_wf d" "journal_CreateTx e j d = (None, d')" "sorted (map jl_LineNo (je_Lines j))"
  shows "list_all2 (line_stored e) (map (journal_row j) (je_Lines j)) (entry_lines d' (je_EntityID j) (je_ID j))"
  using assms(2)
proof (cases rule: create_cases)
  case (rows stored)
  then have st: "list_all2 (line_stored e) (map (journal_row j) (je_Lines j)) stored"
    by (simp flip: take_map)
  have "filter (\<lambda>l. jl_EntityID l = je_EntityID j \<and> jl_JournalEntryID l = je_ID j) stored = stored"
    using stored_entry [OF rows(2)] by (auto simp: jl_entry_def filter_id_conv)
  moreover have "sorted (map jl_LineNo stored)" using stored_line_numbers [OF st] assms(3) by simp
  ultimately have "entry_lines d' (je_EntityID j) (je_ID j) = stored"
    using rows(1) no_lines_yet [OF assms(1) rows(4)] by (simp add: entry_lines_def sorted_sort_id sort_key_def [symmetric] sort_key_id_if_sorted)
  with st show ?thesis by simp
qed simp

lemma create_other_lines:
  assumes "journal_CreateTx e j d = (r, d')" "i \<noteq> je_ID j"
  shows "entry_lines d' en i = entry_lines d en i"
  using assms(1)
proof (cases rule: create_cases)
  case (rows stored)
  have "filter (\<lambda>l. jl_EntityID l = en \<and> jl_JournalEntryID l = i) stored = []"
    using stored_entry [OF rows(2)] assms(2) by (auto simp: jl_entry_def filter_empty_conv)
  with rows(1) show ?thesis by (simp add: entry_lines_def)
qed simp

end
