(* ===== verification/Store_Periods.thy ===== *)
theory Store_Periods
  imports Store
begin

text \<open>
  The period store (internal/store/postgres/period.go) and the life cycle of an accounting period.
\<close>

definition pd_key :: "AccountingPeriod \<Rightarrow> string \<times> string \<times> string" where
  "pd_key p = (pd_EntityID p, pd_BookID p, pd_Period p)"

definition find_period :: "db \<Rightarrow> string \<times> string \<times> string \<Rightarrow> AccountingPeriod option" where
  "find_period d k = find (\<lambda>p. pd_key p = k) (accounting_periods d)"

definition period_Get :: "env \<Rightarrow> db \<Rightarrow> string \<Rightarrow> string \<Rightarrow> string \<Rightarrow> err + AccountingPeriod option" where
  "period_Get e d entityID bookID period =
     (if fault e Period_Get then Inl (DbError Period_Get)
      else Inr (map_option (pd_Metadata_update (\<lambda>_. '''')) (find_period d (entityID, bookID, period))))"

definition period_Insert :: "env \<Rightarrow> AccountingPeriod \<Rightarrow> db \<Rightarrow> err + db" where
  "period_Insert e p d =
     (if fault e Period_Insert \<or>
         list_ex (\<lambda>q. pd_ID q = pd_ID p \<or> pd_key q = pd_key p) (accounting_periods d)
      then Inl (DbError Period_Insert)
      else Inr (d\<lparr>accounting_periods := accounting_periods d @
        [p\<lparr>pd_OpenedAt := db_now e, pd_ClosingAt := '''', pd_ClosedAt := '''', pd_LockedAt := '''',
          pd_ClosedBy := '''', pd_Metadata := ''{}''\<rparr>]\<rparr>))"

text \<open>\<open>n\<close> is the index of the next generated identifier.\<close>

definition period_GetOrCreate :: "env \<Rightarrow> nat \<Rightarrow> AccountingPeriod \<Rightarrow> db \<Rightarrow> (err + AccountingPeriod) \<times> db" where
  "period_GetOrCreate e n p d =
     (case period_Get e d (pd_EntityID p) (pd_BookID p) (pd_Period p) of
        Inl x \<Rightarrow> (Inl x, d)
      | Inr (Some existing) \<Rightarrow> (Inr existing, d)
      | Inr None \<Rightarrow>
        (let p' = p\<lparr>pd_ID := uuid e n, pd_Status := PeriodStatusOpen, pd_OpenedAt := now e\<rparr> in
         case period_Insert e p' d of Inl x \<Rightarrow> (Inl x, d) | Inr d' \<Rightarrow> (Inr p', d')))"

definition period_ListByBook :: "env \<Rightarrow> db \<Rightarrow> string \<Rightarrow> string \<Rightarrow> err + AccountingPeriod list" where
  "period_ListByBook e d entityID bookID =
     (if fault e Period_List then Inl (DbError Period_List)
      else Inr (map (pd_Metadata_update (\<lambda>_. '''')) (order_by e pd_Period
        (filter (\<lambda>p. pd_EntityID p = entityID \<and> pd_BookID p = bookID) (accounting_periods d)))))"

definition period_IsClosed :: "env \<Rightarrow> db \<Rightarrow> string \<Rightarrow> string \<Rightarrow> string \<Rightarrow> err + bool" where
  "period_IsClosed e d entityID bookID period =
     (if fault e Period_IsClosed then Inl (DbError Period_IsClosed)
      else Inr (case find_period d (entityID, bookID, period) of None \<Rightarrow> False
        | Some p \<Rightarrow> pd_Status p = PeriodStatusClosed \<or> pd_Status p = PeriodStatusLocked))"

text \<open>The assignments of the \<open>UPDATE\<close>: the status, one time stamp by target, and who closed.\<close>

definition period_stamp :: "env \<Rightarrow> string \<Rightarrow> string option \<Rightarrow> AccountingPeriod \<Rightarrow> AccountingPeriod" where
  "period_stamp e toStatus closedBy p =
     (let p1 = p\<lparr>pd_Status := toStatus\<rparr>;
          p2 = (if toStatus = PeriodStatusClosing then p1\<lparr>pd_ClosingAt := db_now e\<rparr>
                else if toStatus = PeriodStatusClosed then p1\<lparr>pd_ClosedAt := db_now e\<rparr>
                else if toStatus = PeriodStatusLocked then p1\<lparr>pd_LockedAt := db_now e\<rparr>
                else p1\<lparr>pd_OpenedAt := db_now e\<rparr>)
      in case closedBy of None \<Rightarrow> p2 | Some a \<Rightarrow> p2\<lparr>pd_ClosedBy := a\<rparr>)"

definition period_change :: "env \<Rightarrow> string \<Rightarrow> string \<Rightarrow> string option \<Rightarrow> string \<times> string \<times> string \<Rightarrow> db \<Rightarrow> db option" where
  "period_change e fromStatus toStatus closedBy k d =
     map_option (\<lambda>ps. d\<lparr>accounting_periods := ps\<rparr>)
       (status_update (\<lambda>p. pd_key p = k) pd_Status [fromStatus] (period_stamp e toStatus closedBy) (accounting_periods d))"

definition period_UpdateStatus ::
    "env \<Rightarrow> string \<Rightarrow> string \<Rightarrow> string \<Rightarrow> string \<Rightarrow> string \<Rightarrow> string option \<Rightarrow> db \<Rightarrow> (err + AccountingPeriod option) \<times> db" where
  "period_UpdateStatus e entityID bookID period fromStatus toStatus closedBy d =
     (if fault e (Period_Update fromStatus toStatus) then (Inl (DbError (Period_Update fromStatus toStatus)), d)
      else case period_change e fromStatus toStatus closedBy (entityID, bookID, period) d of
        None \<Rightarrow> (Inl ErrNoRows, d)
      | Some d' \<Rightarrow> (period_Get e d' entityID bookID period, d'))"

section \<open>The laws of the period table\<close>

definition periods_wf :: "db \<Rightarrow> bool" where
  "periods_wf d \<longleftrightarrow> distinct (map pd_key (accounting_periods d)) \<and> distinct (map pd_ID (accounting_periods d))"

definition period_status :: "db \<Rightarrow> string \<times> string \<times> string \<Rightarrow> string option" where
  "period_status d k = map_option pd_Status (find_period d k)"

lemma period_stamp_simps [simp]:
  "pd_key (period_stamp e t c p) = pd_key p" "pd_ID (period_stamp e t c p) = pd_ID p"
  "pd_Status (period_stamp e t c p) = t"
  by (simp_all add: period_stamp_def pd_key_def Let_def split: option.splits)

lemma period_change_wf: "periods_wf d \<Longrightarrow> period_change e f t c k d = Some d' \<Longrightarrow> periods_wf d'"
  by (auto simp: period_change_def periods_wf_def status_update_map)

lemma period_change_laws:
  assumes "periods_wf d"
  shows "period_change e f t c k d \<noteq> None \<longleftrightarrow> period_status d k = Some f"
    and "period_change e f t c k d = Some d' \<Longrightarrow>
      period_status d' k' = (if k' = k then Some t else period_status d k')"
proof -
  have dist: "distinct (map pd_key (accounting_periods d))" using assms by (simp add: periods_wf_def)
  note laws = status_update_laws [OF dist, of "period_stamp e t c" pd_Status t k "[f]", simplified]
  show "period_change e f t c k d \<noteq> None \<longleftrightarrow> period_status d k = Some f"
    using laws(1) by (auto simp: period_change_def period_status_def find_period_def)
  assume "period_change e f t c k d = Some d'"
  then obtain ps where "d' = d\<lparr>accounting_periods := ps\<rparr>"
    "status_update (\<lambda>p. pd_key p = k) pd_Status [f] (period_stamp e t c) (accounting_periods d) = Some ps"
    by (auto simp: period_change_def)
  with laws(2) [of ps k'] show "period_status d' k' = (if k' = k then Some t else period_status d k')"
    by (simp add: period_status_def find_period_def)
qed

interpretation begin_closing: guarded_status periods_wf period_status
    "\<lambda>k. period_change e PeriodStatusOpen PeriodStatusClosing c k" "[PeriodStatusOpen]" PeriodStatusClosing for e c
  by unfold_locales
    (use period_change_laws period_change_wf in \<open>auto simp: PeriodStatusOpen_def PeriodStatusClosing_def\<close>)

interpretation finish_closing: guarded_status periods_wf period_status
    "\<lambda>k. period_change e PeriodStatusClosing PeriodStatusClosed c k" "[PeriodStatusClosing]" PeriodStatusClosed for e c
  by unfold_locales
    (use period_change_laws period_change_wf in \<open>auto simp: PeriodStatusClosed_def PeriodStatusClosing_def\<close>)

interpretation reopen: guarded_status periods_wf period_status
    "\<lambda>k. period_change e PeriodStatusClosed PeriodStatusOpen c k" "[PeriodStatusClosed]" PeriodStatusOpen for e c
  by unfold_locales
    (use period_change_laws period_change_wf in \<open>auto simp: PeriodStatusOpen_def PeriodStatusClosed_def\<close>)

interpretation lock: guarded_status periods_wf period_status
    "\<lambda>k. period_change e PeriodStatusClosed PeriodStatusLocked c k" "[PeriodStatusClosed]" PeriodStatusLocked for e c
  by unfold_locales
    (use period_change_laws period_change_wf in \<open>auto simp: PeriodStatusLocked_def PeriodStatusClosed_def\<close>)

text \<open>A status change leaves every other table alone.\<close>

lemma period_change_frame [store_simps]:
  assumes "period_change e f t c k d = Some d'"
  shows "invoices d' = invoices d" "journal_entries d' = journal_entries d" "journal_lines d' = journal_lines d"
    "finance_audit_log d' = finance_audit_log d" "accounting_books d' = accounting_books d"
    "chart_of_accounts d' = chart_of_accounts d" "invoice_lines d' = invoice_lines d"
    "idempotency_records d' = idempotency_records d"
  using assms by (auto simp: period_change_def)

lemma period_IsClosed_status:
  "\<not> fault e Period_IsClosed \<Longrightarrow> period_IsClosed e d a b p =
     Inr (period_status d (a, b, p) = Some PeriodStatusClosed \<or> period_status d (a, b, p) = Some PeriodStatusLocked)"
  by (auto simp: period_IsClosed_def period_status_def split: option.splits)

end
