(* ===== verification/Service_Base.thy ===== *)
theory Service_Base
  imports Store_Books Store_Journals Store_Periods
begin

text \<open>
  The service (internal/service/service.go): its configuration, the helpers every operation uses, and the
  operations on books, accounts, the audit log and the idempotency records.

  An operation takes the environment of the request (whose generated identifiers are \<open>uuid e 0\<close>, \<open>uuid e 1\<close>, ...
  in the order the code asks for them), the configuration of the service, the values of the request context,
  its arguments and the tables.  A read returns an error or its result; a write also returns the tables, which
  an error may leave changed.  A value that Go returns beside an error is not modelled.
\<close>

section \<open>The service and the request context\<close>

text \<open>Which of the optional stores the service was given (the stores of invoices and journals always are; no operation uses the
  store of tax returns).\<close>

record Service =
  has_db :: bool
  has_books :: bool
  has_periods :: bool
  has_invoiceLines :: bool
  has_accounts :: bool
  has_auditLog :: bool
  has_idempotency :: bool
  has_reconciliation :: bool
  has_reportMappings :: bool
  has_adjustments :: bool
  has_taxProfiles :: bool
  has_riskScans :: bool
  has_consistencyChecks :: bool

text \<open>The service as cmd/server/main.go builds it.\<close>

definition full_service :: Service where
  "full_service = \<lparr> has_db = True, has_books = True, has_periods = True, has_invoiceLines = True, has_accounts = True,
     has_auditLog = True, has_idempotency = True, has_reconciliation = True, has_reportMappings = True, has_adjustments = True,
     has_taxProfiles = True, has_riskScans = True, has_consistencyChecks = True \<rparr>"

record Context =
  TraceID :: string
  CapabilityID :: string
  IdempotencyKey :: string
  ActorID :: string
  ApprovalGrantID :: string

text \<open>The identifiers from the \<open>n\<close>-th on.\<close>

definition ids_from :: "nat \<Rightarrow> env \<Rightarrow> env" where
  "ids_from n e = e\<lparr>uuid := \<lambda>i. uuid e (n + i)\<rparr>"

lemma ids_from_simps [simp]:
  "uuid (ids_from n e) i = uuid e (n + i)" "fault (ids_from n e) = fault e" "numeric (ids_from n e) = numeric e"
  "to_date (ids_from n e) = to_date e" "jsonb (ids_from n e) = jsonb e" "db_now (ids_from n e) = db_now e"
  "now (ids_from n e) = now e" "collate (ids_from n e) = collate e" "scan_date (ids_from n e) = scan_date e"
  "assign_date (ids_from n e) = assign_date e" "sum_numeric (ids_from n e) = sum_numeric e"
  by (simp_all add: ids_from_def)

section \<open>Errors and helpers\<close>

text \<open>\<open>fmt.Errorf("%w: ...", ErrInvalidRequest)\<close>\<close>

definition invalid :: "string \<Rightarrow> err" where
  "invalid m = Wrap '''' ErrInvalidRequest ('': '' @ m)"

definition periodPattern :: "string \<Rightarrow> bool" where
  "periodPattern p \<longleftrightarrow> length p = 7 \<and> list_all is_digit (take 4 p) \<and> p ! 4 = CHR ''-'' \<and> list_all is_digit (drop 5 p)"

text \<open>\<open>time.Parse("2006-01", p)\<close> accepts the months 01 to 12.\<close>

definition validPeriod :: "string \<Rightarrow> bool" where
  "validPeriod p \<longleftrightarrow> periodPattern p \<and> (let m = 10 * digit_val (p ! 5) + digit_val (p ! 6) in 1 \<le> m \<and> m \<le> 12)"

definition accountingPeriod :: "env \<Rightarrow> string \<Rightarrow> string" where
  "accountingPeriod e issueDate =
     (if 7 \<le> length issueDate \<and> validPeriod (take 7 issueDate) then take 7 issueDate else this_month e)"

definition reverseDirection :: "string \<Rightarrow> string" where
  "reverseDirection d = (if d = DirectionDebit then DirectionCredit else DirectionDebit)"

text \<open>The sums of \<open>validateBalanced\<close>, and its test.\<close>

definition line_sums :: "JournalLine list \<Rightarrow> f64 \<times> f64" where
  "line_sums ls = foldl (\<lambda>(debit, credit) l. (fadd debit (jl_DebitAmount l), fadd credit (jl_CreditAmount l))) (Fin 0, Fin 0) ls"

definition validateBalanced :: "JournalLine list \<Rightarrow> err option" where
  "validateBalanced ls =
     (let (debit, credit) = line_sums ls in
      if \<not> moneyEqual debit credit
      then Some (invalid (''journal entry is not balanced (debit='' @ fmt2 debit @ '', credit='' @ fmt2 credit @ '')''))
      else None)"

section \<open>Audit\<close>

text \<open>
  \<open>logAudit\<close>: the record of a successful operation; the identifier is \<open>uuid e n\<close>.  A failing append is ignored.
\<close>

definition audit_entry :: "env \<Rightarrow> nat \<Rightarrow> Context \<Rightarrow> string \<Rightarrow> string \<Rightarrow> string \<Rightarrow> string \<Rightarrow> string \<Rightarrow> string \<Rightarrow> string \<Rightarrow> AuditEntry" where
  "audit_entry e n c entityID bookID actorID action objectType objectID objectRef =
     \<lparr> ae_ID = uuid e n, ae_EntityID = entityID, ae_BookID = bookID, ae_CapabilityID = CapabilityID c,
       ae_V2CapabilityID = CapabilityID c, ae_ActorType = ''user'',
       ae_ActorID = (if actorID = '''' then ActorID c else actorID), ae_TraceID = TraceID c, ae_WorkflowRunID = '''',
       ae_ApprovalGrantID = ApprovalGrantID c, ae_IdempotencyKey = IdempotencyKey c, ae_ObjectType = objectType,
       ae_ObjectID = objectID, ae_Action = action, ae_Outcome = ''success'',
       ae_Payload = [(''details'', ''{}''), (''ref'', objectRef)], ae_CreatedAt = '''' \<rparr>"

definition logAudit ::
    "env \<Rightarrow> nat \<Rightarrow> Service \<Rightarrow> Context \<Rightarrow> string \<Rightarrow> string \<Rightarrow> string \<Rightarrow> string \<Rightarrow> string \<Rightarrow> string \<Rightarrow> string \<Rightarrow> db \<Rightarrow> db" where
  "logAudit e n s c entityID bookID actorID action objectType objectID objectRef d =
     (if \<not> has_auditLog s then d
      else case audit_Append e (audit_entry e n c entityID bookID actorID action objectType objectID objectRef) d of
        Inl _ \<Rightarrow> d
      | Inr d' \<Rightarrow> d')"

definition ListAuditLog :: "env \<Rightarrow> Service \<Rightarrow> AuditListQuery \<Rightarrow> db \<Rightarrow> err + AuditEntry list" where
  "ListAuditLog e s q d = (if \<not> has_auditLog s then Inl ErrNotConfigured else audit_List e d q)"

section \<open>Idempotency\<close>

definition CheckIdempotency :: "env \<Rightarrow> Service \<Rightarrow> string \<Rightarrow> string \<Rightarrow> string \<Rightarrow> string \<Rightarrow> db \<Rightarrow> err + IdempotencyRecord option" where
  "CheckIdempotency e s entityID capabilityID key inputHash d =
     (if \<not> has_idempotency s then Inr None else idem_Get e d entityID capabilityID key)"

definition SaveIdempotency ::
    "env \<Rightarrow> Service \<Rightarrow> string \<Rightarrow> string \<Rightarrow> string \<Rightarrow> string \<Rightarrow> string \<Rightarrow> string \<Rightarrow> db \<Rightarrow> err + db" where
  "SaveIdempotency e s entityID capabilityID key inputHash res status d =
     (if \<not> has_idempotency s then Inr d
      else idem_Save e \<lparr> ir_EntityID = entityID, ir_CapabilityID = capabilityID, ir_IdempotencyKey = key,
        ir_InputHash = inputHash, ir_Result = res, ir_Status = status, ir_CreatedAt = '''' \<rparr> d)"

section \<open>Accounts\<close>

definition clamp_limit :: "int \<Rightarrow> int" where
  "clamp_limit l = (let l1 = (if l \<le> 0 then 50 else l) in if 200 < l1 then 200 else l1)"

definition ListAccounts :: "env \<Rightarrow> AccountListQuery \<Rightarrow> db \<Rightarrow> err + AccountListResponse" where
  "ListAccounts e q d =
     (let q' = q\<lparr>alq_Limit := clamp_limit (alq_Limit q)\<rparr> in
      case account_List e d q' of
        Inl x \<Rightarrow> Inl x
      | Inr (items, cnt) \<Rightarrow>
          Inr \<lparr> alr_Items = items, alr_Total = cnt, alr_Limit = alq_Limit q', alr_Offset = alq_Offset q' \<rparr>)"

definition GetAccount :: "env \<Rightarrow> string \<Rightarrow> string \<Rightarrow> string \<Rightarrow> db \<Rightarrow> err + ChartAccount option" where
  "GetAccount e entityID bookID code d =
     (if TrimSpace code = '''' then Inl (invalid ''account code required'')
      else account_GetByCode e d entityID bookID (TrimSpace code))"

definition CreateAccount :: "env \<Rightarrow> Service \<Rightarrow> Context \<Rightarrow> ChartAccount \<Rightarrow> db \<Rightarrow> (err + ChartAccount) \<times> db" where
  "CreateAccount e s c a d =
     (let a1 = a\<lparr>ac_Code := TrimSpace (ac_Code a), ac_Name := TrimSpace (ac_Name a),
            ac_Category := TrimSpace (ac_Category a), ac_BalanceType := TrimSpace (ac_BalanceType a)\<rparr>
      in if ac_Code a1 = '''' \<or> ac_Name a1 = '''' \<or> ac_Category a1 = ''''
         then (Inl (invalid ''code, name, category required''), d)
         else if ac_BalanceType a1 \<noteq> BalanceTypeDebit \<and> ac_BalanceType a1 \<noteq> BalanceTypeCredit
         then (Inl (invalid ''balance_type must be debit or credit''), d)
         else (let a2 = (if ac_Keywords a1 = None then a1\<lparr>ac_Keywords := Some []\<rparr> else a1);
                   (n, a3) = (if ac_ID a2 = '''' then (1, a2\<lparr>ac_ID := uuid e 0\<rparr>) else (0, a2))
               in case account_Create e a3 d of
                 Inl x \<Rightarrow> (Inl x, d)
               | Inr d1 \<Rightarrow> (Inr a3, logAudit e n s c (ac_EntityID a3) (ac_BookID a3) '''' ''account.create'' ''account''
                   (ac_Code a3) (ac_Name a3) d1)))"

definition UpdateAccount ::
    "env \<Rightarrow> Service \<Rightarrow> Context \<Rightarrow> string \<Rightarrow> string \<Rightarrow> string \<Rightarrow> ChartAccount \<Rightarrow> db \<Rightarrow> (err + ChartAccount) \<times> db" where
  "UpdateAccount e s c entityID bookID code0 a d =
     (let code = TrimSpace code0 in
      if code = '''' then (Inl (invalid ''account code required''), d)
      else case account_GetByCode e d entityID bookID code of
        Inr (Some existing) \<Rightarrow>
          (let a' = a\<lparr>ac_ID := ac_ID existing, ac_EntityID := entityID, ac_BookID := bookID, ac_Code := code,
                 ac_Name := (if ac_Name a = '''' then ac_Name existing else ac_Name a),
                 ac_Category := (if ac_Category a = '''' then ac_Category existing else ac_Category a),
                 ac_BalanceType := (if ac_BalanceType a = '''' then ac_BalanceType existing else ac_BalanceType a),
                 ac_Keywords := (if ac_Keywords a = None then ac_Keywords existing else ac_Keywords a)\<rparr>
           in case account_Update e a' d of
             Inl x \<Rightarrow> (Inl x, d)
           | Inr d1 \<Rightarrow> (Inr a', logAudit e 0 s c entityID bookID '''' ''account.update'' ''account'' (ac_Code a') (ac_Name a') d1))
      | _ \<Rightarrow> (Inl (invalid ''account not found''), d))"

definition DeleteAccount :: "env \<Rightarrow> string \<Rightarrow> string \<Rightarrow> db \<Rightarrow> err + db" where
  "DeleteAccount e entityID accountID d =
     (if accountID = '''' then Inl (invalid ''account id required'') else account_Delete e entityID accountID d)"

text \<open>The standard chart of accounts: code, name, category and balance type.\<close>

definition standard_accounts :: "(string \<times> string \<times> string \<times> string) list" where
  "standard_accounts =
     [(''1001'', (zh [0x5E93, 0x5B58, 0x73B0, 0x91D1]), ''asset'', ''debit''),
      (''1002'', (zh [0x94F6, 0x884C, 0x5B58, 0x6B3E]), ''asset'', ''debit''),
      (''1012'', (zh [0x5176, 0x4ED6, 0x8D27, 0x5E01, 0x8D44, 0x91D1]), ''asset'', ''debit''),
      (''1122'', (zh [0x5E94, 0x6536, 0x8D26, 0x6B3E]), ''asset'', ''debit''),
      (''1123'', (zh [0x9884, 0x4ED8, 0x8D26, 0x6B3E]), ''asset'', ''debit''),
      (''1131'', (zh [0x5E94, 0x6536, 0x80A1, 0x5229]), ''asset'', ''debit''),
      (''1132'', (zh [0x5E94, 0x6536, 0x5229, 0x606F]), ''asset'', ''debit''),
      (''1221'', (zh [0x5176, 0x4ED6, 0x5E94, 0x6536, 0x6B3E]), ''asset'', ''debit''),
      (''1403'', (zh [0x539F, 0x6750, 0x6599]), ''asset'', ''debit''),
      (''1405'', (zh [0x5E93, 0x5B58, 0x5546, 0x54C1]), ''asset'', ''debit''),
      (''1411'', (zh [0x5468, 0x8F6C, 0x6750, 0x6599]), ''asset'', ''debit''),
      (''1601'', (zh [0x56FA, 0x5B9A, 0x8D44, 0x4EA7]), ''asset'', ''debit''),
      (''1602'', (zh [0x7D2F, 0x8BA1, 0x6298, 0x65E7]), ''asset'', ''credit''),
      (''1701'', (zh [0x65E0, 0x5F62, 0x8D44, 0x4EA7]), ''asset'', ''debit''),
      (''1702'', (zh [0x7D2F, 0x8BA1, 0x644A, 0x9500]), ''asset'', ''credit''),
      (''2001'', (zh [0x77ED, 0x671F, 0x501F, 0x6B3E]), ''liability'', ''credit''),
      (''2202'', (zh [0x5E94, 0x4ED8, 0x8D26, 0x6B3E]), ''liability'', ''credit''),
      (''2203'', (zh [0x9884, 0x6536, 0x8D26, 0x6B3E]), ''liability'', ''credit''),
      (''2211'', (zh [0x5E94, 0x4ED8, 0x804C, 0x5DE5, 0x85AA, 0x916C]), ''liability'', ''credit''),
      (''2221'', (zh [0x5E94, 0x4EA4, 0x7A0E, 0x8D39]), ''liability'', ''credit''),
      (''2221-01'', (zh [0x5E94, 0x4EA4, 0x7A0E, 0x8D39] @ ''-'' @ zh [0x5E94, 0x4EA4, 0x589E, 0x503C, 0x7A0E] @ ''-'' @ zh [0x8FDB, 0x9879, 0x7A0E, 0x989D]), ''liability'', ''debit''),
      (''2221-02'', (zh [0x5E94, 0x4EA4, 0x7A0E, 0x8D39] @ ''-'' @ zh [0x5E94, 0x4EA4, 0x589E, 0x503C, 0x7A0E] @ ''-'' @ zh [0x9500, 0x9879, 0x7A0E, 0x989D]), ''liability'', ''credit''),
      (''2221-03'', (zh [0x5E94, 0x4EA4, 0x7A0E, 0x8D39] @ ''-'' @ zh [0x5E94, 0x4EA4, 0x589E, 0x503C, 0x7A0E] @ ''-'' @ zh [0x5DF2, 0x4EA4, 0x7A0E, 0x91D1]), ''liability'', ''debit''),
      (''2221-06'', (zh [0x5E94, 0x4EA4, 0x7A0E, 0x8D39] @ ''-'' @ zh [0x5E94, 0x4EA4, 0x57CE, 0x5E02, 0x7EF4, 0x62A4, 0x5EFA, 0x8BBE, 0x7A0E]), ''liability'', ''credit''),
      (''2221-07'', (zh [0x5E94, 0x4EA4, 0x7A0E, 0x8D39] @ ''-'' @ zh [0x5E94, 0x4EA4, 0x6559, 0x80B2, 0x8D39, 0x9644, 0x52A0]), ''liability'', ''credit''),
      (''2221-08'', (zh [0x5E94, 0x4EA4, 0x7A0E, 0x8D39] @ ''-'' @ zh [0x5E94, 0x4EA4, 0x5730, 0x65B9, 0x6559, 0x80B2, 0x9644, 0x52A0]), ''liability'', ''credit''),
      (''2221-09'', (zh [0x5E94, 0x4EA4, 0x7A0E, 0x8D39] @ ''-'' @ zh [0x5E94, 0x4EA4, 0x4F01, 0x4E1A, 0x6240, 0x5F97, 0x7A0E]), ''liability'', ''credit''),
      (''2221-12'', (zh [0x5E94, 0x4EA4, 0x7A0E, 0x8D39] @ ''-'' @ zh [0x5E94, 0x4EA4, 0x5370, 0x82B1, 0x7A0E]), ''liability'', ''credit''),
      (''2241'', (zh [0x5176, 0x4ED6, 0x5E94, 0x4ED8, 0x6B3E]), ''liability'', ''credit''),
      (''2501'', (zh [0x957F, 0x671F, 0x501F, 0x6B3E]), ''liability'', ''credit''),
      (''4001'', (zh [0x5B9E, 0x6536, 0x8D44, 0x672C]), ''equity'', ''credit''),
      (''4002'', (zh [0x8D44, 0x672C, 0x516C, 0x79EF]), ''equity'', ''credit''),
      (''4101'', (zh [0x76C8, 0x4F59, 0x516C, 0x79EF]), ''equity'', ''credit''),
      (''4104'', (zh [0x5229, 0x6DA6, 0x5206, 0x914D] @ ''-'' @ zh [0x672A, 0x5206, 0x914D, 0x5229, 0x6DA6]), ''equity'', ''credit''),
      (''5401'', (zh [0x4E3B, 0x8425, 0x4E1A, 0x52A1, 0x6210, 0x672C]), ''cost'', ''debit''),
      (''5402'', (zh [0x5176, 0x4ED6, 0x4E1A, 0x52A1, 0x6210, 0x672C]), ''cost'', ''debit''),
      (''5403'', (zh [0x7A0E, 0x91D1, 0x53CA, 0x9644, 0x52A0]), ''cost'', ''debit''),
      (''5601'', (zh [0x9500, 0x552E, 0x8D39, 0x7528]), ''expense'', ''debit''),
      (''5602'', (zh [0x7BA1, 0x7406, 0x8D39, 0x7528]), ''expense'', ''debit''),
      (''5603'', (zh [0x8D22, 0x52A1, 0x8D39, 0x7528]), ''expense'', ''debit''),
      (''6001'', (zh [0x4E3B, 0x8425, 0x4E1A, 0x52A1, 0x6536, 0x5165]), ''revenue'', ''credit''),
      (''6051'', (zh [0x5176, 0x4ED6, 0x4E1A, 0x52A1, 0x6536, 0x5165]), ''revenue'', ''credit''),
      (''6111'', (zh [0x6295, 0x8D44, 0x6536, 0x76CA]), ''revenue'', ''credit''),
      (''6301'', (zh [0x8425, 0x4E1A, 0x5916, 0x6536, 0x5165]), ''revenue'', ''credit''),
      (''6711'', (zh [0x8425, 0x4E1A, 0x5916, 0x652F, 0x51FA]), ''expense'', ''debit''),
      (''6801'', (zh [0x6240, 0x5F97, 0x7A0E, 0x8D39, 0x7528]), ''expense'', ''debit'')]"

definition standard_account :: "env \<Rightarrow> nat \<Rightarrow> string \<Rightarrow> string \<Rightarrow> string \<times> string \<times> string \<times> string \<Rightarrow> ChartAccount" where
  "standard_account e n entityID bookID =
     (\<lambda>(code, name, category, balanceType). \<lparr> ac_ID = uuid e n, ac_EntityID = entityID, ac_BookID = bookID,
        ac_Code = code, ac_Name = name, ac_Category = category, ac_BalanceType = balanceType, ac_ParentID = '''',
        ac_IsSystem = True, ac_TaxRelevant = False, ac_Keywords = Some [], ac_CreatedAt = '''', ac_UpdatedAt = '''' \<rparr>)"

text \<open>An account that cannot be inserted is skipped.\<close>

fun seed_accounts :: "env \<Rightarrow> nat \<Rightarrow> string \<Rightarrow> string \<Rightarrow> (string \<times> string \<times> string \<times> string) list \<Rightarrow> db \<Rightarrow> db" where
  "seed_accounts e n entityID bookID [] d = d"
| "seed_accounts e n entityID bookID (a # as) d = seed_accounts e (Suc n) entityID bookID as
     (case account_Create e (standard_account e n entityID bookID a) d of Inl _ \<Rightarrow> d | Inr d' \<Rightarrow> d')"

definition seedStandardChartOfAccounts :: "env \<Rightarrow> nat \<Rightarrow> Service \<Rightarrow> string \<Rightarrow> string \<Rightarrow> db \<Rightarrow> db" where
  "seedStandardChartOfAccounts e n s entityID bookID d =
     (if \<not> has_accounts s then d else seed_accounts e n entityID bookID standard_accounts d)"

section \<open>Books\<close>

text \<open>\<open>GetByID\<close> finds no book without an error, so a foreign book is not noticed.\<close>

definition ResolveBook :: "env \<Rightarrow> Service \<Rightarrow> string \<Rightarrow> string \<Rightarrow> db \<Rightarrow> err + string" where
  "ResolveBook e s entityID bookID d =
     (if bookID \<noteq> '''' then
        (if has_books s then
           (case book_GetByID e d entityID bookID of
              Inl _ \<Rightarrow> Inl (Wrap '''' ErrBookScopeMismatch '': book does not belong to entity'')
            | Inr _ \<Rightarrow> Inr bookID)
         else Inr bookID)
      else if \<not> has_books s then Inr ''''
      else case book_GetDefault e d entityID of
        Inl x \<Rightarrow> Inl (Wrap ''resolve default book: '' x '''')
      | Inr None \<Rightarrow> Inl ErrBookNotFound
      | Inr (Some b) \<Rightarrow> Inr (bk_ID b))"

definition ListBooks :: "env \<Rightarrow> Service \<Rightarrow> string \<Rightarrow> db \<Rightarrow> err + AccountingBook list" where
  "ListBooks e s entityID d = (if \<not> has_books s then Inl ErrNotConfigured else book_List e d entityID)"

definition CreateBook :: "env \<Rightarrow> Service \<Rightarrow> Context \<Rightarrow> AccountingBook \<Rightarrow> db \<Rightarrow> (err + AccountingBook) \<times> db" where
  "CreateBook e s c b d =
     (if \<not> has_books s then (Inl ErrNotConfigured, d)
      else (let (n, b1) = (if bk_ID b = '''' then (1, b\<lparr>bk_ID := uuid e 0\<rparr>) else (0, b));
                b2 = (if bk_Status b1 = '''' then b1\<lparr>bk_Status := BookStatusActive\<rparr> else b1)
            in case book_Create e b2 d of
              Inl x \<Rightarrow> (Inl x, d)
            | Inr d1 \<Rightarrow>
                (let d2 = logAudit e n s c (bk_EntityID b2) (bk_ID b2) '''' ''book.create'' ''book'' (bk_ID b2) (bk_Name b2) d1;
                     n' = (if has_auditLog s then Suc n else n)
                 in (Inr b2, seedStandardChartOfAccounts e n' s (bk_EntityID b2) (bk_ID b2) d2))))"

definition GetBook :: "env \<Rightarrow> Service \<Rightarrow> string \<Rightarrow> string \<Rightarrow> db \<Rightarrow> err + AccountingBook option" where
  "GetBook e s entityID bookID d = (if \<not> has_books s then Inl ErrNotConfigured else book_GetByID e d entityID bookID)"

definition UpdateBook :: "env \<Rightarrow> Service \<Rightarrow> AccountingBook \<Rightarrow> db \<Rightarrow> err + db" where
  "UpdateBook e s b d = (if \<not> has_books s then Inl ErrNotConfigured else book_Update e b d)"

definition SetDefaultBook :: "env \<Rightarrow> Service \<Rightarrow> string \<Rightarrow> string \<Rightarrow> db \<Rightarrow> err + db" where
  "SetDefaultBook e s entityID bookID d = (if \<not> has_books s then Inl ErrNotConfigured else book_SetDefault e entityID bookID d)"

section \<open>Facts\<close>

text \<open>An audit record touches no other table.\<close>

lemma logAudit_frame [simp]:
  "journal_entries (logAudit e n s c en b a ac ot oi r d) = journal_entries d"
  "journal_lines (logAudit e n s c en b a ac ot oi r d) = journal_lines d"
  "accounting_periods (logAudit e n s c en b a ac ot oi r d) = accounting_periods d"
  "invoices (logAudit e n s c en b a ac ot oi r d) = invoices d"
  "invoice_lines (logAudit e n s c en b a ac ot oi r d) = invoice_lines d"
  "accounting_books (logAudit e n s c en b a ac ot oi r d) = accounting_books d"
  "chart_of_accounts (logAudit e n s c en b a ac ot oi r d) = chart_of_accounts d"
  "idempotency_records (logAudit e n s c en b a ac ot oi r d) = idempotency_records d"
  by (auto simp: logAudit_def audit_Append_def)

lemma line_sums_fsum: "line_sums ls = (fsum (map jl_DebitAmount ls), fsum (map jl_CreditAmount ls))"
proof -
  have "foldl (\<lambda>(x, y) l. (fadd x (jl_DebitAmount l), fadd y (jl_CreditAmount l))) (a, b) ls =
      (foldl fadd a (map jl_DebitAmount ls), foldl fadd b (map jl_CreditAmount ls))" for a b
    by (induction ls arbitrary: a b) auto
  then show ?thesis by (simp add: line_sums_def fsum_def)
qed

lemma validateBalanced_None_iff:
  "validateBalanced ls = None \<longleftrightarrow> moneyEqual (fsum (map jl_DebitAmount ls)) (fsum (map jl_CreditAmount ls))"
  by (simp add: validateBalanced_def line_sums_fsum)

lemma validateBalanced_swap:
  assumes "map jl_DebitAmount ms = map jl_CreditAmount ls" "map jl_CreditAmount ms = map jl_DebitAmount ls"
  shows "validateBalanced ms = None \<longleftrightarrow> validateBalanced ls = None"
  by (simp add: validateBalanced_None_iff assms moneyEqual_commute)

lemma balanced_cents:
  assumes "list_all2 is_cents (map jl_DebitAmount ls) ds" "list_all2 is_cents (map jl_CreditAmount ls) cs"
    and "amounts_ok ds" "amounts_ok cs"
  shows "validateBalanced ls = None \<longleftrightarrow> sum_list ds = sum_list cs"
proof -
  note d = fsum_cents [OF assms(1,3)] and c = fsum_cents [OF assms(2,4)]
  have b: "\<bar>sum_list ds\<bar> \<le> 2 * cap" "\<bar>sum_list cs\<bar> \<le> 2 * cap" "\<bar>sum_list ds\<bar> \<le> cap" "\<bar>sum_list cs\<bar> \<le> cap"
    using amounts_ok_sum [OF assms(3)] amounts_ok_sum [OF assms(4)] by (simp_all add: sum_cap_def cap_def)
  have "is_cents (roundMoney (fsum (map jl_CreditAmount ls))) (sum_list cs)"
    by (rule roundMoney_close [OF c b(2)])
  then show ?thesis
    unfolding validateBalanced_None_iff using moneyEqual_close [OF d b(3)] c b by simp
qed

text \<open>C31: the balance check of vouchers.  For lines whose amounts are cents, at most 1000 of them and 2^39 cents on
  each side, the check in binary floating point accepts exactly the lines whose debits and credits
  are equal to the cent; otherwise it is an invalid request.\<close>

theorem validateBalanced_exact:
  assumes "list_all2 is_cents (map jl_DebitAmount ls) ds" "list_all2 is_cents (map jl_CreditAmount ls) cs"
    and "amounts_ok ds" "amounts_ok cs"
  shows "(validateBalanced ls = None \<longleftrightarrow> sum_list ds = sum_list cs) \<and>
    (sum_list ds \<noteq> sum_list cs \<longrightarrow> (\<exists>x. validateBalanced ls = Some x \<and> err_root x = ErrInvalidRequest))"
  using balanced_cents [OF assms] by (auto simp: validateBalanced_def invalid_def split: if_splits prod.splits)

definition amount_line :: "f64 \<Rightarrow> f64 \<Rightarrow> JournalLine" where
  "amount_line debit credit = \<lparr> jl_ID = '''', jl_EntityID = '''', jl_JournalEntryID = '''', jl_AccountID = '''',
     jl_AccountCode = ''1002'', jl_AccountName = '''', jl_Direction = '''', jl_DebitAmount = debit, jl_CreditAmount = credit,
     jl_Currency = '''', jl_LineNo = 0, jl_Auxiliary = '''' \<rparr>"

theorem validateBalanced_exact_witness:
  "validateBalanced [amount_line (lit (1 / 10)) (Fin 0), amount_line (lit (2 / 10)) (Fin 0), amount_line (Fin 0) (lit (3 / 10))] = None \<and>
   validateBalanced [amount_line (lit (1 / 10)) (Fin 0), amount_line (Fin 0) (lit (11 / 100))] \<noteq> None"
proof -
  let ?a = "[amount_line (lit (1 / 10)) (Fin 0), amount_line (lit (2 / 10)) (Fin 0), amount_line (Fin 0) (lit (3 / 10))]"
  let ?b = "[amount_line (lit (1 / 10)) (Fin 0), amount_line (Fin 0) (lit (11 / 100))]"
  have "list_all2 is_cents (map jl_DebitAmount ?a) [10, 20, 0]" "list_all2 is_cents (map jl_CreditAmount ?a) [0, 0, 30]"
    "list_all2 is_cents (map jl_DebitAmount ?b) [10, 0]" "list_all2 is_cents (map jl_CreditAmount ?b) [0, 11]"
    "amounts_ok [10, 20, 0]" "amounts_ok [0, 0, 30]" "amounts_ok [10, 0]" "amounts_ok [0, 11]"
    by (simp_all add: amount_line_def is_cents_def lit_fin float_eval amounts_ok_def max_lines_def sum_cap_def)
  with validateBalanced_exact [of ?a "[10, 20, 0]" "[0, 0, 30]"] validateBalanced_exact [of ?b "[10, 0]" "[0, 11]"]
  show ?thesis by simp
qed

text \<open>A book of another entity passes.  Without a database failure \<open>ResolveBook\<close> returns every nonempty book
  identifier as it is, whether or not the entity has such a book; only the default of an empty identifier
  comes from the books of the entity.\<close>

theorem ResolveBook_accepts:
  assumes "has_books s" "\<not> fault e Book_GetByID" "\<not> fault e Book_GetDefault"
  shows "(bookID \<noteq> '''' \<longrightarrow> ResolveBook e s entityID bookID d = Inr bookID) \<and>
    (bookID = '''' \<longrightarrow> (\<forall>b. ResolveBook e s entityID bookID d = Inr b \<longrightarrow>
       (\<exists>x \<in> set (accounting_books d). bk_ID x = b \<and> bk_EntityID x = entityID \<and> bk_IsDefault x)))"
  using assms
  by (auto simp: ResolveBook_def book_GetByID_def book_GetDefault_def split: option.splits dest!: pick_row_in)

theorem ResolveBook_accepts_witness:
  "ResolveBook plain_env full_service ''e2'' ''b1'' (empty_db\<lparr>accounting_books := [book_example ''b1'' True]\<rparr>) = Inr ''b1''"
  using ResolveBook_accepts [of full_service plain_env "''b1''" "''e2''"] by (simp add: full_service_def plain_env_def)

end
