(* ===== verification/Store_Invoices.thy ===== *)
theory Store_Invoices
  imports Store
begin

text \<open>
  The stores of invoices and invoice lines (internal/store/postgres/invoice.go, invoice_line.go).  An invoice
  keeps a copy of its lines as JSON; the table of invoice lines is separate.
\<close>

section \<open>Invoices\<close>

text \<open>\<open>json.Marshal\<close> of a byte slice (nil is the empty string) and of the numbers of invoice lines.\<close>

definition json_bytes :: "string \<Rightarrow> string" where
  "json_bytes s = (if s = '''' then ''null'' else [CHR 0x22] @ base64 s @ [CHR 0x22])"

definition json_f64 :: "f64 \<Rightarrow> f64" where
  "json_f64 x = (if x = NegZero then Fin 0 else x)"

definition json_lines :: "InvoiceLine list \<Rightarrow> InvoiceLine list option" where
  "json_lines ls =
     (if list_all (\<lambda>l. is_fin (il_Quantity l) \<and> is_fin (il_UnitPrice l) \<and> is_fin (il_Amount l) \<and> is_fin (il_TaxRate l) \<and>
          is_fin (il_TaxAmount l)) ls
      then Some (map (\<lambda>l. l\<lparr>il_Quantity := json_f64 (il_Quantity l), il_UnitPrice := json_f64 (il_UnitPrice l),
        il_Amount := json_f64 (il_Amount l), il_TaxRate := json_f64 (il_TaxRate l), il_TaxAmount := json_f64 (il_TaxAmount l)\<rparr>) ls)
      else None)"

definition iv_key :: "Invoice \<Rightarrow> string \<times> string" where
  "iv_key i = (iv_ID i, iv_EntityID i)"

definition iv_number :: "Invoice \<Rightarrow> string \<times> string \<times> string" where
  "iv_number i = (iv_EntityID i, iv_BookID i, iv_InvoiceNo i)"

text \<open>The row of an invoice: \<open>None\<close> when the database refuses a value.\<close>

definition invoice_row :: "env \<Rightarrow> Invoice \<Rightarrow> Invoice option" where
  "invoice_row e i =
     (case (to_date e (iv_IssueDate i), numeric e 18 2 (iv_AmountWithoutTax i), numeric e 18 2 (iv_TaxAmount i),
        numeric e 18 2 (iv_AmountWithTax i), json_lines (iv_InvoiceLines i)) of
       (Some date, Some a, Some t, Some w, Some ls) \<Rightarrow>
         Some (i\<lparr>iv_IssueDate := date, iv_AmountWithoutTax := a, iv_TaxAmount := t, iv_AmountWithTax := w,
           iv_Extraction := json_bytes (iv_Extraction i), iv_EvidenceRefs := json_bytes (iv_EvidenceRefs i),
           iv_InvoiceLines := ls, iv_CreatedAt := db_now e, iv_UpdatedAt := db_now e\<rparr>)
     | _ \<Rightarrow> None)"

definition invoice_Create :: "env \<Rightarrow> Invoice \<Rightarrow> db \<Rightarrow> err + db" where
  "invoice_Create e i d =
     (if fault e Invoice_Insert \<or> list_ex (\<lambda>x. iv_ID x = iv_ID i \<or> iv_number x = iv_number i) (invoices d)
      then Inl (DbError Invoice_Insert)
      else case invoice_row e i of
        None \<Rightarrow> Inl (DbError Invoice_Insert)
      | Some row \<Rightarrow> Inr (d\<lparr>invoices := invoices d @ [row]\<rparr>))"

definition find_invoice :: "db \<Rightarrow> string \<times> string \<Rightarrow> Invoice option" where
  "find_invoice d k = find (\<lambda>i. iv_key i = k) (invoices d)"

definition invoice_read :: "stmt \<Rightarrow> env \<Rightarrow> db \<Rightarrow> string \<Rightarrow> string \<Rightarrow> err + Invoice option" where
  "invoice_read s e d entityID invoiceID =
     (if fault e s then Inl (DbError s) else Inr (find_invoice d (invoiceID, entityID)))"

abbreviation invoice_Get :: "env \<Rightarrow> db \<Rightarrow> string \<Rightarrow> string \<Rightarrow> err + Invoice option" where
  "invoice_Get \<equiv> invoice_read Invoice_Get"

text \<open>\<open>to_char(issue_date, 'YYYY-MM')\<close>\<close>

definition issue_month :: "Invoice \<Rightarrow> string" where "issue_month i = take 7 (iv_IssueDate i)"

definition invoice_List :: "env \<Rightarrow> db \<Rightarrow> string \<Rightarrow> string \<Rightarrow> string \<Rightarrow> string \<Rightarrow> int \<Rightarrow> int \<Rightarrow> err + Invoice list" where
  "invoice_List e d entityID bookID period status limit offset =
     (if fault e Invoice_List then Inl (DbError Invoice_List)
      else page Invoice_List limit offset (newest_first iv_CreatedAt
        (filter (\<lambda>i. iv_EntityID i = entityID \<and> (bookID \<noteq> '''' \<longrightarrow> iv_BookID i = bookID) \<and>
          (period \<noteq> '''' \<longrightarrow> issue_month i = period) \<and> (status \<noteq> '''' \<longrightarrow> iv_Status i = status)) (invoices d))))"

definition invoice_FindByInvoiceNo :: "env \<Rightarrow> db \<Rightarrow> string \<Rightarrow> string \<Rightarrow> string \<Rightarrow> err + Invoice option" where
  "invoice_FindByInvoiceNo e d entityID bookID invoiceNo =
     (if fault e Invoice_FindByNo then Inl (DbError Invoice_FindByNo)
      else Inr (find (\<lambda>i. iv_number i = (entityID, bookID, invoiceNo)) (invoices d)))"

definition invoice_FindByDigitalInvoiceNo :: "env \<Rightarrow> db \<Rightarrow> string \<Rightarrow> string \<Rightarrow> string \<Rightarrow> err + Invoice option" where
  "invoice_FindByDigitalInvoiceNo e d entityID bookID digitalNo =
     (if fault e Invoice_FindByDigitalNo then Inl (DbError Invoice_FindByDigitalNo)
      else Inr (pick_row e (filter (\<lambda>i. iv_EntityID i = entityID \<and> iv_BookID i = bookID \<and>
        iv_DigitalInvoiceNo i = digitalNo) (invoices d))))"

text \<open>An empty original identifier is stored as NULL and equals nothing.\<close>

definition invoice_FindByOriginalInvoiceID :: "env \<Rightarrow> db \<Rightarrow> string \<Rightarrow> string \<Rightarrow> err + Invoice list" where
  "invoice_FindByOriginalInvoiceID e d entityID originalID =
     (if fault e Invoice_FindByOriginal then Inl (DbError Invoice_FindByOriginal)
      else Inr (sort_key iv_CreatedAt (filter (\<lambda>i. iv_EntityID i = entityID \<and> iv_OriginalInvoiceID i \<noteq> '''' \<and>
        iv_OriginalInvoiceID i = originalID) (invoices d))))"

definition invoice_ListPostedByPeriod :: "env \<Rightarrow> db \<Rightarrow> string \<Rightarrow> string \<Rightarrow> string \<Rightarrow> err + Invoice list" where
  "invoice_ListPostedByPeriod e d entityID bookID period =
     (if fault e Invoice_ListPosted then Inl (DbError Invoice_ListPosted)
      else Inr (sort_key iv_IssueDate (filter (\<lambda>i. iv_EntityID i = entityID \<and> iv_BookID i = bookID \<and>
        issue_month i = period \<and> iv_Status i = StatusPosted) (invoices d))))"

text \<open>
  \<open>UPDATE\<close> of the editable columns; without a matching row nothing changes and there is no error.
\<close>

definition invoice_edit :: "Invoice \<Rightarrow> Invoice \<Rightarrow> Invoice" where
  "invoice_edit new old = old\<lparr>iv_InvoiceNo := iv_InvoiceNo new, iv_InvoiceType := iv_InvoiceType new,
     iv_Direction := iv_Direction new, iv_IssueDate := iv_IssueDate new, iv_SellerName := iv_SellerName new,
     iv_SellerTaxNo := iv_SellerTaxNo new, iv_BuyerName := iv_BuyerName new, iv_BuyerTaxNo := iv_BuyerTaxNo new,
     iv_AmountWithoutTax := iv_AmountWithoutTax new, iv_TaxAmount := iv_TaxAmount new,
     iv_AmountWithTax := iv_AmountWithTax new, iv_Currency := iv_Currency new, iv_InvoiceKind := iv_InvoiceKind new,
     iv_DigitalInvoiceNo := iv_DigitalInvoiceNo new, iv_BusinessTag := iv_BusinessTag new,
     iv_VerificationStatus := iv_VerificationStatus new, iv_UsageStatus := iv_UsageStatus new,
     iv_DeductionStatus := iv_DeductionStatus new, iv_RedLetterStatus := iv_RedLetterStatus new,
     iv_OriginalInvoiceID := iv_OriginalInvoiceID new, iv_TaxAccountPayload := iv_TaxAccountPayload new,
     iv_Extraction := iv_Extraction new, iv_EvidenceRefs := iv_EvidenceRefs new,
     iv_InvoiceLines := iv_InvoiceLines new, iv_UpdatedAt := iv_UpdatedAt new\<rparr>"

definition invoice_Update :: "env \<Rightarrow> Invoice \<Rightarrow> db \<Rightarrow> err + db" where
  "invoice_Update e i d =
     (if fault e Invoice_Update \<or> to_date e (iv_IssueDate i) = None then Inl (DbError Invoice_Update)
      else case find_invoice d (iv_key i) of
        None \<Rightarrow> Inr d
      | Some old \<Rightarrow>
        (if list_ex (\<lambda>x. iv_ID x \<noteq> iv_ID i \<and> iv_number x = (iv_EntityID old, iv_BookID old, iv_InvoiceNo i)) (invoices d)
         then Inl (DbError Invoice_Update)
         else case invoice_row e i of
           None \<Rightarrow> Inl (DbError Invoice_Update)
         | Some row \<Rightarrow> Inr (d\<lparr>invoices := update_where (\<lambda>x. iv_key x = iv_key i) (invoice_edit row) (invoices d)\<rparr>)))"

section \<open>Changes of status\<close>

definition invoice_stamp :: "env \<Rightarrow> string \<Rightarrow> Invoice \<Rightarrow> Invoice" where
  "invoice_stamp e t i = i\<lparr>iv_Status := t, iv_UpdatedAt := db_now e\<rparr>"

definition invoice_change :: "env \<Rightarrow> string \<Rightarrow> string \<Rightarrow> string \<times> string \<Rightarrow> db \<Rightarrow> db option" where
  "invoice_change e f t k d =
     map_option (\<lambda>rows. d\<lparr>invoices := rows\<rparr>)
       (status_update (\<lambda>i. iv_key i = k) iv_Status [f] (invoice_stamp e t) (invoices d))"

text \<open>\<open>tx\<close> as for journals: the row is read back through the pool.\<close>

definition invoice_updateStatus ::
    "env \<Rightarrow> db option \<Rightarrow> string \<Rightarrow> string \<Rightarrow> string \<Rightarrow> string \<Rightarrow> db \<Rightarrow> (err + Invoice option) \<times> db" where
  "invoice_updateStatus e tx entityID invoiceID fromStatus toStatus d =
     (if fault e (Invoice_SetStatus fromStatus toStatus) then (Inl (DbError (Invoice_SetStatus fromStatus toStatus)), d)
      else case invoice_change e fromStatus toStatus (invoiceID, entityID) d of
        None \<Rightarrow> (Inl (Msg (''invoice not found or wrong status: '' @ invoiceID)), d)
      | Some d' \<Rightarrow> (invoice_read Invoice_Reread e (case tx of None \<Rightarrow> d' | Some p \<Rightarrow> p) entityID invoiceID, d'))"

definition invoice_ApproveTx :: "env \<Rightarrow> db option \<Rightarrow> string \<Rightarrow> string \<Rightarrow> db \<Rightarrow> (err + Invoice option) \<times> db" where
  "invoice_ApproveTx e tx entityID invoiceID = invoice_updateStatus e tx entityID invoiceID StatusPendingReview StatusApproved"

definition invoice_Reject :: "env \<Rightarrow> string \<Rightarrow> string \<Rightarrow> db \<Rightarrow> (err + Invoice option) \<times> db" where
  "invoice_Reject e entityID invoiceID = invoice_updateStatus e None entityID invoiceID StatusPendingReview StatusRejected"

definition invoice_MarkPostedTx :: "env \<Rightarrow> db option \<Rightarrow> string \<Rightarrow> string \<Rightarrow> db \<Rightarrow> (err + Invoice option) \<times> db" where
  "invoice_MarkPostedTx e tx entityID invoiceID = invoice_updateStatus e tx entityID invoiceID StatusApproved StatusPosted"

text \<open>The four unguarded updates of a single status column.\<close>

definition invoice_set :: "env \<Rightarrow> stmt \<Rightarrow> (Invoice \<Rightarrow> Invoice) \<Rightarrow> string \<Rightarrow> string \<Rightarrow> db \<Rightarrow> err + db" where
  "invoice_set e s f entityID invoiceID d =
     (if fault e s then Inl (DbError s)
      else Inr (d\<lparr>invoices := update_where (\<lambda>i. iv_key i = (invoiceID, entityID))
        (\<lambda>i. (f i)\<lparr>iv_UpdatedAt := db_now e\<rparr>) (invoices d)\<rparr>))"

definition invoice_UpdateVerificationStatus :: "env \<Rightarrow> string \<Rightarrow> string \<Rightarrow> string \<Rightarrow> db \<Rightarrow> err + db" where
  "invoice_UpdateVerificationStatus e en i st = invoice_set e Invoice_SetVerification (iv_VerificationStatus_update (\<lambda>_. st)) en i"

definition invoice_UpdateUsageStatus :: "env \<Rightarrow> string \<Rightarrow> string \<Rightarrow> string \<Rightarrow> db \<Rightarrow> err + db" where
  "invoice_UpdateUsageStatus e en i st = invoice_set e Invoice_SetUsage (iv_UsageStatus_update (\<lambda>_. st)) en i"

definition invoice_UpdateDeductionStatus :: "env \<Rightarrow> string \<Rightarrow> string \<Rightarrow> string \<Rightarrow> db \<Rightarrow> err + db" where
  "invoice_UpdateDeductionStatus e en i st = invoice_set e Invoice_SetDeduction (iv_DeductionStatus_update (\<lambda>_. st)) en i"

definition invoice_UpdateRedLetterStatus :: "env \<Rightarrow> string \<Rightarrow> string \<Rightarrow> string \<Rightarrow> db \<Rightarrow> err + db" where
  "invoice_UpdateRedLetterStatus e en i st = invoice_set e Invoice_SetRedLetter (iv_RedLetterStatus_update (\<lambda>_. st)) en i"

section \<open>Invoice lines\<close>

definition il_slot :: "InvoiceLine \<Rightarrow> string \<times> string \<times> int" where
  "il_slot l = (il_EntityID l, il_InvoiceID l, il_LineNo l)"

text \<open>The values of a row; missing metadata is NULL, which the column does not accept.\<close>

definition invoice_line_row :: "env \<Rightarrow> InvoiceLine \<Rightarrow> InvoiceLine option" where
  "invoice_line_row e l =
     (if il_Metadata l = '''' \<or> \<not> int4 (il_LineNo l) then None
      else case (numeric e 18 4 (il_Quantity l), numeric e 18 4 (il_UnitPrice l), numeric e 18 2 (il_Amount l),
          numeric e 8 4 (il_TaxRate l), numeric e 18 2 (il_TaxAmount l), jsonb e (il_Metadata l)) of
        (Some q, Some p, Some a, Some r, Some t, Some m) \<Rightarrow>
          Some (l\<lparr>il_Quantity := q, il_UnitPrice := p, il_Amount := a, il_TaxRate := r, il_TaxAmount := t, il_Metadata := m\<rparr>)
      | _ \<Rightarrow> None)"

definition invoice_line_insert :: "env \<Rightarrow> InvoiceLine \<Rightarrow> db \<Rightarrow> err + db" where
  "invoice_line_insert e l d =
     (if fault e (InvoiceLine_Insert (il_LineNo l)) \<or> \<not> list_ex (\<lambda>i. iv_ID i = il_InvoiceID l) (invoices d) \<or>
         list_ex (\<lambda>x. il_ID x = il_ID l \<or> il_slot x = il_slot l) (invoice_lines d)
      then Inl (DbError (InvoiceLine_Insert (il_LineNo l)))
      else case invoice_line_row e l of
        None \<Rightarrow> Inl (DbError (InvoiceLine_Insert (il_LineNo l)))
      | Some row \<Rightarrow> Inr (d\<lparr>invoice_lines := invoice_lines d @ [row]\<rparr>))"

fun invoice_lines_CreateMany :: "env \<Rightarrow> InvoiceLine list \<Rightarrow> db \<Rightarrow> err option \<times> db" where
  "invoice_lines_CreateMany e [] d = (None, d)"
| "invoice_lines_CreateMany e (l # ls) d =
     (case invoice_line_insert e l d of Inl x \<Rightarrow> (Some x, d) | Inr d' \<Rightarrow> invoice_lines_CreateMany e ls d')"

definition invoice_line_upsert :: "env \<Rightarrow> InvoiceLine \<Rightarrow> db \<Rightarrow> err + db" where
  "invoice_line_upsert e l d =
     (let bad = Inl (DbError (InvoiceLine_Upsert (il_LineNo l))) in
      if fault e (InvoiceLine_Upsert (il_LineNo l)) then bad
      else case invoice_line_row e l of
        None \<Rightarrow> bad
      | Some row \<Rightarrow>
        (case find (\<lambda>x. il_ID x = il_ID l) (invoice_lines d) of
           None \<Rightarrow> if \<not> list_ex (\<lambda>i. iv_ID i = il_InvoiceID l) (invoices d) \<or>
               list_ex (\<lambda>x. il_slot x = il_slot l) (invoice_lines d) then bad
             else Inr (d\<lparr>invoice_lines := invoice_lines d @ [row]\<rparr>)
         | Some old \<Rightarrow>
             (let new = row\<lparr>il_EntityID := il_EntityID old, il_InvoiceID := il_InvoiceID old\<rparr> in
              if list_ex (\<lambda>x. il_ID x \<noteq> il_ID l \<and> il_slot x = il_slot new) (invoice_lines d) then bad
              else Inr (d\<lparr>invoice_lines := update_where (\<lambda>x. il_ID x = il_ID l) (\<lambda>_. new) (invoice_lines d)\<rparr>))))"

fun invoice_lines_UpsertMany :: "env \<Rightarrow> InvoiceLine list \<Rightarrow> db \<Rightarrow> err option \<times> db" where
  "invoice_lines_UpsertMany e [] d = (None, d)"
| "invoice_lines_UpsertMany e (l # ls) d =
     (case invoice_line_upsert e l d of Inl x \<Rightarrow> (Some x, d) | Inr d' \<Rightarrow> invoice_lines_UpsertMany e ls d')"

definition invoice_lines_DeleteByInvoice :: "env \<Rightarrow> string \<Rightarrow> string \<Rightarrow> db \<Rightarrow> err + db" where
  "invoice_lines_DeleteByInvoice e entityID invoiceID d =
     (if fault e InvoiceLine_Delete then Inl (DbError InvoiceLine_Delete)
      else Inr (d\<lparr>invoice_lines := filter (\<lambda>l. \<not> (il_EntityID l = entityID \<and> il_InvoiceID l = invoiceID)) (invoice_lines d)\<rparr>))"

definition invoice_lines_ListByInvoice :: "env \<Rightarrow> db \<Rightarrow> string \<Rightarrow> string \<Rightarrow> err + InvoiceLine list" where
  "invoice_lines_ListByInvoice e d entityID invoiceID =
     (if fault e InvoiceLine_List then Inl (DbError InvoiceLine_List)
      else Inr (sort_key il_LineNo (filter (\<lambda>l. il_EntityID l = entityID \<and> il_InvoiceID l = invoiceID) (invoice_lines d))))"

section \<open>The life cycle of an invoice\<close>

definition invoices_wf :: "db \<Rightarrow> bool" where
  "invoices_wf d \<longleftrightarrow> distinct (map iv_ID (invoices d)) \<and> distinct (map iv_number (invoices d))"

definition invoice_status :: "db \<Rightarrow> string \<times> string \<Rightarrow> string option" where
  "invoice_status d k = map_option iv_Status (find_invoice d k)"

lemma invoices_wf_keys: "invoices_wf d \<Longrightarrow> distinct (map iv_key (invoices d))"
  by (auto simp: invoices_wf_def iv_key_def distinct_map inj_on_def)

lemma find_invoice_iff:
  assumes "invoices_wf d"
  shows "find_invoice d k = Some i \<longleftrightarrow> i \<in> set (invoices d) \<and> iv_key i = k"
  unfolding find_invoice_def using find_key_unique [OF invoices_wf_keys [OF assms]] by (auto dest: find_SomeD)

lemma invoice_stamp_simps [simp]:
  "iv_key (invoice_stamp e t i) = iv_key i" "iv_ID (invoice_stamp e t i) = iv_ID i"
  "iv_number (invoice_stamp e t i) = iv_number i" "iv_Status (invoice_stamp e t i) = t"
  by (simp_all add: invoice_stamp_def iv_key_def iv_number_def)

lemma invoice_change_frame [store_simps]:
  assumes "invoice_change e f t k d = Some d'"
  shows "journal_lines d' = journal_lines d" "journal_entries d' = journal_entries d"
    "accounting_periods d' = accounting_periods d" "invoice_lines d' = invoice_lines d"
    "accounting_books d' = accounting_books d" "chart_of_accounts d' = chart_of_accounts d"
    "finance_audit_log d' = finance_audit_log d" "idempotency_records d' = idempotency_records d"
  using assms by (auto simp: invoice_change_def)

lemma invoice_change_rows:
  "invoice_change e f t k d = Some d' \<Longrightarrow>
   invoices d' = update_where (\<lambda>i. iv_key i = k \<and> iv_Status i = f) (invoice_stamp e t) (invoices d)"
  by (auto simp: invoice_change_def status_update_def split: if_splits)

lemma invoice_change_wf: "invoices_wf d \<Longrightarrow> invoice_change e f t k d = Some d' \<Longrightarrow> invoices_wf d'"
  using invoice_change_rows [of e f t k d d'] by (simp add: invoices_wf_def map_update_where)

lemma invoice_change_laws:
  assumes "invoices_wf d"
  shows "invoice_change e f t k d \<noteq> None \<longleftrightarrow> invoice_status d k = Some f"
    and "invoice_change e f t k d = Some d' \<Longrightarrow>
      invoice_status d' k' = (if k' = k then Some t else invoice_status d k')"
proof -
  note laws = status_update_laws [OF invoices_wf_keys [OF assms], of "invoice_stamp e t" iv_Status t k "[f]", simplified]
  show "invoice_change e f t k d \<noteq> None \<longleftrightarrow> invoice_status d k = Some f"
    using laws(1) by (auto simp: invoice_change_def invoice_status_def find_invoice_def)
  assume "invoice_change e f t k d = Some d'"
  then obtain rows where "d' = d\<lparr>invoices := rows\<rparr>"
    "status_update (\<lambda>i. iv_key i = k) iv_Status [f] (invoice_stamp e t) (invoices d) = Some rows"
    by (auto simp: invoice_change_def)
  with laws(2) [of rows k'] show "invoice_status d' k' = (if k' = k then Some t else invoice_status d k')"
    by (simp add: invoice_status_def find_invoice_def)
qed

lemma invoice_status_distinct [simp]:
  "StatusPendingReview \<noteq> StatusApproved" "StatusPendingReview \<noteq> StatusRejected" "StatusApproved \<noteq> StatusPosted"
  "StatusApproved \<noteq> StatusPendingReview" "StatusRejected \<noteq> StatusPendingReview" "StatusPosted \<noteq> StatusApproved"
  "StatusPosted \<noteq> StatusPendingReview" "StatusPendingReview \<noteq> StatusPosted" "StatusRejected \<noteq> StatusApproved"
  "StatusApproved \<noteq> StatusRejected" "StatusRejected \<noteq> StatusPosted" "StatusPosted \<noteq> StatusRejected"
  by (simp_all add: StatusPendingReview_def StatusApproved_def StatusRejected_def StatusPosted_def)

interpretation approve: guarded_status invoices_wf invoice_status
    "invoice_change e StatusPendingReview StatusApproved" "[StatusPendingReview]" StatusApproved for e
  by unfold_locales (use invoice_change_laws invoice_change_wf in auto)

interpretation reject: guarded_status invoices_wf invoice_status
    "invoice_change e StatusPendingReview StatusRejected" "[StatusPendingReview]" StatusRejected for e
  by unfold_locales (use invoice_change_laws invoice_change_wf in auto)

interpretation mark_posted: guarded_status invoices_wf invoice_status
    "invoice_change e StatusApproved StatusPosted" "[StatusApproved]" StatusPosted for e
  by unfold_locales (use invoice_change_laws invoice_change_wf in auto)

section \<open>Effects of the other writes\<close>

lemma invoice_row_simps [simp]:
  assumes "invoice_row e i = Some row"
  shows "iv_key row = iv_key i" "iv_ID row = iv_ID i" "iv_number row = iv_number i" "iv_Status row = iv_Status i"
    "iv_EntityID row = iv_EntityID i" "iv_BookID row = iv_BookID i" "iv_InvoiceNo row = iv_InvoiceNo i"
  using assms by (auto simp: invoice_row_def iv_key_def iv_number_def split: option.splits)

lemma invoice_Create_InrD:
  "invoice_Create e i d = Inr d' \<Longrightarrow> \<exists>row. invoice_row e i = Some row \<and> d' = d\<lparr>invoices := invoices d @ [row]\<rparr> \<and>
     iv_ID i \<notin> set (map iv_ID (invoices d)) \<and> iv_number i \<notin> set (map iv_number (invoices d))"
  by (auto simp: invoice_Create_def list_ex_iff split: if_splits option.splits)

lemma invoice_Create_wf: "invoices_wf d \<Longrightarrow> invoice_Create e i d = Inr d' \<Longrightarrow> invoices_wf d'"
  by (auto simp: invoices_wf_def dest!: invoice_Create_InrD)

lemma invoice_write_frames [store_simps]:
  "invoice_Create e i d = Inr d' \<Longrightarrow> journal_entries d' = journal_entries d \<and> journal_lines d' = journal_lines d \<and>
     accounting_periods d' = accounting_periods d"
  "invoice_Update e i d = Inr d' \<Longrightarrow> journal_entries d' = journal_entries d \<and> journal_lines d' = journal_lines d \<and>
     accounting_periods d' = accounting_periods d"
  "invoice_set e s f en x d = Inr d' \<Longrightarrow> journal_entries d' = journal_entries d \<and> journal_lines d' = journal_lines d \<and>
     accounting_periods d' = accounting_periods d"
  by (auto simp: invoice_Create_def invoice_Update_def invoice_set_def split: if_splits option.splits)

lemma invoice_lines_frame [store_simps]:
  "invoice_lines_CreateMany e ls d = (r, d') \<Longrightarrow> journal_entries d' = journal_entries d \<and> journal_lines d' = journal_lines d \<and>
     accounting_periods d' = accounting_periods d \<and> invoices d' = invoices d"
proof (induction ls arbitrary: d)
  case (Cons l ls)
  then show ?case
    by (auto simp: invoice_line_insert_def split: if_splits option.splits sum.splits)
qed simp

end
