(* ===== verification/Service_Journals.thy ===== *)
theory Service_Journals
  imports Service_Base Store_Invoices
begin

text \<open>
  The journal operations of the service (internal/service/service.go): drafts, posting, voiding with reversal,
  editing and batch posting.  A transaction is a copy of the tables that replaces them on commit.
\<close>

section \<open>The operations\<close>

text \<open>An error of \<open>IsClosed\<close> is ignored: the period counts as open.\<close>

definition period_closed :: "env \<Rightarrow> Service \<Rightarrow> string \<Rightarrow> string \<Rightarrow> string \<Rightarrow> db \<Rightarrow> bool" where
  "period_closed e s entityID bookID period d \<longleftrightarrow> has_periods s \<and> period_IsClosed e d entityID bookID period = Inr True"

definition round_line :: "JournalLine \<Rightarrow> JournalLine" where
  "round_line l = l\<lparr>jl_DebitAmount := roundMoney (jl_DebitAmount l), jl_CreditAmount := roundMoney (jl_CreditAmount l)\<rparr>"

text \<open>The fields the service sets in line \<open>i\<close> (from 0) of entry \<open>entryID\<close>.\<close>

definition draft_line :: "env \<Rightarrow> string \<Rightarrow> string \<Rightarrow> nat \<Rightarrow> JournalLine \<Rightarrow> JournalLine" where
  "draft_line e entityID entryID i l = l\<lparr>jl_ID := uuid e (Suc i), jl_EntityID := entityID, jl_JournalEntryID := entryID,
     jl_Currency := ''CNY'', jl_LineNo := int i + 1, jl_AccountID := jl_AccountCode l\<rparr>"

definition draft_lines :: "env \<Rightarrow> string \<Rightarrow> string \<Rightarrow> JournalLine list \<Rightarrow> JournalLine list" where
  "draft_lines e entityID entryID ls = map (\<lambda>(i, l). draft_line e entityID entryID i l) (enumerate 0 ls)"

definition CreateJournalDraft ::
    "env \<Rightarrow> Service \<Rightarrow> Context \<Rightarrow> string \<Rightarrow> string \<Rightarrow> string \<Rightarrow> string \<Rightarrow> JournalEntry \<Rightarrow> db \<Rightarrow> (err + JournalEntry) \<times> db" where
  "CreateJournalDraft e s c entityID bookID period actorID entry d =
     (if je_Lines entry = [] then (Inl (invalid ''journal entry has no lines''), d)
      else
       (let j1 = entry\<lparr>je_ID := uuid e 0, je_EntityID := entityID, je_BookID := bookID, je_Period := period,
              je_Status := JournalStatusDraft, je_CreatedBy := actorID,
              je_EntryDate := (if je_EntryDate entry = '''' then today e else je_EntryDate entry),
              je_VoucherWord := (if je_VoucherWord entry = '''' then VoucherWordJi else je_VoucherWord entry)\<rparr>
        in case (if je_VoucherNo entry = '''' then journal_NextVoucherNo e d entityID bookID period else Inr (je_VoucherNo entry)) of
          Inl x \<Rightarrow> (Inl (Wrap ''generate voucher_no: '' x ''''), d)
        | Inr voucherNo \<Rightarrow>
           (if period \<noteq> '''' \<and> \<not> validPeriod period then (Inl (invalid ''period must be YYYY-MM''), d)
            else if period_closed e s entityID bookID period d then (Inl ErrPeriodClosed, d)
            else
             (let j = j1\<lparr>je_VoucherNo := voucherNo,
                    je_Lines := draft_lines e entityID (uuid e 0) (map round_line (je_Lines entry))\<rparr>
              in case validateBalanced (je_Lines j) of
                Some x \<Rightarrow> (Inl x, d)
              | None \<Rightarrow>
                 (case journal_CreateTx e j d of
                    (Some x, d1) \<Rightarrow> (Inl x, d1)
                  | (None, d1) \<Rightarrow> (Inr j, logAudit e (Suc (length (je_Lines j))) s c entityID bookID actorID
                      ''journal.create_draft'' ''journal_entry'' (je_ID j) (je_Summary j) d1))))))"

definition GetJournalEntry :: "env \<Rightarrow> string \<Rightarrow> string \<Rightarrow> db \<Rightarrow> err + JournalEntry option" where
  "GetJournalEntry e entityID journalID d =
     (if journalID = '''' then Inl (invalid ''journal id required'') else journal_Get e d entityID journalID)"

definition ListJournalEntries :: "env \<Rightarrow> JournalListQuery \<Rightarrow> db \<Rightarrow> err + JournalEntry list" where
  "ListJournalEntries e q d =
     (if jlq_Period q \<noteq> '''' \<and> \<not> validPeriod (jlq_Period q) then Inl (invalid ''period must be YYYY-MM'')
      else journal_List e d (q\<lparr>jlq_Limit := clamp_limit (jlq_Limit q)\<rparr>))"

text \<open>What posting does to the invoice behind the entry; inside a transaction a failed statement spoils the commit.\<close>

definition from_invoice :: "JournalEntry option \<Rightarrow> bool" where
  "from_invoice posted \<longleftrightarrow> (case posted of None \<Rightarrow> False | Some j \<Rightarrow> je_SourceType j = ''invoice'' \<and> je_SourceID j \<noteq> '''')"

definition mark_source :: "env \<Rightarrow> db option \<Rightarrow> string \<Rightarrow> JournalEntry option \<Rightarrow> db \<Rightarrow> db" where
  "mark_source e tx entityID posted d =
     (if from_invoice posted then snd (invoice_MarkPostedTx e tx entityID (je_SourceID (the posted)) d) else d)"

definition spoiled :: "env \<Rightarrow> JournalEntry option \<Rightarrow> bool" where
  "spoiled e posted \<longleftrightarrow> from_invoice posted \<and> fault e (Invoice_SetStatus StatusApproved StatusPosted)"

definition PostJournalEntry ::
    "env \<Rightarrow> Service \<Rightarrow> Context \<Rightarrow> string \<Rightarrow> string \<Rightarrow> string \<Rightarrow> db \<Rightarrow> (err + JournalEntry option) \<times> db" where
  "PostJournalEntry e s c entityID journalID actorID d =
     (if journalID = '''' then (Inl (invalid ''journal id required''), d)
      else case journal_Get e d entityID journalID of
        Inl x \<Rightarrow> (Inl x, d)
      | Inr None \<Rightarrow> (Inl (Msg (''journal entry not found: '' @ journalID)), d)
      | Inr (Some entry) \<Rightarrow>
        (let audit = logAudit e 0 s c entityID (je_BookID entry) actorID ''journal.post'' ''journal_entry'' journalID (je_Summary entry)
         in if period_closed e s entityID (je_BookID entry) (je_Period entry) d then (Inl ErrPeriodClosed, d)
            else if je_Status entry = JournalStatusPosted then (Inr (Some entry), d)
            else if je_Lines entry = [] then (Inl (invalid ''journal entry has no lines''), d)
            else case validateBalanced (je_Lines entry) of
              Some x \<Rightarrow> (Inl x, d)
            | None \<Rightarrow>
              (if \<not> has_db s then
                 (case journal_PostTx e None entityID journalID d of
                    (Inl x, d1) \<Rightarrow> (Inl x, d1)
                  | (Inr posted, d1) \<Rightarrow> (Inr posted, audit (mark_source e None entityID posted d1)))
               else if fault e Begin then (Inl (Wrap ''begin tx: '' (DbError Begin) ''''), d)
               else case journal_PostTx e (Some d) entityID journalID d of
                 (Inl x, d1) \<Rightarrow> (Inl x, d)
               | (Inr posted, d1) \<Rightarrow>
                  (if fault e Commit \<or> spoiled e posted then (Inl (Wrap ''commit tx: '' (DbError Commit) ''''), d)
                   else (Inr posted, audit (mark_source e (Some d) entityID posted d1))))))"

text \<open>The reversal of an entry: debit and credit change places; it is dated today, in the period of the original.\<close>

definition reversal_line :: "env \<Rightarrow> JournalEntry \<Rightarrow> nat \<Rightarrow> JournalLine \<Rightarrow> JournalLine" where
  "reversal_line e original i l = \<lparr> jl_ID = uuid e (Suc i), jl_EntityID = je_EntityID original, jl_JournalEntryID = '''',
     jl_AccountID = jl_AccountID l, jl_AccountCode = jl_AccountCode l, jl_AccountName = jl_AccountName l,
     jl_Direction = reverseDirection (jl_Direction l), jl_DebitAmount = jl_CreditAmount l, jl_CreditAmount = jl_DebitAmount l,
     jl_Currency = jl_Currency l, jl_LineNo = int i + 1, jl_Auxiliary = '''' \<rparr>"

definition buildReversal :: "env \<Rightarrow> JournalEntry \<Rightarrow> db \<Rightarrow> JournalEntry" where
  "buildReversal e original d = \<lparr> je_ID = uuid e 0, je_EntityID = je_EntityID original, je_BookID = je_BookID original,
     je_Period = je_Period original,
     je_VoucherNo = (case journal_NextVoucherNo e d (je_EntityID original) (je_BookID original) (je_Period original) of
       Inl _ \<Rightarrow> '''' | Inr v \<Rightarrow> v),
     je_VoucherWord = je_VoucherWord original, je_EntryDate = today e,
     je_Summary = (zh [0x7EA2, 0x5B57, 0x51B2, 0x9500] @ '': '') @ je_Summary original, je_SourceType = je_SourceType original,
     je_SourceID = je_SourceID original, je_Status = JournalStatusDraft, je_CreatedBy = '''', je_PostedBy = '''',
     je_PostedAt = '''', je_Lines = map (\<lambda>(i, l). reversal_line e original i l) (enumerate 0 (je_Lines original)),
     je_CreatedAt = '''', je_UpdatedAt = '''' \<rparr>"

definition void_audit ::
    "env \<Rightarrow> nat \<Rightarrow> Service \<Rightarrow> Context \<Rightarrow> string \<Rightarrow> string \<Rightarrow> string \<Rightarrow> JournalEntry option \<Rightarrow> db \<Rightarrow> db" where
  "void_audit e n s c entityID journalID actorID voided d =
     (case voided of None \<Rightarrow> d
      | Some v \<Rightarrow> logAudit e n s c entityID (je_BookID v) actorID ''journal.void'' ''journal_entry'' journalID (je_Summary v) d)"

definition VoidJournalEntry ::
    "env \<Rightarrow> Service \<Rightarrow> Context \<Rightarrow> string \<Rightarrow> string \<Rightarrow> string \<Rightarrow> db \<Rightarrow> (err + JournalEntry option) \<times> db" where
  "VoidJournalEntry e s c entityID journalID actorID d =
     (if journalID = '''' then (Inl (invalid ''journal id required''), d)
      else case journal_Get e d entityID journalID of
        Inl x \<Rightarrow> (Inl x, d)
      | Inr None \<Rightarrow> (Inl (Msg (''journal entry not found: '' @ journalID)), d)
      | Inr (Some entry) \<Rightarrow>
        (if period_closed e s entityID (je_BookID entry) (je_Period entry) d then (Inl ErrPeriodClosed, d)
         else if je_Status entry \<noteq> JournalStatusPosted \<or> \<not> has_db s then
           (case journal_VoidTx e None entityID journalID d of
              (Inl x, d1) \<Rightarrow> (Inl x, d1)
            | (Inr voided, d1) \<Rightarrow> (Inr voided, void_audit e 0 s c entityID journalID actorID voided d1))
         else if fault e Begin then (Inl (Wrap ''begin tx: '' (DbError Begin) ''''), d)
         else
           (let rev = buildReversal e entry d in
            case journal_CreateTx e rev d of
              (Some x, d1) \<Rightarrow> (Inl (Wrap ''create reversal entry: '' x ''''), d)
            | (None, d1) \<Rightarrow>
              (case journal_PostTx e (Some d) entityID (je_ID rev) d1 of
                 (Inl x, d2) \<Rightarrow> (Inl (Wrap ''post reversal entry: '' x ''''), d)
               | (Inr _, d2) \<Rightarrow>
                 (case journal_VoidTx e (Some d) entityID journalID d2 of
                    (Inl x, d3) \<Rightarrow> (Inl x, d)
                  | (Inr voided, d3) \<Rightarrow>
                     (if fault e Commit then (Inl (Wrap ''commit tx: '' (DbError Commit) ''''), d)
                      else (Inr voided,
                        void_audit e (Suc (length (je_Lines entry))) s c entityID journalID actorID voided d3)))))))"

text \<open>Editing a draft voids it and inserts a new entry under the same voucher number, without a transaction.\<close>

definition UpdateJournalDraft ::
    "env \<Rightarrow> Service \<Rightarrow> Context \<Rightarrow> string \<Rightarrow> string \<Rightarrow> JournalEntry \<Rightarrow> db \<Rightarrow> (err + JournalEntry) \<times> db" where
  "UpdateJournalDraft e s c entityID journalID entry d =
     (case journal_Get e d entityID journalID of
        Inr (Some existing) \<Rightarrow>
          (if je_Status existing \<noteq> JournalStatusDraft
           then (Inl (Msg (''journal entry status '' @ je_Status existing @ '' cannot be updated'')), d)
           else case journal_VoidTx e None entityID journalID d of
             (Inl x, d1) \<Rightarrow> (Inl (Wrap ''void old draft: '' x ''''), d1)
           | (Inr _, d1) \<Rightarrow>
              (let j = entry\<lparr>je_ID := uuid e 0, je_EntityID := entityID, je_BookID := je_BookID existing,
                     je_Period := je_Period existing, je_Status := JournalStatusDraft,
                     je_VoucherWord := je_VoucherWord existing, je_VoucherNo := je_VoucherNo existing,
                     je_Lines := draft_lines e entityID (uuid e 0) (je_Lines entry)\<rparr>
               in case validateBalanced (je_Lines j) of
                 Some x \<Rightarrow> (Inl x, d1)
               | None \<Rightarrow>
                  (case journal_CreateTx e j d1 of
                     (Some x, d2) \<Rightarrow> (Inl x, d2)
                   | (None, d2) \<Rightarrow> (Inr j, logAudit e (Suc (length (je_Lines j))) s c entityID (je_BookID existing) ''''
                       ''journal.update_draft'' ''journal_entry'' (je_ID j) (je_Summary j) d2))))
      | _ \<Rightarrow> (Inl (Msg (''journal entry not found: '' @ journalID)), d))"

text \<open>
  Posting one by one; the first error stops the batch, what was posted before stays.  Entry \<open>i\<close> of the batch
  takes its identifier at \<open>n + i\<close>.  (The code would panic on a nil entry, which posting never returns.)
\<close>

fun BatchPostJournals ::
    "env \<Rightarrow> nat \<Rightarrow> Service \<Rightarrow> Context \<Rightarrow> string \<Rightarrow> string list \<Rightarrow> string \<Rightarrow> db \<Rightarrow> (err + JournalEntry list) \<times> db" where
  "BatchPostJournals e n s c entityID [] actorID d = (Inr [], d)"
| "BatchPostJournals e n s c entityID (jid # jids) actorID d =
     (case PostJournalEntry (ids_from n e) s c entityID jid actorID d of
        (Inl x, d1) \<Rightarrow> (Inl (Wrap (''post '' @ jid @ '': '') x ''''), d1)
      | (Inr None, d1) \<Rightarrow> (Inl (Msg ''invalid memory address or nil pointer dereference''), d1)
      | (Inr (Some p), d1) \<Rightarrow>
          (case BatchPostJournals e (Suc n) s c entityID jids actorID d1 of
             (Inl x, d2) \<Rightarrow> (Inl x, d2)
           | (Inr ps, d2) \<Rightarrow> (Inr (p # ps), d2)))"

section \<open>The ledger invariant\<close>

text \<open>
  The tables are well-formed, every posted entry has lines and passes the balance check, and amounts are as
  the database stores them.  Storing a stored amount again leaves it as it is (\<open>numeric_stable\<close>, which
  PostgreSQL's NUMERIC columns satisfy).
\<close>

definition balanced_entry :: "db \<Rightarrow> JournalEntry \<Rightarrow> bool" where
  "balanced_entry d j \<longleftrightarrow> entry_lines d (je_EntityID j) (je_ID j) \<noteq> [] \<and>
     validateBalanced (entry_lines d (je_EntityID j) (je_ID j)) = None"

type_synonym rounding = "nat \<Rightarrow> nat \<Rightarrow> f64 \<Rightarrow> f64 option"

definition numeric_stable :: "rounding \<Rightarrow> bool" where
  "numeric_stable num \<longleftrightarrow> (\<forall>p s x y. num p s x = Some y \<longrightarrow> num p s y = Some y)"

definition stored_line :: "rounding \<Rightarrow> JournalLine \<Rightarrow> bool" where
  "stored_line num l \<longleftrightarrow> num 18 2 (jl_DebitAmount l) = Some (jl_DebitAmount l) \<and> num 18 2 (jl_CreditAmount l) = Some (jl_CreditAmount l)"

definition ledger_inv :: "rounding \<Rightarrow> db \<Rightarrow> bool" where
  "ledger_inv num d \<longleftrightarrow> journals_wf d \<and> (\<forall>l \<in> set (journal_lines d). stored_line num l) \<and>
     (\<forall>j \<in> set (journal_entries d). je_Status j = JournalStatusPosted \<longrightarrow> balanced_entry d j)"

lemma balanced_entry_cong:
  "journal_lines d' = journal_lines d \<Longrightarrow> je_EntityID j' = je_EntityID j \<Longrightarrow> je_ID j' = je_ID j \<Longrightarrow>
   balanced_entry d' j' \<longleftrightarrow> balanced_entry d j"
  by (simp add: balanced_entry_def entry_lines_def)

lemma ledger_inv_cong:
  assumes "journal_entries d' = journal_entries d" "journal_lines d' = journal_lines d"
  shows "ledger_inv num d' \<longleftrightarrow> ledger_inv num d"
  unfolding ledger_inv_def journals_wf_def assms using balanced_entry_cong [OF assms(2)] by simp

lemma ledger_inv_empty: "ledger_inv num empty_db"
  by (simp add: ledger_inv_def journals_wf_def empty_db_def)

lemma ledger_inv_create:
  assumes inv: "ledger_inv num d" and st: "numeric_stable num" "numeric e = num" "je_Status j \<noteq> JournalStatusPosted"
    and c: "journal_CreateTx e j d = (r, d')"
  shows "ledger_inv num d'"
  using c
proof (cases rule: create_cases)
  case (rows stored)
  have wf: "journals_wf d'" using create_wf inv c by (auto simp: ledger_inv_def)
  have "stored_line num l" if l: "l \<in> set stored" for l
  proof -
    obtain x where "line_stored e x l" using list_all2_member [OF rows(2) l] by blast
    with st(1,2) show ?thesis by (auto simp: line_stored_def stored_line_def numeric_stable_def)
  qed
  moreover have "balanced_entry d' i" if "i \<in> set (journal_entries d)" "je_Status i = JournalStatusPosted" for i
  proof -
    have "je_ID i \<noteq> je_ID j" using rows(4) that by (metis imageI list.set_map)
    with create_other_lines [OF c] inv that show ?thesis by (simp add: ledger_inv_def balanced_entry_def)
  qed
  ultimately show ?thesis using wf inv st(3) rows(1) by (auto simp: ledger_inv_def)
qed (use inv in simp)

lemma ledger_inv_change:
  assumes inv: "ledger_inv num d" and c: "journal_change e f t k d = Some d'"
    and post: "t = JournalStatusPosted \<Longrightarrow> \<forall>j. find_entry d k = Some j \<longrightarrow> balanced_entry d j"
  shows "ledger_inv num d'"
proof -
  note frame = journal_change_frame(1) [OF c]
  have "balanced_entry d' (journal_stamp e t j)" if "t = JournalStatusPosted" "j \<in> set (journal_entries d)" "je_key j = k" for j
    using post [OF that(1)] find_entry_iff [of d k j] that inv balanced_entry_cong [OF frame]
    by (simp add: ledger_inv_def)
  moreover have "balanced_entry d' j" if "j \<in> set (journal_entries d)" "je_Status j = JournalStatusPosted" for j
    using that inv balanced_entry_cong [OF frame] by (simp add: ledger_inv_def)
  ultimately show ?thesis
    using inv journal_change_wf [OF _ c] frame
    by (auto simp: ledger_inv_def journal_change_entries [OF c] set_update_where)
qed

lemma PostTx_cases:
  "journal_PostTx e tx en k d = (r, d') \<Longrightarrow>
   (\<exists>x. r = Inl x) \<and> d' = d \<or> journal_change e [JournalStatusDraft] JournalStatusPosted (k, en) d = Some d'"
  by (auto simp: journal_PostTx_def split: if_splits option.splits)

lemma VoidTx_cases:
  "journal_VoidTx e tx en k d = (r, d') \<Longrightarrow>
   (\<exists>x. r = Inl x) \<and> d' = d \<or> journal_change e [JournalStatusDraft, JournalStatusPosted] JournalStatusVoided (k, en) d = Some d'"
  by (auto simp: journal_VoidTx_def split: if_splits option.splits)

lemma ledger_inv_post:
  "ledger_inv num d \<Longrightarrow> journal_PostTx e tx en k d = (r, d') \<Longrightarrow>
   (\<And>j. find_entry d (k, en) = Some j \<Longrightarrow> balanced_entry d j) \<Longrightarrow> ledger_inv num d'"
  using ledger_inv_change by (blast dest: PostTx_cases)

lemma ledger_inv_void:
  "ledger_inv num d \<Longrightarrow> journal_VoidTx e tx en k d = (r, d') \<Longrightarrow> ledger_inv num d'"
  by (auto dest!: VoidTx_cases intro: ledger_inv_change)

lemma invoice_status_frame:
  "invoice_updateStatus e tx en i f t d = (r, d') \<Longrightarrow>
   journal_entries d' = journal_entries d \<and> journal_lines d' = journal_lines d \<and> accounting_periods d' = accounting_periods d"
  by (auto simp: invoice_updateStatus_def invoice_change_def split: if_splits option.splits)

lemma mark_source_frame [simp]:
  "journal_entries (mark_source e tx en p d) = journal_entries d" "journal_lines (mark_source e tx en p d) = journal_lines d"
  "accounting_periods (mark_source e tx en p d) = accounting_periods d"
  using invoice_status_frame [of e tx en "je_SourceID (the p)" StatusApproved StatusPosted d]
  by (auto simp: mark_source_def invoice_MarkPostedTx_def) (metis prod.collapse)+

lemma read_entry:
  "journal_read st e d en k = Inr (Some j) \<Longrightarrow>
   \<exists>i. find_entry d (k, en) = Some i \<and> j = i\<lparr>je_Lines := entry_lines d en k\<rparr> \<and> je_ID i = k \<and> je_EntityID i = en"
  by (auto simp: journal_read_def find_entry_def je_key_def split: if_splits option.splits dest: find_SomeD)

text \<open>The test of posting is the balance of the entry.\<close>

lemma read_balanced:
  assumes "journal_read st e d en k = Inr (Some j)" "je_Lines j \<noteq> []" "validateBalanced (je_Lines j) = None"
    "find_entry d (k, en) = Some i"
  shows "balanced_entry d i"
  using read_entry [OF assms(1)] assms(2-4) by (auto simp: balanced_entry_def)

lemma Post_inv:
  assumes "ledger_inv num d" "PostJournalEntry e s c en k a d = (r, d')"
  shows "ledger_inv num d'"
proof (rule ccontr)
  assume "\<not> ledger_inv num d'"
  with assms obtain entry tx p d1 where
    "journal_Get e d en k = Inr (Some entry)" "je_Lines entry \<noteq> []" "validateBalanced (je_Lines entry) = None"
    "journal_PostTx e tx en k d = (p, d1)" "\<not> ledger_inv num d1"
    by (auto simp: PostJournalEntry_def Let_def ledger_inv_cong [of "logAudit _ _ _ _ _ _ _ _ _ _ _ (mark_source _ _ _ _ d2)" d2 for d2]
      split: if_splits sum.splits option.splits prod.splits)
  with ledger_inv_post [OF assms(1)] read_balanced show False by blast
qed

text \<open>What the reversal of a balanced entry stores is balanced.\<close>

lemma enumerate_line_numbers:
  "map jl_LineNo (map (\<lambda>(i, l). f i l) (enumerate n ls)) = map (\<lambda>i. int i + 1) [n ..< n + length ls]"
  if "\<And>i l. jl_LineNo (f i l) = int i + 1"
  by (induction ls arbitrary: n) (simp_all add: that upt_conv_Cons del: upt_Suc)

lemma sorted_line_numbers: "sorted (map (\<lambda>i. int i + 1) [n ..< m])"
  by (induction m) (auto simp: sorted_append)

lemma list_all2_map_eq:
  "list_all2 P xs ys \<Longrightarrow> (\<And>x y. x \<in> set xs \<Longrightarrow> P x y \<Longrightarrow> g y = f x) \<Longrightarrow> map g ys = map f xs"
  by (induction rule: list_all2_induct) auto

definition reversal_lines :: "env \<Rightarrow> JournalEntry \<Rightarrow> JournalLine list" where
  "reversal_lines e original = map (\<lambda>(i, l). reversal_line e original i l) (enumerate 0 (je_Lines original))"

lemma reversal_lines_amounts:
  "map jl_DebitAmount (reversal_lines e j) = map jl_CreditAmount (je_Lines j)"
  "map jl_CreditAmount (reversal_lines e j) = map jl_DebitAmount (je_Lines j)"
  "length (reversal_lines e j) = length (je_Lines j)"
  by (auto simp: reversal_lines_def reversal_line_def case_prod_beta comp_def nth_enumerate_eq intro!: nth_equalityI)

lemma reversal_sorted: "sorted (map jl_LineNo (reversal_lines e j))"
  unfolding reversal_lines_def
  by (subst enumerate_line_numbers) (simp_all add: reversal_line_def sorted_line_numbers)

lemma stored_amounts:
  assumes "list_all2 (line_stored e) (map (journal_row j) ls) stored" "numeric e = num"
    "\<forall>l \<in> set ls. stored_line num l"
  shows "map jl_DebitAmount stored = map jl_DebitAmount ls" "map jl_CreditAmount stored = map jl_CreditAmount ls"
proof -
  have "list_all2 (\<lambda>l r. line_stored e (journal_row j l) r) ls stored" using assms(1) by (simp add: list_all2_map1)
  moreover have "jl_DebitAmount r = jl_DebitAmount l \<and> jl_CreditAmount r = jl_CreditAmount l"
    if "l \<in> set ls" "line_stored e (journal_row j l) r" for l r
    using that assms(2,3) by (auto simp: line_stored_def stored_line_def)
  ultimately show "map jl_DebitAmount stored = map jl_DebitAmount ls" "map jl_CreditAmount stored = map jl_CreditAmount ls"
    by (auto intro!: list_all2_map_eq)
qed

lemma reversal_balanced:
  assumes inv: "ledger_inv num d" and num: "numeric e = num" and j: "journal_Get e d en k = Inr (Some j)"
    and st: "je_Status j = JournalStatusPosted" and c: "journal_CreateTx e (buildReversal e j d) d = (None, d1)"
    and f: "find_entry d1 (je_ID (buildReversal e j d), en) = Some i"
  shows "balanced_entry d1 i"
proof -
  let ?rev = "buildReversal e j d"
  obtain i0 where i0: "find_entry d (k, en) = Some i0" "j = i0\<lparr>je_Lines := entry_lines d en k\<rparr>" "je_ID i0 = k" "je_EntityID i0 = en"
    using read_entry [OF j] by blast
  then have in0: "i0 \<in> set (journal_entries d)" by (auto simp: find_entry_def dest: find_SomeD)
  have ls: "je_Lines ?rev = reversal_lines e j" "je_EntityID ?rev = en"
    using i0 by (simp_all add: buildReversal_def reversal_lines_def)
  have bal: "je_Lines j \<noteq> []" "validateBalanced (je_Lines j) = None"
    using inv in0 st i0 by (auto simp: ledger_inv_def balanced_entry_def)
  have "set (je_Lines j) \<subseteq> set (journal_lines d)" using i0 by (auto simp: entry_lines_def)
  then have "\<forall>l \<in> set (je_Lines j). stored_line num l" using inv by (auto simp: ledger_inv_def)
  then have sl: "\<forall>l \<in> set (reversal_lines e j). stored_line num l"
    by (auto simp: reversal_lines_def reversal_line_def stored_line_def in_set_enumerate_eq)
  have wf: "journals_wf d" using inv by (simp add: ledger_inv_def)
  have st2: "list_all2 (line_stored e) (map (journal_row ?rev) (reversal_lines e j)) (entry_lines d1 en (je_ID ?rev))"
    using create_lines [OF wf c] reversal_sorted ls by simp
  note am = stored_amounts [OF st2 num sl, unfolded reversal_lines_amounts]
  have "entry_lines d1 en (je_ID ?rev) \<noteq> []" using bal(1) list_all2_lengthD [OF st2] reversal_lines_amounts(3) [of e j] by auto
  moreover have "je_EntityID i = en" "je_ID i = je_ID ?rev" using f by (auto simp: find_entry_def je_key_def dest: find_SomeD)
  ultimately show ?thesis using validateBalanced_swap [OF am] bal(2) by (simp add: balanced_entry_def)
qed

lemma Void_inv:
  assumes inv: "ledger_inv num d" and num: "numeric e = num" "numeric_stable num"
    and v: "VoidJournalEntry e s c en k a d = (r, d')"
  shows "ledger_inv num d'"
proof (rule ccontr)
  assume n: "\<not> ledger_inv num d'"
  have audit: "ledger_inv num (void_audit e n s c en k a p x) \<longleftrightarrow> ledger_inv num x" for n p x
    by (auto simp: void_audit_def intro!: ledger_inv_cong split: option.split)
  have simple: "ledger_inv num d1" if "journal_VoidTx e None en k d = (p, d1)" for p d1
    using that by (rule ledger_inv_void [OF inv])
  have full: "ledger_inv num d3" if j: "journal_Get e d en k = Inr (Some j)" "je_Status j = JournalStatusPosted"
      and c: "journal_CreateTx e (buildReversal e j d) d = (None, d1)"
      and p: "journal_PostTx e (Some d) en (je_ID (buildReversal e j d)) d1 = (Inr p, d2)"
      and w: "journal_VoidTx e (Some d) en k d2 = (q, d3)" for j d1 p d2 q d3
  proof -
    have "ledger_inv num d1" using ledger_inv_create [OF inv num(2,1) _ c] by (simp add: buildReversal_def)
    with p reversal_balanced [OF inv num(1) j c] have "ledger_inv num d2" by (blast intro: ledger_inv_post)
    with w show ?thesis by (blast intro: ledger_inv_void)
  qed
  from n inv v show False
    by (auto simp: VoidJournalEntry_def Let_def audit dest: simple full
      split: if_splits sum.splits option.splits prod.splits)
qed

lemma Create_inv:
  assumes inv: "ledger_inv num d" and num: "numeric e = num" "numeric_stable num"
    and c: "CreateJournalDraft e s c en b p a j d = (r, d')"
  shows "ledger_inv num d'"
proof -
  have create: "ledger_inv num d2" if "journal_CreateTx e i d = (q, d2)" "je_Status i = JournalStatusDraft" for q i d2
    using ledger_inv_create [OF inv num(2,1) _ that(1)] that(2) by simp
  show ?thesis using c inv
    by (auto simp: CreateJournalDraft_def Let_def ledger_inv_cong [of "logAudit _ _ _ _ _ _ _ _ _ _ _ d2" d2 for d2]
      dest: create split: if_splits sum.splits option.splits prod.splits)
qed

lemma Update_inv:
  assumes inv: "ledger_inv num d" and num: "numeric e = num" "numeric_stable num"
    and u: "UpdateJournalDraft e s c en k j d = (r, d')"
  shows "ledger_inv num d'"
proof -
  have void: "ledger_inv num d1" if "journal_VoidTx e None en k d = (p, d1)" for p d1
    using that by (rule ledger_inv_void [OF inv])
  have create: "ledger_inv num d2" if "journal_VoidTx e None en k d = (p, d1)" "journal_CreateTx e i d1 = (q, d2)"
    "je_Status i = JournalStatusDraft" for p d1 q i d2
    using ledger_inv_create [OF void [OF that(1)] num(2,1) _ that(2)] that(3) by simp
  show ?thesis using u inv
    by (auto simp: UpdateJournalDraft_def Let_def ledger_inv_cong [of "logAudit _ _ _ _ _ _ _ _ _ _ _ d2" d2 for d2]
      dest: void create split: if_splits sum.splits option.splits prod.splits)
qed

lemma Batch_inv:
  "ledger_inv num d \<Longrightarrow> BatchPostJournals e n s c en ks a d = (r, d') \<Longrightarrow> ledger_inv num d'"
proof (induction ks arbitrary: n d r d')
  case (Cons k ks)
  then show ?case by (auto split: sum.splits option.splits prod.splits dest: Post_inv)
qed simp

end
