(* ===== verification/Service_Invoices.thy ===== *)
theory Service_Invoices
  imports Service_Journals
begin

text \<open>
  The invoice operations of the service (internal/service/service.go): drafts, approval with the voucher it
  produces, rejection, editing, red-letter invoices, import of electronic invoices, verification and usage.
\<close>

section \<open>The voucher of an invoice\<close>

text \<open>The name of an account: from the chart, or the built-in one when it is missing or cannot be read.\<close>

definition lookup_account :: "env \<Rightarrow> Service \<Rightarrow> Invoice \<Rightarrow> db \<Rightarrow> string \<Rightarrow> string \<Rightarrow> string \<times> string" where
  "lookup_account e s iv d code fallback =
     (if \<not> has_accounts s then (code, fallback)
      else case account_GetByCode e d (iv_EntityID iv) (iv_BookID iv) code of
        Inr (Some a) \<Rightarrow> (ac_Code a, ac_Name a)
      | _ \<Rightarrow> (code, fallback))"

definition resolveInputAccount :: "Invoice \<Rightarrow> (string \<Rightarrow> string \<Rightarrow> string \<times> string) \<Rightarrow> string \<times> string" where
  "resolveInputAccount iv lookup =
     (let lower = ToLower (iv_InvoiceType iv @ iv_SellerName iv) in
      if Contains lower (zh [0x56FA, 0x5B9A, 0x8D44, 0x4EA7]) \<or> Contains lower (zh [0x8BBE, 0x5907]) \<or> Contains lower (zh [0x673A, 0x68B0]) then lookup ''1601'' (zh [0x56FA, 0x5B9A, 0x8D44, 0x4EA7])
      else if Contains lower (zh [0x65E0, 0x5F62, 0x8D44, 0x4EA7]) \<or> Contains lower (zh [0x8F6F, 0x4EF6]) then lookup ''1701'' (zh [0x65E0, 0x5F62, 0x8D44, 0x4EA7])
      else if Contains lower (zh [0x5E93, 0x5B58]) \<or> Contains lower (zh [0x5546, 0x54C1]) \<or> Contains lower (zh [0x539F, 0x6750, 0x6599]) then lookup ''1405'' (zh [0x5E93, 0x5B58, 0x5546, 0x54C1])
      else lookup ''5602'' (zh [0x7BA1, 0x7406, 0x8D39, 0x7528]))"

definition voucher_line :: "string \<Rightarrow> string \<times> string \<Rightarrow> string \<Rightarrow> f64 \<Rightarrow> f64 \<Rightarrow> int \<Rightarrow> JournalLine" where
  "voucher_line i account direction debit credit no = \<lparr> jl_ID = i, jl_EntityID = '''', jl_JournalEntryID = '''',
     jl_AccountID = '''', jl_AccountCode = fst account, jl_AccountName = snd account, jl_Direction = direction,
     jl_DebitAmount = debit, jl_CreditAmount = credit, jl_Currency = ''CNY'', jl_LineNo = no, jl_Auxiliary = '''' \<rparr>"

definition inputLines :: "env \<Rightarrow> Invoice \<Rightarrow> (string \<Rightarrow> string \<Rightarrow> string \<times> string) \<Rightarrow> JournalLine list \<times> string" where
  "inputLines e iv lookup =
     ([voucher_line (uuid e 0) (resolveInputAccount iv lookup) DirectionDebit (roundMoney (iv_AmountWithoutTax iv)) (Fin 0) 1,
       voucher_line (uuid e 1) (lookup ''2221-01'' (zh [0x5E94, 0x4EA4, 0x7A0E, 0x8D39] @ ''-'' @ zh [0x5E94, 0x4EA4, 0x589E, 0x503C, 0x7A0E] @ ''-'' @ zh [0x8FDB, 0x9879, 0x7A0E, 0x989D])) DirectionDebit
         (roundMoney (iv_TaxAmount iv)) (Fin 0) 2,
       voucher_line (uuid e 2) (lookup ''1002'' (zh [0x94F6, 0x884C, 0x5B58, 0x6B3E])) DirectionCredit (Fin 0) (roundMoney (iv_AmountWithTax iv)) 3],
      (zh [0x91C7, 0x8D2D, 0x53D1, 0x7968] @ '' '') @ iv_InvoiceNo iv @ '' '' @ iv_SellerName iv)"

definition outputLines :: "env \<Rightarrow> Invoice \<Rightarrow> (string \<Rightarrow> string \<Rightarrow> string \<times> string) \<Rightarrow> JournalLine list \<times> string" where
  "outputLines e iv lookup =
     ([voucher_line (uuid e 0) (lookup ''1122'' (zh [0x5E94, 0x6536, 0x8D26, 0x6B3E])) DirectionDebit (roundMoney (iv_AmountWithTax iv)) (Fin 0) 1,
       voucher_line (uuid e 1) (lookup ''6001'' (zh [0x4E3B, 0x8425, 0x4E1A, 0x52A1, 0x6536, 0x5165])) DirectionCredit (Fin 0) (roundMoney (iv_AmountWithoutTax iv)) 2,
       voucher_line (uuid e 2) (lookup ''2221-02'' (zh [0x5E94, 0x4EA4, 0x7A0E, 0x8D39] @ ''-'' @ zh [0x5E94, 0x4EA4, 0x589E, 0x503C, 0x7A0E] @ ''-'' @ zh [0x9500, 0x9879, 0x7A0E, 0x989D])) DirectionCredit
         (Fin 0) (roundMoney (iv_TaxAmount iv)) 3],
      (zh [0x9500, 0x552E, 0x53D1, 0x7968] @ '' '') @ iv_InvoiceNo iv @ '' '' @ iv_BuyerName iv)"

definition buildJournalLines :: "env \<Rightarrow> Invoice \<Rightarrow> (string \<Rightarrow> string \<Rightarrow> string \<times> string) \<Rightarrow> JournalLine list \<times> string" where
  "buildJournalLines e iv lookup =
     (if iv_Direction iv = DirectionOutput then outputLines e iv lookup else inputLines e iv lookup)"

text \<open>\<open>d\<close> is what the pool sees; an error of the numbering leaves the number empty.\<close>

definition buildJournalDraft :: "env \<Rightarrow> Service \<Rightarrow> Invoice \<Rightarrow> db \<Rightarrow> err + JournalEntry" where
  "buildJournalDraft e s iv d =
     (if flt (iv_AmountWithoutTax iv) (lit 0) \<or> flt (iv_TaxAmount iv) (lit 0) \<or> flt (iv_AmountWithTax iv) (lit 0)
      then Inl (invalid ''invoice amounts must be non-negative'')
      else if \<not> moneyEqual (fadd (iv_AmountWithoutTax iv) (iv_TaxAmount iv)) (iv_AmountWithTax iv)
      then Inl (invalid ''invoice amount mismatch'')
      else
       (let (ls, summary) = buildJournalLines e iv (lookup_account e s iv d);
            period = accountingPeriod e (iv_IssueDate iv);
            entry = \<lparr> je_ID = uuid e 3, je_EntityID = iv_EntityID iv, je_BookID = iv_BookID iv, je_Period = period,
              je_VoucherNo = (case journal_NextVoucherNo e d (iv_EntityID iv) (iv_BookID iv) period of Inl _ \<Rightarrow> '''' | Inr v \<Rightarrow> v),
              je_VoucherWord = VoucherWordJi, je_EntryDate = iv_IssueDate iv, je_Summary = summary,
              je_SourceType = ''invoice'', je_SourceID = iv_ID iv, je_Status = JournalStatusDraft, je_CreatedBy = '''',
              je_PostedBy = '''', je_PostedAt = '''', je_Lines = ls, je_CreatedAt = '''', je_UpdatedAt = '''' \<rparr>
        in case validateBalanced (je_Lines entry) of Some x \<Rightarrow> Inl x | None \<Rightarrow> Inr entry))"

text \<open>The entry as \<open>CreateTx\<close> leaves it in memory.\<close>

definition created :: "JournalEntry \<Rightarrow> JournalEntry" where
  "created j = j\<lparr>je_Lines := map (journal_own_line j) (je_Lines j)\<rparr>"

section \<open>The operations\<close>

definition blank_extraction :: ExtractionResult where
  "blank_extraction = \<lparr> ex_InvoiceType = '''', ex_InvoiceCode = '''', ex_InvoiceNo = '''', ex_IssueDate = '''',
     ex_CounterpartyName = '''', ex_SellerTaxID = '''', ex_BuyerTaxID = '''', ex_TaxCategoryCode = '''', ex_TaxRate = Fin 0,
     ex_AmountWithoutTax = Fin 0, ex_TaxAmount = Fin 0, ex_AmountWithTax = Fin 0, ex_Direction = '''',
     ex_DigitalInvoiceNo = '''', ex_InvoiceKind = '''', ex_BusinessTag = '''', ex_SuggestedEntry = '''',
     ex_ExtractionConfidence = Fin 0, ex_InvoiceLines = [] \<rparr>"

definition extraction_of :: "Invoice \<Rightarrow> ExtractionResult" where
  "extraction_of iv = blank_extraction\<lparr>ex_InvoiceNo := iv_InvoiceNo iv, ex_InvoiceType := iv_InvoiceType iv,
     ex_Direction := iv_Direction iv, ex_IssueDate := iv_IssueDate iv, ex_CounterpartyName := iv_SellerName iv,
     ex_SellerTaxID := iv_SellerTaxNo iv, ex_BuyerTaxID := iv_BuyerTaxNo iv,
     ex_AmountWithoutTax := iv_AmountWithoutTax iv, ex_TaxAmount := iv_TaxAmount iv, ex_AmountWithTax := iv_AmountWithTax iv\<rparr>"

definition CreateInvoiceDraft ::
    "env \<Rightarrow> Service \<Rightarrow> Context \<Rightarrow> string \<Rightarrow> string \<Rightarrow> string \<Rightarrow> Invoice option \<Rightarrow> db \<Rightarrow> (err + Invoice) \<times> db" where
  "CreateInvoiceDraft e s c entityID bookID actorID inv0 d =
     (case inv0 of None \<Rightarrow> (Inl (invalid ''invoice is required''), d)
      | Some iv \<Rightarrow>
        (case Validate (extraction_of iv) of
           Some m \<Rightarrow> (Inl (invalid m), d)
         | None \<Rightarrow>
           (if bookID \<noteq> '''' \<and> period_closed e s entityID bookID (accountingPeriod e (iv_IssueDate iv)) d
            then (Inl ErrPeriodClosed, d)
            else case invoice_FindByInvoiceNo e d entityID bookID (iv_InvoiceNo iv) of
              Inr (Some existing) \<Rightarrow> (Inr existing, d)
            | _ \<Rightarrow>
              (let i = iv\<lparr>iv_ID := uuid e 0, iv_EntityID := entityID, iv_BookID := bookID,
                     iv_Status := StatusPendingReview, iv_Source := ''provider'', iv_Currency := ''CNY''\<rparr>
               in case invoice_Create e i d of
                 Inl x \<Rightarrow> (Inl x, d)
               | Inr d1 \<Rightarrow> (Inr i, logAudit e 1 s c entityID bookID actorID ''invoice.create_draft'' ''invoice''
                   (iv_ID i) (iv_InvoiceNo i) d1)))))"

definition GetInvoice :: "env \<Rightarrow> string \<Rightarrow> string \<Rightarrow> db \<Rightarrow> err + Invoice option" where
  "GetInvoice e entityID invoiceID d =
     (if invoiceID = '''' then Inl (invalid ''invoice id required'') else invoice_Get e d entityID invoiceID)"

definition ListInvoices :: "env \<Rightarrow> string \<Rightarrow> string \<Rightarrow> string \<Rightarrow> string \<Rightarrow> int \<Rightarrow> int \<Rightarrow> db \<Rightarrow> err + Invoice list" where
  "ListInvoices e entityID bookID period status limit offset d =
     (if period \<noteq> '''' \<and> \<not> validPeriod period then Inl (invalid ''period must be YYYY-MM'')
      else invoice_List e d entityID bookID period status (clamp_limit limit) offset)"

definition approve_audit :: "env \<Rightarrow> Service \<Rightarrow> Context \<Rightarrow> string \<Rightarrow> string \<Rightarrow> Invoice \<Rightarrow> db \<Rightarrow> db" where
  "approve_audit e s c entityID actorID iv =
     logAudit e 4 s c entityID (iv_BookID iv) actorID ''invoice.approve'' ''invoice'' (iv_ID iv) (iv_InvoiceNo iv)"

definition ApproveInvoice ::
    "env \<Rightarrow> Service \<Rightarrow> Context \<Rightarrow> string \<Rightarrow> string \<Rightarrow> string \<Rightarrow> db \<Rightarrow> (err + Invoice option \<times> JournalEntry option) \<times> db" where
  "ApproveInvoice e s c entityID invoiceID actorID d =
     (if invoiceID = '''' then (Inl (invalid ''invoice id required''), d)
      else case invoice_Get e d entityID invoiceID of
        Inr (Some preInv) \<Rightarrow>
          (if period_closed e s entityID (iv_BookID preInv) (accountingPeriod e (iv_IssueDate preInv)) d
           then (Inl ErrPeriodClosed, d)
           else if \<not> has_db s then
             (case invoice_ApproveTx e None entityID invoiceID d of
                (Inl x, d1) \<Rightarrow> (Inl x, d1)
              | (Inr None, d1) \<Rightarrow> (Inr (None, None), d1)
              | (Inr (Some iv), d1) \<Rightarrow>
                  (case buildJournalDraft e s iv d1 of
                     Inl x \<Rightarrow> (Inl x, d1)
                   | Inr entry \<Rightarrow>
                      (case journal_CreateTx e entry d1 of
                         (Some x, d2) \<Rightarrow> (Inl x, d2)
                       | (None, d2) \<Rightarrow> (Inr (Some iv, Some (created entry)), approve_audit e s c entityID actorID iv d2))))
           else if fault e Begin then (Inl (Wrap ''begin tx: '' (DbError Begin) ''''), d)
           else
             (case invoice_ApproveTx e (Some d) entityID invoiceID d of
                (Inl x, d1) \<Rightarrow> (Inl x, d)
              | (Inr None, d1) \<Rightarrow> (Inr (None, None), d)
              | (Inr (Some iv), d1) \<Rightarrow>
                  (case buildJournalDraft e s iv d of
                     Inl x \<Rightarrow> (Inl x, d)
                   | Inr entry \<Rightarrow>
                      (case journal_CreateTx e entry d1 of
                         (Some x, d2) \<Rightarrow> (Inl x, d)
                       | (None, d2) \<Rightarrow>
                          (if fault e Commit then (Inl (Wrap ''commit tx: '' (DbError Commit) ''''), d)
                           else (Inr (Some iv, Some (created entry)), approve_audit e s c entityID actorID iv d2))))))
      | _ \<Rightarrow> (Inl (Msg (''invoice not found: '' @ invoiceID)), d))"

definition RejectInvoice ::
    "env \<Rightarrow> Service \<Rightarrow> Context \<Rightarrow> string \<Rightarrow> string \<Rightarrow> string \<Rightarrow> db \<Rightarrow> (err + Invoice option) \<times> db" where
  "RejectInvoice e s c entityID invoiceID actorID d =
     (if invoiceID = '''' then (Inl (invalid ''invoice id required''), d)
      else case invoice_Reject e entityID invoiceID d of
        (Inr (Some iv), d1) \<Rightarrow> (Inr (Some iv), logAudit e 0 s c entityID (iv_BookID iv) actorID ''invoice.reject'' ''invoice''
          (iv_ID iv) (iv_InvoiceNo iv) d1)
      | (r, d1) \<Rightarrow> (r, d1))"

definition UpdateInvoiceDraft ::
    "env \<Rightarrow> Service \<Rightarrow> Context \<Rightarrow> string \<Rightarrow> string \<Rightarrow> Invoice \<Rightarrow> db \<Rightarrow> (err + Invoice option) \<times> db" where
  "UpdateInvoiceDraft e s c entityID invoiceID iv d =
     (if invoiceID = '''' then (Inl (invalid ''invoice id required''), d)
      else case invoice_Get e d entityID invoiceID of
        Inr (Some existing) \<Rightarrow>
          (if iv_Status existing \<noteq> StatusDraft \<and> iv_Status existing \<noteq> StatusPendingReview
           then (Inl (Msg (''invoice status '' @ iv_Status existing @ '' cannot be updated'')), d)
           else
            (let i = iv\<lparr>iv_ID := iv_ID existing, iv_EntityID := entityID, iv_BookID := iv_BookID existing,
                   iv_Status := iv_Status existing, iv_Source := iv_Source existing\<rparr>
             in case invoice_Update e i d of
               Inl x \<Rightarrow> (Inl x, d)
             | Inr d1 \<Rightarrow>
                (let d2 = logAudit e 0 s c entityID (iv_BookID existing) '''' ''invoice.update_draft'' ''invoice''
                   (iv_ID i) (iv_InvoiceNo i) d1
                 in (invoice_read Invoice_Reread e d2 entityID invoiceID, d2))))
      | _ \<Rightarrow> (Inl (Msg (''invoice not found: '' @ invoiceID)), d))"

definition blank_invoice :: Invoice where
  "blank_invoice = \<lparr> iv_ID = '''', iv_EntityID = '''', iv_BookID = '''', iv_InvoiceNo = '''', iv_InvoiceType = '''',
     iv_Direction = '''', iv_IssueDate = '''', iv_SellerName = '''', iv_SellerTaxNo = '''', iv_BuyerName = '''',
     iv_BuyerTaxNo = '''', iv_AmountWithoutTax = Fin 0, iv_TaxAmount = Fin 0, iv_AmountWithTax = Fin 0, iv_Currency = '''',
     iv_Status = '''', iv_Source = '''', iv_InvoiceKind = '''', iv_DigitalInvoiceNo = '''', iv_BusinessTag = '''',
     iv_VerificationStatus = '''', iv_UsageStatus = '''', iv_DeductionStatus = '''', iv_RedLetterStatus = '''',
     iv_OriginalInvoiceID = '''', iv_TaxAccountPayload = '''', iv_Extraction = '''', iv_EvidenceRefs = '''',
     iv_InvoiceLines = [], iv_CreatedAt = '''', iv_UpdatedAt = '''' \<rparr>"

definition red_letter :: "env \<Rightarrow> string \<Rightarrow> string \<Rightarrow> string \<Rightarrow> Invoice \<Rightarrow> Invoice" where
  "red_letter e entityID bookID redStatus original = blank_invoice\<lparr>iv_ID := uuid e 0, iv_EntityID := entityID,
     iv_BookID := bookID, iv_InvoiceNo := iv_InvoiceNo original @ ''-RED'', iv_InvoiceType := iv_InvoiceType original,
     iv_Direction := reverseDirection (iv_Direction original), iv_IssueDate := today e,
     iv_SellerName := iv_SellerName original, iv_SellerTaxNo := iv_SellerTaxNo original,
     iv_BuyerName := iv_BuyerName original, iv_BuyerTaxNo := iv_BuyerTaxNo original,
     iv_AmountWithoutTax := fneg (iv_AmountWithoutTax original), iv_TaxAmount := fneg (iv_TaxAmount original),
     iv_AmountWithTax := fneg (iv_AmountWithTax original), iv_Currency := iv_Currency original,
     iv_Status := StatusPendingReview, iv_Source := ''provider'', iv_InvoiceKind := iv_InvoiceKind original,
     iv_OriginalInvoiceID := iv_ID original, iv_RedLetterStatus := redStatus\<rparr>"

definition CreateRedLetterInvoice ::
    "env \<Rightarrow> Service \<Rightarrow> Context \<Rightarrow> string \<Rightarrow> string \<Rightarrow> string \<Rightarrow> string \<Rightarrow> string \<Rightarrow> db \<Rightarrow> (err + Invoice) \<times> db" where
  "CreateRedLetterInvoice e s c entityID bookID originalID actorID redType d =
     (case invoice_Get e d entityID originalID of
        Inr (Some original) \<Rightarrow>
          (if iv_Status original \<noteq> StatusPosted
           then (Inl (Msg (''original invoice must be posted, current status: '' @ iv_Status original)), d)
           else
            (let redStatus = (if redType = ''fully'' then RedLetterStatusFully else RedLetterStatusPartially);
                 red = red_letter e entityID bookID redStatus original
             in case invoice_Create e red d of
               Inl x \<Rightarrow> (Inl x, d)
             | Inr d1 \<Rightarrow>
                (let d2 = (case invoice_UpdateRedLetterStatus e entityID (iv_ID original) redStatus d1 of Inl _ \<Rightarrow> d1 | Inr d2 \<Rightarrow> d2)
                 in (Inr red, logAudit e 1 s c entityID bookID actorID ''invoice.create_draft'' ''invoice''
                   (iv_ID red) (iv_InvoiceNo red) d2))))
      | _ \<Rightarrow> (Inl (Msg (''original invoice not found: '' @ originalID)), d))"

definition imported_invoice :: "env \<Rightarrow> string \<Rightarrow> string \<Rightarrow> ExtractionResult \<Rightarrow> Invoice" where
  "imported_invoice e entityID bookID p = blank_invoice\<lparr>iv_ID := uuid e 0, iv_EntityID := entityID, iv_BookID := bookID,
     iv_InvoiceNo := ex_InvoiceNo p, iv_InvoiceType := ex_InvoiceType p,
     iv_Direction := (if ex_Direction p = '''' then DirectionInput else ex_Direction p), iv_IssueDate := ex_IssueDate p,
     iv_SellerName := ex_CounterpartyName p, iv_SellerTaxNo := ex_SellerTaxID p, iv_BuyerTaxNo := ex_BuyerTaxID p,
     iv_AmountWithoutTax := ex_AmountWithoutTax p, iv_TaxAmount := ex_TaxAmount p, iv_AmountWithTax := ex_AmountWithTax p,
     iv_Currency := ''CNY'', iv_Status := StatusPendingReview, iv_Source := ''e-invoice'',
     iv_InvoiceKind := (if ex_InvoiceKind p = '''' then InvoiceKindElectronic else ex_InvoiceKind p),
     iv_DigitalInvoiceNo := ex_DigitalInvoiceNo p, iv_BusinessTag := ex_BusinessTag p,
     iv_VerificationStatus := VerStatusUnchecked, iv_UsageStatus := UsageStatusUnconfirmed,
     iv_DeductionStatus := DeductionStatusNotDeducted\<rparr>"

definition imported_lines :: "env \<Rightarrow> string \<Rightarrow> string \<Rightarrow> InvoiceLine list \<Rightarrow> InvoiceLine list" where
  "imported_lines e entityID invoiceID ls =
     map (\<lambda>(i, l). l\<lparr>il_ID := uuid e (Suc i), il_EntityID := entityID, il_InvoiceID := invoiceID\<rparr>) (enumerate 0 ls)"

text \<open>The result of storing the lines is ignored.\<close>

definition ImportEInvoice ::
    "env \<Rightarrow> Service \<Rightarrow> Context \<Rightarrow> string \<Rightarrow> string \<Rightarrow> ExtractionResult \<Rightarrow> db \<Rightarrow> (err + Invoice) \<times> db" where
  "ImportEInvoice e s c entityID bookID p d =
     (case Validate p of
        Some m \<Rightarrow> (Inl (invalid m), d)
      | None \<Rightarrow>
        (case invoice_FindByDigitalInvoiceNo e d entityID bookID (ex_DigitalInvoiceNo p) of
           Inr (Some existing) \<Rightarrow> (Inr existing, d)
         | _ \<Rightarrow>
           (let iv = imported_invoice e entityID bookID p in
            case invoice_Create e iv d of
              Inl x \<Rightarrow> (Inl x, d)
            | Inr d1 \<Rightarrow>
               (let ls = imported_lines e entityID (iv_ID iv) (ex_InvoiceLines p);
                    d2 = (if ls \<noteq> [] \<and> has_invoiceLines s then snd (invoice_lines_CreateMany e ls d1) else d1)
                in (Inr iv, logAudit e (Suc (length ls)) s c entityID bookID '''' ''invoice.import_einvoice'' ''invoice''
                  (iv_ID iv) (iv_InvoiceNo iv) d2)))))"

text \<open>Operations that return only an error: \<open>None\<close> is success.\<close>

definition VerifyInvoice :: "env \<Rightarrow> Service \<Rightarrow> Context \<Rightarrow> string \<Rightarrow> string \<Rightarrow> string \<Rightarrow> db \<Rightarrow> err option \<times> db" where
  "VerifyInvoice e s c entityID invoiceID actorID d =
     (case invoice_Get e d entityID invoiceID of
        Inr (Some iv) \<Rightarrow>
          (case invoice_UpdateVerificationStatus e entityID invoiceID VerStatusVerified d of
             Inl x \<Rightarrow> (Some x, d)
           | Inr d1 \<Rightarrow> (None, logAudit e 0 s c entityID (iv_BookID iv) actorID ''invoice.verify'' ''invoice''
               invoiceID (iv_InvoiceNo iv) d1))
      | _ \<Rightarrow> (Some (Msg (''invoice not found: '' @ invoiceID)), d))"

definition ConfirmInvoiceUsage :: "env \<Rightarrow> Service \<Rightarrow> Context \<Rightarrow> string \<Rightarrow> string \<Rightarrow> string \<Rightarrow> string \<Rightarrow> db \<Rightarrow> err option \<times> db" where
  "ConfirmInvoiceUsage e s c entityID invoiceID usageStatus actorID d =
     (case invoice_Get e d entityID invoiceID of
        Inr (Some iv) \<Rightarrow>
          (case invoice_UpdateUsageStatus e entityID invoiceID usageStatus d of
             Inl x \<Rightarrow> (Some x, d)
           | Inr d1 \<Rightarrow> (None, logAudit e 0 s c entityID (iv_BookID iv) actorID ''invoice.confirm_usage'' ''invoice''
               invoiceID (iv_InvoiceNo iv) d1))
      | _ \<Rightarrow> (Some (Msg (''invoice not found: '' @ invoiceID)), d))"

end
