(* ===== verification/Service_Reports.thy ===== *)
theory Service_Reports
  imports Service_Invoices
begin

text \<open>
  The reports over posted entries and invoices (internal/service/service.go): trial balance, account balance and
  VAT summary.  Go collects the rows of the trial balance in a map and sorts the keys by account code; the
  resulting order of the keys is the argument \<open>ord\<close>, of which the theorems assume that it is a permutation
  sorted by code.
\<close>

section \<open>Trial balance\<close>

type_synonym account_key = "string \<times> string"

definition line_key :: "JournalLine \<Rightarrow> account_key" where
  "line_key l = (jl_AccountCode l, jl_AccountName l)"

definition tb_blank :: "account_key \<Rightarrow> TrialBalanceRow" where
  "tb_blank k = \<lparr> tbr_AccountCode = fst k, tbr_AccountName = snd k, tbr_DebitAmount = Fin 0, tbr_CreditAmount = Fin 0,
     tbr_NetAmount = Fin 0 \<rparr>"

definition tb_add :: "JournalLine \<Rightarrow> TrialBalanceRow \<Rightarrow> TrialBalanceRow" where
  "tb_add l row =
     (let debit = roundMoney (fadd (tbr_DebitAmount row) (jl_DebitAmount l));
          credit = roundMoney (fadd (tbr_CreditAmount row) (jl_CreditAmount l))
      in row\<lparr>tbr_DebitAmount := debit, tbr_CreditAmount := credit, tbr_NetAmount := roundMoney (fsub debit credit)\<rparr>)"

definition tb_collect :: "JournalLine list \<Rightarrow> (account_key \<times> TrialBalanceRow) list" where
  "tb_collect ls = foldl (\<lambda>m l. al_upd (tb_blank (line_key l)) (tb_add l) (line_key l) m) [] ls"

definition tb_totals :: "TrialBalanceRow list \<Rightarrow> f64 \<times> f64" where
  "tb_totals rows = foldl (\<lambda>(debit, credit) row. (roundMoney (fadd debit (tbr_DebitAmount row)),
     roundMoney (fadd credit (tbr_CreditAmount row)))) (Fin 0, Fin 0) rows"

definition trial_balance :: "(account_key list \<Rightarrow> account_key list) \<Rightarrow> string \<Rightarrow> JournalLine list \<Rightarrow> TrialBalance" where
  "trial_balance ord period ls =
     (let m = tb_collect ls;
          rows = map (\<lambda>k. al_get (tb_blank k) m k) (ord (map fst m));
          (debit, credit) = tb_totals rows
      in \<lparr> tbal_Period = period, tbal_TotalDebit = debit, tbal_TotalCredit = credit,
           tbal_Balanced = moneyEqual debit credit, tbal_Rows = rows \<rparr>)"

definition TrialBalance_report ::
    "env \<Rightarrow> (account_key list \<Rightarrow> account_key list) \<Rightarrow> string \<Rightarrow> string \<Rightarrow> string \<Rightarrow> db \<Rightarrow> err + TrialBalance" where
  "TrialBalance_report e ord entityID bookID period d =
     (case journal_ListPostedLines e d entityID bookID period of
        Inl x \<Rightarrow> Inl x
      | Inr ls \<Rightarrow> Inr (trial_balance ord period ls))"

section \<open>Account balance\<close>

definition ab_row :: "TrialBalanceRow \<Rightarrow> AccountBalanceRow" where
  "ab_row row = \<lparr> abr_AccountCode = tbr_AccountCode row, abr_AccountName = tbr_AccountName row,
     abr_DebitAmount = tbr_DebitAmount row, abr_CreditAmount = tbr_CreditAmount row,
     abr_EndingDebit = (if fle (lit 0) (tbr_NetAmount row) then tbr_NetAmount row else Fin 0),
     abr_EndingCredit = (if fle (lit 0) (tbr_NetAmount row) then Fin 0 else roundMoney (fneg (tbr_NetAmount row))) \<rparr>"

definition AccountBalance_report ::
    "env \<Rightarrow> (account_key list \<Rightarrow> account_key list) \<Rightarrow> string \<Rightarrow> string \<Rightarrow> string \<Rightarrow> db \<Rightarrow> err + AccountBalance" where
  "AccountBalance_report e ord entityID bookID period d =
     (case TrialBalance_report e ord entityID bookID period d of
        Inl x \<Rightarrow> Inl x
      | Inr tb \<Rightarrow> Inr \<lparr> abal_Period = period, abal_Rows = map ab_row (tbal_Rows tb) \<rparr>)"

section \<open>VAT summary\<close>

definition vat_blank :: "string \<Rightarrow> VATSummary" where
  "vat_blank period = \<lparr> vs_Period = period, vs_InvoiceCount = 0, vs_InputAmountWithoutTax = Fin 0, vs_InputTaxAmount = Fin 0,
     vs_InputAmountWithTax = Fin 0, vs_OutputInvoiceCount = 0, vs_OutputAmountWithoutTax = Fin 0, vs_OutputTaxAmount = Fin 0,
     vs_OutputAmountWithTax = Fin 0 \<rparr>"

definition vat_add :: "VATSummary \<Rightarrow> Invoice \<Rightarrow> VATSummary" where
  "vat_add v i =
     (if iv_Direction i = DirectionOutput
      then v\<lparr>vs_OutputInvoiceCount := vs_OutputInvoiceCount v + 1,
        vs_OutputAmountWithoutTax := roundMoney (fadd (vs_OutputAmountWithoutTax v) (iv_AmountWithoutTax i)),
        vs_OutputTaxAmount := roundMoney (fadd (vs_OutputTaxAmount v) (iv_TaxAmount i)),
        vs_OutputAmountWithTax := roundMoney (fadd (vs_OutputAmountWithTax v) (iv_AmountWithTax i))\<rparr>
      else v\<lparr>vs_InvoiceCount := vs_InvoiceCount v + 1,
        vs_InputAmountWithoutTax := roundMoney (fadd (vs_InputAmountWithoutTax v) (iv_AmountWithoutTax i)),
        vs_InputTaxAmount := roundMoney (fadd (vs_InputTaxAmount v) (iv_TaxAmount i)),
        vs_InputAmountWithTax := roundMoney (fadd (vs_InputAmountWithTax v) (iv_AmountWithTax i))\<rparr>)"

definition VATSummary_report :: "env \<Rightarrow> string \<Rightarrow> string \<Rightarrow> string \<Rightarrow> db \<Rightarrow> err + VATSummary" where
  "VATSummary_report e entityID bookID period d =
     (if \<not> validPeriod period then Inl (invalid ''period must be YYYY-MM'')
      else case invoice_ListPostedByPeriod e d entityID bookID period of
        Inl x \<Rightarrow> Inl x
      | Inr rows \<Rightarrow> Inr (foldl vat_add (vat_blank period) rows))"

end
