(* ===== verification/Service_Periods.thy ===== *)
theory Service_Periods
  imports Service_Reports
begin

text \<open>
  The period operations of the service (internal/service/service.go): the close check, closing, reopening and
  locking.  (\<open>ensurePeriod\<close>, which would create a period, is called by no operation.)
\<close>

definition ensurePeriod :: "env \<Rightarrow> Service \<Rightarrow> string \<Rightarrow> string \<Rightarrow> string \<Rightarrow> db \<Rightarrow> (err + AccountingPeriod option) \<times> db" where
  "ensurePeriod e s entityID bookID period d =
     (if \<not> has_periods s then (Inr None, d)
      else case period_GetOrCreate e 0 \<lparr> pd_ID = '''', pd_EntityID = entityID, pd_BookID = bookID, pd_Period = period,
          pd_Status = '''', pd_OpenedAt = '''', pd_ClosingAt = '''', pd_ClosedAt = '''', pd_LockedAt = '''',
          pd_ClosedBy = '''', pd_Metadata = '''' \<rparr> d of
        (Inl x, d1) \<Rightarrow> (Inl x, d1)
      | (Inr p, d1) \<Rightarrow> (Inr (Some p), d1))"

definition ListPeriods :: "env \<Rightarrow> Service \<Rightarrow> string \<Rightarrow> string \<Rightarrow> db \<Rightarrow> err + AccountingPeriod list" where
  "ListPeriods e s entityID bookID d =
     (if \<not> has_periods s then Inl ErrNotConfigured else period_ListByBook e d entityID bookID)"

text \<open>An error of the query counts as zero.\<close>

definition getPendingInvoiceCount :: "env \<Rightarrow> string \<Rightarrow> string \<Rightarrow> string \<Rightarrow> db \<Rightarrow> int" where
  "getPendingInvoiceCount e entityID bookID period d =
     (case invoice_List e d entityID bookID period StatusPendingReview 1000 0 of
        Inl _ \<Rightarrow> 0 | Inr rows \<Rightarrow> int (length rows))"

definition getDraftJournalCount :: "env \<Rightarrow> string \<Rightarrow> string \<Rightarrow> string \<Rightarrow> db \<Rightarrow> int" where
  "getDraftJournalCount e entityID bookID period d =
     (case journal_List e d \<lparr> jlq_EntityID = entityID, jlq_BookID = bookID, jlq_Status = JournalStatusDraft,
          jlq_Period = period, jlq_Limit = 1000, jlq_Offset = 0 \<rparr> of
        Inl _ \<Rightarrow> 0 | Inr rows \<Rightarrow> int (length rows))"

definition blocking :: "string \<Rightarrow> string \<Rightarrow> bool \<Rightarrow> string \<Rightarrow> CloseCheck" where
  "blocking category label ok detail = \<lparr> cc_Category = category, cc_Label = label, cc_Passed = ok, cc_Detail = detail,
     cc_Severity = ''blocking'' \<rparr>"

text \<open>The text of a driver error is not modelled: \<open>txt\<close> prints the statement that failed.\<close>

definition CloseCheck_report ::
    "env \<Rightarrow> (stmt \<Rightarrow> string) \<Rightarrow> (account_key list \<Rightarrow> account_key list) \<Rightarrow> Service \<Rightarrow> string \<Rightarrow> string \<Rightarrow> string \<Rightarrow> db \<Rightarrow>
     err + CloseCheckResult" where
  "CloseCheck_report e txt ord s entityID bookID period d =
     (if bookID = '''' then Inl (Msg ''book_id is required'')
      else if \<not> has_periods s then Inl ErrNotConfigured
      else
       (let pending = getPendingInvoiceCount e entityID bookID period d;
            drafts = getDraftJournalCount e entityID bookID period d;
            c1 = blocking ''invoices'' ''All invoices processed'' (pending = 0) (int_str pending @ '' invoices pending review'');
            c2 = blocking ''journals'' ''No draft journal entries'' (drafts = 0) (int_str drafts @ '' draft entries'');
            c3 = (case TrialBalance_report e ord entityID bookID period d of
              Inl x \<Rightarrow> blocking ''reconciliation'' ''Trial balance'' False (''failed: '' @ err_text txt x)
            | Inr tb \<Rightarrow> blocking ''reconciliation'' ''Trial balance balanced''
                (flt (math_Abs (fsub (tbal_TotalDebit tb) (tbal_TotalCredit tb))) (lit (1 / 100)))
                (''debit '' @ fmt2 (tbal_TotalDebit tb) @ '', credit '' @ fmt2 (tbal_TotalCredit tb)));
            passed = (pending \<le> 0 \<and> drafts \<le> 0 \<and> cc_Passed c3)
        in Inr \<lparr> ccr_Passed = passed, ccr_Period = period, ccr_Checks = [c1, c2, c3],
             ccr_Summary = (if passed then ''all blocking checks passed'' else ''some blocking checks failed'') \<rparr>))"

definition period_audit ::
    "env \<Rightarrow> Service \<Rightarrow> Context \<Rightarrow> string \<Rightarrow> string \<Rightarrow> string \<Rightarrow> string \<Rightarrow> string \<Rightarrow> AccountingPeriod \<Rightarrow> db \<Rightarrow> db" where
  "period_audit e s c entityID bookID period actorID action p =
     logAudit e 0 s c entityID bookID actorID action ''accounting_period'' (pd_ID p) (bookID @ ''/'' @ period)"

text \<open>
  The read back after an update cannot miss the row, so the code dereferences it; where it would be missing
  the model returns the panic as an error.
\<close>

definition nil_panic :: err where
  "nil_panic = Msg ''invalid memory address or nil pointer dereference''"

text \<open>The error of the reset to open after a failed check is ignored.\<close>

definition ClosePeriod ::
    "env \<Rightarrow> (stmt \<Rightarrow> string) \<Rightarrow> (account_key list \<Rightarrow> account_key list) \<Rightarrow> Service \<Rightarrow> Context \<Rightarrow>
     string \<Rightarrow> string \<Rightarrow> string \<Rightarrow> string \<Rightarrow> db \<Rightarrow> (err + AccountingPeriod) \<times> db" where
  "ClosePeriod e txt ord s c entityID bookID period actorID d =
     (if bookID = '''' then (Inl (Msg ''book_id is required''), d)
      else if \<not> has_periods s then (Inl ErrNotConfigured, d)
      else case period_UpdateStatus e entityID bookID period PeriodStatusOpen PeriodStatusClosing (Some actorID) d of
        (Inl x, d1) \<Rightarrow> (Inl (Wrap ''begin closing: '' x ''''), d1)
      | (Inr _, d1) \<Rightarrow>
        (let reset = (\<lambda>x. (Inl x, snd (period_UpdateStatus e entityID bookID period PeriodStatusClosing PeriodStatusOpen None d1)))
         in case CloseCheck_report e txt ord s entityID bookID period d1 of
           Inl x \<Rightarrow> reset (Wrap ''close check: '' x '''')
         | Inr res \<Rightarrow>
            (if \<not> ccr_Passed res then reset (Msg (''close check failed: '' @ ccr_Summary res))
             else case period_UpdateStatus e entityID bookID period PeriodStatusClosing PeriodStatusClosed (Some actorID) d1 of
               (Inl x, d2) \<Rightarrow> (Inl (Wrap ''close: '' x ''''), d2)
             | (Inr None, d2) \<Rightarrow> (Inl nil_panic, d2)
             | (Inr (Some p), d2) \<Rightarrow> (Inr p, period_audit e s c entityID bookID period actorID ''period.close'' p d2))))"

definition ReopenPeriod ::
    "env \<Rightarrow> Service \<Rightarrow> Context \<Rightarrow> string \<Rightarrow> string \<Rightarrow> string \<Rightarrow> string \<Rightarrow> db \<Rightarrow> (err + AccountingPeriod) \<times> db" where
  "ReopenPeriod e s c entityID bookID period actorID d =
     (if bookID = '''' then (Inl (Msg ''book_id is required''), d)
      else if \<not> has_periods s then (Inl ErrNotConfigured, d)
      else case period_UpdateStatus e entityID bookID period PeriodStatusClosed PeriodStatusOpen None d of
        (Inl x, d1) \<Rightarrow> (Inl (Wrap ''reopen: '' x ''''), d1)
      | (Inr None, d1) \<Rightarrow> (Inl nil_panic, d1)
      | (Inr (Some p), d1) \<Rightarrow> (Inr p, period_audit e s c entityID bookID period actorID ''period.reopen'' p d1))"

definition LockPeriod ::
    "env \<Rightarrow> Service \<Rightarrow> Context \<Rightarrow> string \<Rightarrow> string \<Rightarrow> string \<Rightarrow> string \<Rightarrow> db \<Rightarrow> (err + AccountingPeriod) \<times> db" where
  "LockPeriod e s c entityID bookID period actorID d =
     (if bookID = '''' then (Inl (Msg ''book_id is required''), d)
      else if \<not> has_periods s then (Inl ErrNotConfigured, d)
      else case period_UpdateStatus e entityID bookID period PeriodStatusClosed PeriodStatusLocked None d of
        (Inl x, d1) \<Rightarrow> (Inl (Wrap ''lock: '' x ''''), d1)
      | (Inr None, d1) \<Rightarrow> (Inl nil_panic, d1)
      | (Inr (Some p), d1) \<Rightarrow> (Inr p, period_audit e s c entityID bookID period actorID ''period.lock'' p d1))"

end
