(* ===== verification/Examples.thy ===== *)
theory Examples
  imports Service_Periods
begin

text \<open>
  Concrete tables for the examples of the properties: one entity with one book, a draft sales voucher over two
  lines in March 2025, and the same voucher after posting.
\<close>

definition no_context :: Context where
  "no_context = \<lparr> TraceID = ''t1'', CapabilityID = ''c1'', IdempotencyKey = ''k1'', ActorID = ''u1'', ApprovalGrantID = '''' \<rparr>"

definition example_line :: "string \<Rightarrow> int \<Rightarrow> string \<Rightarrow> f64 \<Rightarrow> f64 \<Rightarrow> JournalLine" where
  "example_line i n code debit credit = \<lparr> jl_ID = i, jl_EntityID = ''e1'', jl_JournalEntryID = ''j1'', jl_AccountID = code,
     jl_AccountCode = code, jl_AccountName = code, jl_Direction = (if debit = Fin 0 then DirectionCredit else DirectionDebit),
     jl_DebitAmount = debit, jl_CreditAmount = credit, jl_Currency = ''CNY'', jl_LineNo = n, jl_Auxiliary = ''{}'' \<rparr>"

definition example_lines :: "JournalLine list" where
  "example_lines = [example_line ''l1'' 1 ''1002'' (Fin 100) (Fin 0), example_line ''l2'' 2 ''6001'' (Fin 0) (Fin 100)]"

definition example_entry :: "string \<Rightarrow> JournalEntry" where
  "example_entry status = \<lparr> je_ID = ''j1'', je_EntityID = ''e1'', je_BookID = ''b1'', je_Period = ''2025-03'', je_VoucherNo = ''V-1'',
     je_VoucherWord = ''V'', je_EntryDate = ''2025-03-01'', je_Summary = ''sale'', je_SourceType = '''', je_SourceID = '''',
     je_Status = status, je_CreatedBy = ''u1'', je_PostedBy = '''', je_PostedAt = '''', je_Lines = [],
     je_CreatedAt = ''2025-03-14T09:26:53Z'', je_UpdatedAt = ''2025-03-14T09:26:53Z'' \<rparr>"

definition example_period :: "string \<Rightarrow> AccountingPeriod" where
  "example_period status = \<lparr> pd_ID = ''p1'', pd_EntityID = ''e1'', pd_BookID = ''b1'', pd_Period = ''2025-03'', pd_Status = status,
     pd_OpenedAt = '''', pd_ClosingAt = '''', pd_ClosedAt = '''', pd_LockedAt = '''', pd_ClosedBy = '''', pd_Metadata = '''' \<rparr>"

definition example_db :: "string \<Rightarrow> string \<Rightarrow> db" where
  "example_db status period = empty_db\<lparr>journal_entries := [example_entry status], journal_lines := example_lines,
     accounting_periods := [example_period period]\<rparr>"

lemma plain_env_simps [simp]: "fault plain_env = (\<lambda>_. False)" "numeric plain_env = (\<lambda>p s. Some)" "to_date plain_env = Some"
  "jsonb plain_env = Some" "db_now plain_env = ''2025-03-14T09:26:53Z''" "collate plain_env = (\<lambda>s. s)"
  "now plain_env = ''2025-03-14T09:26:53Z''" "scan_date plain_env = Some"
  by (simp_all add: plain_env_def)

lemma full_service_simps [simp]: "has_db full_service" "has_books full_service" "has_periods full_service"
  "has_invoiceLines full_service" "has_accounts full_service" "has_auditLog full_service" "has_idempotency full_service"
  "has_reconciliation full_service" "has_reportMappings full_service" "has_adjustments full_service"
  "has_taxProfiles full_service" "has_riskScans full_service" "has_consistencyChecks full_service"
  by (simp_all add: full_service_def)

lemma ids_evaluated [simp]: "uuid plain_env 0 = ''id-0''" "uuid plain_env (Suc 0) = ''id-1''"
  "uuid plain_env (Suc (Suc 0)) = ''id-2''" "uuid plain_env (Suc (Suc (Suc 0))) = ''id-3''"
  by code_simp+

lemma example_tables [simp]:
  "journal_entries (example_db st p) = [example_entry st]" "journal_lines (example_db st p) = example_lines"
  "accounting_periods (example_db st p) = [example_period p]" "invoices (example_db st p) = []"
  by (simp_all add: example_db_def empty_db_def)

lemma example_entry_simps [simp]:
  "je_Status (example_entry st) = st" "je_ID (example_entry st) = ''j1''" "je_EntityID (example_entry st) = ''e1''"
  "je_BookID (example_entry st) = ''b1''" "je_Period (example_entry st) = ''2025-03''" "je_Lines (example_entry st) = []"
  "je_key (example_entry st) = (''j1'', ''e1'')" "je_voucher (example_entry st) = (''e1'', ''b1'', ''2025-03'', ''V-1'')"
  "je_SourceType (example_entry st) = ''''" "je_SourceID (example_entry st) = ''''" "je_Summary (example_entry st) = ''sale''"
  by (simp_all add: example_entry_def je_key_def je_voucher_def)

lemma example_found [simp]: "find_entry (example_db st p) (''j1'', ''e1'') = Some (example_entry st)"
  by (simp add: find_entry_def)

lemma example_entry_lines [simp]: "entry_lines (example_db st p) ''e1'' ''j1'' = example_lines"
  by (simp add: entry_lines_def example_lines_def example_line_def)

lemma example_balanced [simp]: "validateBalanced example_lines = None"
  by (simp add: validateBalanced_None_iff example_lines_def example_line_def fsum_def float_eval)

lemma example_lines_nonempty [simp]: "example_lines \<noteq> []"
  by (simp add: example_lines_def)

lemma example_get [simp]:
  "journal_Get plain_env (example_db st p) ''e1'' ''j1'' = Inr (Some (example_entry st\<lparr>je_Lines := example_lines\<rparr>))"
  by (simp add: journal_read_def)

lemma example_period_status [simp]: "period_status (example_db st p) (''e1'', ''b1'', ''2025-03'') = Some p"
  by (simp add: period_status_def find_period_def example_period_def pd_key_def)

lemma example_open [simp]:
  "period_closed plain_env full_service ''e1'' ''b1'' ''2025-03'' (example_db st p) \<longleftrightarrow> p = PeriodStatusClosed \<or> p = PeriodStatusLocked"
  by (auto simp: period_closed_def period_IsClosed_status)

lemma example_wf [simp]: "journals_wf (example_db st p)"
  by (auto simp: journals_wf_def example_lines_def example_line_def jl_slot_def jl_entry_def)

lemma example_periods_wf [simp]: "periods_wf (example_db st p)"
  by (simp add: periods_wf_def)

lemma plain_stable [simp]: "numeric_stable (\<lambda>p s. Some)"
  by (simp add: numeric_stable_def)

lemma example_inv [simp]: "ledger_inv (\<lambda>p s. Some) (example_db st p)"
  by (simp add: ledger_inv_def stored_line_def balanced_entry_def)

definition example_posted :: db where
  "example_posted = snd (PostJournalEntry plain_env full_service no_context ''e1'' ''j1'' ''u1'' (example_db JournalStatusDraft PeriodStatusOpen))"

definition example_voided :: db where
  "example_voided = snd (VoidJournalEntry plain_env full_service no_context ''e1'' ''j1'' ''u1'' (example_db JournalStatusPosted PeriodStatusOpen))"

lemma example_post:
  "journal_entries example_posted = [journal_stamp plain_env JournalStatusPosted (example_entry JournalStatusDraft)]"
  "journal_lines example_posted = example_lines"
  by (simp_all add: example_posted_def PostJournalEntry_def PeriodStatusOpen_def PeriodStatusClosed_def PeriodStatusLocked_def
    journal_PostTx_def journal_change_def status_update_def journal_read_def from_invoice_def spoiled_def mark_source_def find_entry_def
    Let_def)

end
