(* ===== verification/Store_Tax.thy ===== *)
theory Store_Tax
  imports Store Engine_Report
begin

text \<open>
  The stores of report mappings, tax records and risk records (internal/store/postgres/report_mapping.go, tax.go,
  risk.go).  The upserts are \<open>INSERT ... ON CONFLICT DO UPDATE\<close> on the unique key each table declares; a conflict with the
  primary key under another unique key is an error.
\<close>

section \<open>Report mappings\<close>

text \<open>The JSON of the selector is read by \<open>unmarshal\<close>; text it refuses gives the empty selector.\<close>

definition empty_selector :: AccountSelector where
  "empty_selector = \<lparr> as_Prefixes = [], as_Categories = [], as_Direction = '''', as_ExcludePrefixes = [] \<rparr>"

definition scan_mapping :: "(string \<Rightarrow> AccountSelector option) \<Rightarrow> MappingRow \<Rightarrow> ReportMapping" where
  "scan_mapping unmarshal m = \<lparr> rm_LineCode = mp_LineCode m, rm_LineLabel = mp_LineLabel m, rm_DisplayOrder = mp_DisplayOrder m,
     rm_AccountingStandard = mp_AccountingStandard m,
     rm_AccountSelector = (case unmarshal (mp_AccountSelector m) of None \<Rightarrow> empty_selector | Some s \<Rightarrow> s),
     rm_IsSubtotal = mp_IsSubtotal m, rm_ParentLineCode = mp_ParentLineCode m, rm_Formula = mp_Formula m \<rparr>"

definition mapping_ListByReportType ::
    "env \<Rightarrow> (string \<Rightarrow> AccountSelector option) \<Rightarrow> db \<Rightarrow> string \<Rightarrow> string \<Rightarrow> err + ReportMapping list" where
  "mapping_ListByReportType e unmarshal d reportType standard =
     (if fault e Mapping_List then Inl (DbError Mapping_List)
      else Inr (map (scan_mapping unmarshal) (sort_key mp_DisplayOrder
        (filter (\<lambda>m. mp_ReportType m = reportType \<and> mp_AccountingStandard m = standard) (report_mappings d)))))"

section \<open>Adjustments\<close>

definition aj_key :: "AdjustmentRecord \<Rightarrow> string \<times> string \<times> string \<times> string" where
  "aj_key a = (aj_EntityID a, aj_TaxYear a, aj_Category a, aj_ID a)"

definition adjustment_row :: "env \<Rightarrow> AdjustmentRecord \<Rightarrow> AdjustmentRecord option" where
  "adjustment_row e a =
     (case (numeric e 18 2 (aj_BookAmount a), numeric e 18 2 (aj_TaxBase a), numeric e 18 2 (aj_Adjustment a)) of
        (Some b, Some t, Some x) \<Rightarrow> Some (a\<lparr>aj_BookAmount := b, aj_TaxBase := t, aj_Adjustment := x\<rparr>)
      | _ \<Rightarrow> None)"

definition adjustment_Upsert :: "env \<Rightarrow> AdjustmentRecord \<Rightarrow> db \<Rightarrow> err + db" where
  "adjustment_Upsert e a d =
     (let bad = Inl (DbError (Adjustment_Upsert (aj_ID a))) in
      case (if fault e (Adjustment_Upsert (aj_ID a)) then None else adjustment_row e a) of
        None \<Rightarrow> bad
      | Some row \<Rightarrow>
         (if list_ex (\<lambda>x. aj_key x = aj_key a) (tax_adjustments d)
          then Inr (d\<lparr>tax_adjustments := update_where (\<lambda>x. aj_key x = aj_key a)
            (\<lambda>x. x\<lparr>aj_BookAmount := aj_BookAmount row, aj_TaxBase := aj_TaxBase row, aj_Adjustment := aj_Adjustment row,
              aj_Formula := aj_Formula row, aj_Detail := aj_Detail row\<rparr>) (tax_adjustments d)\<rparr>)
          else if list_ex (\<lambda>x. aj_ID x = aj_ID a) (tax_adjustments d) then bad
          else Inr (d\<lparr>tax_adjustments := tax_adjustments d @ [row\<lparr>aj_CreatedAt := db_now e\<rparr>]\<rparr>)))"

definition adjustment_Delete :: "env \<Rightarrow> string \<Rightarrow> db \<Rightarrow> err + db" where
  "adjustment_Delete e i d =
     (if fault e Adjustment_Delete then Inl (DbError Adjustment_Delete)
      else Inr (d\<lparr>tax_adjustments := filter (\<lambda>x. aj_ID x \<noteq> i) (tax_adjustments d)\<rparr>))"

text \<open>The second component is the number of rows returned, not of rows there are.\<close>

definition adjustment_List :: "env \<Rightarrow> db \<Rightarrow> AdjustmentListQuery \<Rightarrow> err + AdjustmentRecord list \<times> int" where
  "adjustment_List e d q =
     (if fault e Adjustment_List then Inl (DbError Adjustment_List)
      else case page Adjustment_List (if ajq_Limit q \<le> 0 then 50 else ajq_Limit q) (ajq_Offset q) (newest_first aj_CreatedAt
          (filter (\<lambda>x. aj_EntityID x = ajq_EntityID q \<and> aj_TaxYear x = ajq_TaxYear q \<and>
            (ajq_Category q = '''' \<or> aj_Category x = ajq_Category q)) (tax_adjustments d))) of
        Inl x \<Rightarrow> Inl x
      | Inr rows \<Rightarrow> Inr (map (aj_CreatedAt_update (\<lambda>_. '''')) rows, int (length rows)))"

definition adjustment_DeleteByCategory :: "env \<Rightarrow> string \<Rightarrow> string \<Rightarrow> string \<Rightarrow> db \<Rightarrow> err + db" where
  "adjustment_DeleteByCategory e entityID taxYear category d =
     (if fault e Adjustment_DeleteByCategory then Inl (DbError Adjustment_DeleteByCategory)
      else Inr (d\<lparr>tax_adjustments := filter (\<lambda>x. \<not> (aj_EntityID x = entityID \<and> aj_TaxYear x = taxYear \<and> aj_Category x = category))
        (tax_adjustments d)\<rparr>))"

text \<open>The sum, 0 with an error as without rows.\<close>

definition adjustment_SumByYear :: "env \<Rightarrow> db \<Rightarrow> string \<Rightarrow> string \<Rightarrow> f64" where
  "adjustment_SumByYear e d entityID taxYear =
     (let xs = map aj_Adjustment (filter (\<lambda>x. aj_EntityID x = entityID \<and> aj_TaxYear x = taxYear) (tax_adjustments d))
      in if fault e Adjustment_Sum \<or> xs = [] then Fin 0 else sum_numeric e xs)"

section \<open>Tax profiles and returns\<close>

definition tp_key :: "TaxProfile \<Rightarrow> string \<times> string" where "tp_key p = (tp_EntityID p, tp_BookID p)"

definition profile_Upsert :: "env \<Rightarrow> TaxProfile \<Rightarrow> db \<Rightarrow> err + db" where
  "profile_Upsert e p d =
     (if fault e TaxProfile_Upsert then Inl (DbError TaxProfile_Upsert)
      else if list_ex (\<lambda>x. tp_key x = tp_key p) (tax_profiles d)
      then Inr (d\<lparr>tax_profiles := update_where (\<lambda>x. tp_key x = tp_key p)
        (\<lambda>x. p\<lparr>tp_ID := tp_ID x, tp_CreatedAt := tp_CreatedAt x, tp_UpdatedAt := db_now e\<rparr>) (tax_profiles d)\<rparr>)
      else if list_ex (\<lambda>x. tp_ID x = tp_ID p) (tax_profiles d) then Inl (DbError TaxProfile_Upsert)
      else Inr (d\<lparr>tax_profiles := tax_profiles d @ [p\<lparr>tp_CreatedAt := db_now e, tp_UpdatedAt := db_now e\<rparr>]\<rparr>))"

text \<open>A missing row is the error \<open>ErrNoRows\<close> here.\<close>

definition profile_Get :: "env \<Rightarrow> db \<Rightarrow> string \<Rightarrow> string \<Rightarrow> err + TaxProfile" where
  "profile_Get e d entityID bookID =
     (if fault e TaxProfile_Get then Inl (DbError TaxProfile_Get)
      else case find (\<lambda>x. tp_key x = (entityID, bookID)) (tax_profiles d) of
        None \<Rightarrow> Inl ErrNoRows
      | Some p \<Rightarrow> Inr (p\<lparr>tp_CreatedAt := '''', tp_UpdatedAt := ''''\<rparr>))"

definition tr_key :: "TaxReturn \<Rightarrow> string \<times> string \<times> string \<times> string \<times> string" where
  "tr_key r = (tr_EntityID r, tr_BookID r, tr_TaxYear r, tr_TaxPeriod r, tr_ReturnType r)"

definition return_Upsert :: "env \<Rightarrow> TaxReturn \<Rightarrow> db \<Rightarrow> err + db" where
  "return_Upsert e r d =
     (case (if fault e TaxReturn_Upsert then None else jsonb e (tr_Payload r)) of
        None \<Rightarrow> Inl (DbError TaxReturn_Upsert)
      | Some payload \<Rightarrow>
         (if list_ex (\<lambda>x. tr_key x = tr_key r) (tax_returns d)
          then Inr (d\<lparr>tax_returns := update_where (\<lambda>x. tr_key x = tr_key r)
            (\<lambda>x. x\<lparr>tr_Payload := payload, tr_Status := tr_Status r\<rparr>) (tax_returns d)\<rparr>)
          else if list_ex (\<lambda>x. tr_ID x = tr_ID r) (tax_returns d) then Inl (DbError TaxReturn_Upsert)
          else Inr (d\<lparr>tax_returns := tax_returns d @ [r\<lparr>tr_Payload := payload, tr_CreatedAt := db_now e\<rparr>]\<rparr>)))"

definition return_Get :: "env \<Rightarrow> db \<Rightarrow> string \<Rightarrow> string \<Rightarrow> string \<Rightarrow> string \<Rightarrow> string \<Rightarrow> err + TaxReturn" where
  "return_Get e d entityID bookID taxYear taxPeriod returnType =
     (if fault e TaxReturn_Get then Inl (DbError TaxReturn_Get)
      else case find (\<lambda>x. tr_key x = (entityID, bookID, taxYear, taxPeriod, returnType)) (tax_returns d) of
        None \<Rightarrow> Inl ErrNoRows
      | Some r \<Rightarrow> Inr (r\<lparr>tr_CreatedAt := ''''\<rparr>))"

section \<open>Risk scans and consistency checks\<close>

definition scan_Create :: "env \<Rightarrow> RiskScan \<Rightarrow> db \<Rightarrow> err + db" where
  "scan_Create e s d =
     (case (jsonb e (rs_RulesTriggered s), jsonb e (rs_Findings s), numeric e 10 2 (rs_TotalScore s)) of
        (Some rules, Some fs, Some score) \<Rightarrow>
          (if fault e RiskScan_Insert \<or> list_ex (\<lambda>x. rs_ID x = rs_ID s) (risk_scans d) then Inl (DbError RiskScan_Insert)
           else Inr (d\<lparr>risk_scans := risk_scans d @ [s\<lparr>rs_RulesTriggered := rules, rs_Findings := fs, rs_TotalScore := score,
             rs_CreatedAt := db_now e\<rparr>]\<rparr>))
      | _ \<Rightarrow> Inl (DbError RiskScan_Insert))"

definition scans_of :: "db \<Rightarrow> string \<Rightarrow> string \<Rightarrow> string \<Rightarrow> RiskScan list" where
  "scans_of d entityID bookID period = map (rs_CreatedAt_update (\<lambda>_. '''')) (newest_first rs_CreatedAt
     (filter (\<lambda>x. rs_EntityID x = entityID \<and> rs_BookID x = bookID \<and> rs_Period x = period) (risk_scans d)))"

definition scan_ListByPeriod :: "env \<Rightarrow> db \<Rightarrow> string \<Rightarrow> string \<Rightarrow> string \<Rightarrow> err + RiskScan list" where
  "scan_ListByPeriod e d entityID bookID period =
     (if fault e RiskScan_List then Inl (DbError RiskScan_List) else Inr (scans_of d entityID bookID period))"

definition scan_GetLatest :: "env \<Rightarrow> db \<Rightarrow> string \<Rightarrow> string \<Rightarrow> string \<Rightarrow> err + RiskScan option" where
  "scan_GetLatest e d entityID bookID period =
     (if fault e RiskScan_Latest then Inl (DbError RiskScan_Latest)
      else Inr (case scans_of d entityID bookID period of [] \<Rightarrow> None | s # _ \<Rightarrow> Some s))"

definition check_insert :: "env \<Rightarrow> ConsistencyCheck \<Rightarrow> db \<Rightarrow> err + db" where
  "check_insert e c d =
     (let bad = Inl (DbError (Consistency_Insert (ck_ID c))) in
      case (numeric e 18 4 (ck_SourceValue c), numeric e 18 4 (ck_TargetValue c), numeric e 18 4 (ck_Difference c),
          numeric e 18 4 (ck_Tolerance c)) of
        (Some s, Some t, Some x, Some y) \<Rightarrow>
          (if fault e (Consistency_Insert (ck_ID c)) \<or> list_ex (\<lambda>z. ck_ID z = ck_ID c) (consistency_checks d) then bad
           else Inr (d\<lparr>consistency_checks := consistency_checks d @ [c\<lparr>ck_SourceValue := s, ck_TargetValue := t, ck_Difference := x,
             ck_Tolerance := y, ck_CreatedAt := db_now e\<rparr>]\<rparr>))
      | _ \<Rightarrow> bad)"

text \<open>One insert after the other, without a transaction: what was inserted before an error stays.\<close>

fun checks_CreateMany :: "env \<Rightarrow> ConsistencyCheck list \<Rightarrow> db \<Rightarrow> err option \<times> db" where
  "checks_CreateMany e [] d = (None, d)"
| "checks_CreateMany e (c # cs) d = (case check_insert e c d of Inl x \<Rightarrow> (Some x, d) | Inr d1 \<Rightarrow> checks_CreateMany e cs d1)"

definition checks_ListByPeriod :: "env \<Rightarrow> db \<Rightarrow> string \<Rightarrow> string \<Rightarrow> string \<Rightarrow> err + ConsistencyCheck list" where
  "checks_ListByPeriod e d entityID bookID period =
     (if fault e Consistency_List then Inl (DbError Consistency_List)
      else Inr (map (ck_CreatedAt_update (\<lambda>_. '''')) (newest_first ck_CreatedAt
        (filter (\<lambda>x. ck_EntityID x = entityID \<and> ck_BookID x = bookID \<and> ck_Period x = period) (consistency_checks d)))))"

end
