(* ===== verification/Service_Statements.thy ===== *)
theory Service_Statements
  imports Service_Base Store_Tax
begin

text \<open>
  The profit statement and the balance sheet of the service (internal/service/service.go): the posted lines of a period are
  given to the report builder with the mappings of the database, and its records copied to those of the domain; without mappings a
  hard-coded profit statement or an empty balance sheet is returned.  \<open>unmarshal\<close> reads the JSON of a selector and \<open>srt\<close> is the
  unstable sort of the builder.
\<close>

section \<open>The records of the domain\<close>

definition no_profit :: DomainProfitStatement where
  "no_profit = \<lparr> dps_Revenue = lit 0, dps_Cost = lit 0, dps_TaxAndSurcharge = lit 0, dps_SellingExpense = lit 0,
     dps_AdminExpense = lit 0, dps_FinanceExpense = lit 0,
     dps_AssetImpairment = lit 0, dps_FairValueGain = lit 0, dps_InvestmentIncome = lit 0, dps_OperatingProfit = lit 0,
     dps_NonOpIncome = lit 0, dps_NonOpExpense = lit 0, dps_TotalProfit = lit 0, dps_IncomeTax = lit 0, dps_NetProfit = lit 0, dps_Lines = [] \<rparr>"

definition no_balance :: DomainBalanceSheet where
  "no_balance = \<lparr> dbs_Assets = [], dbs_Liabilities = [], dbs_Equity = [], dbs_TotalAssets = lit 0, dbs_TotalLiabilities = lit 0,
     dbs_TotalEquity = lit 0, dbs_TotalLiabEquity = lit 0 \<rparr>"

definition convertProfitStatement :: "ProfitStatement \<Rightarrow> DomainProfitStatement" where
  "convertProfitStatement eps =
     \<lparr> dps_Revenue = ps_Revenue eps,
       dps_Cost = ps_Cost eps,
       dps_TaxAndSurcharge = ps_TaxAndSurcharge eps,
       dps_SellingExpense = ps_SellingExpense eps,
       dps_AdminExpense = ps_AdminExpense eps,
       dps_FinanceExpense = ps_FinanceExpense eps,
       dps_AssetImpairment = ps_AssetImpairment eps,
       dps_FairValueGain = ps_FairValueGain eps,
       dps_InvestmentIncome = ps_InvestmentIncome eps,
       dps_OperatingProfit = ps_OperatingProfit eps,
       dps_NonOpIncome = ps_NonOpIncome eps,
       dps_NonOpExpense = ps_NonOpExpense eps,
       dps_TotalProfit = ps_TotalProfit eps,
       dps_IncomeTax = ps_IncomeTax eps,
       dps_NetProfit = ps_NetProfit eps,
       dps_Lines = map (\<lambda>l. \<lparr> dpl_LineCode = psl_LineCode l, dpl_Label = psl_Label l, dpl_Amount = psl_Amount l,
         dpl_IsSubtotal = psl_IsSubtotal l \<rparr>) (ps_Lines eps) \<rparr>"

definition convert_line :: "BalanceSheetLine \<Rightarrow> DomainBalanceSheetLine" where
  "convert_line l = \<lparr> dbl_LineCode = bsl_LineCode l, dbl_Label = bsl_Label l, dbl_Amount = bsl_Amount l,
     dbl_IsSubtotal = bsl_IsSubtotal l, dbl_Section = bsl_Section l \<rparr>"

definition convertBalanceSheet :: "BalanceSheet \<Rightarrow> DomainBalanceSheet" where
  "convertBalanceSheet ebs =
     \<lparr> dbs_Assets = map convert_line (bs_Assets ebs), dbs_Liabilities = map convert_line (bs_Liabilities ebs),
       dbs_Equity = map convert_line (bs_Equity ebs), dbs_TotalAssets = bs_TotalAssets ebs,
       dbs_TotalLiabilities = bs_TotalLiabilities ebs, dbs_TotalEquity = bs_TotalEquity ebs,
       dbs_TotalLiabEquity = bs_TotalLiabEquity ebs \<rparr>"

section \<open>The statements of a period\<close>

text \<open>The amount of a line is the amount of its side; the side itself is kept as text only.\<close>

definition report_line :: "JournalLine \<Rightarrow> ReportLine" where
  "report_line l = \<lparr> rl_AccountCode = jl_AccountCode l, rl_Direction = jl_Direction l,
     rl_Amount = (if jl_Direction l = DirectionDebit then jl_DebitAmount l else jl_CreditAmount l) \<rparr>"

definition lift_msg :: "string + 'a \<Rightarrow> err + 'a" where
  "lift_msg r = (case r of Inl m \<Rightarrow> Inl (Msg m) | Inr v \<Rightarrow> Inr v)"

definition fallback_line :: "DomainProfitStatement \<Rightarrow> ReportLine \<Rightarrow> DomainProfitStatement" where
  "fallback_line ps l =
     (let code = rl_AccountCode l; amount = rl_Amount l in
      if HasPrefix code ''6'' then ps\<lparr>dps_Revenue := roundMoney (fadd (dps_Revenue ps) amount)\<rparr>
      else if code = ''5401'' \<or> code = ''5402'' then ps\<lparr>dps_Cost := roundMoney (fadd (dps_Cost ps) amount)\<rparr>
      else if code = ''5403'' then ps\<lparr>dps_TaxAndSurcharge := roundMoney (fadd (dps_TaxAndSurcharge ps) amount)\<rparr>
      else if HasPrefix code ''5601'' \<or> HasPrefix code ''5602'' \<or> HasPrefix code ''5603''
      then ps\<lparr>dps_SellingExpense := roundMoney (fadd (dps_SellingExpense ps) amount)\<rparr>
      else ps)"

definition fallback_totals :: "DomainProfitStatement \<Rightarrow> DomainProfitStatement" where
  "fallback_totals ps =
     (let op = roundMoney (fsub (fsub (fsub (fsub (fsub (dps_Revenue ps) (dps_Cost ps)) (dps_TaxAndSurcharge ps))
            (dps_SellingExpense ps)) (dps_AdminExpense ps)) (dps_FinanceExpense ps));
          total = roundMoney (fsub (fadd op (dps_NonOpIncome ps)) (dps_NonOpExpense ps))
      in ps\<lparr>dps_OperatingProfit := op, dps_TotalProfit := total, dps_NetProfit := roundMoney (fsub total (dps_IncomeTax ps))\<rparr>)"

definition fallbackProfitStatement :: "ReportLine list \<Rightarrow> DomainProfitStatement" where
  "fallbackProfitStatement ls = fallback_totals (foldl fallback_line no_profit ls)"

definition default_standard :: "string \<Rightarrow> string" where
  "default_standard standard = (if standard = '''' then ''small_business_gaap_cn'' else standard)"

definition ProfitStatement_report ::
    "env \<Rightarrow> (string \<Rightarrow> AccountSelector option) \<Rightarrow> (ReportMapping list \<Rightarrow> ReportMapping list) \<Rightarrow> Service \<Rightarrow>
     string \<Rightarrow> string \<Rightarrow> string \<Rightarrow> string \<Rightarrow> db \<Rightarrow> err + DomainProfitStatement" where
  "ProfitStatement_report e unmarshal srt s entityID bookID period standard d =
     (case journal_ListPostedLines e d entityID bookID period of
        Inl x \<Rightarrow> Inl x
      | Inr ls \<Rightarrow>
          (let lines = map report_line ls in
           if \<not> has_reportMappings s then Inr (fallbackProfitStatement lines)
           else case mapping_ListByReportType e unmarshal d ''profit_statement'' (default_standard standard) of
             Inl x \<Rightarrow> Inl x
           | Inr ms \<Rightarrow>
               (case NewReportBuilder srt ms of
                  None \<Rightarrow> Inr (fallbackProfitStatement lines)
                | Some b \<Rightarrow> map_sum id convertProfitStatement (lift_msg (BuildProfitStatement (Some b) lines)))))"

definition BalanceSheet_report ::
    "env \<Rightarrow> (string \<Rightarrow> AccountSelector option) \<Rightarrow> (ReportMapping list \<Rightarrow> ReportMapping list) \<Rightarrow> Service \<Rightarrow>
     string \<Rightarrow> string \<Rightarrow> string \<Rightarrow> string \<Rightarrow> db \<Rightarrow> err + DomainBalanceSheet" where
  "BalanceSheet_report e unmarshal srt s entityID bookID period standard d =
     (case journal_ListPostedLines e d entityID bookID period of
        Inl x \<Rightarrow> Inl x
      | Inr ls \<Rightarrow>
          (let lines = map report_line ls in
           if \<not> has_reportMappings s then Inr no_balance
           else case mapping_ListByReportType e unmarshal d ''balance_sheet'' (default_standard standard) of
             Inl x \<Rightarrow> Inl x
           | Inr ms \<Rightarrow>
               (case NewReportBuilder srt ms of
                  None \<Rightarrow> Inr no_balance
                | Some b \<Rightarrow> map_sum id convertBalanceSheet (lift_msg (BuildBalanceSheet (Some b) lines)))))"

end
