(* ===== verification/Service_Tax.thy ===== *)
theory Service_Tax
  imports Service_Reports Service_Statements Engine_CIT Engine_PIT
begin

text \<open>
  The tax operations of the service (internal/service/service.go): the VAT cross-check and return, the comparison of VAT sales
  with revenue, the calculators, the annual report of the corporate income tax, the adjustments and the exports.

  The cross-check groups invoices in a map whose keys are a float64 and a string; \<open>ordg\<close> is the order in which Go then
  iterates over the groups.  Where one operation queries twice, each query has an environment of its own.
\<close>

section \<open>The VAT cross-check\<close>

type_synonym rate_group = "(f64 \<times> string) \<times> VATRateRow"

definition vat_rate :: "Invoice \<Rightarrow> f64" where
  "vat_rate i = (if flt (lit 0) (iv_AmountWithoutTax i) then roundMoney (fdiv (iv_TaxAmount i) (iv_AmountWithoutTax i)) else lit 0)"

definition rate_blank :: "f64 \<Rightarrow> VATRateRow" where
  "rate_blank rate = \<lparr> vr_TaxRate = rate, vr_InvoiceCount = 0, vr_AmountWithoutTax = Fin 0, vr_TaxAmount = Fin 0,
     vr_AmountWithTax = Fin 0 \<rparr>"

definition rate_add :: "Invoice \<Rightarrow> VATRateRow \<Rightarrow> VATRateRow" where
  "rate_add i r = r\<lparr>vr_InvoiceCount := vr_InvoiceCount r + 1,
     vr_AmountWithoutTax := roundMoney (fadd (vr_AmountWithoutTax r) (iv_AmountWithoutTax i)),
     vr_TaxAmount := roundMoney (fadd (vr_TaxAmount r) (iv_TaxAmount i)),
     vr_AmountWithTax := roundMoney (fadd (vr_AmountWithTax r) (iv_AmountWithTax i))\<rparr>"

text \<open>Keys are compared as Go does: NaN differs from itself, so it always makes a new group.\<close>

fun rate_upd :: "Invoice \<Rightarrow> rate_group list \<Rightarrow> rate_group list" where
  "rate_upd i [] = [((vat_rate i, iv_Direction i), rate_add i (rate_blank (vat_rate i)))]"
| "rate_upd i (((rate, dir), row) # gs) =
     (if feq rate (vat_rate i) \<and> dir = iv_Direction i then ((rate, dir), rate_add i row) # gs
      else ((rate, dir), row) # rate_upd i gs)"

definition rate_groups :: "Invoice list \<Rightarrow> rate_group list" where
  "rate_groups invs = foldl (\<lambda>gs i. rate_upd i gs) [] invs"

definition rates_of :: "(string \<Rightarrow> bool) \<Rightarrow> rate_group list \<Rightarrow> VATRateRow list" where
  "rates_of p gs = map snd (filter (\<lambda>g. p (snd (fst g))) gs)"

definition rates_total :: "VATRateRow list \<Rightarrow> f64" where
  "rates_total rows = roundMoney (foldl fadd (Fin 0) (map vr_TaxAmount rows))"

definition unmatched_rate :: "VATRateRow \<Rightarrow> string" where
  "unmatched_rate r = (zh [0x8FDB, 0x9879, 0x7A0E, 0x7387] @ '' '') @ fmt_f 0 (fmul (vr_TaxRate r) (lit 100)) @ (''% '' @ zh [0x65E0, 0x5BF9, 0x5E94, 0x9500, 0x9879, 0xFF0C, 0x8BF7, 0x6838, 0x5B9E])"

definition vat_cross_check :: "(rate_group list \<Rightarrow> rate_group list) \<Rightarrow> Invoice list \<Rightarrow> VATCrossCheck" where
  "vat_cross_check ordg invs =
     (let gs = ordg (rate_groups invs);
          outs = rates_of (\<lambda>dir. dir = ''output'') gs;
          ins = rates_of (\<lambda>dir. dir \<noteq> ''output'') gs
      in \<lparr> vc_OutputRates = outs, vc_InputRates = ins, vc_OutputTotal = rates_total outs, vc_InputTotal = rates_total ins,
           vc_NetPayable = roundMoney (fsub (rates_total outs) (rates_total ins)),
           vc_Warnings = map unmatched_rate
             (filter (\<lambda>r. \<not> list_ex (\<lambda>x. feq (vr_TaxRate x) (vr_TaxRate r)) outs) ins) \<rparr>)"

definition VATCrossCheck_report ::
    "env \<Rightarrow> (rate_group list \<Rightarrow> rate_group list) \<Rightarrow> string \<Rightarrow> string \<Rightarrow> string \<Rightarrow> db \<Rightarrow> err + VATCrossCheck" where
  "VATCrossCheck_report e ordg entityID bookID period d =
     (case invoice_ListPostedByPeriod e d entityID bookID period of
        Inl x \<Rightarrow> Inl x
      | Inr invs \<Rightarrow> Inr (vat_cross_check ordg invs))"

section \<open>The VAT return\<close>

definition return_row :: "string \<Rightarrow> nat \<Rightarrow> VATRateRow \<Rightarrow> VATReturnRow" where
  "return_row what n r = \<lparr> vrr_RowNo = int n + 1,
     vrr_Description = (zh [0x7A0E, 0x7387] @ '' '') @ fmt_f 0 (fmul (vr_TaxRate r) (lit 100)) @ ''% '' @ what,
     vrr_TaxRate = vr_TaxRate r, vrr_AmountWithoutTax = vr_AmountWithoutTax r, vrr_TaxAmount = vr_TaxAmount r \<rparr>"

definition vat_main :: "VATCrossCheck \<Rightarrow> VATMainTable" where
  "vat_main cc =
     (let net = vc_NetPayable cc;
          urban = roundMoney (fmul net (lit (7 / 100)));
          education = roundMoney (fmul net (lit (3 / 100)));
          local_ed = roundMoney (fmul net (lit (2 / 100)))
      in \<lparr> vm_OutputTax = vc_OutputTotal cc, vm_InputTax = vc_InputTotal cc, vm_TaxPayable = net, vm_UrbanConstruction = urban,
           vm_EducationSurcharge = education, vm_LocalEducation = local_ed,
           vm_TotalTaxBurden = roundMoney (fadd (fadd (fadd net urban) education) local_ed) \<rparr>)"

definition vat_return :: "VATCrossCheck \<Rightarrow> VATReturn" where
  "vat_return cc =
     \<lparr> vret_Schedule1 = map (\<lambda>(n, r). return_row (zh [0x9500, 0x9879]) n r) (zip [0..<length (vc_OutputRates cc)] (vc_OutputRates cc)),
       vret_Schedule2 = map (\<lambda>(n, r). return_row (zh [0x8FDB, 0x9879]) n r) (zip [0..<length (vc_InputRates cc)] (vc_InputRates cc)),
       vret_Main = vat_main cc \<rparr>"

definition VATReturn_report ::
    "env \<Rightarrow> (rate_group list \<Rightarrow> rate_group list) \<Rightarrow> string \<Rightarrow> string \<Rightarrow> string \<Rightarrow> db \<Rightarrow> err + VATReturn" where
  "VATReturn_report e ordg entityID bookID period d =
     (case VATCrossCheck_report e ordg entityID bookID period d of Inl x \<Rightarrow> Inl x | Inr cc \<Rightarrow> Inr (vat_return cc))"

section \<open>VAT sales against revenue\<close>

definition revenue_sum :: "AccountBalanceRow list \<Rightarrow> f64" where
  "revenue_sum rows = foldl (\<lambda>r row. if HasPrefix (abr_AccountCode row) ''6'' then fadd r (abr_CreditAmount row) else r) (lit 0) rows"

definition cross_tax :: "f64 \<Rightarrow> f64 \<Rightarrow> CrossTaxValidation" where
  "cross_tax vatSales citRevenue =
     (let diff = roundMoney (fsub vatSales citRevenue);
          devRate = (if flt (lit 0) citRevenue then roundMoney (fdiv diff citRevenue) else lit 0);
          absDev = (if flt devRate (lit 0) then fneg devRate else devRate);
          off = flt (lit (5 / 100)) absDev
      in \<lparr> cx_VATSales = vatSales, cx_CITRevenue = citRevenue, cx_Difference = diff, cx_DeviationRate = devRate,
           cx_Consistent = (\<not> off),
           cx_Warnings = (if off then [(zh [0x589E, 0x503C, 0x7A0E, 0x6536, 0x5165] @ '' '') @ fmt2 vatSales @ ('' '' @ zh [0x4E0E, 0x6240, 0x5F97, 0x7A0E, 0x6536, 0x5165] @ '' '') @ fmt2 citRevenue @ ('' '' @ zh [0x5DEE, 0x5F02] @ '' '') @
             fmt_f 1 (fmul devRate (lit 100)) @ ''%''] else []) \<rparr>)"

definition CrossTaxValidation_report ::
    "env \<Rightarrow> (account_key list \<Rightarrow> account_key list) \<Rightarrow> string \<Rightarrow> string \<Rightarrow> string \<Rightarrow> db \<Rightarrow> err + CrossTaxValidation" where
  "CrossTaxValidation_report e ord entityID bookID period d =
     (case VATSummary_report e entityID bookID period d of
        Inl x \<Rightarrow> Inl x
      | Inr vat \<Rightarrow>
          (case AccountBalance_report e ord entityID bookID period d of
             Inl x \<Rightarrow> Inl x
           | Inr ab \<Rightarrow> Inr (cross_tax (vs_OutputAmountWithoutTax vat) (revenue_sum (abal_Rows ab)))))"

section \<open>Calculators\<close>

definition CalculateVAT :: "VATInput \<Rightarrow> string \<Rightarrow> err + VATOutput" where
  "CalculateVAT input location = lift_msg (CalculateWithLocation input
     (if location = ''city'' then LocationCity else if location = ''town'' then LocationTown else LocationOther))"

definition CalculateStampTax :: "StampTaxInput \<Rightarrow> err + StampTaxOutput" where
  "CalculateStampTax input = lift_msg (CalcStampTax input)"

definition CalculatePIT :: "PITInput \<Rightarrow> err + PITOutput" where
  "CalculatePIT input = lift_msg (CalcPIT input)"

section \<open>The annual report of the corporate income tax\<close>

definition cit_add :: "f64 \<times> f64 \<times> f64 \<Rightarrow> AccountBalanceRow \<Rightarrow> f64 \<times> f64 \<times> f64" where
  "cit_add = (\<lambda>(revenue, cost, expense) row.
     if HasPrefix (abr_AccountCode row) ''6'' then (fadd revenue (abr_CreditAmount row), cost, expense)
     else if abr_AccountCode row = ''5401'' \<or> abr_AccountCode row = ''5402'' then (revenue, fadd cost (abr_DebitAmount row), expense)
     else if HasPrefix (abr_AccountCode row) ''56'' then (revenue, cost, fadd expense (abr_DebitAmount row))
     else (revenue, cost, expense))"

text \<open>The environment \<open>em m\<close> is that of the query for month \<open>m\<close>; a month whose query fails is skipped.\<close>

definition cit_month ::
    "(nat \<Rightarrow> env) \<Rightarrow> (account_key list \<Rightarrow> account_key list) \<Rightarrow> string \<Rightarrow> string \<Rightarrow> string \<Rightarrow> db \<Rightarrow>
     f64 \<times> f64 \<times> f64 \<Rightarrow> nat \<Rightarrow> f64 \<times> f64 \<times> f64" where
  "cit_month em ord entityID bookID taxYear d acc m =
     (case AccountBalance_report (em m) ord entityID bookID (taxYear @ ''-'' @ int_str_pad 2 (int m)) d of
        Inl _ \<Rightarrow> acc
      | Inr ab \<Rightarrow> foldl cit_add acc (abal_Rows ab))"

definition cit_year ::
    "(nat \<Rightarrow> env) \<Rightarrow> (account_key list \<Rightarrow> account_key list) \<Rightarrow> string \<Rightarrow> string \<Rightarrow> string \<Rightarrow> db \<Rightarrow> f64 \<times> f64 \<times> f64" where
  "cit_year em ord entityID bookID taxYear d = foldl (cit_month em ord entityID bookID taxYear d) (Fin 0, Fin 0, Fin 0) [1..<13]"

definition small_profit :: "env \<Rightarrow> Service \<Rightarrow> string \<Rightarrow> string \<Rightarrow> db \<Rightarrow> bool" where
  "small_profit e s entityID bookID d \<longleftrightarrow> has_taxProfiles s \<and>
     (case profile_Get e d entityID bookID of Inl _ \<Rightarrow> False | Inr p \<Rightarrow> tp_CITRateType p = CITRateSmallProfit)"

definition GenerateCITReport ::
    "env \<Rightarrow> (nat \<Rightarrow> env) \<Rightarrow> (account_key list \<Rightarrow> account_key list) \<Rightarrow> Service \<Rightarrow> string \<Rightarrow> string \<Rightarrow> string \<Rightarrow> string \<Rightarrow> db \<Rightarrow>
     err + CITReport" where
  "GenerateCITReport e em ord s entityID bookID taxYear generatedBy d =
     (let (revenue, cost, expense) = cit_year em ord entityID bookID taxYear d;
          profit = roundMoney (fsub (fsub revenue cost) expense);
          adj = (if has_adjustments s then adjustment_SumByYear e d entityID taxYear else Fin 0)
      in case CalcAnnualSettlement profit adj (lit (25 / 100)) (lit 0) (small_profit e s entityID bookID d) of
        Inl m \<Rightarrow> Inl (Msg m)
      | Inr out \<Rightarrow> Inr \<lparr> crep_ID = uuid e 0, crep_EntityID = entityID, crep_BookID = bookID, crep_TaxYear = taxYear,
          crep_ReportType = '''', crep_TotalRevenue = revenue, crep_TotalCost = cost, crep_TotalExpense = expense,
          crep_OperatingProfit = profit, crep_AdjustmentTotal = adj, crep_TaxableIncome = co_TaxableIncome out,
          crep_ApplicableRate = co_ApplicableRate out, crep_TaxPayable = co_TaxPayable out, crep_Deduction = co_Deduction out,
          crep_PrepaidTax = co_AccumulatedPaid out, crep_TaxDue = co_TaxDue out, crep_Status = ''draft'',
          crep_GeneratedBy = generatedBy, crep_CreatedAt = '''' \<rparr>)"

section \<open>Adjustments\<close>

text \<open>The records, with the identifiers the loop gave to those without one; what was stored before an error stays.\<close>

fun upsert_adjustments :: "env \<Rightarrow> nat \<Rightarrow> AdjustmentRecord list \<Rightarrow> db \<Rightarrow> err option \<times> db" where
  "upsert_adjustments e n [] d = (None, d)"
| "upsert_adjustments e n (r # rs) d =
     (let (n', r') = (if aj_ID r = '''' then (Suc n, r\<lparr>aj_ID := uuid e n\<rparr>) else (n, r)) in
      case adjustment_Upsert e r' d of Inl x \<Rightarrow> (Some x, d) | Inr d1 \<Rightarrow> upsert_adjustments e n' rs d1)"

definition UpsertAdjustments :: "env \<Rightarrow> Service \<Rightarrow> AdjustmentRecord list \<Rightarrow> db \<Rightarrow> err option \<times> db" where
  "UpsertAdjustments e s rs d = (if \<not> has_adjustments s then (Some ErrNotConfigured, d) else upsert_adjustments e 0 rs d)"

definition ListAdjustments :: "env \<Rightarrow> Service \<Rightarrow> AdjustmentListQuery \<Rightarrow> db \<Rightarrow> err + AdjustmentRecord list \<times> int" where
  "ListAdjustments e s q d = (if \<not> has_adjustments s then Inl ErrNotConfigured else adjustment_List e d q)"

section \<open>Exports\<close>

text \<open>The texts of the CSV files; \<open>json\<close> stands for \<open>json.Marshal\<close> of the exported value, which may refuse it (the
  text of its error is not modelled).\<close>

definition tb_csv_row :: "TrialBalanceRow \<Rightarrow> string" where
  "tb_csv_row r = tbr_AccountCode r @ '','' @ tbr_AccountName r @ '','' @ fmt2 (tbr_DebitAmount r) @ '','' @
     fmt2 (tbr_CreditAmount r) @ '','' @ fmt2 (tbr_NetAmount r) @ [CHR 0x0A]"

definition ExportTrialBalanceCSV ::
    "env \<Rightarrow> (account_key list \<Rightarrow> account_key list) \<Rightarrow> string \<Rightarrow> string \<Rightarrow> string \<Rightarrow> db \<Rightarrow> err + string" where
  "ExportTrialBalanceCSV e ord entityID bookID period d =
     (case TrialBalance_report e ord entityID bookID period d of
        Inl x \<Rightarrow> Inl x
      | Inr tb \<Rightarrow> Inr (''AccountCode,AccountName,DebitAmount,CreditAmount,NetAmount'' @ [CHR 0x0A] @
          concat (map tb_csv_row (tbal_Rows tb))))"

definition ExportVATSummaryCSV :: "env \<Rightarrow> string \<Rightarrow> string \<Rightarrow> string \<Rightarrow> db \<Rightarrow> err + string" where
  "ExportVATSummaryCSV e entityID bookID period d =
     (case VATSummary_report e entityID bookID period d of
        Inl x \<Rightarrow> Inl x
      | Inr v \<Rightarrow> Inr
          (''Period,InputCount,InputAmountWithoutTax,InputTaxAmount,InputAmountWithTax,OutputCount,OutputAmountWithoutTax,OutputTaxAmount,OutputAmountWithTax'' @
           [CHR 0x0A] @ vs_Period v @ '','' @ int_str (vs_InvoiceCount v) @ '','' @ fmt2 (vs_InputAmountWithoutTax v) @ '','' @
           fmt2 (vs_InputTaxAmount v) @ '','' @ fmt2 (vs_InputAmountWithTax v) @ '','' @ int_str (vs_OutputInvoiceCount v) @ '','' @
           fmt2 (vs_OutputAmountWithoutTax v) @ '','' @ fmt2 (vs_OutputTaxAmount v) @ '','' @ fmt2 (vs_OutputAmountWithTax v) @
           [CHR 0x0A]))"

definition marshalled :: "('a \<Rightarrow> string option) \<Rightarrow> err + 'a \<Rightarrow> err + string" where
  "marshalled json r = (case r of Inl x \<Rightarrow> Inl x
      | Inr v \<Rightarrow> (case json v of None \<Rightarrow> Inl (Msg ''json: unsupported value'') | Some t \<Rightarrow> Inr t))"

definition ExportVATReturnJSON ::
    "env \<Rightarrow> (rate_group list \<Rightarrow> rate_group list) \<Rightarrow> (VATReturn \<Rightarrow> string option) \<Rightarrow> string \<Rightarrow> string \<Rightarrow> string \<Rightarrow> db \<Rightarrow> err + string" where
  "ExportVATReturnJSON e ordg json entityID bookID period d = marshalled json (VATReturn_report e ordg entityID bookID period d)"

definition ExportCITReturnJSON ::
    "env \<Rightarrow> (nat \<Rightarrow> env) \<Rightarrow> (account_key list \<Rightarrow> account_key list) \<Rightarrow> (CITReport \<Rightarrow> string option) \<Rightarrow> Service \<Rightarrow>
     string \<Rightarrow> string \<Rightarrow> string \<Rightarrow> string \<Rightarrow> db \<Rightarrow> err + string" where
  "ExportCITReturnJSON e em ord json s entityID bookID taxYear actorID d =
     marshalled json (GenerateCITReport e em ord s entityID bookID taxYear actorID d)"

definition ExportAdjustmentsJSON ::
    "env \<Rightarrow> (AdjustmentRecord list \<Rightarrow> string option) \<Rightarrow> Service \<Rightarrow> string \<Rightarrow> string \<Rightarrow> db \<Rightarrow> err + string" where
  "ExportAdjustmentsJSON e json s entityID taxYear d =
     (let q = \<lparr> ajq_EntityID = entityID, ajq_TaxYear = taxYear, ajq_Category = '''', ajq_Limit = 1000, ajq_Offset = 0 \<rparr>
      in case ListAdjustments e s q d of
        Inl x \<Rightarrow> Inl x
      | Inr (items, cnt) \<Rightarrow> marshalled json (Inr items))"

end
