(* ===== verification/Store_Reconciliation.thy ===== *)
theory Store_Reconciliation
  imports Store_Invoices Store_Journals
begin

text \<open>
  The reconciliation store (internal/store/postgres/reconciliation.go): logistics records, bank transactions and the
  three-way match of invoices, deliveries and payments.
\<close>

section \<open>Logistics records\<close>

text \<open>The two dates are assigned as text expressions (\<open>NULLIF($7,'')\<close>) to DATE columns; NULL reads back as the empty string.\<close>

definition logistics_dates :: "env \<Rightarrow> LogisticsRecord \<Rightarrow> (string \<times> string) option" where
  "logistics_dates e lr =
     (case (assign_date e (lg_ShipDate lr), assign_date e (lg_DeliveryDate lr)) of
        (Some s, Some t) \<Rightarrow> Some (case_option '''' id s, case_option '''' id t)
      | _ \<Rightarrow> None)"

definition logistics_edit :: "env \<Rightarrow> LogisticsRecord \<Rightarrow> string \<times> string \<Rightarrow> LogisticsRecord \<Rightarrow> LogisticsRecord" where
  "logistics_edit e lr dates old = old\<lparr>lg_WaybillNo := lg_WaybillNo lr, lg_Carrier := lg_Carrier lr, lg_Status := lg_Status lr,
     lg_ShipDate := fst dates, lg_DeliveryDate := snd dates, lg_Items := lg_Items lr, lg_Notes := lg_Notes lr,
     lg_UpdatedAt := db_now e\<rparr>"

definition logistics_Upsert :: "env \<Rightarrow> LogisticsRecord \<Rightarrow> db \<Rightarrow> err + db" where
  "logistics_Upsert e lr d =
     (case (if fault e Logistics_Upsert then None else logistics_dates e lr) of
        None \<Rightarrow> Inl (DbError Logistics_Upsert)
      | Some dates \<Rightarrow>
         (if list_ex (\<lambda>x. lg_ID x = lg_ID lr) (logistics_records d)
          then Inr (d\<lparr>logistics_records := update_where (\<lambda>x. lg_ID x = lg_ID lr) (logistics_edit e lr dates) (logistics_records d)\<rparr>)
          else if \<not> list_ex (\<lambda>i. iv_ID i = lg_InvoiceID lr) (invoices d) then Inl (DbError Logistics_Upsert)
          else Inr (d\<lparr>logistics_records := logistics_records d @ [lr\<lparr>lg_ShipDate := fst dates, lg_DeliveryDate := snd dates,
            lg_CreatedAt := db_now e, lg_UpdatedAt := db_now e\<rparr>]\<rparr>)))"

definition scan_optional :: "env \<Rightarrow> string \<Rightarrow> string option" where
  "scan_optional e s = (if s = '''' then Some '''' else scan_date e s)"

definition logistics_GetByInvoice :: "env \<Rightarrow> db \<Rightarrow> string \<Rightarrow> string \<Rightarrow> err + LogisticsRecord option" where
  "logistics_GetByInvoice e d entityID invoiceID =
     (if fault e Logistics_Get then Inl (DbError Logistics_Get)
      else case pick_row e (filter (\<lambda>x. lg_InvoiceID x = invoiceID \<and> lg_EntityID x = entityID) (logistics_records d)) of
        None \<Rightarrow> Inr None
      | Some lr \<Rightarrow>
          (case (scan_optional e (lg_ShipDate lr), scan_optional e (lg_DeliveryDate lr)) of
             (Some s, Some t) \<Rightarrow> Inr (Some (lr\<lparr>lg_ShipDate := s, lg_DeliveryDate := t, lg_CreatedAt := '''', lg_UpdatedAt := ''''\<rparr>))
           | _ \<Rightarrow> Inl (DbError Logistics_Get)))"

definition logistics_Delete :: "env \<Rightarrow> string \<Rightarrow> string \<Rightarrow> db \<Rightarrow> err + db" where
  "logistics_Delete e entityID invoiceID d =
     (if fault e Logistics_Delete then Inl (DbError Logistics_Delete)
      else Inr (d\<lparr>logistics_records :=
        filter (\<lambda>x. \<not> (lg_InvoiceID x = invoiceID \<and> lg_EntityID x = entityID)) (logistics_records d)\<rparr>))"

section \<open>Bank transactions\<close>

text \<open>The values of a row, and the nullable column \<open>matched_invoice_id\<close> (\<open>NULLIF($11,'')\<close>) beside it.\<close>

definition bank_row :: "env \<Rightarrow> BankTransaction \<Rightarrow> (BankTransaction \<times> string option) option" where
  "bank_row e bt =
     (case (to_date e (bt_TransactionDate bt), numeric e 12 2 (bt_Amount bt), numeric e 3 2 (bt_MatchConfidence bt)) of
        (Some date, Some a, Some c) \<Rightarrow>
          Some (bt\<lparr>bt_TransactionDate := date, bt_Amount := a, bt_MatchConfidence := c, bt_MatchedInvoiceID := ''''\<rparr>,
                if bt_MatchedInvoiceID bt = '''' then None else Some (bt_MatchedInvoiceID bt))
      | _ \<Rightarrow> None)"

text \<open>\<open>ON CONFLICT (id)\<close>: all columns but the identifier, the entity, the book and the creation time are replaced.\<close>

definition bank_edit :: "env \<Rightarrow> BankTransaction \<times> string option \<Rightarrow> BankTransaction \<times> string option \<Rightarrow> BankTransaction \<times> string option" where
  "bank_edit e new old = ((fst new)\<lparr>bt_ID := bt_ID (fst old), bt_EntityID := bt_EntityID (fst old), bt_BookID := bt_BookID (fst old),
     bt_CreatedAt := bt_CreatedAt (fst old), bt_UpdatedAt := db_now e\<rparr>, snd new)"

definition bank_Upsert :: "env \<Rightarrow> BankTransaction \<Rightarrow> db \<Rightarrow> err + db" where
  "bank_Upsert e bt d =
     (case (if fault e Bank_Upsert then None else bank_row e bt) of
        None \<Rightarrow> Inl (DbError Bank_Upsert)
      | Some (row, iid) \<Rightarrow>
          Inr (d\<lparr>bank_transactions :=
            (if list_ex (\<lambda>x. bt_ID (fst x) = bt_ID bt) (bank_transactions d)
             then update_where (\<lambda>x. bt_ID (fst x) = bt_ID bt) (bank_edit e (row, iid)) (bank_transactions d)
             else bank_transactions d @ [(row\<lparr>bt_CreatedAt := db_now e, bt_UpdatedAt := db_now e\<rparr>, iid)])\<rparr>))"

text \<open>The row as the queries return it: the date goes through the driver, NULL becomes the empty string.\<close>

definition bank_scan :: "env \<Rightarrow> BankTransaction \<times> string option \<Rightarrow> BankTransaction option" where
  "bank_scan e r =
     map_option (\<lambda>date. (fst r)\<lparr>bt_TransactionDate := date, bt_MatchedInvoiceID := case_option '''' id (snd r),
       bt_CreatedAt := '''', bt_UpdatedAt := ''''\<rparr>) (scan_date e (bt_TransactionDate (fst r)))"

definition bank_Get :: "env \<Rightarrow> db \<Rightarrow> string \<Rightarrow> string \<Rightarrow> err + BankTransaction option" where
  "bank_Get e d entityID bankTxID =
     (if fault e Bank_Get then Inl (DbError Bank_Get)
      else case find (\<lambda>x. bt_ID (fst x) = bankTxID \<and> bt_EntityID (fst x) = entityID) (bank_transactions d) of
        None \<Rightarrow> Inr None
      | Some r \<Rightarrow> (case bank_scan e r of None \<Rightarrow> Inl (DbError Bank_Get) | Some bt \<Rightarrow> Inr (Some bt)))"

text \<open>Matching and unmatching: without such a row nothing changes and there is no error.\<close>

definition bank_set_match :: "env \<Rightarrow> string \<Rightarrow> string \<Rightarrow> string option \<Rightarrow> f64 \<Rightarrow> db \<Rightarrow> db" where
  "bank_set_match e entityID bankTxID iid c d = d\<lparr>bank_transactions :=
     update_where (\<lambda>x. bt_ID (fst x) = bankTxID \<and> bt_EntityID (fst x) = entityID)
       (\<lambda>x. ((fst x)\<lparr>bt_MatchConfidence := c, bt_UpdatedAt := db_now e\<rparr>, iid)) (bank_transactions d)\<rparr>"

definition bank_Match :: "env \<Rightarrow> string \<Rightarrow> string \<Rightarrow> string \<Rightarrow> f64 \<Rightarrow> db \<Rightarrow> err + db" where
  "bank_Match e entityID bankTxID invoiceID confidence d =
     (if fault e Bank_Match then Inl (DbError Bank_Match)
      else if \<not> list_ex (\<lambda>x. bt_ID (fst x) = bankTxID \<and> bt_EntityID (fst x) = entityID) (bank_transactions d) then Inr d
      else case numeric e 3 2 confidence of
        None \<Rightarrow> Inl (DbError Bank_Match)
      | Some c \<Rightarrow> Inr (bank_set_match e entityID bankTxID (Some invoiceID) c d))"

definition bank_Unmatch :: "env \<Rightarrow> string \<Rightarrow> string \<Rightarrow> db \<Rightarrow> err + db" where
  "bank_Unmatch e entityID bankTxID d =
     (if fault e Bank_Unmatch then Inl (DbError Bank_Unmatch)
      else Inr (bank_set_match e entityID bankTxID None (Fin 0) d))"

text \<open>All rows or an error: the first row the driver cannot scan ends the query.  The book is not used.\<close>

fun scan_all :: "('a \<Rightarrow> 'b option) \<Rightarrow> 'a list \<Rightarrow> 'b list option" where
  "scan_all f [] = Some []"
| "scan_all f (x # xs) = (case f x of None \<Rightarrow> None | Some y \<Rightarrow> map_option (Cons y) (scan_all f xs))"

definition bank_ListUnmatched :: "env \<Rightarrow> db \<Rightarrow> string \<Rightarrow> string \<Rightarrow> err + BankTransaction list" where
  "bank_ListUnmatched e d entityID bookID =
     (if fault e Bank_Unmatched then Inl (DbError Bank_Unmatched)
      else case scan_all (bank_scan e) (filter (\<lambda>x. bt_EntityID (fst x) = entityID \<and> snd x = None) (bank_transactions d)) of
        None \<Rightarrow> Inl (DbError Bank_Unmatched)
      | Some bts \<Rightarrow> Inr bts)"

section \<open>The three-way match\<close>

text \<open>A left join: \<open>None\<close> stands for the missing row.\<close>

definition left_join :: "('b \<Rightarrow> bool) \<Rightarrow> 'b list \<Rightarrow> 'b option list" where
  "left_join p ys = (let zs = filter p ys in if zs = [] then [None] else map Some zs)"

definition match_row :: "Invoice \<Rightarrow> LogisticsRecord option \<Rightarrow> (BankTransaction \<times> string option) option \<Rightarrow> ThreeWayRow" where
  "match_row i lr bt = \<lparr> tw_InvoiceID = iv_ID i, tw_InvoiceNo = iv_InvoiceNo i, tw_CounterpartyName = iv_SellerName i,
     tw_AmountWithTax = iv_AmountWithTax i, tw_Direction = iv_Direction i,
     tw_LogisticsStatus = (case lr of None \<Rightarrow> ''not_applicable'' | Some l \<Rightarrow> lg_Status l),
     tw_LogisticsID = (case lr of None \<Rightarrow> '''' | Some l \<Rightarrow> lg_ID l),
     tw_WaybillNo = (case lr of None \<Rightarrow> '''' | Some l \<Rightarrow> lg_WaybillNo l),
     tw_BankStatus = (case bt of None \<Rightarrow> ''unmatched'' | Some _ \<Rightarrow> ''matched''),
     tw_BankTxID = (case bt of None \<Rightarrow> '''' | Some b \<Rightarrow> bt_ID (fst b)),
     tw_BankAmount = (case bt of None \<Rightarrow> Fin 0 | Some b \<Rightarrow> bt_Amount (fst b)) \<rparr>"

text \<open>One row for every invoice, voucher of the period, delivery and payment; the joins test no entity.\<close>

definition match_rows :: "env \<Rightarrow> db \<Rightarrow> string \<Rightarrow> string \<Rightarrow> string \<Rightarrow> ThreeWayRow list" where
  "match_rows e d entityID bookID period = order_by e tw_InvoiceNo
     [match_row i lr bt. i \<leftarrow> filter (\<lambda>i. iv_EntityID i = entityID \<and> iv_BookID i = bookID \<and> iv_Status i = ''approved'') (invoices d),
        j \<leftarrow> filter (\<lambda>j. je_SourceType j = ''invoice'' \<and> je_SourceID j = iv_ID i \<and> je_Period j = period) (journal_entries d),
        lr \<leftarrow> left_join (\<lambda>l. lg_InvoiceID l = iv_ID i) (logistics_records d),
        bt \<leftarrow> left_join (\<lambda>b. snd b = Some (iv_ID i)) (bank_transactions d)]"

definition count_row :: "ThreeWaySummary \<Rightarrow> ThreeWayRow \<Rightarrow> ThreeWaySummary" where
  "count_row s r = s\<lparr>tws_Rows := tws_Rows s @ [r], tws_TotalCount := tws_TotalCount s + 1,
     tws_FullMatch := tws_FullMatch s +
       (if tw_LogisticsStatus r \<noteq> MatchStatusNotApplicable \<and> tw_BankStatus r = MatchStatusMatched then 1 else 0),
     tws_MissingLogistics := tws_MissingLogistics s + (if tw_LogisticsStatus r = MatchStatusNotApplicable then 1 else 0),
     tws_MissingBank := tws_MissingBank s + (if tw_BankStatus r = MatchStatusUnmatched then 1 else 0)\<rparr>"

text \<open>The text of a PostgreSQL error in the message is not modelled.\<close>

definition recon_ThreeWayMatch :: "env \<Rightarrow> db \<Rightarrow> string \<Rightarrow> string \<Rightarrow> string \<Rightarrow> err + ThreeWaySummary" where
  "recon_ThreeWayMatch e d entityID bookID period =
     (if fault e ThreeWay_Match then Inl (Wrap ''three way match: '' (DbError ThreeWay_Match) '''')
      else Inr (foldl count_row \<lparr> tws_Period = period, tws_Rows = [], tws_TotalCount = 0, tws_FullMatch = 0,
        tws_MissingLogistics = 0, tws_MissingBank = 0 \<rparr> (match_rows e d entityID bookID period)))"

end
