(* ===== verification/Service_Risk.thy ===== *)
theory Service_Risk
  imports Service_Tax Service_Periods Store_Reconciliation Engine_Risk Engine_Consistency
begin

text \<open>
  The risk operations of the service (internal/service/service.go): the tax risk report, the risk scan, the consistency check
  and the extended close check.  \<open>es i\<close> is the environment of the \<open>i\<close>-th query of an operation, \<open>oor\<close> what Go makes of a float64
  outside the range of \<open>int\<close>, \<open>ordm\<close> the order in which Go iterates over the map of suppliers.
\<close>

section \<open>Tax risks\<close>

definition rate_mismatch :: "string \<Rightarrow> TaxRiskItem" where
  "rate_mismatch w = \<lparr> tri_Level = ''warning'', tri_Category = ''rate_mismatch'', tri_Title = (zh [0x7A0E, 0x7387, 0x4E0D, 0x5339, 0x914D]), tri_Detail = w,
     tri_Suggestion = (zh [0x8BF7, 0x6838, 0x5B9E, 0x8FDB, 0x9500, 0x9879, 0x7A0E, 0x7387, 0x662F, 0x5426, 0x6B63, 0x786E]), tri_Amount = Fin 0 \<rparr>"

definition excess_credit :: "VATCrossCheck \<Rightarrow> TaxRiskItem list" where
  "excess_credit cc =
     (if flt (vc_OutputTotal cc) (vc_InputTotal cc)
      then (let ratio = fdiv (vc_InputTotal cc) (vc_OutputTotal cc) in
        [\<lparr> tri_Level = (if fle (lit 3) ratio then ''danger'' else ''warning''), tri_Category = ''excess_credit'',
           tri_Title = (zh [0x8FDB, 0x9879, 0x7A0E, 0x989D, 0x8FC7, 0x5927]),
           tri_Detail = (zh [0x8FDB, 0x9879, 0x7A0E, 0x989D] @ '' '') @ fmt2 (vc_InputTotal cc) @ ('' '' @ zh [0x8D85, 0x8FC7, 0x9500, 0x9879, 0x7A0E, 0x989D] @ '' '') @ fmt2 (vc_OutputTotal cc) @ (zh [0xFF0C, 0x6BD4, 0x7387, 0x4E3A] @ '' '') @ fmt_f 1 ratio,
           tri_Suggestion = '''', tri_Amount = fsub (vc_InputTotal cc) (vc_OutputTotal cc) \<rparr>])
      else [])"

definition low_burden :: "Invoice \<Rightarrow> bool" where
  "low_burden i \<longleftrightarrow> flt (lit 0) (iv_AmountWithoutTax i) \<and> flt (fdiv (iv_TaxAmount i) (iv_AmountWithoutTax i)) (lit (5 / 100))"

definition tax_burden :: "Invoice \<Rightarrow> TaxRiskItem" where
  "tax_burden i = \<lparr> tri_Level = ''warning'', tri_Category = ''tax_burden'', tri_Title = (zh [0x7A0E, 0x8D1F, 0x7387, 0x504F, 0x4F4E]),
     tri_Detail = (zh [0x53D1, 0x7968] @ '' '') @ iv_InvoiceNo i @ ('' '' @ zh [0x5B9E, 0x9645, 0x7A0E, 0x8D1F, 0x7387] @ '' '') @
       fmt_f 1 (fmul (fdiv (iv_TaxAmount i) (iv_AmountWithoutTax i)) (lit 100)) @ (''% '' @ zh [0x4F4E, 0x4E8E] @ '' 5%''),
     tri_Suggestion = '''', tri_Amount = iv_AmountWithTax i \<rparr>"

definition tax_risks :: "VATCrossCheck \<Rightarrow> Invoice list \<Rightarrow> TaxRiskItem list" where
  "tax_risks cc invs = map rate_mismatch (vc_Warnings cc) @ excess_credit cc @ map tax_burden (filter low_burden invs)"

definition count_level :: "string \<Rightarrow> TaxRiskItem list \<Rightarrow> int" where
  "count_level level risks = int (length (filter (\<lambda>r. tri_Level r = level) risks))"

definition posted_or_none :: "env \<Rightarrow> string \<Rightarrow> string \<Rightarrow> string \<Rightarrow> db \<Rightarrow> Invoice list" where
  "posted_or_none e entityID bookID period d =
     (case invoice_ListPostedByPeriod e d entityID bookID period of Inl _ \<Rightarrow> [] | Inr invs \<Rightarrow> invs)"

text \<open>The second query for the same invoices ignores its error.\<close>

definition TaxRisk ::
    "(nat \<Rightarrow> env) \<Rightarrow> (rate_group list \<Rightarrow> rate_group list) \<Rightarrow> string \<Rightarrow> string \<Rightarrow> string \<Rightarrow> db \<Rightarrow> err + TaxRiskReport" where
  "TaxRisk es ordg entityID bookID period d =
     (case VATCrossCheck_report (es 0) ordg entityID bookID period d of
        Inl x \<Rightarrow> Inl x
      | Inr cc \<Rightarrow>
          (let risks = tax_risks cc (posted_or_none (es 1) entityID bookID period d) in
           Inr \<lparr> trr_Period = period, trr_Risks = risks, trr_TotalRisks = int (length risks),
             trr_DangerCount = count_level ''danger'' risks, trr_WarnCount = count_level ''warning'' risks \<rparr>))"

section \<open>The risk scan\<close>

definition tax_finding :: "TaxRiskItem \<Rightarrow> RiskFinding" where
  "tax_finding r = \<lparr> rf_RuleCode = ''tax_risk_'' @ tri_Category r, rf_Category = tri_Category r, rf_Severity = tri_Level r,
     rf_Title = tri_Title r, rf_Detail = tri_Detail r, rf_Suggestion = tri_Suggestion r, rf_Amount = tri_Amount r,
     rf_Score = Fin 0 \<rparr>"

definition round_finding :: "RoundTransactionRisk \<Rightarrow> RiskFinding" where
  "round_finding r = \<lparr> rf_RuleCode = ''large_round_transaction'', rf_Category = ''amount_anomaly'', rf_Severity = rt_Level r,
     rf_Title = (zh [0x5927, 0x989D, 0x6574, 0x6570, 0x4EA4, 0x6613]), rf_Detail = (zh [0x53D1, 0x7968] @ '' '') @ rt_InvoiceNo r @ ('' '' @ zh [0x91D1, 0x989D, 0x4E3A] @ '' '') @ fmt2 (rt_Amount r) @ ('' '' @ zh [0x6574, 0x6570]),
     rf_Suggestion = '''', rf_Amount = rt_Amount r, rf_Score = Fin 0 \<rparr>"

definition supplier_finding :: "SupplierConcentrationRisk \<Rightarrow> RiskFinding" where
  "supplier_finding r = \<lparr> rf_RuleCode = ''supplier_concentration'', rf_Category = ''concentration'', rf_Severity = sc_Level r,
     rf_Title = (zh [0x4F9B, 0x5E94, 0x5546, 0x96C6, 0x4E2D, 0x5EA6]),
     rf_Detail = (zh [0x4F9B, 0x5E94, 0x5546] @ '' '') @ sc_TopSupplier r @ ('' '' @ zh [0x96C6, 0x4E2D, 0x5EA6] @ '' '') @ fmt_f 1 (fmul (sc_Concentration r) (lit 100)) @ ''%'',
     rf_Suggestion = '''', rf_Amount = sc_TopAmount r, rf_Score = Fin 0 \<rparr>"

definition seller_amounts :: "Invoice list \<Rightarrow> (string \<times> f64) list" where
  "seller_amounts invs = foldl (\<lambda>m i. if iv_Direction i = DirectionInput
     then al_upd (Fin 0) (\<lambda>x. fadd x (iv_AmountWithTax i)) (iv_SellerName i) m else m) [] invs"

definition invoice_findings ::
    "(f64 \<Rightarrow> int) \<Rightarrow> ((string \<times> f64) list \<Rightarrow> (string \<times> f64) list) \<Rightarrow> Invoice list \<Rightarrow> RiskFinding list" where
  "invoice_findings oor ordm invs =
     map round_finding (DetectLargeRoundTransactions oor
       (map (\<lambda>i. \<lparr> rti_InvoiceNo = iv_InvoiceNo i, rti_AmountWithTax = iv_AmountWithTax i \<rparr>) invs)) @
     (case DetectSupplierConcentration (ordm (seller_amounts invs)) of None \<Rightarrow> [] | Some r \<Rightarrow> [supplier_finding r])"

text \<open>Errors of the queries are ignored, so a scan never fails.\<close>

definition RiskScan_findings ::
    "(nat \<Rightarrow> env) \<Rightarrow> (rate_group list \<Rightarrow> rate_group list) \<Rightarrow> (f64 \<Rightarrow> int) \<Rightarrow> ((string \<times> f64) list \<Rightarrow> (string \<times> f64) list) \<Rightarrow>
     string \<Rightarrow> string \<Rightarrow> string \<Rightarrow> db \<Rightarrow> RiskFinding list" where
  "RiskScan_findings es ordg oor ordm entityID bookID period d =
     (case TaxRisk es ordg entityID bookID period d of Inl _ \<Rightarrow> [] | Inr r \<Rightarrow> map tax_finding (trr_Risks r)) @
     (case invoice_ListPostedByPeriod (es 2) d entityID bookID period of Inl _ \<Rightarrow> [] | Inr invs \<Rightarrow> invoice_findings oor ordm invs)"

text \<open>\<open>json\<close> is \<open>json.Marshal\<close> of the findings; its error leaves no text, which the column refuses.\<close>

definition RunRiskScanPersistent ::
    "(nat \<Rightarrow> env) \<Rightarrow> (rate_group list \<Rightarrow> rate_group list) \<Rightarrow> (f64 \<Rightarrow> int) \<Rightarrow> ((string \<times> f64) list \<Rightarrow> (string \<times> f64) list) \<Rightarrow>
     (RiskFinding list \<Rightarrow> string option) \<Rightarrow> Service \<Rightarrow> string \<Rightarrow> string \<Rightarrow> string \<Rightarrow> db \<Rightarrow> (err + RiskScan) \<times> db" where
  "RunRiskScanPersistent es ordg oor ordm json s entityID bookID period d =
     (let findings = RiskScan_findings es ordg oor ordm entityID bookID period d;
          (score, level) = ScoreRiskFindings findings;
          text = (case json findings of None \<Rightarrow> '''' | Some t \<Rightarrow> t);
          scan = \<lparr> rs_ID = uuid (es 3) 0, rs_EntityID = entityID, rs_BookID = bookID, rs_Period = period, rs_ScanType = ''full'',
            rs_RulesTriggered = ''[]'', rs_Findings = text, rs_TotalScore = score, rs_RiskLevel = level,
            rs_EngineVersion = ''v2.0'', rs_CreatedAt = '''' \<rparr>
      in if \<not> has_riskScans s then (Inr scan, d)
         else if json findings = None then (Inl (DbError RiskScan_Insert), d)
         else case scan_Create (es 3) scan d of Inl x \<Rightarrow> (Inl x, d) | Inr d1 \<Rightarrow> (Inr scan, d1))"

section \<open>The consistency check\<close>

definition check_of :: "string \<Rightarrow> string \<Rightarrow> string \<Rightarrow> string \<Rightarrow> ConsistencyResult \<Rightarrow> ConsistencyCheck" where
  "check_of i entityID bookID period r = \<lparr> ck_ID = i, ck_EntityID = entityID, ck_BookID = bookID, ck_Period = period,
     ck_CheckType = cr_CheckType r, ck_CheckName = cr_CheckName r, ck_SourceValue = cr_SourceValue r,
     ck_TargetValue = cr_TargetValue r, ck_Difference = cr_Difference r, ck_Tolerance = cr_Tolerance r,
     ck_Passed = cr_Passed r, ck_Detail = cr_Detail r, ck_CreatedAt = '''' \<rparr>"

text \<open>The first check compares the totals of the cross-check with themselves.\<close>

definition vat_results :: "err + VATCrossCheck \<Rightarrow> ConsistencyResult list" where
  "vat_results r = (case r of Inl _ \<Rightarrow> []
      | Inr cc \<Rightarrow> [CheckInvoiceToVAT (vc_OutputTotal cc) (vc_InputTotal cc) (vc_OutputTotal cc) (vc_InputTotal cc)])"

definition approved_or_none :: "env \<Rightarrow> string \<Rightarrow> string \<Rightarrow> string \<Rightarrow> db \<Rightarrow> Invoice list" where
  "approved_or_none e entityID bookID period d =
     (case invoice_List e d entityID bookID period StatusApproved 1000 0 of Inl _ \<Rightarrow> [] | Inr invs \<Rightarrow> invs)"

definition posted_entries :: "env \<Rightarrow> string \<Rightarrow> string \<Rightarrow> string \<Rightarrow> db \<Rightarrow> JournalEntry list" where
  "posted_entries e entityID bookID period d =
     (case journal_List e d \<lparr> jlq_EntityID = entityID, jlq_BookID = bookID, jlq_Status = JournalStatusPosted,
          jlq_Period = period, jlq_Limit = 1000, jlq_Offset = 0 \<rparr> of Inl _ \<Rightarrow> [] | Inr js \<Rightarrow> js)"

definition debit_sum :: "JournalEntry list \<Rightarrow> f64" where
  "debit_sum js = foldl (\<lambda>a j. foldl (\<lambda>a l. fadd a (jl_DebitAmount l)) a (je_Lines j)) (Fin 0) js"

definition bank_total :: "env \<Rightarrow> string \<Rightarrow> string \<Rightarrow> db \<Rightarrow> f64" where
  "bank_total e entityID bookID d =
     (case bank_ListUnmatched e d entityID bookID of Inl _ \<Rightarrow> Fin 0 | Inr bts \<Rightarrow> foldl fadd (Fin 0) (map bt_Amount bts))"

definition consistency_results ::
    "env \<Rightarrow> (rate_group list \<Rightarrow> rate_group list) \<Rightarrow> Service \<Rightarrow> string \<Rightarrow> string \<Rightarrow> string \<Rightarrow> db \<Rightarrow> ConsistencyResult list" where
  "consistency_results e ordg s entityID bookID period d =
     (let invs = approved_or_none e entityID bookID period d;
          js = posted_entries e entityID bookID period d;
          journalAmount = debit_sum js
      in vat_results (VATCrossCheck_report e ordg entityID bookID period d) @
         [CheckInvoiceToJournal (int (length invs)) (int (length js)) (foldl fadd (Fin 0) (map iv_AmountWithTax invs)) journalAmount] @
         (if has_reconciliation s then [CheckJournalToBank journalAmount (bank_total e entityID bookID d)] else []))"

text \<open>The checks are returned beside the error, if storing them failed.\<close>

definition RunConsistencyCheck ::
    "env \<Rightarrow> (rate_group list \<Rightarrow> rate_group list) \<Rightarrow> Service \<Rightarrow> string \<Rightarrow> string \<Rightarrow> string \<Rightarrow> db \<Rightarrow>
     (ConsistencyCheck list \<times> err option) \<times> db" where
  "RunConsistencyCheck e ordg s entityID bookID period d =
     (let rs = consistency_results e ordg s entityID bookID period d;
          checks = map (\<lambda>(n, r). check_of (uuid e n) entityID bookID period r) (zip [0..<length rs] rs)
      in if \<not> has_consistencyChecks s then ((checks, None), d)
         else case checks_CreateMany e checks d of (x, d1) \<Rightarrow> ((checks, x), d1))"

section \<open>The extended close check\<close>

definition failed_check :: "ConsistencyCheck \<Rightarrow> CloseCheck" where
  "failed_check c = \<lparr> cc_Category = ''consistency'', cc_Label = ck_CheckName c, cc_Passed = False, cc_Detail = ck_Detail c,
     cc_Severity = ''blocking'' \<rparr>"

text \<open>The summary of the close check is kept, and the error of storing the checks ignored.\<close>

definition EnhanceCloseCheck ::
    "env \<Rightarrow> env \<Rightarrow> (stmt \<Rightarrow> string) \<Rightarrow> (account_key list \<Rightarrow> account_key list) \<Rightarrow> (rate_group list \<Rightarrow> rate_group list) \<Rightarrow> Service \<Rightarrow>
     string \<Rightarrow> string \<Rightarrow> string \<Rightarrow> db \<Rightarrow> (err + CloseCheckResult) \<times> db" where
  "EnhanceCloseCheck e e' txt ord ordg s entityID bookID period d =
     (case CloseCheck_report e txt ord s entityID bookID period d of
        Inl x \<Rightarrow> (Inl x, d)
      | Inr res \<Rightarrow>
          (case RunConsistencyCheck e' ordg s entityID bookID period d of
             ((checks, x), d1) \<Rightarrow>
               (let failed = filter (\<lambda>c. \<not> ck_Passed c) checks in
                (Inr (res\<lparr>ccr_Passed := ccr_Passed res \<and> failed = [], ccr_Checks := ccr_Checks res @ map failed_check failed\<rparr>), d1))))"

end
