(* ===== verification/Service_Reconciliation.thy ===== *)
theory Service_Reconciliation
  imports Service_Base Store_Reconciliation
begin

text \<open>
  The reconciliation operations of the service (internal/service/service.go).  Each needs the optional store and passes its
  arguments on; the two upserts generate a missing identifier.
\<close>

definition UpsertLogistics :: "env \<Rightarrow> Service \<Rightarrow> LogisticsRecord \<Rightarrow> db \<Rightarrow> err + db" where
  "UpsertLogistics e s lr d =
     (if \<not> has_reconciliation s then Inl ErrNotConfigured
      else logistics_Upsert e (if lg_ID lr = '''' then lr\<lparr>lg_ID := uuid e 0\<rparr> else lr) d)"

definition DeleteLogistics :: "env \<Rightarrow> Service \<Rightarrow> string \<Rightarrow> string \<Rightarrow> db \<Rightarrow> err + db" where
  "DeleteLogistics e s entityID invoiceID d =
     (if \<not> has_reconciliation s then Inl ErrNotConfigured else logistics_Delete e entityID invoiceID d)"

definition UpsertBankTransaction :: "env \<Rightarrow> Service \<Rightarrow> BankTransaction \<Rightarrow> db \<Rightarrow> err + db" where
  "UpsertBankTransaction e s bt d =
     (if \<not> has_reconciliation s then Inl ErrNotConfigured
      else bank_Upsert e (if bt_ID bt = '''' then bt\<lparr>bt_ID := uuid e 0\<rparr> else bt) d)"

definition MatchBankToInvoice :: "env \<Rightarrow> Service \<Rightarrow> string \<Rightarrow> string \<Rightarrow> string \<Rightarrow> f64 \<Rightarrow> db \<Rightarrow> err + db" where
  "MatchBankToInvoice e s entityID bankTxID invoiceID confidence d =
     (if \<not> has_reconciliation s then Inl ErrNotConfigured else bank_Match e entityID bankTxID invoiceID confidence d)"

definition UnmatchBankFromInvoice :: "env \<Rightarrow> Service \<Rightarrow> string \<Rightarrow> string \<Rightarrow> db \<Rightarrow> err + db" where
  "UnmatchBankFromInvoice e s entityID bankTxID d =
     (if \<not> has_reconciliation s then Inl ErrNotConfigured else bank_Unmatch e entityID bankTxID d)"

definition GetLogisticsByInvoice :: "env \<Rightarrow> Service \<Rightarrow> string \<Rightarrow> string \<Rightarrow> db \<Rightarrow> err + LogisticsRecord option" where
  "GetLogisticsByInvoice e s entityID invoiceID d =
     (if \<not> has_reconciliation s then Inl ErrNotConfigured else logistics_GetByInvoice e d entityID invoiceID)"

definition GetBankTransaction :: "env \<Rightarrow> Service \<Rightarrow> string \<Rightarrow> string \<Rightarrow> db \<Rightarrow> err + BankTransaction option" where
  "GetBankTransaction e s entityID bankTxID d =
     (if \<not> has_reconciliation s then Inl ErrNotConfigured else bank_Get e d entityID bankTxID)"

definition UnmatchedBankCount :: "env \<Rightarrow> Service \<Rightarrow> string \<Rightarrow> string \<Rightarrow> db \<Rightarrow> err + int" where
  "UnmatchedBankCount e s entityID bookID d =
     (if \<not> has_reconciliation s then Inl ErrNotConfigured
      else case bank_ListUnmatched e d entityID bookID of Inl x \<Rightarrow> Inl x | Inr bts \<Rightarrow> Inr (int (length bts)))"

definition ThreeWayMatch :: "env \<Rightarrow> Service \<Rightarrow> string \<Rightarrow> string \<Rightarrow> string \<Rightarrow> db \<Rightarrow> err + ThreeWaySummary" where
  "ThreeWayMatch e s entityID bookID period d =
     (if \<not> has_reconciliation s then Inl ErrNotConfigured else recon_ThreeWayMatch e d entityID bookID period)"

end
