(* ===== verification/Ledger.thy ===== *)
theory Ledger
  imports Examples Service_Risk Service_Reconciliation
begin

text \<open>
  The bookkeeping state machine: any sequence of the modelled operations of the service, with any faults of the
  database, as a step relation on the tables, and what holds along every run.
\<close>

section \<open>Steps\<close>

text \<open>
  One request in environment \<open>e\<close>, whatever it returns.  The rounding of NUMERIC columns is the same (\<open>num\<close>) at
  every step, all else of the environment may differ.
\<close>

inductive ledger_step :: "rounding \<Rightarrow> Service \<Rightarrow> env \<Rightarrow> db \<Rightarrow> db \<Rightarrow> bool" for num s e where
  draft: "numeric e = num \<Longrightarrow> CreateJournalDraft e s c en b p a j d = (r, d') \<Longrightarrow> ledger_step num s e d d'"
| post: "numeric e = num \<Longrightarrow> PostJournalEntry e s c en k a d = (r, d') \<Longrightarrow> ledger_step num s e d d'"
| void: "numeric e = num \<Longrightarrow> VoidJournalEntry e s c en k a d = (r, d') \<Longrightarrow> ledger_step num s e d d'"
| edit: "numeric e = num \<Longrightarrow> UpdateJournalDraft e s c en k j d = (r, d') \<Longrightarrow> ledger_step num s e d d'"
| batch: "numeric e = num \<Longrightarrow> BatchPostJournals e n s c en ks a d = (r, d') \<Longrightarrow> ledger_step num s e d d'"
| approve: "numeric e = num \<Longrightarrow> ApproveInvoice e s c en i a d = (r, d') \<Longrightarrow> ledger_step num s e d d'"
| invoice: "CreateInvoiceDraft e s c en b a v d = (r, d') \<Longrightarrow> ledger_step num s e d d'"
| reject: "RejectInvoice e s c en i a d = (r, d') \<Longrightarrow> ledger_step num s e d d'"
| edit_invoice: "UpdateInvoiceDraft e s c en i w d = (r, d') \<Longrightarrow> ledger_step num s e d d'"
| red_letter: "CreateRedLetterInvoice e s c en b i a t d = (r, d') \<Longrightarrow> ledger_step num s e d d'"
| import_invoice: "ImportEInvoice e s c en b x d = (r, d') \<Longrightarrow> ledger_step num s e d d'"
| verify: "VerifyInvoice e s c en i a d = (q, d') \<Longrightarrow> ledger_step num s e d d'"
| usage: "ConfirmInvoiceUsage e s c en i u a d = (q, d') \<Longrightarrow> ledger_step num s e d d'"
| open_period: "ensurePeriod e s en b p d = (r, d') \<Longrightarrow> ledger_step num s e d d'"
| close_period: "ClosePeriod e txt ord s c en b p a d = (r, d') \<Longrightarrow> ledger_step num s e d d'"
| reopen_period: "ReopenPeriod e s c en b p a d = (r, d') \<Longrightarrow> ledger_step num s e d d'"
| lock_period: "LockPeriod e s c en b p a d = (r, d') \<Longrightarrow> ledger_step num s e d d'"
| book: "CreateBook e s c bk d = (r, d') \<Longrightarrow> ledger_step num s e d d'"
| edit_book: "UpdateBook e s bk d = Inr d' \<Longrightarrow> ledger_step num s e d d'"
| default_book: "SetDefaultBook e s en b d = Inr d' \<Longrightarrow> ledger_step num s e d d'"
| account: "CreateAccount e s c ac d = (r, d') \<Longrightarrow> ledger_step num s e d d'"
| edit_account: "UpdateAccount e s c en b code ac d = (r, d') \<Longrightarrow> ledger_step num s e d d'"
| delete_account: "DeleteAccount e en b d = Inr d' \<Longrightarrow> ledger_step num s e d d'"
| remember: "SaveIdempotency e s en cp key h res st d = Inr d' \<Longrightarrow> ledger_step num s e d d'"
| logistics: "UpsertLogistics e s lr d = Inr d' \<Longrightarrow> ledger_step num s e d d'"
| no_logistics: "DeleteLogistics e s en i d = Inr d' \<Longrightarrow> ledger_step num s e d d'"
| bank: "UpsertBankTransaction e s bt d = Inr d' \<Longrightarrow> ledger_step num s e d d'"
| match_bank: "MatchBankToInvoice e s en k i x d = Inr d' \<Longrightarrow> ledger_step num s e d d'"
| unmatch_bank: "UnmatchBankFromInvoice e s en k d = Inr d' \<Longrightarrow> ledger_step num s e d d'"
| adjust: "UpsertAdjustments e s rs d = (q, d') \<Longrightarrow> ledger_step num s e d d'"
| scan: "RunRiskScanPersistent es ordg oor ordm json s en b p d = (r, d') \<Longrightarrow> ledger_step num s e d d'"
| check: "RunConsistencyCheck e ordg s en b p d = (r, d') \<Longrightarrow> ledger_step num s e d d'"
| close_check: "EnhanceCloseCheck e1 e txt ord ordg s en b p d = (r, d') \<Longrightarrow> ledger_step num s e d d'"

text \<open>Runs in environments that satisfy \<open>P\<close>.\<close>

inductive run :: "rounding \<Rightarrow> Service \<Rightarrow> (env \<Rightarrow> bool) \<Rightarrow> db \<Rightarrow> db \<Rightarrow> bool" for num s P where
  start: "run num s P d d"
| then_step: "run num s P d d1 \<Longrightarrow> P e \<Longrightarrow> ledger_step num s e d1 d2 \<Longrightarrow> run num s P d d2"

section \<open>Operations that do not touch the journal\<close>

abbreviation same_journal :: "db \<Rightarrow> db \<Rightarrow> bool" where
  "same_journal d d' \<equiv> journal_entries d' = journal_entries d \<and> journal_lines d' = journal_lines d"

abbreviation same_periods :: "db \<Rightarrow> db \<Rightarrow> bool" where
  "same_periods d d' \<equiv> accounting_periods d' = accounting_periods d"

lemma invoice_op_frames:
  "CreateInvoiceDraft e s c en b a v d = (r, d') \<Longrightarrow> same_journal d d' \<and> same_periods d d'"
  "RejectInvoice e s c en i a d = (r1, d') \<Longrightarrow> same_journal d d' \<and> same_periods d d'"
  "UpdateInvoiceDraft e s c en i w d = (r1, d') \<Longrightarrow> same_journal d d' \<and> same_periods d d'"
  "CreateRedLetterInvoice e s c en b i a t d = (r, d') \<Longrightarrow> same_journal d d' \<and> same_periods d d'"
  "VerifyInvoice e s c en i a d = (q, d') \<Longrightarrow> same_journal d d' \<and> same_periods d d'"
  "ConfirmInvoiceUsage e s c en i u a d = (q, d') \<Longrightarrow> same_journal d d' \<and> same_periods d d'"
  by (auto simp: CreateInvoiceDraft_def RejectInvoice_def invoice_Reject_def UpdateInvoiceDraft_def CreateRedLetterInvoice_def
      VerifyInvoice_def ConfirmInvoiceUsage_def invoice_UpdateRedLetterStatus_def invoice_UpdateVerificationStatus_def
      invoice_UpdateUsageStatus_def Let_def
    dest!: invoice_write_frames invoice_status_frame split: if_splits option.splits sum.splits prod.splits)

lemma import_frame:
  "ImportEInvoice e s c en b x d = (r, d') \<Longrightarrow> same_journal d d' \<and> same_periods d d'"
proof -
  assume a: "ImportEInvoice e s c en b x d = (r, d')"
  have "same_journal d1 (snd (invoice_lines_CreateMany e ls d1)) \<and> same_periods d1 (snd (invoice_lines_CreateMany e ls d1))" for ls d1
    using invoice_lines_frame [of e ls d1] by (metis prod.collapse)
  with a show ?thesis
    by (auto simp: ImportEInvoice_def Let_def dest!: invoice_write_frames(1) split: if_splits option.splits sum.splits)
qed

lemma period_op_frame:
  "period_UpdateStatus e en b p f t c d = (r, d') \<Longrightarrow> same_journal d d'"
  by (auto simp: period_UpdateStatus_def period_change_def split: if_splits option.splits)

lemma seed_frame:
  "same_journal d (seed_accounts e n en b as d) \<and> same_periods d (seed_accounts e n en b as d)"
  by (induction as arbitrary: n d) (auto simp: account_Create_def split: sum.split)

lemma setup_op_frames:
  "CreateBook e s c bk d = (r, d') \<Longrightarrow> same_journal d d' \<and> same_periods d d'"
  "UpdateBook e s bk d = Inr d' \<Longrightarrow> same_journal d d' \<and> same_periods d d'"
  "SetDefaultBook e s en b d = Inr d' \<Longrightarrow> same_journal d d' \<and> same_periods d d'"
  "CreateAccount e s c ac d = (r1, d') \<Longrightarrow> same_journal d d' \<and> same_periods d d'"
  "UpdateAccount e s c en b code ac d = (r1, d') \<Longrightarrow> same_journal d d' \<and> same_periods d d'"
  "DeleteAccount e en b d = Inr d' \<Longrightarrow> same_journal d d' \<and> same_periods d d'"
  "SaveIdempotency e s en cp key h res st d = Inr d' \<Longrightarrow> same_journal d d' \<and> same_periods d d'"
  by (auto simp: CreateBook_def book_Create_def seedStandardChartOfAccounts_def seed_frame UpdateBook_def book_Update_def
      SetDefaultBook_def book_SetDefault_def CreateAccount_def account_Create_def UpdateAccount_def account_Update_def
      DeleteAccount_def account_Delete_def SaveIdempotency_def idem_Save_def Let_def
    split: if_splits option.splits sum.splits prod.splits)

lemma checks_frame:
  "checks_CreateMany e cs d = (x, d') \<Longrightarrow> same_journal d d' \<and> same_periods d d' \<and> invoices d' = invoices d"
  by (induction cs arbitrary: d) (auto simp: check_insert_def Let_def split: sum.splits option.splits if_splits)

lemma adjustments_frame:
  "upsert_adjustments e n rs d = (x, d') \<Longrightarrow> same_journal d d' \<and> same_periods d d' \<and> invoices d' = invoices d"
proof (induction rs arbitrary: n d)
  case (Cons r rs)
  have u: "adjustment_Upsert e a d = Inr d1 \<Longrightarrow> same_journal d d1 \<and> same_periods d d1 \<and> invoices d1 = invoices d" for a d1
    by (auto simp: adjustment_Upsert_def Let_def split: option.splits if_splits)
  from Cons.prems show ?case
    by (auto simp: Let_def split: if_splits sum.splits dest!: u Cons.IH)
qed simp

lemma record_op_frames:
  "UpsertLogistics e s lr d = Inr d' \<Longrightarrow> same_journal d d' \<and> same_periods d d'"
  "DeleteLogistics e s en i d = Inr d' \<Longrightarrow> same_journal d d' \<and> same_periods d d'"
  "UpsertBankTransaction e s bt d = Inr d' \<Longrightarrow> same_journal d d' \<and> same_periods d d'"
  "MatchBankToInvoice e s en k i x d = Inr d' \<Longrightarrow> same_journal d d' \<and> same_periods d d'"
  "UnmatchBankFromInvoice e s en k d = Inr d' \<Longrightarrow> same_journal d d' \<and> same_periods d d'"
  "UpsertAdjustments e s rs d = (q, d') \<Longrightarrow> same_journal d d' \<and> same_periods d d'"
  "RunRiskScanPersistent es ordg oor ordm json s en b p d = (r1, d') \<Longrightarrow> same_journal d d' \<and> same_periods d d'"
  "RunConsistencyCheck e ordg s en b p d = (r2, d') \<Longrightarrow> same_journal d d' \<and> same_periods d d'"
  by (auto simp: UpsertLogistics_def logistics_Upsert_def DeleteLogistics_def logistics_Delete_def UpsertBankTransaction_def
      bank_Upsert_def MatchBankToInvoice_def bank_Match_def UnmatchBankFromInvoice_def bank_Unmatch_def bank_set_match_def
      UpsertAdjustments_def RunRiskScanPersistent_def scan_Create_def RunConsistencyCheck_def Let_def
    dest: checks_frame adjustments_frame split: if_splits option.splits sum.splits prod.splits)

lemma close_check_frame:
  "EnhanceCloseCheck e1 e txt ord ordg s en b p d = (r, d') \<Longrightarrow> same_journal d d' \<and> same_periods d d'"
  by (auto simp: EnhanceCloseCheck_def Let_def dest: record_op_frames(8) split: sum.splits prod.splits)

lemmas other_op_frames = setup_op_frames record_op_frames close_check_frame

lemma period_journal_frames:
  "ensurePeriod e s en b p d = (r0, d') \<Longrightarrow> same_journal d d'"
  "ClosePeriod e txt ord s c en b p a d = (r, d') \<Longrightarrow> same_journal d d'"
  "ReopenPeriod e s c en b p a d = (r, d') \<Longrightarrow> same_journal d d'"
  "LockPeriod e s c en b p a d = (r, d') \<Longrightarrow> same_journal d d'"
proof -
  have u: "same_journal d (snd (period_UpdateStatus e en b p f t x d))" for f t x d
    using period_op_frame [of e en b p f t x d] by (metis prod.collapse)
  show "ensurePeriod e s en b p d = (r0, d') \<Longrightarrow> same_journal d d'"
    by (auto simp: ensurePeriod_def period_GetOrCreate_def period_Insert_def Let_def split: if_splits option.splits sum.splits)
  show "ClosePeriod e txt ord s c en b p a d = (r, d') \<Longrightarrow> same_journal d d'"
    using u by (auto simp: ClosePeriod_def period_audit_def Let_def dest!: period_op_frame
      split: if_splits option.splits sum.splits prod.splits)
  show "ReopenPeriod e s c en b p a d = (r, d') \<Longrightarrow> same_journal d d'" "LockPeriod e s c en b p a d = (r, d') \<Longrightarrow> same_journal d d'"
    by (auto simp: ReopenPeriod_def LockPeriod_def period_audit_def dest!: period_op_frame
      split: if_splits option.splits sum.splits prod.splits)
qed

lemmas journal_free = invoice_op_frames import_frame other_op_frames period_journal_frames

section \<open>The invariant is kept\<close>

lemma draft_status: "buildJournalDraft e s v d = Inr j \<Longrightarrow> je_Status j = JournalStatusDraft"
  by (auto simp: buildJournalDraft_def Let_def split: if_splits option.splits prod.splits)

lemma approve_audit_frame [simp]:
  "journal_entries (approve_audit e s c en a v d) = journal_entries d"
  "journal_lines (approve_audit e s c en a v d) = journal_lines d"
  "accounting_periods (approve_audit e s c en a v d) = accounting_periods d"
  "invoices (approve_audit e s c en a v d) = invoices d"
  by (simp_all add: approve_audit_def)

text \<open>What approval leaves in the journal: nothing, or one attempt to create a draft.\<close>

definition adds_draft :: "env \<Rightarrow> db \<Rightarrow> db \<Rightarrow> bool" where
  "adds_draft e d d' \<longleftrightarrow> (\<exists>j q d1 d2. same_journal d d1 \<and> same_periods d d1 \<and> je_Status j = JournalStatusDraft \<and>
     journal_CreateTx e j d1 = (q, d2) \<and> same_journal d2 d' \<and> same_periods d2 d')"

lemma approve_journal:
  assumes "ApproveInvoice e s c en i a d = (r, d')"
  shows "(same_journal d d' \<and> same_periods d d') \<or> adds_draft e d d'"
proof -
  have f: "same_journal d d1 \<and> same_periods d d1" if "invoice_ApproveTx e tx en i d = (p, d1)" for tx p d1
    using that invoice_status_frame by (auto simp: invoice_ApproveTx_def)
  have c: "adds_draft e d d2"
    if "invoice_ApproveTx e tx en i d = (p, d1)" "buildJournalDraft e s v x = Inr j" "journal_CreateTx e j d1 = (q, d2)"
    for tx p d1 v x j q d2
    unfolding adds_draft_def using that f [OF that(1)] draft_status [OF that(2)] by blast
  have au: "adds_draft e d (approve_audit e s c en a v d2) = adds_draft e d d2" for v d2
    by (simp add: adds_draft_def)
  show ?thesis
    using assms unfolding ApproveInvoice_def
    by (auto simp: au dest: f c split: if_splits option.splits sum.splits prod.splits)
qed

lemma Approve_inv:
  assumes inv: "ledger_inv num d" and num: "numeric e = num" "numeric_stable num"
    and c: "ApproveInvoice e s c en i a d = (r, d')"
  shows "ledger_inv num d'"
proof -
  have "ledger_inv num d2" if "same_journal d d1" "journal_CreateTx e j d1 = (q, d2)" "je_Status j = JournalStatusDraft" for j q d1 d2
  proof -
    have "ledger_inv num d1" using inv ledger_inv_cong that(1) by blast
    then show ?thesis by (rule ledger_inv_create [OF _ num(2,1) _ that(2)]) (simp add: that(3))
  qed
  with approve_journal [OF c] inv show ?thesis unfolding adds_draft_def by (metis ledger_inv_cong)
qed

lemma inv_free: "ledger_inv num d \<Longrightarrow> same_journal d d' \<Longrightarrow> ledger_inv num d'"
  using ledger_inv_cong by blast

lemma step_inv:
  assumes "ledger_step num s e d d'" "numeric_stable num" "ledger_inv num d"
  shows "ledger_inv num d'"
  using assms(1)
proof cases
  case draft with assms show ?thesis by (blast intro: Create_inv)
next case post with assms show ?thesis by (blast intro: Post_inv)
next case void with assms show ?thesis by (blast intro: Void_inv)
next case edit with assms show ?thesis by (blast intro: Update_inv)
next case batch with assms show ?thesis by (blast intro: Batch_inv)
next case approve with assms show ?thesis by (blast intro: Approve_inv)
qed (auto intro: inv_free [OF assms(3)] dest!: journal_free)

section \<open>Moves of the journal\<close>

text \<open>
  Every operation is a sequence of inserts of drafts and guarded changes of status.  A change that posts an
  entry or takes a posted one back happens only where \<open>Q\<close> (entity, book and period) holds.
\<close>

inductive jmoves :: "(string \<times> string \<times> string \<Rightarrow> bool) \<Rightarrow> db \<Rightarrow> db \<Rightarrow> bool" for Q where
  none: "jmoves Q d d"
| other: "jmoves Q d d1 \<Longrightarrow> same_journal d1 d2 \<Longrightarrow> jmoves Q d d2"
| create: "jmoves Q d d1 \<Longrightarrow> journal_CreateTx e j d1 = (q, d2) \<Longrightarrow> je_Status j = JournalStatusDraft \<Longrightarrow> jmoves Q d d2"
| post: "jmoves Q d d1 \<Longrightarrow> journal_change e [JournalStatusDraft] JournalStatusPosted k d1 = Some d2 \<Longrightarrow>
    (\<And>j. find_entry d1 k = Some j \<Longrightarrow> Q (je_EntityID j, je_BookID j, je_Period j)) \<Longrightarrow> jmoves Q d d2"
| void: "jmoves Q d d1 \<Longrightarrow> journal_change e [JournalStatusDraft, JournalStatusPosted] JournalStatusVoided k d1 = Some d2 \<Longrightarrow>
    (\<And>j. find_entry d1 k = Some j \<Longrightarrow> Q (je_EntityID j, je_BookID j, je_Period j) \<or> je_Status j = JournalStatusDraft) \<Longrightarrow>
    jmoves Q d d2"

lemma jmoves_PostTx:
  assumes "jmoves Q d d1" "journal_PostTx e tx en k d1 = (r, d2)"
    "\<And>j. find_entry d1 (k, en) = Some j \<Longrightarrow> Q (je_EntityID j, je_BookID j, je_Period j)"
  shows "jmoves Q d d2"
  using PostTx_cases [OF assms(2)] assms by (blast intro: jmoves.post)

lemma jmoves_VoidTx:
  assumes "jmoves Q d d1" "journal_VoidTx e tx en k d1 = (r, d2)"
    "\<And>j. find_entry d1 (k, en) = Some j \<Longrightarrow> Q (je_EntityID j, je_BookID j, je_Period j) \<or> je_Status j = JournalStatusDraft"
  shows "jmoves Q d d2"
  using VoidTx_cases [OF assms(2)] assms by (blast intro: jmoves.void)

lemma jmoves_other: "jmoves Q d d1 \<Longrightarrow> jmoves Q d (logAudit e n s c en b a ac ot oi r d1)"
  "jmoves Q d d1 \<Longrightarrow> jmoves Q d (mark_source e tx en p d1)"
  "jmoves Q d d1 \<Longrightarrow> jmoves Q d (void_audit e n s c en k a w d1)"
  by (erule jmoves.other; simp add: void_audit_def split: option.split)+

definition open_at :: "env \<Rightarrow> Service \<Rightarrow> db \<Rightarrow> string \<times> string \<times> string \<Rightarrow> bool" where
  "open_at e s d = (\<lambda>(en, b, p). \<not> period_closed e s en b p d)"

lemma read_open:
  assumes "journal_read st e d en k = Inr (Some i)" "\<not> period_closed e s en (je_BookID i) (je_Period i) d"
    "find_entry d (k, en) = Some j"
  shows "open_at e s d (je_EntityID j, je_BookID j, je_Period j)"
  using read_entry [OF assms(1)] assms(2,3) by (auto simp: open_at_def)

lemma Post_moves:
  assumes "PostJournalEntry e s c en k a d = (r, d')" shows "jmoves (open_at e s d) d d'"
proof -
  have p: "jmoves (open_at e s d) d d1"
    if "journal_PostTx e tx en k d = (q, d1)" "journal_Get e d en k = Inr (Some i)"
      "\<not> period_closed e s en (je_BookID i) (je_Period i) d" for tx q d1 i
    using jmoves_PostTx [OF jmoves.none that(1)] read_open [OF that(2,3)] by blast
  show ?thesis
    using assms jmoves.none [of "open_at e s d" d]
    by (auto simp: PostJournalEntry_def Let_def dest: p intro!: jmoves_other
      split: if_splits sum.splits option.splits prod.splits)
qed

lemma find_created:
  assumes "journal_CreateTx e j d = (None, d')"
  shows "find_entry d' (je_key j) = Some (entry_row e j)"
    "find_entry d k = Some i \<Longrightarrow> find_entry d' k = Some i"
proof -
  show "find_entry d' (je_key j) = Some (entry_row e j)"
    using assms
  proof (cases rule: create_cases)
    case (rows stored)
    then have "find (\<lambda>i. je_key i = je_key j) (journal_entries d) = None"
      by (auto simp: find_None_set je_key_def) (metis imageI)
    with rows(1) show ?thesis by (simp add: find_entry_def find_append)
  qed simp
  show "find_entry d k = Some i \<Longrightarrow> find_entry d' k = Some i"
    using assms by (cases rule: create_cases) (auto simp: find_entry_def find_append)
qed

lemma find_changed:
  assumes "journal_change e f t k d = Some d'"
  shows "find_entry d' k' = map_option (\<lambda>j. if je_key j = k \<and> je_Status j \<in> set f then journal_stamp e t j else j) (find_entry d k')"
  unfolding find_entry_def journal_change_entries [OF assms] by (rule find_update_where) simp

lemma Void_moves:
  assumes "VoidJournalEntry e s c en k a d = (r, d')" shows "jmoves (open_at e s d) d d'"
proof -
  let ?Q = "open_at e s d"
  have simple: "jmoves ?Q d d1"
    if "journal_VoidTx e None en k d = (q, d1)" "journal_Get e d en k = Inr (Some i)"
      "\<not> period_closed e s en (je_BookID i) (je_Period i) d" for q d1 i
    using jmoves_VoidTx [OF jmoves.none that(1)] read_open [OF that(2,3)] by blast
  have full: "jmoves ?Q d d3"
    if i: "journal_Get e d en k = Inr (Some i)" "\<not> period_closed e s en (je_BookID i) (je_Period i) d"
      and c: "journal_CreateTx e (buildReversal e i d) d = (None, d1)"
      and p: "journal_PostTx e (Some d) en (je_ID (buildReversal e i d)) d1 = (Inr p, d2)"
      and w: "journal_VoidTx e (Some d) en k d2 = (q, d3)" for i d1 p d2 q d3
  proof -
    let ?rev = "buildReversal e i d"
    obtain i0 where i0: "find_entry d (k, en) = Some i0" "i = i0\<lparr>je_Lines := entry_lines d en k\<rparr>" "je_EntityID i0 = en"
      using read_entry [OF i(1)] by blast
    have rev: "je_key ?rev = (je_ID ?rev, en)" "je_BookID ?rev = je_BookID i" "je_Period ?rev = je_Period i"
      "je_EntityID ?rev = en" "je_Status ?rev = JournalStatusDraft"
      using i0 by (simp_all add: buildReversal_def je_key_def)
    have "jmoves ?Q d d1" using jmoves.create [OF jmoves.none c] rev by simp
    then have "jmoves ?Q d d2"
      using jmoves_PostTx [OF _ p] find_created(1) [OF c] rev i(2) by (simp add: open_at_def)
    moreover obtain d2' where "journal_change e [JournalStatusDraft] JournalStatusPosted (je_ID ?rev, en) d1 = Some d2"
      using PostTx_cases [OF p] by blast
    note find_changed [OF this, of "(k, en)"]
    then have "\<And>j. find_entry d2 (k, en) = Some j \<Longrightarrow> ?Q (je_EntityID j, je_BookID j, je_Period j)"
      using find_created(2) [OF c i0(1)] i0 i(2) by (auto simp: open_at_def)
    ultimately show ?thesis using jmoves_VoidTx [OF _ w] by blast
  qed
  show ?thesis
    using assms jmoves.none [of ?Q d]
    by (auto simp: VoidJournalEntry_def Let_def dest: simple full intro!: jmoves_other
      split: if_splits sum.splits option.splits prod.splits)
qed

lemma Create_moves:
  assumes "CreateJournalDraft e s c en b p a j d = (r, d')" shows "jmoves Q d d'"
proof -
  have create: "jmoves Q d d2" if "journal_CreateTx e i d = (q, d2)" "je_Status i = JournalStatusDraft" for q i d2
    using jmoves.create [OF jmoves.none that] .
  show ?thesis
    using assms jmoves.none [of Q d]
    by (auto simp: CreateJournalDraft_def Let_def dest: create intro!: jmoves_other
      split: if_splits sum.splits option.splits prod.splits)
qed

lemma Update_moves:
  assumes "UpdateJournalDraft e s c en k j d = (r, d')" shows "jmoves Q d d'"
proof -
  have void: "jmoves Q d d1"
    if "journal_VoidTx e None en k d = (q, d1)" "journal_Get e d en k = Inr (Some i)" "je_Status i = JournalStatusDraft" for q d1 i
    using jmoves_VoidTx [OF jmoves.none that(1)] read_entry [OF that(2)] that(3) by auto
  have create: "jmoves Q d d2"
    if "journal_VoidTx e None en k d = (q, d1)" "journal_Get e d en k = Inr (Some i)" "je_Status i = JournalStatusDraft"
      "journal_CreateTx e i' d1 = (q', d2)" "je_Status i' = JournalStatusDraft" for q d1 i i' q' d2
    using jmoves.create [OF void [OF that(1-3)] that(4,5)] .
  show ?thesis
    using assms jmoves.none [of Q d]
    by (auto simp: UpdateJournalDraft_def Let_def dest: void create intro!: jmoves_other
      split: if_splits sum.splits option.splits prod.splits)
qed

lemma Approve_moves:
  assumes "ApproveInvoice e s c en i a d = (r, d')" shows "jmoves Q d d'"
  using approve_journal [OF assms]
  by (auto simp: adds_draft_def intro: jmoves.other [OF jmoves.none]) (metis jmoves.create jmoves.none jmoves.other)

lemma jmoves_trans: "jmoves Q d1 d2 \<Longrightarrow> jmoves Q d d1 \<Longrightarrow> jmoves Q d d2"
proof (induction rule: jmoves.induct)
  case (create d2 e j q d3) then show ?case by (blast intro: jmoves.create)
next case (post d2 e k d3) then show ?case by (blast intro: jmoves.post)
next case (void d2 e k d3) then show ?case by (blast intro: jmoves.void)
qed (auto intro: jmoves.other)

text \<open>Posting changes no period.\<close>

lemma change_periods: "journal_change e f t k d = Some d' \<Longrightarrow> same_periods d d'"
  by (rule journal_change_frame(2))

lemma Tx_periods:
  "journal_PostTx e tx en k d = (r, d') \<Longrightarrow> same_periods d d'"
  "journal_VoidTx e tx en k d = (r, d') \<Longrightarrow> same_periods d d'"
  by (auto dest!: PostTx_cases VoidTx_cases change_periods)

lemma Post_periods: "PostJournalEntry e s c en k a d = (r, d') \<Longrightarrow> same_periods d d'"
  by (auto simp: PostJournalEntry_def Let_def dest: Tx_periods split: if_splits sum.splits option.splits prod.splits)

lemma Void_periods: "VoidJournalEntry e s c en k a d = (r, d') \<Longrightarrow> same_periods d d'"
  by (auto simp: VoidJournalEntry_def void_audit_def Let_def dest!: Tx_periods create_frame(1)
    split: if_splits sum.splits option.splits prod.splits)

lemma Create_periods: "CreateJournalDraft e s c en b p a j d = (r, d') \<Longrightarrow> same_periods d d'"
  by (auto simp: CreateJournalDraft_def Let_def dest!: create_frame(1) split: if_splits sum.splits option.splits prod.splits)

lemma Update_periods: "UpdateJournalDraft e s c en k j d = (r, d') \<Longrightarrow> same_periods d d'"
  by (auto simp: UpdateJournalDraft_def Let_def dest!: Tx_periods create_frame(1) split: if_splits sum.splits option.splits prod.splits)

lemma Approve_periods: "ApproveInvoice e s c en i a d = (r, d') \<Longrightarrow> same_periods d d'"
  using approve_journal by (fastforce simp: adds_draft_def dest: create_frame(1))

lemma open_at_cong: "same_periods d d' \<Longrightarrow> open_at e s d' = open_at e s d"
  by (simp add: open_at_def period_closed_def period_IsClosed_def find_period_def)

lemma period_closed_ids [simp]: "period_closed (ids_from n e) s en b p d = period_closed e s en b p d"
  by (simp add: period_closed_def period_IsClosed_def)

lemma Batch_moves:
  "BatchPostJournals e n s c en ks a d = (r, d') \<Longrightarrow> jmoves (open_at e s d) d d' \<and> same_periods d d'"
proof (induction ks arbitrary: n d r d')
  case (Cons k ks)
  have op: "open_at (ids_from n e) s d = open_at e s d" for d by (simp add: open_at_def)
  obtain q d1 where q: "PostJournalEntry (ids_from n e) s c en k a d = (q, d1)" by fastforce
  note m = Post_moves [OF q, unfolded op] Post_periods [OF q]
  show ?case
  proof (cases "\<exists>p. q = Inr (Some p)")
    case True
    then obtain p r2 d2 where "BatchPostJournals e (Suc n) s c en ks a d1 = (r2, d2)" "d' = d2"
      using Cons.prems q by (auto split: prod.splits sum.splits)
    with Cons.IH [of "Suc n" d1 r2 d2] m open_at_cong [OF m(2)] show ?thesis by (auto intro: jmoves_trans)
  next
    case False
    then have "d' = d1" using Cons.prems q by (auto split: sum.splits option.splits)
    with m show ?thesis by simp
  qed
qed (simp add: jmoves.none)

text \<open>Every step moves the journal, and the steps on the journal leave the periods alone.\<close>

lemma step_moves:
  assumes "ledger_step num s e d d'" shows "jmoves (open_at e s d) d d'"
  using assms
proof cases
  case draft then show ?thesis by (blast intro: Create_moves)
next case post then show ?thesis by (blast intro: Post_moves)
next case void then show ?thesis by (blast intro: Void_moves)
next case edit then show ?thesis by (blast intro: Update_moves)
next case batch then show ?thesis by (blast dest: Batch_moves)
next case approve then show ?thesis by (blast intro: Approve_moves)
qed (auto intro: jmoves.other [OF jmoves.none] dest!: journal_free)

section \<open>Entries are immutable but for their status\<close>

definition forward :: "string \<Rightarrow> string \<Rightarrow> bool" where
  "forward s t \<longleftrightarrow> s = t \<or> (\<exists>a b. phase_of s = Some a \<and> phase_of t = Some b \<and> a < b)"

lemma forward_trans: "forward s t \<Longrightarrow> forward t u \<Longrightarrow> forward s u"
  by (auto simp: forward_def)

text \<open>The entry is still there, with its voucher and its lines, and its status has only moved forward.\<close>

definition kept :: "db \<Rightarrow> db \<Rightarrow> string \<times> string \<Rightarrow> JournalEntry \<Rightarrow> bool" where
  "kept d d' k j \<longleftrightarrow> entry_lines d' (snd k) (fst k) = entry_lines d (snd k) (fst k) \<and>
     (\<exists>j'. find_entry d' k = Some j' \<and> je_voucher j' = je_voucher j \<and> forward (je_Status j) (je_Status j'))"

lemma kept_trans: "kept d d1 k j \<Longrightarrow> find_entry d1 k = Some j1 \<Longrightarrow> kept d1 d2 k j1 \<Longrightarrow> kept d d2 k j"
  by (auto simp: kept_def intro: forward_trans)

lemma kept_change:
  assumes c: "journal_change e f t k d = Some d'" and f: "\<And>s. s \<in> set f \<Longrightarrow> forward s t" and j: "find_entry d k' = Some j"
  shows "kept d d' k' j"
  using find_changed [OF c, of k'] journal_change_frame(1) [OF c] f j
  by (auto simp: kept_def entry_lines_def forward_def)

lemma kept_create:
  assumes c: "journal_CreateTx e i d = (q, d')" and j: "find_entry d k = Some j"
  shows "kept d d' k j"
  using c
proof (cases rule: create_cases)
  case (rows stored)
  have "j \<in> set (journal_entries d)" "je_key j = k" using j by (auto simp: find_entry_def dest: find_SomeD)
  then have "fst k \<noteq> je_ID i" using rows(4) by (auto simp: je_key_def) (metis imageI)
  then show ?thesis using create_other_lines [OF c] rows(1) j by (simp add: kept_def find_entry_def find_append forward_def)
qed (use j in \<open>simp add: kept_def forward_def\<close>)

lemma moves_kept: "jmoves Q d d' \<Longrightarrow> find_entry d k = Some j \<Longrightarrow> kept d d' k j"
proof (induction rule: jmoves.induct)
  case none then show ?case by (simp add: kept_def forward_def)
next
  case (other d d1 d2) then show ?case by (simp add: kept_def entry_lines_def find_entry_def)
next
  case (create d d1 e i q d2)
  then obtain j1 where "find_entry d1 k = Some j1" by (auto simp: kept_def)
  with create kept_create kept_trans show ?case by blast
next
  case (post d d1 e k' d2)
  then obtain j1 where j1: "find_entry d1 k = Some j1" by (auto simp: kept_def)
  have "kept d1 d2 k j1" by (rule kept_change [OF post.hyps(2) _ j1]) (simp add: forward_def less_phase_def)
  with post j1 kept_trans show ?case by blast
next
  case (void d d1 e k' d2)
  then obtain j1 where j1: "find_entry d1 k = Some j1" by (auto simp: kept_def)
  have "kept d1 d2 k j1" by (rule kept_change [OF void.hyps(2) _ j1]) (auto simp: forward_def less_phase_def)
  with void j1 kept_trans show ?case by blast
qed

lemma run_kept: "run num s P d d' \<Longrightarrow> find_entry d k = Some j \<Longrightarrow> kept d d' k j"
proof (induction rule: run.induct)
  case (then_step d d1 e d2)
  then obtain j1 where "find_entry d1 k = Some j1" by (auto simp: kept_def)
  with then_step moves_kept [OF step_moves [OF then_step.hyps(3)]] kept_trans show ?case by blast
qed (simp add: kept_def forward_def)

lemma run_inv: "run num s P d d' \<Longrightarrow> numeric_stable num \<Longrightarrow> ledger_inv num d \<Longrightarrow> ledger_inv num d'"
  by (induction rule: run.induct) (auto intro: step_inv)

section \<open>Closed periods are frozen\<close>

definition posted_in :: "string \<Rightarrow> string \<Rightarrow> string \<Rightarrow> JournalEntry \<Rightarrow> bool" where
  "posted_in i b p j \<longleftrightarrow> je_ID j = i \<and> je_BookID j = b \<and> je_Period j = p \<and> je_Status j = JournalStatusPosted"

definition posted_lines :: "db \<Rightarrow> string \<Rightarrow> string \<Rightarrow> string \<Rightarrow> JournalLine list" where
  "posted_lines d en b p = filter (\<lambda>l. jl_EntityID l = en \<and>
     (\<exists>j \<in> set (journal_entries d). posted_in (jl_JournalEntryID l) b p j)) (journal_lines d)"

lemma ListPostedLines_posted:
  "journal_ListPostedLines e d en b p =
     (if fault e Journal_PostedLines then Inl (DbError Journal_PostedLines)
      else Inr (order_by e jl_AccountCode (posted_lines d en b p)))"
  by (simp add: journal_ListPostedLines_def posted_lines_def posted_in_def list_ex_iff)

lemma posted_create:
  assumes wf: "journals_wf d" and c: "journal_CreateTx e j d = (q, d')" and st: "je_Status j = JournalStatusDraft"
  shows "posted_lines d' en b p = posted_lines d en b p"
  using c
proof (cases rule: create_cases)
  case (rows stored)
  have nd: "\<not> posted_in i b p (entry_row e j)" for i by (simp add: posted_in_def st)
  have "filter (\<lambda>l. jl_EntityID l = en \<and> (\<exists>i \<in> set (journal_entries d). posted_in (jl_JournalEntryID l) b p i)) stored = []"
    using rows(4) by (auto simp: filter_empty_conv posted_in_def jl_entry_def dest!: stored_entry [OF rows(2)])
      (metis imageI)
  with rows(1) nd show ?thesis by (simp add: posted_lines_def)
qed simp

lemma posted_change:
  assumes wf: "journals_wf d" and c: "journal_change e f t k d = Some d'"
    and u: "\<And>j. find_entry d k = Some j \<Longrightarrow> je_Status j \<in> set f \<Longrightarrow> (je_EntityID j, je_BookID j, je_Period j) = (en, b, p) \<Longrightarrow>
      je_Status j \<noteq> JournalStatusPosted \<and> t \<noteq> JournalStatusPosted"
  shows "posted_lines d' en b p = posted_lines d en b p"
proof -
  let ?s = "\<lambda>j. if je_key j = k \<and> je_Status j \<in> set f then journal_stamp e t j else j"
  have A: "posted_in (jl_JournalEntryID l) b p (?s j) \<longleftrightarrow> posted_in (jl_JournalEntryID l) b p j"
    if l: "l \<in> set (journal_lines d)" "jl_EntityID l = en" and j: "j \<in> set (journal_entries d)" for l j
  proof (cases "je_ID j = jl_JournalEntryID l \<and> je_key j = k \<and> je_Status j \<in> set f")
    case True
    obtain i where "i \<in> set (journal_entries d)" "je_key i = jl_entry l" using wf l by (auto simp: journals_wf_def)
    with True j l journals_wf_same_id [OF wf, of i j] have "je_EntityID j = en" by (auto simp: je_key_def jl_entry_def)
    with True u [of j] find_entry_iff [OF wf, of k j] j show ?thesis by (auto simp: posted_in_def)
  qed (auto simp: posted_in_def)
  have B: "(\<exists>j \<in> set (journal_entries d'). R j) \<longleftrightarrow> (\<exists>j \<in> set (journal_entries d). R (?s j))" for R
    unfolding journal_change_entries [OF c] set_update_where by blast
  show ?thesis
    unfolding posted_lines_def journal_change_frame(1) [OF c] B
    by (intro filter_cong refl conj_cong bex_cong) (simp_all only: A)
qed

lemma moves_frozen:
  "jmoves Q d d' \<Longrightarrow> journals_wf d \<Longrightarrow> \<not> Q (en, b, p) \<Longrightarrow>
   journals_wf d' \<and> posted_lines d' en b p = posted_lines d en b p"
proof (induction rule: jmoves.induct)
  case (other d d1 d2) then show ?case by (simp add: journals_wf_def posted_lines_def)
next
  case (create d d1 e j q d2) then show ?case using create_wf posted_create by metis
next
  case (post d d1 e k d2)
  have "posted_lines d2 en b p = posted_lines d1 en b p"
    by (rule posted_change [OF _ post.hyps(2)]) (use post in auto)
  with post journal_change_wf show ?case by metis
next
  case (void d d1 e k d2)
  have "posted_lines d2 en b p = posted_lines d1 en b p"
    by (rule posted_change [OF _ void.hyps(2)]) (use void in auto)
  with void journal_change_wf show ?case by metis
qed simp

section \<open>Locked is final\<close>

definition lock_kept :: "db \<Rightarrow> db \<Rightarrow> bool" where
  "lock_kept d d' \<longleftrightarrow> (periods_wf d \<longrightarrow> periods_wf d' \<and>
     (\<forall>k. period_status d k = Some PeriodStatusLocked \<longrightarrow> period_status d' k = Some PeriodStatusLocked))"

lemma lock_kept_same: "same_periods d d' \<Longrightarrow> lock_kept d d'"
  by (simp add: lock_kept_def periods_wf_def period_status_def find_period_def)

lemma lock_kept_trans: "lock_kept d d1 \<Longrightarrow> lock_kept d1 d2 \<Longrightarrow> lock_kept d d2"
  by (auto simp: lock_kept_def)

lemma period_status_distinct [simp]:
  "PeriodStatusLocked \<noteq> PeriodStatusOpen" "PeriodStatusLocked \<noteq> PeriodStatusClosing" "PeriodStatusLocked \<noteq> PeriodStatusClosed"
  "PeriodStatusOpen \<noteq> PeriodStatusLocked" "PeriodStatusClosing \<noteq> PeriodStatusLocked" "PeriodStatusClosed \<noteq> PeriodStatusLocked"
  "PeriodStatusOpen \<noteq> PeriodStatusClosed" "PeriodStatusClosed \<noteq> PeriodStatusOpen" "PeriodStatusOpen \<noteq> PeriodStatusClosing"
  "PeriodStatusClosing \<noteq> PeriodStatusOpen" "PeriodStatusClosing \<noteq> PeriodStatusClosed" "PeriodStatusClosed \<noteq> PeriodStatusClosing"
  by (simp_all add: PeriodStatusOpen_def PeriodStatusClosing_def PeriodStatusClosed_def PeriodStatusLocked_def)

lemma lock_kept_update:
  assumes "period_UpdateStatus e en b p f t c d = (r, d')" "f \<noteq> PeriodStatusLocked"
  shows "lock_kept d d'"
proof (cases "d' = d")
  case False
  then have c: "period_change e f t c (en, b, p) d = Some d'"
    using assms(1) by (auto simp: period_UpdateStatus_def split: if_splits option.splits)
  have "period_status d' k = Some PeriodStatusLocked" if "periods_wf d" "period_status d k = Some PeriodStatusLocked" for k
    using period_change_laws(1) [OF that(1), of e f t c "(en, b, p)"] period_change_laws(2) [OF that(1) c, of k] c that(2) assms(2)
    by auto
  then show ?thesis using period_change_wf [OF _ c] by (auto simp: lock_kept_def)
qed (simp add: lock_kept_same)

lemma lock_kept_ops:
  "ensurePeriod e s en b p d = (r0, d') \<Longrightarrow> lock_kept d d'"
  "ClosePeriod e txt ord s c en b p a d = (r, d') \<Longrightarrow> lock_kept d d'"
  "ReopenPeriod e s c en b p a d = (r, d') \<Longrightarrow> lock_kept d d'"
  "LockPeriod e s c en b p a d = (r, d') \<Longrightarrow> lock_kept d d'"
proof -
  have ins: "lock_kept d d1" if "period_Insert e q d = Inr d1" for q d1
    using that by (auto simp: period_Insert_def lock_kept_def periods_wf_def period_status_def find_period_def find_append
      list_ex_iff pd_key_def split: if_splits option.split) metis+
  show "ensurePeriod e s en b p d = (r0, d') \<Longrightarrow> lock_kept d d'"
    by (auto simp: ensurePeriod_def period_GetOrCreate_def Let_def lock_kept_same dest!: ins
      split: if_splits option.splits sum.splits)
  have audit: "lock_kept d d1 \<Longrightarrow> lock_kept d (period_audit e s c en b p a act q d1)" for act q d1
    by (erule lock_kept_trans) (simp add: lock_kept_same period_audit_def)
  have u: "lock_kept d d1" if "period_UpdateStatus e en b p f t x d = (q, d1)" "f \<noteq> PeriodStatusLocked" for f t x q d1
    using that by (rule lock_kept_update)
  have uu: "lock_kept d d2" if "period_UpdateStatus e en b p f t x d = (q, d1)" "f \<noteq> PeriodStatusLocked"
    "period_UpdateStatus e en b p f' t' x' d1 = (q', d2)" "f' \<noteq> PeriodStatusLocked" for f t x q d1 f' t' x' q' d2
    using lock_kept_trans [OF lock_kept_update [OF that(1,2)] lock_kept_update [OF that(3,4)]] .
  have us: "lock_kept d (snd (period_UpdateStatus e en b p f' t' x' d1))"
    if "period_UpdateStatus e en b p f t x d = (q, d1)" "f \<noteq> PeriodStatusLocked" "f' \<noteq> PeriodStatusLocked" for f t x q d1 f' t' x'
    using uu [OF that(1,2), of f' t' x' "fst (period_UpdateStatus e en b p f' t' x' d1)"] that(3) by simp
  show "ClosePeriod e txt ord s c en b p a d = (r, d') \<Longrightarrow> lock_kept d d'"
    by (auto simp: ClosePeriod_def Let_def lock_kept_same intro!: audit intro: u uu us
      split: if_splits option.splits sum.splits prod.splits)
  show "ReopenPeriod e s c en b p a d = (r, d') \<Longrightarrow> lock_kept d d'" "LockPeriod e s c en b p a d = (r, d') \<Longrightarrow> lock_kept d d'"
    by (auto simp: ReopenPeriod_def LockPeriod_def lock_kept_same intro!: audit intro: u
      split: if_splits option.splits sum.splits prod.splits)
qed

lemma step_locks:
  assumes "ledger_step num s e d d'" shows "lock_kept d d'"
  using assms
proof cases
  case draft then show ?thesis by (blast intro: lock_kept_same Create_periods)
next case post then show ?thesis by (blast intro: lock_kept_same Post_periods)
next case void then show ?thesis by (blast intro: lock_kept_same Void_periods)
next case edit then show ?thesis by (blast intro: lock_kept_same Update_periods)
next case batch then show ?thesis by (blast intro: lock_kept_same dest: Batch_moves)
next case approve then show ?thesis by (blast intro: lock_kept_same Approve_periods)
qed (auto intro: lock_kept_same dest: lock_kept_ops dest!: invoice_op_frames import_frame other_op_frames)

text \<open>The environments in which the query of a period's status works.\<close>

definition period_check_works :: "env \<Rightarrow> bool" where
  "period_check_works e \<longleftrightarrow> \<not> fault e Period_IsClosed"

lemma closed_step:
  assumes "ledger_step num s e d d'" "journals_wf d" "has_periods s" "period_check_works e"
    "period_status d (en, b, p) = Some PeriodStatusClosed \<or> period_status d (en, b, p) = Some PeriodStatusLocked"
  shows "journals_wf d' \<and> posted_lines d' en b p = posted_lines d en b p"
proof (rule moves_frozen [OF step_moves [OF assms(1)] assms(2)])
  show "\<not> open_at e s d (en, b, p)"
    using assms(3-5) period_IsClosed_status [of e d en b p] by (auto simp: open_at_def period_closed_def period_check_works_def)
qed

lemma locked_run:
  "run num s P d d' \<Longrightarrow> P = period_check_works \<Longrightarrow> journals_wf d \<Longrightarrow> periods_wf d \<Longrightarrow> has_periods s \<Longrightarrow>
   period_status d (en, b, p) = Some PeriodStatusLocked \<Longrightarrow>
   journals_wf d' \<and> periods_wf d' \<and> period_status d' (en, b, p) = Some PeriodStatusLocked \<and>
     posted_lines d' en b p = posted_lines d en b p"
proof (induction rule: run.induct)
  case (then_step d d1 e d2)
  then show ?case using closed_step [of num s e d1 d2 en b p] step_locks [of num s e d1 d2] by (auto simp: lock_kept_def)
qed simp

lemma run_step: "P e \<Longrightarrow> ledger_step num s e d d' \<Longrightarrow> run num s P d d'"
  by (rule run.then_step [OF run.start])

lemma example_run:
  "run (\<lambda>p s. Some) full_service period_check_works (example_db JournalStatusDraft PeriodStatusOpen) example_posted"
  by (rule run_step [OF _ ledger_step.post]) (auto simp: example_posted_def period_check_works_def prod_eq_iff)

section \<open>Properties of runs\<close>

text \<open>C1: every run of the service, with any faults of the database, keeps the ledger's invariant.  From any tables
  that satisfy it (the empty ones do, lemma \<open>ledger_inv_empty\<close>) identifiers and voucher numbers stay unique, every line
  belongs to an entry of its entity, and every posted entry has lines and passes the balance check.\<close>

theorem run_balanced:
  assumes "run num s P d d'" "numeric_stable num" "ledger_inv num d"
  shows "journals_wf d' \<and> (\<forall>j \<in> set (journal_entries d'). je_Status j = JournalStatusPosted \<longrightarrow>
    entry_lines d' (je_EntityID j) (je_ID j) \<noteq> [] \<and> validateBalanced (entry_lines d' (je_EntityID j) (je_ID j)) = None)"
  using run_inv [OF assms] by (simp add: ledger_inv_def balanced_entry_def)

theorem run_balanced_witness:
  "journals_wf example_posted \<and> map je_Status (journal_entries example_posted) = [JournalStatusPosted] \<and>
   entry_lines example_posted ''e1'' ''j1'' \<noteq> [] \<and> validateBalanced (entry_lines example_posted ''e1'' ''j1'') = None"
  using run_balanced [OF example_run] by (simp add: example_post)

text \<open>C7: the history of an entry along any run: it is never deleted, its entity, book, period and voucher number and its
  lines never change, and its status moves only forward, from draft to posted to voided.\<close>

theorem run_history:
  assumes "run num s P d d'" "find_entry d k = Some j"
  shows "\<exists>j'. find_entry d' k = Some j' \<and> je_voucher j' = je_voucher j \<and>
    entry_lines d' (snd k) (fst k) = entry_lines d (snd k) (fst k) \<and>
    (je_Status j' = je_Status j \<or> (\<exists>a b. phase_of (je_Status j) = Some a \<and> phase_of (je_Status j') = Some b \<and> a < b))"
  using run_kept [OF assms] by (auto simp: kept_def forward_def)

theorem run_history_witness:
  "\<exists>j'. find_entry example_posted (''j1'', ''e1'') = Some j' \<and> je_voucher j' = (''e1'', ''b1'', ''2025-03'', ''V-1'') \<and>
    entry_lines example_posted ''e1'' ''j1'' = example_lines \<and>
    (je_Status j' = JournalStatusDraft \<or>
      (\<exists>a b. phase_of JournalStatusDraft = Some a \<and> phase_of (je_Status j') = Some b \<and> a < b))"
  using run_history [OF example_run example_found] by simp

text \<open>C8: a locked period is final: along any run in which the query of the period's status works, it stays locked and
  the posted lines of the period, and with them its reports, never change.\<close>

theorem locked_forever:
  assumes "run num s period_check_works d d'" "has_periods s" "journals_wf d" "periods_wf d"
    "period_status d (en, b, p) = Some PeriodStatusLocked"
  shows "period_status d' (en, b, p) = Some PeriodStatusLocked \<and> posted_lines d' en b p = posted_lines d en b p"
  using locked_run [OF assms(1) refl assms(3,4,2,5)] by simp

theorem locked_forever_witness:
  "period_status (example_db JournalStatusPosted PeriodStatusLocked) (''e1'', ''b1'', ''2025-03'') = Some PeriodStatusLocked \<and>
   posted_lines (snd (VoidJournalEntry plain_env full_service no_context ''e1'' ''j1'' ''u1''
       (example_db JournalStatusPosted PeriodStatusLocked))) ''e1'' ''b1'' ''2025-03''
     = posted_lines (example_db JournalStatusPosted PeriodStatusLocked) ''e1'' ''b1'' ''2025-03''"
proof -
  let ?d = "example_db JournalStatusPosted PeriodStatusLocked"
  let ?d' = "snd (VoidJournalEntry plain_env full_service no_context ''e1'' ''j1'' ''u1'' ?d)"
  have "run (\<lambda>p s. Some) full_service period_check_works ?d ?d'"
    by (rule run_step [OF _ ledger_step.void]) (auto simp: period_check_works_def prod_eq_iff)
  from locked_forever [OF this, of "''e1''" "''b1''" "''2025-03''"] show ?thesis by simp
qed



end
