(* ===== verification/Vouchers.thy ===== *)
theory Vouchers
  imports Ledger
begin

text \<open>
  What the journal and invoice operations do, call by call: when they succeed, what they leave in the tables, and
  what they leave when they fail.
\<close>

section \<open>Reading an entry without faults\<close>

lemma read_no_fault:
  "\<not> fault e st \<Longrightarrow> \<not> fault e Journal_Lines \<Longrightarrow> find_entry d (k, en) = Some j \<Longrightarrow>
   journal_read st e d en k = Inr (Some (j\<lparr>je_Lines := entry_lines d en k\<rparr>))"
  by (simp add: journal_read_def)

lemma change_defined:
  "journals_wf d \<Longrightarrow> find_entry d k = Some j \<Longrightarrow> je_Status j \<in> set f \<Longrightarrow> \<exists>d'. journal_change e f t k d = Some d'"
  using journal_change_laws(1) [of d e f t k] by (auto simp: journal_status_def)

lemma journal_entries_audit [simp]:
  "journal_entries (void_audit e n s c en k a w d) = journal_entries d"
  "journal_lines (void_audit e n s c en k a w d) = journal_lines d"
  by (simp_all add: void_audit_def split: option.split)

section \<open>Editing a draft\<close>

lemma voucher_taken:
  assumes "journal_change e f t k d = Some d1" "find_entry d k = Some j" "je_voucher i = je_voucher j"
  shows "journal_CreateTx e' i d1 = (Some (DbError Journal_InsertEntry), d1)"
proof -
  have "je_voucher j \<in> set (map je_voucher (journal_entries d1))"
    using journal_change_maps(2) [OF assms(1)] assms(2) by (auto simp: find_entry_def dest: find_SomeD)
  then have "list_ex (\<lambda>x. je_ID x = je_ID i \<or> je_voucher x = je_voucher i) (journal_entries d1)"
    using assms(3) by (auto simp: list_ex_iff)
  then show ?thesis by (simp add: journal_CreateTx_def journal_insert_entry_def)
qed

text \<open>C18: editing a draft never succeeds: the old draft is voided first and keeps its voucher number, which the insert
  of its replacement then violates (UNIQUE on entity, book, period and number).  For every input, state and fault
  the call returns an error.\<close>

theorem UpdateJournalDraft_fails:
  "\<exists>x. fst (UpdateJournalDraft e s c en k j d) = Inl x"
proof (rule ccontr)
  assume "\<nexists>x. fst (UpdateJournalDraft e s c en k j d) = Inl x"
  then obtain old r d1 i d2 where old: "journal_Get e d en k = Inr (Some old)" and v: "journal_VoidTx e None en k d = (Inr r, d1)"
    and c: "journal_CreateTx e i d1 = (None, d2)"
    and i: "je_EntityID i = en" "je_BookID i = je_BookID old" "je_Period i = je_Period old" "je_VoucherNo i = je_VoucherNo old"
    by (auto simp: UpdateJournalDraft_def Let_def split: if_splits sum.splits option.splits prod.splits)
  obtain o1 where o1: "find_entry d (k, en) = Some o1" "old = o1\<lparr>je_Lines := entry_lines d en k\<rparr>" "je_EntityID o1 = en"
    using read_entry [OF old] by blast
  have "journal_change e [JournalStatusDraft, JournalStatusPosted] JournalStatusVoided (k, en) d = Some d1"
    using VoidTx_cases [OF v] by simp
  from voucher_taken [OF this o1(1), of i e] o1 i c show False by (simp add: je_voucher_def)
qed

text \<open>And the attempt destroys the draft: with a working database the draft is left voided.\<close>

theorem UpdateJournalDraft_voids:
  assumes "fault e = (\<lambda>_. False)" "journals_wf d" "find_entry d (k, en) = Some old" "je_Status old = JournalStatusDraft"
  shows "journal_status (snd (UpdateJournalDraft e s c en k j d)) (k, en) = Some JournalStatusVoided"
proof -
  obtain d1 where d1: "journal_change e [JournalStatusDraft, JournalStatusPosted] JournalStatusVoided (k, en) d = Some d1"
    using change_defined [OF assms(2,3), of "[JournalStatusDraft, JournalStatusPosted]" e JournalStatusVoided] assms(4) by auto
  have st: "journal_status d1 (k, en) = Some JournalStatusVoided"
    using journal_change_laws(2) [OF assms(2) d1] by simp
  then obtain i where "find_entry d1 (k, en) = Some i" by (auto simp: journal_status_def)
  then have v: "\<exists>r. journal_VoidTx e None en k d = (Inr r, d1)"
    using d1 assms(1) read_no_fault [of e Journal_Reread d1 k en i] by (simp add: journal_VoidTx_def)
  have g: "journal_Get e d en k = Inr (Some (old\<lparr>je_Lines := entry_lines d en k\<rparr>))"
    using read_no_fault assms(1,3) by simp
  have "je_EntityID old = en" using assms(3) by (auto simp: find_entry_def je_key_def dest: find_SomeD)
  then have "snd (UpdateJournalDraft e s c en k j d) = d1"
    using assms(4) v voucher_taken [OF d1 assms(3)]
    by (auto simp: UpdateJournalDraft_def g Let_def je_voucher_def split: option.split)
  with st show ?thesis by simp
qed

theorem UpdateJournalDraft_voids_witness:
  "journal_status (snd (UpdateJournalDraft plain_env full_service no_context ''e1'' ''j1'' (example_entry '''')
     (example_db JournalStatusDraft PeriodStatusOpen))) (''j1'', ''e1'') = Some JournalStatusVoided"
  using UpdateJournalDraft_voids [of plain_env "example_db JournalStatusDraft PeriodStatusOpen" "''j1''" "''e1''"] by simp

section \<open>Posting\<close>


lemma example_post_call:
  "PostJournalEntry plain_env full_service no_context ''e1'' ''j1'' ''u1'' (example_db JournalStatusDraft PeriodStatusOpen) =
   (fst (PostJournalEntry plain_env full_service no_context ''e1'' ''j1'' ''u1'' (example_db JournalStatusDraft PeriodStatusOpen)), example_posted)"
  by (simp add: example_posted_def)


section \<open>Voiding\<close>

lemma void_steps:
  assumes "VoidJournalEntry e s c en k a d = (Inr q, d')" "has_db s" "find_entry d (k, en) = Some j" "je_Status j = JournalStatusPosted"
  obtains rv y z d1 d2 d3 where
    "rv = buildReversal e (j\<lparr>je_Lines := entry_lines d en k\<rparr>) d" "journal_CreateTx e rv d = (None, d1)"
    "journal_PostTx e (Some d) en (je_ID rv) d1 = (Inr y, d2)" "journal_VoidTx e (Some d) en k d2 = (Inr z, d3)"
    "same_journal d3 d'"
proof -
  have g: "i = j\<lparr>je_Lines := entry_lines d en k\<rparr>" if "journal_Get e d en k = Inr (Some i)" for i
    using read_entry [OF that] assms(3) by auto
  from assms(1,2,4) that show ?thesis
    by (auto simp: VoidJournalEntry_def Let_def dest!: g split: if_splits sum.splits option.splits prod.splits)
qed

lemma fresh: "x \<notin> f ` S \<Longrightarrow> i \<in> S \<Longrightarrow> f i \<noteq> x"
  by blast

text \<open>The entries after the three statements.\<close>

lemma void_entries:
  assumes wf: "journals_wf d" and j: "find_entry d (k, en) = Some j" "je_Status j = JournalStatusPosted"
    and c: "journal_CreateTx e rv d = (None, d1)" "je_EntityID rv = en" "je_Status rv = JournalStatusDraft"
    and p: "journal_PostTx e tx en (je_ID rv) d1 = (Inr y, d2)" and v: "journal_VoidTx e tx en k d2 = (Inr z, d3)"
  shows "set (journal_entries d3) = insert (journal_stamp e JournalStatusPosted (entry_row e rv))
    ((\<lambda>i. if je_ID i = k then journal_stamp e JournalStatusVoided i else i) ` set (journal_entries d))"
    "je_ID rv \<notin> je_ID ` set (journal_entries d)" "je_ID rv \<noteq> k"
proof -
  from c(1) obtain stored where d1: "journal_entries d1 = journal_entries d @ [entry_row e rv]"
    and new: "je_ID rv \<notin> je_ID ` set (journal_entries d)"
    by (cases rule: create_cases) auto
  show "je_ID rv \<notin> je_ID ` set (journal_entries d)" by (rule new)
  have jin: "j \<in> set (journal_entries d)" "je_ID j = k" "je_EntityID j = en" using j(1) by (auto simp: find_entry_iff [OF wf] je_key_def)
  with new show nk: "je_ID rv \<noteq> k" by auto
  have one: "i = j" if "i \<in> set (journal_entries d)" "je_ID i = k" for i
    using journals_wf_same_id [OF wf that(1) jin(1)] that(2) jin(2) by simp
  have old: "update_where (\<lambda>i. je_key i = (je_ID rv, en) \<and> je_Status i \<in> set [JournalStatusDraft]) f (journal_entries d) = journal_entries d" for f
    using fresh [OF new] by (intro update_where_id) (auto simp: je_key_def)
  have d2: "journal_entries d2 = journal_entries d @ [journal_stamp e JournalStatusPosted (entry_row e rv)]"
    using PostTx_cases [OF p] journal_change_entries [of e "[JournalStatusDraft]" JournalStatusPosted "(je_ID rv, en)" d1 d2] d1 old c(2,3)
    by (simp add: update_where_def je_key_def)
  show "set (journal_entries d3) = insert (journal_stamp e JournalStatusPosted (entry_row e rv))
    ((\<lambda>i. if je_ID i = k then journal_stamp e JournalStatusVoided i else i) ` set (journal_entries d))"
    using VoidTx_cases [OF v] journal_change_entries [of e "[JournalStatusDraft, JournalStatusPosted]" JournalStatusVoided "(k, en)" d2 d3]
      d2 nk jin j(2) one by (force simp: set_update_where je_key_def)
qed

text \<open>C17: voiding a posted entry reverses it twice.  The reversal is posted, and the original, now voided, is no longer
  counted among the posted lines either: what is left in the period is every other posted line and, for each line of
  the original, one with debit and credit exchanged.\<close>

theorem void_reverses_twice:
  assumes inv: "ledger_inv num d" "numeric_stable num" "numeric e = num" and s: "has_db s"
    and j: "find_entry d (k, en) = Some j" "je_Status j = JournalStatusPosted"
    and v: "VoidJournalEntry e s c en k a d = (Inr q, d')"
  shows "\<exists>R. posted_lines d' en (je_BookID j) (je_Period j) =
      filter (\<lambda>l. jl_JournalEntryID l \<noteq> k) (posted_lines d en (je_BookID j) (je_Period j)) @ R \<and>
    map (\<lambda>l. (jl_AccountCode l, jl_DebitAmount l, jl_CreditAmount l)) R =
      map (\<lambda>l. (jl_AccountCode l, jl_CreditAmount l, jl_DebitAmount l)) (entry_lines d en k)"
proof -
  let ?j = "j\<lparr>je_Lines := entry_lines d en k\<rparr>"
  have wf: "journals_wf d" using inv(1) by (simp add: ledger_inv_def)
  obtain rv y z d1 d2 d3 where rv: "rv = buildReversal e ?j d" and c: "journal_CreateTx e rv d = (None, d1)"
    and p: "journal_PostTx e (Some d) en (je_ID rv) d1 = (Inr y, d2)" and w: "journal_VoidTx e (Some d) en k d2 = (Inr z, d3)"
    and same: "same_journal d3 d'"
    by (rule void_steps [OF v s j])
  have jk: "je_ID j = k" "je_EntityID j = en" using j(1) by (auto simp: find_entry_def je_key_def dest: find_SomeD)
  have f: "je_EntityID rv = en" "je_Status rv = JournalStatusDraft" "je_BookID rv = je_BookID j" "je_Period rv = je_Period j"
    "je_Lines rv = reversal_lines e ?j"
    using rv jk by (simp_all add: buildReversal_def reversal_lines_def)
  note E = void_entries [OF wf j c f(1,2) p w]
  from c obtain R where R: "journal_lines d1 = journal_lines d @ R" "list_all2 (line_stored e) (map (journal_row rv) (je_Lines rv)) R"
    by (cases rule: create_cases) (auto simp flip: take_map)
  have ls: "journal_lines d' = journal_lines d @ R"
    using same R(1) PostTx_cases [OF p] VoidTx_cases [OF w] journal_change_frame(1) by auto
  have R1: "\<forall>l \<in> set R. jl_EntityID l = en \<and> jl_JournalEntryID l = je_ID rv"
    using stored_entry [of e "length (je_Lines rv)" rv "je_Lines rv" R] R(2) f(1) by (auto simp: jl_entry_def)
  have old: "\<forall>l \<in> set (journal_lines d). jl_JournalEntryID l \<noteq> je_ID rv"
  proof
    fix l assume "l \<in> set (journal_lines d)"
    then obtain i where "i \<in> set (journal_entries d)" "je_key i = jl_entry l" using wf by (auto simp: journals_wf_def)
    with fresh [OF E(2)] show "jl_JournalEntryID l \<noteq> je_ID rv" by (auto simp: je_key_def jl_entry_def)
  qed
  have pe: "(\<exists>x \<in> set (journal_entries d'). posted_in i (je_BookID j) (je_Period j) x) \<longleftrightarrow>
      i = je_ID rv \<or> i \<noteq> k \<and> (\<exists>x \<in> set (journal_entries d). posted_in i (je_BookID j) (je_Period j) x)" for i
    using same E(3) f(3,4) by (auto simp: E(1) posted_in_def)
  have "posted_lines d' en (je_BookID j) (je_Period j) =
      filter (\<lambda>l. jl_JournalEntryID l \<noteq> k) (posted_lines d en (je_BookID j) (je_Period j)) @ R"
    unfolding posted_lines_def ls pe filter_append filter_filter using old R1
    by (auto simp: filter_id_conv intro!: filter_cong)
  moreover have "map (\<lambda>l. (jl_AccountCode l, jl_DebitAmount l, jl_CreditAmount l)) R =
      map (\<lambda>l. (jl_AccountCode l, jl_CreditAmount l, jl_DebitAmount l)) (entry_lines d en k)"
  proof -
    have amounts: "\<forall>l \<in> set (entry_lines d en k). stored_line num l"
      using inv(1) by (auto simp: ledger_inv_def entry_lines_def)
    then have sl: "\<forall>l \<in> set (reversal_lines e ?j). stored_line num l"
      by (auto simp: reversal_lines_def reversal_line_def stored_line_def in_set_enumerate_eq)
    note am = stored_amounts [OF R(2) [unfolded f(5)] inv(3) sl, unfolded reversal_lines_amounts]
    have "map jl_AccountCode R = map jl_AccountCode (reversal_lines e ?j)"
      using R(2) unfolding f(5) by (auto simp: list_all2_conv_all_nth intro!: nth_equalityI dest!: line_stored_fields)
    also have "\<dots> = map jl_AccountCode (entry_lines d en k)"
      by (auto simp: reversal_lines_def reversal_line_def case_prod_beta nth_enumerate_eq intro!: nth_equalityI)
    finally show ?thesis using am by (auto simp: list_eq_iff_nth_eq)
  qed
  ultimately show ?thesis by blast
qed

definition example_reversal :: JournalEntry where
  "example_reversal = buildReversal plain_env (example_entry JournalStatusPosted\<lparr>je_Lines := example_lines\<rparr>)
     (example_db JournalStatusPosted PeriodStatusOpen)"

lemma example_reversal_simps [simp]: "je_ID example_reversal = ''id-0''" "je_EntityID example_reversal = ''e1''"
  "je_Status example_reversal = JournalStatusDraft"
  by (simp_all add: example_reversal_def buildReversal_def)

lemma example_reversal_new: "je_voucher example_reversal \<noteq> (''e1'', ''b1'', ''2025-03'', ''V-1'')"
  by (simp add: example_reversal_def je_voucher_def buildReversal_def journal_NextVoucherNo_def voucher_no_def VoucherWordJi_def zh_def)

lemma example_reversal_rows:
  "map (journal_row example_reversal) (je_Lines example_reversal) =
     [example_line ''id-1'' 1 ''1002'' (Fin 0) (Fin 100)\<lparr>jl_JournalEntryID := ''id-0'', jl_Direction := DirectionCredit\<rparr>,
      example_line ''id-2'' 2 ''6001'' (Fin 100) (Fin 0)\<lparr>jl_JournalEntryID := ''id-0'', jl_Direction := DirectionDebit\<rparr>]"
  by (simp add: example_reversal_def buildReversal_def reversal_line_def example_lines_def example_line_def journal_row_def journal_own_line_def
    reverseDirection_def DirectionDebit_def DirectionCredit_def)

lemma example_reversal_created: "\<exists>d1. journal_CreateTx plain_env example_reversal (example_db JournalStatusPosted PeriodStatusOpen) = (None, d1)"
  using example_reversal_new
  by (simp add: journal_CreateTx_def journal_insert_entry_def example_reversal_rows journal_insert_line_def int4_def jl_slot_def
    example_line_def example_lines_def)

lemma example_void_call: "\<exists>q. VoidJournalEntry plain_env full_service no_context ''e1'' ''j1'' ''u1''
    (example_db JournalStatusPosted PeriodStatusOpen) = (Inr q, example_voided)"
proof -
  let ?d = "example_db JournalStatusPosted PeriodStatusOpen"
  obtain d1 where c: "journal_CreateTx plain_env example_reversal ?d = (None, d1)" using example_reversal_created by blast
  have wf: "journals_wf d1" using create_wf [OF example_wf c] .
  have e: "find_entry d1 (''id-0'', ''e1'') = Some (entry_row plain_env example_reversal)"
      "find_entry d1 (''j1'', ''e1'') = Some (example_entry JournalStatusPosted)"
    using c by (auto elim!: create_cases simp: find_entry_def je_key_def)
  obtain d2 where p: "journal_change plain_env [JournalStatusDraft] JournalStatusPosted (''id-0'', ''e1'') d1 = Some d2"
    using change_defined [OF wf e(1)] by fastforce
  have "journal_status d2 (''j1'', ''e1'') = Some JournalStatusPosted"
    using journal_change_laws(2) [OF wf p] e(2) by (simp add: journal_status_def)
  then obtain d3 where v: "journal_change plain_env [JournalStatusDraft, JournalStatusPosted] JournalStatusVoided (''j1'', ''e1'') d2 = Some d3"
    using journal_change_laws(1) [OF journal_change_wf [OF wf p], of plain_env "[JournalStatusDraft, JournalStatusPosted]"
      JournalStatusVoided "(''j1'', ''e1'')"] by auto
  have reread: "journal_read Journal_Reread plain_env ?d ''e1'' ''id-0'' = Inr None"
      "\<exists>i. journal_read Journal_Reread plain_env ?d ''e1'' ''j1'' = Inr (Some i)"
    by (simp_all add: journal_read_def find_entry_def)
  have "\<exists>q. fst (VoidJournalEntry plain_env full_service no_context ''e1'' ''j1'' ''u1'' ?d) = Inr q"
    using c p v reread
    by (auto simp: VoidJournalEntry_def journal_PostTx_def journal_VoidTx_def example_reversal_def [symmetric] Let_def)
  then show ?thesis by (auto simp: example_voided_def prod_eq_iff)
qed

theorem void_reverses_twice_witness:
  "\<exists>R. posted_lines example_voided ''e1'' ''b1'' ''2025-03'' =
      filter (\<lambda>l. jl_JournalEntryID l \<noteq> ''j1'')
        (posted_lines (example_db JournalStatusPosted PeriodStatusOpen) ''e1'' ''b1'' ''2025-03'') @ R \<and>
    map (\<lambda>l. (jl_AccountCode l, jl_DebitAmount l, jl_CreditAmount l)) R =
      [(''1002'', Fin 0, Fin 100), (''6001'', Fin 100, Fin 0)]"
proof -
  obtain q where "VoidJournalEntry plain_env full_service no_context ''e1'' ''j1'' ''u1''
    (example_db JournalStatusPosted PeriodStatusOpen) = (Inr q, example_voided)" using example_void_call by blast
  from void_reverses_twice [OF example_inv plain_stable _ _ example_found _ this] show ?thesis
    by (simp add: example_lines_def example_line_def)
qed

section \<open>Approval\<close>

lemma buildJournalDraft_balanced:
  assumes "buildJournalDraft e s iv d = Inr v"
  shows "length (je_Lines v) = 3 \<and> validateBalanced (je_Lines v) = None \<and> je_Status v = JournalStatusDraft \<and>
    je_SourceType v = ''invoice'' \<and> je_SourceID v = iv_ID iv \<and> je_EntityID v = iv_EntityID iv \<and> je_BookID v = iv_BookID iv \<and>
    je_Period v = accountingPeriod e (iv_IssueDate iv)"
  using assms
  by (auto simp: buildJournalDraft_def Let_def buildJournalLines_def inputLines_def outputLines_def
    split: if_splits option.splits prod.splits)

lemma approve_inside:
  assumes "invoice_ApproveTx e tx en i d = (Inr q, d1)"
  shows "invoice_change e StatusPendingReview StatusApproved (i, en) d = Some d1"
  using assms by (auto simp: invoice_ApproveTx_def invoice_updateStatus_def split: if_splits option.splits)


definition example_invoice :: "string \<Rightarrow> Invoice" where
  "example_invoice status = blank_invoice\<lparr>iv_ID := ''i1'', iv_EntityID := ''e1'', iv_BookID := ''b1'', iv_InvoiceNo := ''12345678'',
     iv_Direction := DirectionOutput, iv_IssueDate := ''2025-03-01'', iv_BuyerName := ''buyer'', iv_AmountWithoutTax := Fin 100,
     iv_TaxAmount := Fin 13, iv_AmountWithTax := Fin 113, iv_Status := status\<rparr>"

lemma example_invoice_simps [simp]: "iv_ID (example_invoice st) = ''i1''" "iv_EntityID (example_invoice st) = ''e1''"
  "iv_BookID (example_invoice st) = ''b1''" "iv_Status (example_invoice st) = st" "iv_IssueDate (example_invoice st) = ''2025-03-01''"
  "iv_Direction (example_invoice st) = DirectionOutput" "iv_AmountWithoutTax (example_invoice st) = Fin 100"
  "iv_TaxAmount (example_invoice st) = Fin 13" "iv_AmountWithTax (example_invoice st) = Fin 113"
  "iv_key (example_invoice st) = (''i1'', ''e1'')"
  by (simp_all add: example_invoice_def blank_invoice_def iv_key_def)

definition example_invoices :: "string \<Rightarrow> db" where
  "example_invoices status = empty_db\<lparr>invoices := [example_invoice status]\<rparr>"

lemma example_invoices_simps [simp]: "invoices (example_invoices st) = [example_invoice st]" "journal_entries (example_invoices st) = []"
  "journal_lines (example_invoices st) = []" "accounting_periods (example_invoices st) = []" "chart_of_accounts (example_invoices st) = []"
  by (simp_all add: example_invoices_def empty_db_def)

lemma example_invoices_wf [simp]: "invoices_wf (example_invoices st)"
  by (simp add: invoices_wf_def)

lemma example_invoices_open [simp]: "\<not> period_closed plain_env full_service en b p (example_invoices st)"
  by (simp add: period_closed_def period_IsClosed_def find_period_def)

lemma example_period_of [simp]: "accountingPeriod plain_env ''2025-03-01'' = ''2025-03''"
  by (simp add: accountingPeriod_def validPeriod_def periodPattern_def eval_nat_numeral is_digit_def digit_val_def)

lemma example_money: "roundMoney (Fin 113) = Fin 113" "roundMoney (Fin 100) = Fin 100" "roundMoney (Fin 13) = Fin 13"
  by (simp_all add: float_eval)

text \<open>Without faults an entry with fresh identifiers and line numbers can be inserted.\<close>

lemma plain_insert_lines:
  "\<lbrakk>distinct (map jl_ID (journal_lines d @ ls)); distinct (map jl_slot (journal_lines d @ ls));
    \<forall>l \<in> set ls. int4 (jl_LineNo l) \<and> (\<exists>j \<in> set (journal_entries d). je_ID j = jl_JournalEntryID l)\<rbrakk> \<Longrightarrow>
   fst (journal_insert_lines plain_env ls d) = None"
proof (induction ls arbitrary: d)
  case (Cons l ls)
  have "jl_ID l \<notin> jl_ID ` set (journal_lines d)" "jl_slot l \<notin> jl_slot ` set (journal_lines d)" using Cons.prems(1,2) by auto
  with Cons.prems(3) have "journal_insert_line plain_env l d = Inr (d\<lparr>journal_lines := journal_lines d @ [l]\<rparr>)"
    by (auto simp: journal_insert_line_def list_ex_iff Let_def dest: fresh)
  with Cons.prems show ?case by (auto intro!: Cons.IH)
qed simp

lemma example_draft:
  "\<exists>j. buildJournalDraft plain_env full_service (example_invoice st) (example_invoices st) = Inr j \<and>
     (\<forall>d. journal_entries d = [] \<longrightarrow> journal_lines d = [] \<longrightarrow> fst (journal_CreateTx plain_env j d) = None)"
proof -
  let ?b = "buildJournalLines plain_env (example_invoice st) (lookup_account plain_env full_service (example_invoice st) (example_invoices st))"
  have vb: "validateBalanced (fst ?b) = None"
    by (simp add: validateBalanced_None_iff buildJournalLines_def outputLines_def voucher_line_def example_money fsum_def float_eval)
  have lt: "\<not> flt (Fin 100) (Fin 0)" "\<not> flt (Fin 13) (Fin 0)" "\<not> flt (Fin 113) (Fin 0)" "moneyEqual (fadd (Fin 100) (Fin 13)) (Fin 113)"
    by (simp_all add: float_eval)
  obtain ls sm where b: "?b = (ls, sm)" by fastforce
  with vb lt obtain j where j: "buildJournalDraft plain_env full_service (example_invoice st) (example_invoices st) = Inr j" "je_Lines j = ls"
    by (auto simp: buildJournalDraft_def Let_def)
  have ls: "map jl_ID ls = [''id-0'', ''id-1'', ''id-2'']" "map jl_LineNo ls = [1, 2, 3]"
    using b by (auto simp: buildJournalLines_def outputLines_def voucher_line_def numeral_2_eq_2)
  have "fst (journal_CreateTx plain_env j d) = None" if "journal_entries d = []" "journal_lines d = []" for d
    using that ls unfolding journal_CreateTx_def journal_insert_entry_def j(2)
    by (auto simp: map_eq_Cons_conv jl_slot_def int4_def comp_def intro!: plain_insert_lines)
  with j show ?thesis by blast
qed


end
