(* ===== verification/Statements.thy ===== *)
theory Statements
  imports Vouchers "HOL-Library.Multiset"
begin

text \<open>
  The trial balance and the account balance are exact: what the code adds up in rounded floating point are the sums of
  the posted cents, account by account and in total.
\<close>

section \<open>Grouped sums\<close>

lemma grouped_sum:
  fixes f :: "'a \<Rightarrow> int"
  assumes "distinct ks" "key ` set ls \<subseteq> set ks"
  shows "sum_list (map (\<lambda>k. sum_list (map f (filter (\<lambda>l. key l = k) ls))) ks) = sum_list (map f ls)"
  using assms(2)
proof (induction ls)
  case (Cons l ls)
  have "sum_list (map (\<lambda>k. sum_list (map f (filter (\<lambda>l. key l = k) (l # ls)))) ks) =
      sum_list (map (\<lambda>k. (if key l = k then f l else 0) + sum_list (map f (filter (\<lambda>l. key l = k) ls))) ks)"
    by (intro arg_cong [where f = sum_list] map_cong) auto
  also have "\<dots> = sum_list (map (\<lambda>k. if key l = k then f l else 0) ks) + sum_list (map f ls)"
    using Cons by (simp add: sum_list_addf)
  also have "sum_list (map (\<lambda>k. if key l = k then f l else 0) ks) = f l"
    using Cons.prems assms(1) by (subst sum_list_distinct_conv_sum_set) (auto simp: sum.delta')
  finally show ?case by simp
qed (induction ks, simp_all)

lemma grouped_abs:
  fixes f :: "'a \<Rightarrow> int"
  assumes "distinct ks" "key ` set ls \<subseteq> set ks"
  shows "sum_list (map (\<lambda>k. \<bar>sum_list (map f (filter (\<lambda>l. key l = k) ls))\<bar>) ks) \<le> sum_list (map (\<lambda>l. \<bar>f l\<bar>) ls)"
proof -
  have "sum_list (map (\<lambda>k. \<bar>sum_list (map f (filter (\<lambda>l. key l = k) ls))\<bar>) ks) \<le>
      sum_list (map (\<lambda>k. sum_list (map (\<lambda>l. \<bar>f l\<bar>) (filter (\<lambda>l. key l = k) ls))) ks)"
    using abs_sum_list [of "map f (filter (\<lambda>l. key l = k) ls)" for k] by (intro sum_list_mono) (simp add: comp_def)
  then show ?thesis by (simp add: grouped_sum [OF assms])
qed

lemma filter_abs_le: "sum_list (map (\<lambda>l. \<bar>f l :: int\<bar>) (filter P ls)) \<le> sum_list (map (\<lambda>l. \<bar>f l\<bar>) ls)"
  by (induction ls) auto

section \<open>The rows of the trial balance\<close>

text \<open>The cents of a line, and lines whose amounts are cents and add up within the exact range.\<close>

definition debit_cents :: "JournalLine \<Rightarrow> int" where "debit_cents l = to_cents (jl_DebitAmount l)"
definition credit_cents :: "JournalLine \<Rightarrow> int" where "credit_cents l = to_cents (jl_CreditAmount l)"

definition cents_lines :: "JournalLine list \<Rightarrow> bool" where
  "cents_lines ls \<longleftrightarrow> (\<forall>l \<in> set ls. is_cents (jl_DebitAmount l) (debit_cents l) \<and> is_cents (jl_CreditAmount l) (credit_cents l)) \<and>
     sum_list (map (\<lambda>l. \<bar>debit_cents l\<bar>) ls) \<le> cap \<and> sum_list (map (\<lambda>l. \<bar>credit_cents l\<bar>) ls) \<le> cap"

definition account_debit :: "JournalLine list \<Rightarrow> account_key \<Rightarrow> int" where
  "account_debit ls k = sum_list (map debit_cents (filter (\<lambda>l. line_key l = k) ls))"

definition account_credit :: "JournalLine list \<Rightarrow> account_key \<Rightarrow> int" where
  "account_credit ls k = sum_list (map credit_cents (filter (\<lambda>l. line_key l = k) ls))"

definition row_exact :: "JournalLine list \<Rightarrow> account_key \<Rightarrow> TrialBalanceRow \<Rightarrow> bool" where
  "row_exact ls k r \<longleftrightarrow> tbr_AccountCode r = fst k \<and> tbr_AccountName r = snd k \<and> is_cents (tbr_DebitAmount r) (account_debit ls k) \<and>
     is_cents (tbr_CreditAmount r) (account_credit ls k) \<and> is_cents (tbr_NetAmount r) (account_debit ls k - account_credit ls k)"

lemma account_bounds:
  assumes "cents_lines ls"
  shows "\<bar>account_debit ls k\<bar> \<le> cap" "\<bar>account_credit ls k\<bar> \<le> cap"
  using assms abs_sum_list [of "map debit_cents (filter (\<lambda>l. line_key l = k) ls)"]
    abs_sum_list [of "map credit_cents (filter (\<lambda>l. line_key l = k) ls)"]
    filter_abs_le [of debit_cents "\<lambda>l. line_key l = k" ls] filter_abs_le [of credit_cents "\<lambda>l. line_key l = k" ls]
  by (simp_all add: cents_lines_def account_debit_def account_credit_def comp_def)

lemma cents_lines_snoc:
  assumes "cents_lines (ls @ [l])"
  shows "cents_lines ls" "is_cents (jl_DebitAmount l) (debit_cents l)" "is_cents (jl_CreditAmount l) (credit_cents l)"
    "\<bar>debit_cents l\<bar> \<le> cap" "\<bar>credit_cents l\<bar> \<le> cap"
proof -
  have "0 \<le> sum_list (map (\<lambda>l. \<bar>f l :: int\<bar>) ls)" for f by (rule sum_list_nonneg) auto
  from this [of debit_cents] this [of credit_cents] assms
  show "cents_lines ls" "is_cents (jl_DebitAmount l) (debit_cents l)" "is_cents (jl_CreditAmount l) (credit_cents l)"
    "\<bar>debit_cents l\<bar> \<le> cap" "\<bar>credit_cents l\<bar> \<le> cap"
    by (auto simp: cents_lines_def)
qed

lemma row_add:
  assumes "cents_lines (ls @ [l])" "row_exact ls (line_key l) r"
  shows "row_exact (ls @ [l]) (line_key l) (tb_add l r)"
proof -
  note L = cents_lines_snoc [OF assms(1)]
  have ad: "account_debit (ls @ [l]) (line_key l) = account_debit ls (line_key l) + debit_cents l"
    "account_credit (ls @ [l]) (line_key l) = account_credit ls (line_key l) + credit_cents l"
    by (simp_all add: account_debit_def account_credit_def)
  have "is_cents (roundMoney (fadd (tbr_DebitAmount r) (jl_DebitAmount l))) (account_debit (ls @ [l]) (line_key l))"
    "is_cents (roundMoney (fadd (tbr_CreditAmount r) (jl_CreditAmount l))) (account_credit (ls @ [l]) (line_key l))"
    unfolding ad using assms(2) L account_bounds [OF L(1), of "line_key l"] by (auto simp: row_exact_def intro!: roundMoney_add)
  with assms(2) account_bounds [OF assms(1), of "line_key l"] show ?thesis
    by (auto simp: row_exact_def tb_add_def Let_def intro!: roundMoney_sub)
qed

lemma tb_collect_snoc:
  "tb_collect (ls @ [l]) = al_upd (tb_blank (line_key l)) (tb_add l) (line_key l) (tb_collect ls)"
  by (simp add: tb_collect_def)

lemma tb_collect_keys: "distinct (map fst (tb_collect ls)) \<and> fst ` set (tb_collect ls) = line_key ` set ls"
proof (induction ls rule: rev_induct)
  case (snoc l ls) then show ?case by (simp add: tb_collect_snoc distinct_al_upd keys_al_upd)
qed (simp add: tb_collect_def)

lemma tb_collect_rows: "cents_lines ls \<Longrightarrow> row_exact ls k (al_get (tb_blank k) (tb_collect ls) k)"
proof (induction ls arbitrary: k rule: rev_induct)
  case (snoc l ls)
  note IH = snoc.IH [OF cents_lines_snoc(1) [OF snoc.prems]]
  show ?case
  proof (cases "k = line_key l")
    case True
    with row_add [OF snoc.prems IH] show ?thesis by (simp add: tb_collect_snoc)
  next
    case False
    then have "al_get (tb_blank k) (tb_collect (ls @ [l])) k = al_get (tb_blank k) (tb_collect ls) k"
      by (simp add: tb_collect_snoc al_get_def map_of_al_upd)
    with IH [of k] False show ?thesis by (simp add: row_exact_def account_debit_def account_credit_def)
  qed
qed (simp add: row_exact_def tb_collect_def tb_blank_def al_get_def account_debit_def account_credit_def)

lemma tb_totals_rsum: "tb_totals rows = (rsum (map tbr_DebitAmount rows), rsum (map tbr_CreditAmount rows))"
  by (induction rows rule: rev_induct) (simp_all add: tb_totals_def rsum_def)

text \<open>C19: the trial balance is exact.  For posted lines whose amounts are cents (of magnitudes that add up to at most
  \<open>2 ^ 48\<close> on each side) it has one row for every account, with the exact sum of the account's debits, of its credits and
  their difference; the totals are the exact sums over all lines, and the balanced flag is set exactly when they agree to the cent.\<close>

theorem trial_balance_exact:
  assumes c: "cents_lines ls" and o: "\<And>ks. mset (ord ks) = mset ks"
  shows "map (\<lambda>r. (tbr_AccountCode r, tbr_AccountName r)) (tbal_Rows (trial_balance ord p ls)) = ord (map fst (tb_collect ls)) \<and>
    set (ord (map fst (tb_collect ls))) = line_key ` set ls \<and> distinct (ord (map fst (tb_collect ls))) \<and>
    (\<forall>r \<in> set (tbal_Rows (trial_balance ord p ls)). row_exact ls (tbr_AccountCode r, tbr_AccountName r) r) \<and>
    is_cents (tbal_TotalDebit (trial_balance ord p ls)) (sum_list (map debit_cents ls)) \<and>
    is_cents (tbal_TotalCredit (trial_balance ord p ls)) (sum_list (map credit_cents ls)) \<and>
    (tbal_Balanced (trial_balance ord p ls) \<longleftrightarrow> sum_list (map debit_cents ls) = sum_list (map credit_cents ls))"
proof -
  define m where "m = tb_collect ls"
  define ks where "ks = ord (map fst m)"
  define rows where "rows = map (\<lambda>k. al_get (tb_blank k) m k) ks"
  have K: "distinct (map fst m)" "fst ` set m = line_key ` set ls" using tb_collect_keys [of ls] by (simp_all add: m_def)
  have ks: "set ks = line_key ` set ls" "distinct ks"
    using o [of "map fst m"] K mset_eq_imp_distinct_iff [of ks "map fst m"] mset_eq_setD [OF o [of "map fst m"]]
    by (simp_all add: ks_def)
  have re: "row_exact ls k (al_get (tb_blank k) m k)" for k using tb_collect_rows [OF c] by (simp add: m_def)
  then have keys: "map (\<lambda>r. (tbr_AccountCode r, tbr_AccountName r)) rows = ks"
    by (simp add: rows_def comp_def row_exact_def map_idI)
  have D: "is_cents (rsum (map tbr_DebitAmount rows)) (sum_list (map (account_debit ls) ks))"
    using re grouped_abs [OF ks(2), of line_key ls debit_cents] ks(1) c
    by (intro rsum_cents) (auto simp: rows_def list_all2_map1 list_all2_map2 list_all2_same row_exact_def comp_def
        account_debit_def cents_lines_def)
  have C: "is_cents (rsum (map tbr_CreditAmount rows)) (sum_list (map (account_credit ls) ks))"
    using re grouped_abs [OF ks(2), of line_key ls credit_cents] ks(1) c
    by (intro rsum_cents) (auto simp: rows_def list_all2_map1 list_all2_map2 list_all2_same row_exact_def comp_def
        account_credit_def cents_lines_def)
  have S: "sum_list (map (account_debit ls) ks) = sum_list (map debit_cents ls)"
    "sum_list (map (account_credit ls) ks) = sum_list (map credit_cents ls)"
    using grouped_sum [OF ks(2), of line_key ls debit_cents] grouped_sum [OF ks(2), of line_key ls credit_cents] ks(1)
    by (simp_all add: account_debit_def [abs_def] account_credit_def [abs_def])
  have tb: "trial_balance ord p ls = \<lparr> tbal_Period = p, tbal_TotalDebit = rsum (map tbr_DebitAmount rows),
      tbal_TotalCredit = rsum (map tbr_CreditAmount rows),
      tbal_Balanced = moneyEqual (rsum (map tbr_DebitAmount rows)) (rsum (map tbr_CreditAmount rows)), tbal_Rows = rows \<rparr>"
    by (simp add: trial_balance_def tb_totals_rsum Let_def rows_def ks_def m_def)
  have B: "\<bar>sum_list (map debit_cents ls)\<bar> \<le> cap" "\<bar>sum_list (map credit_cents ls)\<bar> \<le> cap"
    using c abs_sum_list [of "map debit_cents ls"] abs_sum_list [of "map credit_cents ls"] by (simp_all add: cents_lines_def comp_def)
  show ?thesis
    unfolding tb using keys ks D C S re moneyEqual_cents [OF D [unfolded S] C [unfolded S] B]
    by (auto simp: rows_def row_exact_def m_def [symmetric] ks_def [symmetric])
qed

lemma example_cents: "cents_lines example_lines"
  by (simp add: cents_lines_def example_lines_def example_line_def debit_cents_def credit_cents_def is_cents_def to_cents_def
    float_eval cap_def)

theorem trial_balance_exact_witness:
  "set (map fst (tb_collect example_lines)) = {(''1002'', ''1002''), (''6001'', ''6001'')} \<and>
   is_cents (tbal_TotalDebit (trial_balance (\<lambda>ks. ks) ''2025-03'' example_lines)) 10000 \<and>
   tbal_Balanced (trial_balance (\<lambda>ks. ks) ''2025-03'' example_lines)"
  using trial_balance_exact [OF example_cents, where ord = "\<lambda>ks. ks" and p = "''2025-03''"]
  by (simp add: example_lines_def example_line_def line_key_def debit_cents_def credit_cents_def to_cents_def float_eval)

section \<open>Reachable books balance\<close>

lemma order_by_mset [simp]: "mset (order_by e f xs) = mset xs"
  by (simp add: order_by_def)

lemma cents_lines_perm: "mset ls' = mset ls \<Longrightarrow> cents_lines ls' \<longleftrightarrow> cents_lines ls"
  unfolding cents_lines_def
  by (simp add: sum_mset_sum_list [symmetric] mset_eq_setD [of ls' ls] flip: sum_mset_sum_list)

lemma sum_perm: "mset ls' = mset ls \<Longrightarrow> sum_list (map f ls') = sum_list (map f ls)" for f :: "'a \<Rightarrow> int"
  by (metis mset_map sum_mset_sum_list)

definition posted_ids :: "db \<Rightarrow> string \<Rightarrow> string \<Rightarrow> string \<Rightarrow> string list" where
  "posted_ids d en b p = map je_ID (filter (\<lambda>j. je_EntityID j = en \<and> posted_in (je_ID j) b p j) (journal_entries d))"

lemma posted_lines_of:
  assumes wf: "journals_wf d" and i: "i \<in> set (posted_ids d en b p)"
  shows "filter (\<lambda>l. jl_JournalEntryID l = i) (posted_lines d en b p) =
    filter (\<lambda>l. jl_EntityID l = en \<and> jl_JournalEntryID l = i) (journal_lines d)"
  using i by (auto simp: posted_lines_def posted_ids_def posted_in_def intro!: filter_cong)

lemma posted_lines_ids:
  assumes wf: "journals_wf d" and l: "l \<in> set (posted_lines d en b p)"
  shows "jl_JournalEntryID l \<in> set (posted_ids d en b p)"
proof -
  obtain j where j: "j \<in> set (journal_entries d)" "posted_in (jl_JournalEntryID l) b p j" "jl_EntityID l = en" "l \<in> set (journal_lines d)"
    using l by (auto simp: posted_lines_def)
  obtain i where i: "i \<in> set (journal_entries d)" "je_key i = jl_entry l" using wf j(4) by (auto simp: journals_wf_def)
  have "i = j" using journals_wf_same_id [OF wf i(1) j(1)] i(2) j(2) by (simp add: posted_in_def je_key_def jl_entry_def)
  with i(2) j show ?thesis
    by (force simp: posted_ids_def posted_in_def je_key_def jl_entry_def)
qed

text \<open>Vouchers small enough for the balance check to be exact (\<open>amounts_ok\<close>).\<close>

definition vouchers_ok :: "db \<Rightarrow> bool" where
  "vouchers_ok d \<longleftrightarrow> (\<forall>j \<in> set (journal_entries d). let ls = entry_lines d (je_EntityID j) (je_ID j) in
     cents_lines ls \<and> amounts_ok (map debit_cents ls) \<and> amounts_ok (map credit_cents ls))"

lemma posted_sums:
  assumes inv: "ledger_inv num d" and ok: "vouchers_ok d"
  shows "sum_list (map debit_cents (posted_lines d en b p)) = sum_list (map credit_cents (posted_lines d en b p))"
proof -
  let ?ls = "posted_lines d en b p" and ?ids = "posted_ids d en b p"
  have wf: "journals_wf d" using inv by (simp add: ledger_inv_def)
  have ids: "distinct ?ids" "jl_JournalEntryID ` set ?ls \<subseteq> set ?ids"
    using wf posted_lines_ids [OF wf] by (auto simp: journals_wf_def posted_ids_def distinct_map_filter)
  have eq: "sum_list (map debit_cents (filter (\<lambda>l. jl_JournalEntryID l = i) ?ls)) =
      sum_list (map credit_cents (filter (\<lambda>l. jl_JournalEntryID l = i) ?ls))" if i: "i \<in> set ?ids" for i
  proof -
    obtain j where j: "j \<in> set (journal_entries d)" "je_ID j = i" "je_EntityID j = en" "je_Status j = JournalStatusPosted"
      using i by (auto simp: posted_ids_def posted_in_def)
    have perm: "mset (entry_lines d en i) = mset (filter (\<lambda>l. jl_JournalEntryID l = i) ?ls)"
      by (simp add: posted_lines_of [OF wf i] entry_lines_def)
    have "validateBalanced (entry_lines d en i) = None" using inv j by (auto simp: ledger_inv_def balanced_entry_def)
    moreover have "cents_lines (entry_lines d en i)" "amounts_ok (map debit_cents (entry_lines d en i))"
      "amounts_ok (map credit_cents (entry_lines d en i))"
      using ok j by (auto simp: vouchers_ok_def Let_def)
    ultimately have "sum_list (map debit_cents (entry_lines d en i)) = sum_list (map credit_cents (entry_lines d en i))"
      using balanced_cents [of "entry_lines d en i" "map debit_cents (entry_lines d en i)" "map credit_cents (entry_lines d en i)"]
      by (simp add: cents_lines_def list_all2_map1 list_all2_map2 list_all2_same)
    then show ?thesis using sum_perm [OF perm, of debit_cents] sum_perm [OF perm, of credit_cents] by simp
  qed
  have "sum_list (map debit_cents ?ls) = sum_list (map (\<lambda>i. sum_list (map debit_cents (filter (\<lambda>l. jl_JournalEntryID l = i) ?ls))) ?ids)"
    by (rule grouped_sum [OF ids, symmetric])
  also have "\<dots> = sum_list (map (\<lambda>i. sum_list (map credit_cents (filter (\<lambda>l. jl_JournalEntryID l = i) ?ls))) ?ids)"
    by (intro arg_cong [where f = sum_list] map_cong refl eq)
  also have "\<dots> = sum_list (map credit_cents ?ls)" by (rule grouped_sum [OF ids])
  finally show ?thesis .
qed

text \<open>C2: the books balance.  In every state a run of the service reaches from empty tables (or others that satisfy the invariant), whatever
  failed on the way,
  the trial balance of any book and period reports equal totals, as long as the amounts stay within the exact range
  (\<open>vouchers_ok\<close>: at most 1000 lines and \<open>2 ^ 39\<close> cents per voucher; the posted lines together at most \<open>2 ^ 48\<close> cents).\<close>

theorem reachable_books_balance:
  assumes r: "run num s P d0 d" "numeric_stable num" "ledger_inv num d0" and ok: "vouchers_ok d" "cents_lines (posted_lines d en b p)"
    and o: "\<And>ks. mset (ord ks) = mset ks" and t: "TrialBalance_report e ord en b p d = Inr tb"
  shows "tbal_Balanced tb \<and> (\<exists>k. is_cents (tbal_TotalDebit tb) k \<and> is_cents (tbal_TotalCredit tb) k)"
proof -
  let ?ls = "order_by e jl_AccountCode (posted_lines d en b p)"
  have tb: "tb = trial_balance ord p ?ls"
    using t by (auto simp: TrialBalance_report_def ListPostedLines_posted split: if_splits)
  have perm: "mset ?ls = mset (posted_lines d en b p)" by simp
  have "ledger_inv num d" by (rule run_inv [OF r])
  then have "sum_list (map debit_cents ?ls) = sum_list (map credit_cents ?ls)"
    using posted_sums [OF _ ok(1), of num en b p] by (simp only: sum_perm [OF perm])
  moreover have "cents_lines ?ls" using cents_lines_perm [OF perm] ok(2) by simp
  ultimately show ?thesis using trial_balance_exact [OF _ o, of ?ls p] unfolding tb by metis
qed

lemma example_posted_lines: "posted_lines example_posted ''e1'' ''b1'' ''2025-03'' = example_lines"
  by (simp add: posted_lines_def example_post posted_in_def example_lines_def example_line_def)

theorem reachable_books_balance_witness:
  "case TrialBalance_report plain_env (\<lambda>ks. ks) ''e1'' ''b1'' ''2025-03'' example_posted of
     Inl _ \<Rightarrow> False | Inr tb \<Rightarrow> tbal_Balanced tb"
proof -
  have el: "entry_lines example_posted ''e1'' ''j1'' = example_lines"
    using example_entry_lines by (simp add: entry_lines_def example_post)
  have ok: "vouchers_ok example_posted"
    using example_cents
    by (simp add: vouchers_ok_def example_post el Let_def) (simp add: amounts_ok_def example_lines_def example_line_def max_lines_def
      sum_cap_def debit_cents_def credit_cents_def to_cents_def float_eval)
  obtain tb where tb: "TrialBalance_report plain_env (\<lambda>ks. ks) ''e1'' ''b1'' ''2025-03'' example_posted = Inr tb"
    by (simp add: TrialBalance_report_def ListPostedLines_posted)
  with reachable_books_balance [OF example_run plain_stable example_inv ok, of "''e1''" "''b1''" "''2025-03''" "\<lambda>ks. ks" plain_env tb]
    example_cents show ?thesis by (simp add: example_posted_lines)
qed

text \<open>The account balance: every row shows the net balance of its account, in cents, on the debit side when it is
  not negative and on the credit side otherwise, the other side being zero.\<close>

theorem account_balance_exact:
  assumes "cents_lines ls" "row_exact ls k r"
  shows "is_cents (abr_EndingDebit (ab_row r)) (max 0 (account_debit ls k - account_credit ls k)) \<and>
    is_cents (abr_EndingCredit (ab_row r)) (max 0 (account_credit ls k - account_debit ls k))"
proof -
  let ?n = "account_debit ls k - account_credit ls k"
  have n: "is_cents (tbr_NetAmount r) ?n" using assms(2) by (simp add: row_exact_def)
  have b: "\<bar>?n\<bar> \<le> 2 * cap" using account_bounds [OF assms(1), of k] by simp
  show ?thesis
    using n roundMoney_neg [OF n b] cents_sign(2) [OF n b] by (auto simp: ab_row_def)
qed

theorem account_balance_exact_witness:
  "is_cents (abr_EndingCredit (ab_row (al_get (tb_blank (''6001'', ''6001'')) (tb_collect example_lines) (''6001'', ''6001'')))) 10000"
  using account_balance_exact [OF example_cents tb_collect_rows [OF example_cents], of "(''6001'', ''6001'')"]
  by (simp add: account_debit_def account_credit_def example_lines_def example_line_def line_key_def debit_cents_def credit_cents_def
      to_cents_def float_eval)

end
