(* ===== verification/Closing.thy ===== *)
theory Closing
  imports Statements
begin

text \<open>
  The life cycle of an accounting period: which changes of status the operations of the service can make, what
  closing a period guarantees, and that a period left in the status closing stays there.
\<close>

section \<open>The life cycle\<close>

definition period_next :: "(string \<times> string) set" where
  "period_next = {(PeriodStatusOpen, PeriodStatusClosing), (PeriodStatusOpen, PeriodStatusClosed),
     (PeriodStatusClosed, PeriodStatusOpen), (PeriodStatusClosed, PeriodStatusLocked)}"

definition period_moves :: "db \<Rightarrow> db \<Rightarrow> bool" where
  "period_moves d d' \<longleftrightarrow> (periods_wf d \<longrightarrow> periods_wf d' \<and>
     (\<forall>k st. period_status d k = Some st \<longrightarrow> (\<exists>st'. period_status d' k = Some st' \<and> (st' = st \<or> (st, st') \<in> period_next))))"

lemma period_views: "same_periods d d' \<Longrightarrow> periods_wf d' = periods_wf d \<and> period_status d' = period_status d"
  by (simp add: periods_wf_def period_status_def find_period_def fun_eq_iff)

lemma period_moves_same: "same_periods d d' \<Longrightarrow> period_moves d d'"
  using period_views [of d d'] unfolding period_moves_def by metis

lemma period_movesD:
  "period_moves d d' \<Longrightarrow> periods_wf d \<Longrightarrow> period_status d k = Some st \<Longrightarrow>
   periods_wf d' \<and> (\<exists>st'. period_status d' k = Some st' \<and> (st' = st \<or> (st, st') \<in> period_next))"
  unfolding period_moves_def by blast

lemma period_moves_cong: "accounting_periods d2 = accounting_periods d1 \<Longrightarrow> period_moves d d2 = period_moves d d1"
  using period_views [of d1 d2] by (simp add: period_moves_def)

lemma period_moves_audit [simp]: "period_moves d (period_audit e s c en b p a act q d1) = period_moves d d1"
  by (rule period_moves_cong) (simp add: period_audit_def)

text \<open>One guarded update either does nothing or changes the status of its key from \<open>f\<close> to \<open>t\<close>.\<close>

definition updates :: "string \<times> string \<times> string \<Rightarrow> string \<Rightarrow> string \<Rightarrow> db \<Rightarrow> db \<Rightarrow> bool" where
  "updates k f t d d' \<longleftrightarrow> same_periods d d' \<or> (periods_wf d \<longrightarrow> periods_wf d' \<and> period_status d k = Some f \<and>
     (\<forall>k'. period_status d' k' = (if k' = k then Some t else period_status d k')))"

lemma UpdateStatus_updates:
  assumes "period_UpdateStatus e en b p f t c d = (r, d')"
  shows "updates (en, b, p) f t d d'" "(\<exists>x. r = Inl x) \<or> (periods_wf d \<longrightarrow> period_status d (en, b, p) = Some f \<and>
    periods_wf d' \<and> (\<forall>k'. period_status d' k' = (if k' = (en, b, p) then Some t else period_status d k')))"
  using assms period_change_laws [of d e f t c "(en, b, p)"] period_change_wf [of d e f t c "(en, b, p)" d']
  by (auto simp: updates_def period_UpdateStatus_def split: if_splits option.splits)

lemma updates_moves: "updates k f t d d' \<Longrightarrow> (f, t) \<in> period_next \<Longrightarrow> period_moves d d'"
  by (auto simp: updates_def period_moves_same) (auto simp: period_moves_def)

lemma period_ops_move:
  "ensurePeriod e s en b p d = (r0, d') \<Longrightarrow> period_moves d d'"
  "ClosePeriod e txt ord s c en b p a d = (r, d') \<Longrightarrow> period_moves d d'"
  "ReopenPeriod e s c en b p a d = (r, d') \<Longrightarrow> period_moves d d'"
  "LockPeriod e s c en b p a d = (r, d') \<Longrightarrow> period_moves d d'"
proof -
  have ins: "period_moves d d1" if "period_Insert e q d = Inr d1" for q d1
    using that by (auto simp: period_Insert_def period_moves_def periods_wf_def period_status_def find_period_def find_append
      list_ex_iff pd_key_def split: if_splits option.split) metis+
  show "ensurePeriod e s en b p d = (r0, d') \<Longrightarrow> period_moves d d'"
    by (auto simp: ensurePeriod_def period_GetOrCreate_def Let_def period_moves_same dest!: ins
      split: if_splits option.splits sum.splits)
  have u: "period_moves d d1" if "period_UpdateStatus e en b p f t x d = (q, d1)" "(f, t) \<in> period_next" for f t x q d1
    using updates_moves [OF UpdateStatus_updates(1) [OF that(1)] that(2)] .
  show "ReopenPeriod e s c en b p a d = (r, d') \<Longrightarrow> period_moves d d'" "LockPeriod e s c en b p a d = (r, d') \<Longrightarrow> period_moves d d'"
    by (auto simp: ReopenPeriod_def LockPeriod_def period_moves_same dest: u
      split: if_splits option.splits sum.splits prod.splits) (auto simp: period_next_def dest: u)
  have open_closing: "period_moves d d1" if "period_UpdateStatus e en b p PeriodStatusOpen PeriodStatusClosing x d = (q, d1)" for x q d1
    using u [OF that] by (simp add: period_next_def)
  have second: "period_moves d d2" if "period_UpdateStatus e en b p PeriodStatusOpen PeriodStatusClosing x d = (Inr q, d1)"
    "period_UpdateStatus e en b p PeriodStatusClosing t x' d1 = (q', d2)" "t = PeriodStatusOpen \<or> t = PeriodStatusClosed" for x q d1 t x' q' d2
    using UpdateStatus_updates(2) [OF that(1)] UpdateStatus_updates(1) [OF that(2)] that(3) period_views [of d1 d2]
    by (auto simp: updates_def period_moves_def period_next_def)
  have reset: "period_moves d (snd (period_UpdateStatus e en b p PeriodStatusClosing PeriodStatusOpen x' d1))"
    if "period_UpdateStatus e en b p PeriodStatusOpen PeriodStatusClosing x d = (Inr q, d1)" for x q d1 x'
    using second [OF that, of PeriodStatusOpen x'] by (metis prod.collapse)
  show "ClosePeriod e txt ord s c en b p a d = (r, d') \<Longrightarrow> period_moves d d'"
    by (auto simp: ClosePeriod_def Let_def period_moves_same dest: open_closing second reset
      split: if_splits option.splits sum.splits prod.splits)
qed

lemma step_period_moves:
  assumes "ledger_step num s e d d'" shows "period_moves d d'"
  using assms
proof cases
  case draft then show ?thesis by (blast intro: period_moves_same Create_periods)
next case post then show ?thesis by (blast intro: period_moves_same Post_periods)
next case void then show ?thesis by (blast intro: period_moves_same Void_periods)
next case edit then show ?thesis by (blast intro: period_moves_same Update_periods)
next case batch then show ?thesis by (blast intro: period_moves_same dest: Batch_moves)
next case approve then show ?thesis by (blast intro: period_moves_same Approve_periods)
qed (auto intro: period_moves_same dest: period_ops_move dest!: invoice_op_frames import_frame other_op_frames)

text \<open>C20: the life cycle of a period.  Whatever operation the service runs, and whatever fails in it, a period keeps its
  status or goes from open to closed, from closed back to open, from closed to locked, or, when closing is interrupted,
  from open to closing.\<close>

theorem period_life_cycle:
  assumes "ledger_step num s e d d'" "periods_wf d" "period_status d k = Some st"
  shows "\<exists>st'. period_status d' k = Some st' \<and> (st' = st \<or> (st, st') \<in> {(PeriodStatusOpen, PeriodStatusClosing),
    (PeriodStatusOpen, PeriodStatusClosed), (PeriodStatusClosed, PeriodStatusOpen), (PeriodStatusClosed, PeriodStatusLocked)})"
  using period_movesD [OF step_period_moves [OF assms(1)] assms(2,3)] unfolding period_next_def by blast

lemma closing_run:
  "run num s P d d' \<Longrightarrow> periods_wf d \<Longrightarrow> period_status d k = Some PeriodStatusClosing \<Longrightarrow>
   periods_wf d' \<and> period_status d' k = Some PeriodStatusClosing"
proof (induction rule: run.induct)
  case (then_step d d1 e d2)
  then show ?case using period_movesD [OF step_period_moves [OF then_step.hyps(3)], of k PeriodStatusClosing] by (auto simp: period_next_def)
qed simp

text \<open>C22: a period left in the status closing (its closing was interrupted after the first update) never leaves it: no
  operation of the service finishes, resets or reopens it.\<close>

theorem closing_is_stuck:
  assumes "run num s P d d'" "periods_wf d" "period_status d k = Some PeriodStatusClosing"
  shows "period_status d' k = Some PeriodStatusClosing"
  using closing_run [OF assms] by simp

theorem closing_is_stuck_witness:
  "period_status (snd (ReopenPeriod plain_env full_service no_context ''e1'' ''b1'' ''2025-03'' ''u1''
     (example_db JournalStatusPosted PeriodStatusClosing))) (''e1'', ''b1'', ''2025-03'') = Some PeriodStatusClosing"
proof -
  let ?d = "example_db JournalStatusPosted PeriodStatusClosing"
  have "run (\<lambda>p s. Some) full_service (\<lambda>_. True) ?d (snd (ReopenPeriod plain_env full_service no_context ''e1'' ''b1'' ''2025-03'' ''u1'' ?d))"
    by (rule run_step [OF _ ledger_step.reopen_period]) (auto simp: prod_eq_iff)
  from closing_is_stuck [OF this, of "(''e1'', ''b1'', ''2025-03'')"] show ?thesis by simp
qed

theorem period_life_cycle_witness:
  "\<exists>st'. period_status (snd (LockPeriod plain_env full_service no_context ''e1'' ''b1'' ''2025-03'' ''u1''
       (example_db JournalStatusPosted PeriodStatusClosed))) (''e1'', ''b1'', ''2025-03'') = Some st' \<and>
     st' \<in> {PeriodStatusClosed, PeriodStatusOpen, PeriodStatusLocked}"
proof -
  let ?d = "example_db JournalStatusPosted PeriodStatusClosed"
  have "ledger_step (\<lambda>p s. Some) full_service plain_env ?d (snd (LockPeriod plain_env full_service no_context ''e1'' ''b1'' ''2025-03'' ''u1'' ?d))"
    by (rule ledger_step.lock_period) (auto simp: prod_eq_iff)
  from period_life_cycle [OF this, of "(''e1'', ''b1'', ''2025-03'')" PeriodStatusClosed] show ?thesis by auto
qed

section \<open>What closing guarantees\<close>

lemma none_listed: "min n (1000 :: nat) = 0 \<longleftrightarrow> n = 0"
  by auto

lemma nothing_pending:
  assumes "getPendingInvoiceCount e en b p d = 0" "\<not> fault e Invoice_List" "b \<noteq> ''''" "p \<noteq> ''''"
    "i \<in> set (invoices d)" "iv_EntityID i = en" "iv_BookID i = b" "issue_month i = p"
  shows "iv_Status i \<noteq> StatusPendingReview"
  using assms by (auto simp: getPendingInvoiceCount_def invoice_List_def page_def newest_first_def filter_empty_conv none_listed)

lemma nothing_drafted:
  assumes "getDraftJournalCount e en b p d = 0" "\<not> fault e Journal_List" "b \<noteq> ''''" "p \<noteq> ''''"
    "j \<in> set (journal_entries d)" "je_EntityID j = en" "je_BookID j = b" "je_Period j = p"
  shows "je_Status j \<noteq> JournalStatusDraft"
  using assms by (auto simp: getDraftJournalCount_def journal_List_def page_def newest_first_def filter_empty_conv JournalStatusDraft_def none_listed)

text \<open>A closing that succeeds is its two guarded updates, with the check between them.\<close>

lemma ClosePeriod_updates:
  assumes c: "ClosePeriod e txt ord s c en b p a d = (Inr q, d')"
  obtains q1 d1 res where "b \<noteq> ''''"
    "period_UpdateStatus e en b p PeriodStatusOpen PeriodStatusClosing (Some a) d = (Inr q1, d1)"
    "CloseCheck_report e txt ord s en b p d1 = Inr res" "ccr_Passed res"
    "periods_wf d \<Longrightarrow> period_status d (en, b, p) = Some PeriodStatusOpen \<and> period_status d' (en, b, p) = Some PeriodStatusClosed"
proof -
  obtain q1 d1 res q2 d2 where b: "b \<noteq> ''''"
    and u1: "period_UpdateStatus e en b p PeriodStatusOpen PeriodStatusClosing (Some a) d = (Inr q1, d1)"
    and r: "CloseCheck_report e txt ord s en b p d1 = Inr res" "ccr_Passed res"
    and u2: "period_UpdateStatus e en b p PeriodStatusClosing PeriodStatusClosed (Some a) d1 = (Inr q2, d2)"
    and d': "d' = period_audit e s c en b p a ''period.close'' q d2"
    using c by (auto simp: ClosePeriod_def Let_def split: if_splits option.splits sum.splits prod.splits)
  have "period_status d' (en, b, p) = period_status d2 (en, b, p)"
    using period_views [of d2 d'] by (simp add: d' period_audit_def)
  with UpdateStatus_updates(2) [OF u1] UpdateStatus_updates(2) [OF u2] b u1 r that show ?thesis by auto
qed

lemma closed_after:
  "periods_wf d \<Longrightarrow> ClosePeriod e txt ord s c en b p a d = (Inr q, d') \<Longrightarrow> period_status d' (en, b, p) = Some PeriodStatusClosed"
  by (erule ClosePeriod_updates) simp

text \<open>C21: a period that closes was open and is closed; no invoice of the period was pending review, no entry was a draft, and
  the totals of its trial balance differ by less than a cent (where the two listing queries work: their errors are
  taken for an empty list).\<close>

theorem ClosePeriod_spec:
  assumes wf: "periods_wf d" and f: "\<not> fault e Invoice_List" "\<not> fault e Journal_List" and p: "p \<noteq> ''''"
    and c: "ClosePeriod e txt ord s c en b p a d = (Inr q, d')"
  shows "period_status d (en, b, p) = Some PeriodStatusOpen \<and> period_status d' (en, b, p) = Some PeriodStatusClosed \<and>
    (\<forall>i \<in> set (invoices d). iv_EntityID i = en \<and> iv_BookID i = b \<and> issue_month i = p \<longrightarrow> iv_Status i \<noteq> StatusPendingReview) \<and>
    (\<forall>j \<in> set (journal_entries d). je_EntityID j = en \<and> je_BookID j = b \<and> je_Period j = p \<longrightarrow> je_Status j \<noteq> JournalStatusDraft) \<and>
    (\<exists>tb. TrialBalance_report e ord en b p d = Inr tb \<and>
       flt (math_Abs (fsub (tbal_TotalDebit tb) (tbal_TotalCredit tb))) (lit (1 / 100)))"
proof -
  obtain q1 d1 res where b: "b \<noteq> ''''"
    and u1: "period_UpdateStatus e en b p PeriodStatusOpen PeriodStatusClosing (Some a) d = (Inr q1, d1)"
    and r: "CloseCheck_report e txt ord s en b p d1 = Inr res" "ccr_Passed res"
    and st: "period_status d (en, b, p) = Some PeriodStatusOpen" "period_status d' (en, b, p) = Some PeriodStatusClosed"
    using ClosePeriod_updates [OF c] wf by metis
  have fr: "invoices d1 = invoices d" "journal_entries d1 = journal_entries d" "journal_lines d1 = journal_lines d"
    using u1 by (auto simp: period_UpdateStatus_def period_change_frame split: if_splits option.splits)
  have "getPendingInvoiceCount e en b p d1 \<ge> 0" "getDraftJournalCount e en b p d1 \<ge> 0"
    by (simp_all add: getPendingInvoiceCount_def getDraftJournalCount_def split: sum.split)
  with r have z: "getPendingInvoiceCount e en b p d1 = 0" "getDraftJournalCount e en b p d1 = 0"
    "\<exists>tb. TrialBalance_report e ord en b p d1 = Inr tb \<and>
       flt (math_Abs (fsub (tbal_TotalDebit tb) (tbal_TotalCredit tb))) (lit (1 / 100))"
    by (auto simp: CloseCheck_report_def blocking_def Let_def split: if_splits sum.splits)
  moreover have "TrialBalance_report e ord en b p d1 = TrialBalance_report e ord en b p d"
    by (simp add: TrialBalance_report_def journal_ListPostedLines_def fr)
  ultimately show ?thesis
    using st nothing_pending [OF z(1) f(1) b p] nothing_drafted [OF z(2) f(2) b p] by (simp add: fr)
qed

lemma example_sums: "roundMoney (fadd (Fin 0) (Fin 100)) = Fin 100" "roundMoney (fadd (Fin 0) (Fin 0)) = Fin 0"
  "roundMoney (fadd (Fin 100) (Fin 0)) = Fin 100" "roundMoney (fsub (Fin 100) (Fin 0)) = Fin 100"
  "roundMoney (fsub (Fin 0) (Fin 100)) = Fin (- 100)"
  by (simp_all add: float_eval)

lemma example_balance:
  "\<exists>tb. TrialBalance_report plain_env (\<lambda>ks. ks) ''e1'' ''b1'' ''2025-03'' (example_db JournalStatusPosted p) = Inr tb \<and>
     tbal_TotalDebit tb = Fin 100 \<and> tbal_TotalCredit tb = Fin 100"
  by (simp add: TrialBalance_report_def ListPostedLines_posted posted_lines_def posted_in_def example_lines_def example_line_def
    order_by_def trial_balance_def tb_collect_def line_key_def tb_add_def tb_blank_def tb_totals_def al_get_def Let_def example_sums)

lemma example_close:
  "\<exists>q. ClosePeriod plain_env (\<lambda>_. '''') (\<lambda>ks. ks) full_service no_context ''e1'' ''b1'' ''2025-03'' ''u1''
       (example_db JournalStatusPosted PeriodStatusOpen) =
     (Inr q, snd (ClosePeriod plain_env (\<lambda>_. '''') (\<lambda>ks. ks) full_service no_context ''e1'' ''b1'' ''2025-03'' ''u1''
       (example_db JournalStatusPosted PeriodStatusOpen)))"
proof -
  let ?d = "example_db JournalStatusPosted PeriodStatusOpen" and ?k = "(''e1'', ''b1'', ''2025-03'')"
  obtain d1 where u1: "period_change plain_env PeriodStatusOpen PeriodStatusClosing (Some ''u1'') ?k ?d = Some d1"
    using period_change_laws(1) [OF example_periods_wf, of plain_env PeriodStatusOpen PeriodStatusClosing "Some ''u1''" ?k] by auto
  note s1 = period_change_laws(2) [OF example_periods_wf u1, of ?k] and w1 = period_change_wf [OF example_periods_wf u1]
  obtain d2 where u2: "period_change plain_env PeriodStatusClosing PeriodStatusClosed (Some ''u1'') ?k d1 = Some d2"
    using period_change_laws(1) [OF w1, of plain_env PeriodStatusClosing PeriodStatusClosed "Some ''u1''" ?k] s1 by auto
  have g: "\<exists>q. period_Get plain_env d1 ''e1'' ''b1'' ''2025-03'' = Inr q" "\<exists>q. period_Get plain_env d2 ''e1'' ''b1'' ''2025-03'' = Inr (Some q)"
    using period_change_laws(2) [OF w1 u2, of ?k] by (auto simp: period_Get_def period_status_def)
  have fr: "invoices d1 = []" "journal_entries d1 = [example_entry JournalStatusPosted]"
    using period_change_frame [OF u1] by simp_all
  have "TrialBalance_report plain_env (\<lambda>ks. ks) ''e1'' ''b1'' ''2025-03'' d1 = TrialBalance_report plain_env (\<lambda>ks. ks) ''e1'' ''b1'' ''2025-03'' ?d"
    using period_change_frame [OF u1] by (simp add: TrialBalance_report_def journal_ListPostedLines_def)
  with example_balance [of PeriodStatusOpen] obtain tb where "TrialBalance_report plain_env (\<lambda>ks. ks) ''e1'' ''b1'' ''2025-03'' d1 = Inr tb"
    "tbal_TotalDebit tb = Fin 100" "tbal_TotalCredit tb = Fin 100" by auto
  then have "\<exists>res. CloseCheck_report plain_env (\<lambda>_. '''') (\<lambda>ks. ks) full_service ''e1'' ''b1'' ''2025-03'' d1 = Inr res \<and> ccr_Passed res"
    by (simp add: CloseCheck_report_def getPendingInvoiceCount_def invoice_List_def getDraftJournalCount_def journal_List_def page_def
      newest_first_def fr blocking_def Let_def float_eval JournalStatusDraft_def JournalStatusPosted_def)
  with u1 u2 g show ?thesis
    by (auto simp: ClosePeriod_def period_UpdateStatus_def Let_def)
qed

theorem ClosePeriod_spec_witness:
  "period_status (snd (ClosePeriod plain_env (\<lambda>_. '''') (\<lambda>ks. ks) full_service no_context ''e1'' ''b1'' ''2025-03'' ''u1''
     (example_db JournalStatusPosted PeriodStatusOpen))) (''e1'', ''b1'', ''2025-03'') = Some PeriodStatusClosed"
proof -
  obtain q where "ClosePeriod plain_env (\<lambda>_. '''') (\<lambda>ks. ks) full_service no_context ''e1'' ''b1'' ''2025-03'' ''u1''
       (example_db JournalStatusPosted PeriodStatusOpen) =
     (Inr q, snd (ClosePeriod plain_env (\<lambda>_. '''') (\<lambda>ks. ks) full_service no_context ''e1'' ''b1'' ''2025-03'' ''u1''
       (example_db JournalStatusPosted PeriodStatusOpen)))"
    using example_close by blast
  from ClosePeriod_spec [OF example_periods_wf _ _ _ this] show ?thesis by simp
qed

end
