(* ===== verification/Interleaving.thy ===== *)
theory Interleaving
  imports Vouchers Closing
begin

text \<open>
  Operations that overlap.  The journal operations of service.go read and test first, outside any transaction, and write
  afterwards.  Here each of them is split into these two phases, and the phases of any number of calls interleave with each other
  and with the other operations.  A phase is one step: what a transaction sees of others while it runs is not modelled.
\<close>

section \<open>The two phases\<close>

text \<open>A reading phase ends the call with an answer (\<open>Inl\<close>) or hands what it read to the writing phase (\<open>Inr\<close>).\<close>

definition post_read :: "env \<Rightarrow> Service \<Rightarrow> string \<Rightarrow> string \<Rightarrow> db \<Rightarrow> (err + JournalEntry option) + JournalEntry" where
  "post_read e s entityID journalID d =
     (if journalID = '''' then Inl (Inl (invalid ''journal id required''))
      else case journal_Get e d entityID journalID of
        Inl x \<Rightarrow> Inl (Inl x)
      | Inr None \<Rightarrow> Inl (Inl (Msg (''journal entry not found: '' @ journalID)))
      | Inr (Some entry) \<Rightarrow>
         (if period_closed e s entityID (je_BookID entry) (je_Period entry) d then Inl (Inl ErrPeriodClosed)
          else if je_Status entry = JournalStatusPosted then Inl (Inr (Some entry))
          else if je_Lines entry = [] then Inl (Inl (invalid ''journal entry has no lines''))
          else case validateBalanced (je_Lines entry) of Some x \<Rightarrow> Inl (Inl x) | None \<Rightarrow> Inr entry))"

definition post_write ::
    "env \<Rightarrow> Service \<Rightarrow> Context \<Rightarrow> string \<Rightarrow> string \<Rightarrow> string \<Rightarrow> JournalEntry \<Rightarrow> db \<Rightarrow> (err + JournalEntry option) \<times> db" where
  "post_write e s c entityID journalID actorID entry d =
     (let audit = logAudit e 0 s c entityID (je_BookID entry) actorID ''journal.post'' ''journal_entry'' journalID (je_Summary entry)
      in if \<not> has_db s then
           (case journal_PostTx e None entityID journalID d of
              (Inl x, d1) \<Rightarrow> (Inl x, d1)
            | (Inr posted, d1) \<Rightarrow> (Inr posted, audit (mark_source e None entityID posted d1)))
         else if fault e Begin then (Inl (Wrap ''begin tx: '' (DbError Begin) ''''), d)
         else case journal_PostTx e (Some d) entityID journalID d of
           (Inl x, d1) \<Rightarrow> (Inl x, d)
         | (Inr posted, d1) \<Rightarrow>
            (if fault e Commit \<or> spoiled e posted then (Inl (Wrap ''commit tx: '' (DbError Commit) ''''), d)
             else (Inr posted, audit (mark_source e (Some d) entityID posted d1))))"

definition void_read :: "env \<Rightarrow> Service \<Rightarrow> string \<Rightarrow> string \<Rightarrow> db \<Rightarrow> err + JournalEntry" where
  "void_read e s entityID journalID d =
     (if journalID = '''' then Inl (invalid ''journal id required'')
      else case journal_Get e d entityID journalID of
        Inl x \<Rightarrow> Inl x
      | Inr None \<Rightarrow> Inl (Msg (''journal entry not found: '' @ journalID))
      | Inr (Some entry) \<Rightarrow>
         (if period_closed e s entityID (je_BookID entry) (je_Period entry) d then Inl ErrPeriodClosed else Inr entry))"

definition void_write ::
    "env \<Rightarrow> Service \<Rightarrow> Context \<Rightarrow> string \<Rightarrow> string \<Rightarrow> string \<Rightarrow> JournalEntry \<Rightarrow> db \<Rightarrow> (err + JournalEntry option) \<times> db" where
  "void_write e s c entityID journalID actorID entry d =
     (if je_Status entry \<noteq> JournalStatusPosted \<or> \<not> has_db s then
        (case journal_VoidTx e None entityID journalID d of
           (Inl x, d1) \<Rightarrow> (Inl x, d1)
         | (Inr voided, d1) \<Rightarrow> (Inr voided, void_audit e 0 s c entityID journalID actorID voided d1))
      else if fault e Begin then (Inl (Wrap ''begin tx: '' (DbError Begin) ''''), d)
      else
        (let rev = buildReversal e entry d in
         case journal_CreateTx e rev d of
           (Some x, d1) \<Rightarrow> (Inl (Wrap ''create reversal entry: '' x ''''), d)
         | (None, d1) \<Rightarrow>
           (case journal_PostTx e (Some d) entityID (je_ID rev) d1 of
              (Inl x, d2) \<Rightarrow> (Inl (Wrap ''post reversal entry: '' x ''''), d)
            | (Inr _, d2) \<Rightarrow>
              (case journal_VoidTx e (Some d) entityID journalID d2 of
                 (Inl x, d3) \<Rightarrow> (Inl x, d)
               | (Inr voided, d3) \<Rightarrow>
                  (if fault e Commit then (Inl (Wrap ''commit tx: '' (DbError Commit) ''''), d)
                   else (Inr voided,
                     void_audit e (Suc (length (je_Lines entry))) s c entityID journalID actorID voided d3))))))"

definition draft_read ::
    "env \<Rightarrow> Service \<Rightarrow> string \<Rightarrow> string \<Rightarrow> string \<Rightarrow> string \<Rightarrow> JournalEntry \<Rightarrow> db \<Rightarrow> err + JournalEntry" where
  "draft_read e s entityID bookID period actorID entry d =
     (if je_Lines entry = [] then Inl (invalid ''journal entry has no lines'')
      else
       (let j1 = entry\<lparr>je_ID := uuid e 0, je_EntityID := entityID, je_BookID := bookID, je_Period := period,
              je_Status := JournalStatusDraft, je_CreatedBy := actorID,
              je_EntryDate := (if je_EntryDate entry = '''' then today e else je_EntryDate entry),
              je_VoucherWord := (if je_VoucherWord entry = '''' then VoucherWordJi else je_VoucherWord entry)\<rparr>
        in case (if je_VoucherNo entry = '''' then journal_NextVoucherNo e d entityID bookID period else Inr (je_VoucherNo entry)) of
          Inl x \<Rightarrow> Inl (Wrap ''generate voucher_no: '' x '''')
        | Inr voucherNo \<Rightarrow>
           (if period \<noteq> '''' \<and> \<not> validPeriod period then Inl (invalid ''period must be YYYY-MM'')
            else if period_closed e s entityID bookID period d then Inl ErrPeriodClosed
            else
             (let j = j1\<lparr>je_VoucherNo := voucherNo,
                    je_Lines := draft_lines e entityID (uuid e 0) (map round_line (je_Lines entry))\<rparr>
              in case validateBalanced (je_Lines j) of Some x \<Rightarrow> Inl x | None \<Rightarrow> Inr j))))"

definition draft_write ::
    "env \<Rightarrow> Service \<Rightarrow> Context \<Rightarrow> string \<Rightarrow> string \<Rightarrow> string \<Rightarrow> JournalEntry \<Rightarrow> db \<Rightarrow> (err + JournalEntry) \<times> db" where
  "draft_write e s c entityID bookID actorID j d =
     (case journal_CreateTx e j d of
        (Some x, d1) \<Rightarrow> (Inl x, d1)
      | (None, d1) \<Rightarrow> (Inr j, logAudit e (Suc (length (je_Lines j))) s c entityID bookID actorID
          ''journal.create_draft'' ''journal_entry'' (je_ID j) (je_Summary j) d1))"

lemma guarded_call:
  "(if n then (Inl x, d) else if p then (Inl y, d) else if q then (Inl z, d) else case v of Some w \<Rightarrow> (Inl w, d) | None \<Rightarrow> f j) =
   (case (if n then Inl x else if p then Inl y else if q then Inl z else case v of Some w \<Rightarrow> Inl w | None \<Rightarrow> Inr j) of
      Inl u \<Rightarrow> (Inl u, d) | Inr i \<Rightarrow> f i)"
  by (simp split: option.split)

lemma post_phases:
  "PostJournalEntry e s c en k a d = (case post_read e s en k d of Inl r \<Rightarrow> (r, d) | Inr j \<Rightarrow> post_write e s c en k a j d)"
  by (simp add: PostJournalEntry_def post_read_def post_write_def Let_def split: sum.split option.split)

lemma void_phases:
  "VoidJournalEntry e s c en k a d = (case void_read e s en k d of Inl x \<Rightarrow> (Inl x, d) | Inr j \<Rightarrow> void_write e s c en k a j d)"
proof -
  consider x where "journal_Get e d en k = Inl x" | "journal_Get e d en k = Inr None" | i where "journal_Get e d en k = Inr (Some i)"
    by (metis not_Some_eq sum.exhaust)
  then show ?thesis by cases (simp_all add: VoidJournalEntry_def void_read_def void_write_def)
qed

lemma draft_phases:
  "CreateJournalDraft e s c en b p a entry d =
     (case draft_read e s en b p a entry d of Inl x \<Rightarrow> (Inl x, d) | Inr j \<Rightarrow> draft_write e s c en b a j d)"
proof (cases "if je_VoucherNo entry = '''' then journal_NextVoucherNo e d en b p else Inr (je_VoucherNo entry)")
  case (Inl x)
  then show ?thesis by (cases "je_Lines entry = []") (simp_all add: CreateJournalDraft_def draft_read_def Let_def)
next
  case (Inr v)
  show ?thesis unfolding CreateJournalDraft_def draft_read_def Let_def Inr sum.case draft_write_def [symmetric]
    by (rule guarded_call)
qed

text \<open>An operation that is not disturbed is its two phases, one after the other.\<close>

theorem phases_compose:
  "PostJournalEntry e s c en k a d = (case post_read e s en k d of Inl r \<Rightarrow> (r, d) | Inr j \<Rightarrow> post_write e s c en k a j d) \<and>
   VoidJournalEntry e s c en k a d = (case void_read e s en k d of Inl x \<Rightarrow> (Inl x, d) | Inr j \<Rightarrow> void_write e s c en k a j d) \<and>
   CreateJournalDraft e s c en b p a entry d =
     (case draft_read e s en b p a entry d of Inl x \<Rightarrow> (Inl x, d) | Inr j \<Rightarrow> draft_write e s c en b a j d)"
  by (intro conjI post_phases void_phases draft_phases)

section \<open>Calls in flight\<close>

text \<open>A call between its two phases: what it read, and what it needs to write.\<close>

datatype task = Posting Context string string string JournalEntry | Voiding Context string string string JournalEntry
  | Drafting Context string string string JournalEntry

inductive overlap :: "rounding \<Rightarrow> Service \<Rightarrow> db \<times> task list \<Rightarrow> db \<times> task list \<Rightarrow> bool" for num s where
  whole: "ledger_step num s e d d' \<Longrightarrow> overlap num s (d, ts) (d', ts)"
| post_reads: "post_read e s en k d = Inr j \<Longrightarrow> overlap num s (d, ts) (d, Posting c en k a j # ts)"
| post_writes: "Posting c en k a j \<in> set ts \<Longrightarrow> post_write e s c en k a j d = (r, d') \<Longrightarrow>
    overlap num s (d, ts) (d', remove1 (Posting c en k a j) ts)"
| void_reads: "void_read e s en k d = Inr j \<Longrightarrow> overlap num s (d, ts) (d, Voiding c en k a j # ts)"
| void_writes: "Voiding c en k a j \<in> set ts \<Longrightarrow> numeric e = num \<Longrightarrow> void_write e s c en k a j d = (r, d') \<Longrightarrow>
    overlap num s (d, ts) (d', remove1 (Voiding c en k a j) ts)"
| draft_reads: "draft_read e s en b p a entry d = Inr j \<Longrightarrow> overlap num s (d, ts) (d, Drafting c en b a j # ts)"
| draft_writes: "Drafting c en b a j \<in> set ts \<Longrightarrow> numeric e = num \<Longrightarrow> draft_write e s c en b a j d = (r, d') \<Longrightarrow>
    overlap num s (d, ts) (d', remove1 (Drafting c en b a j) ts)"

section \<open>The books stay balanced\<close>

text \<open>What a call read stays good for its write: an entry found balanced is still there with the same lines, a posted entry
  that was read has balanced lines, and a new draft is a draft.\<close>

fun task_ok :: "rounding \<Rightarrow> db \<Rightarrow> task \<Rightarrow> bool" where
  "task_ok num d (Posting c en k a j) \<longleftrightarrow> (\<exists>i. find_entry d (k, en) = Some i \<and> balanced_entry d i)"
| "task_ok num d (Voiding c en k a j) \<longleftrightarrow> je_EntityID j = en \<and> (je_Status j = JournalStatusPosted \<longrightarrow>
     je_Lines j \<noteq> [] \<and> validateBalanced (je_Lines j) = None \<and> (\<forall>l \<in> set (je_Lines j). stored_line num l))"
| "task_ok num d (Drafting c en b a j) \<longleftrightarrow> je_Status j = JournalStatusDraft"

lemma reversal_row_balanced:
  assumes inv: "ledger_inv num d" and num: "numeric e = num" and en: "je_EntityID j = en"
    and bal: "je_Lines j \<noteq> []" "validateBalanced (je_Lines j) = None" "\<forall>l \<in> set (je_Lines j). stored_line num l"
    and c: "journal_CreateTx e (buildReversal e j d) d = (None, d1)"
    and f: "find_entry d1 (je_ID (buildReversal e j d), en) = Some i"
  shows "balanced_entry d1 i"
proof -
  let ?rev = "buildReversal e j d"
  have ls: "je_Lines ?rev = reversal_lines e j" "je_EntityID ?rev = en" using en by (simp_all add: buildReversal_def reversal_lines_def)
  have sl: "\<forall>l \<in> set (reversal_lines e j). stored_line num l"
    using bal(3) by (auto simp: reversal_lines_def reversal_line_def stored_line_def in_set_enumerate_eq)
  have wf: "journals_wf d" using inv by (simp add: ledger_inv_def)
  have st2: "list_all2 (line_stored e) (map (journal_row ?rev) (reversal_lines e j)) (entry_lines d1 en (je_ID ?rev))"
    using create_lines [OF wf c] reversal_sorted ls by simp
  note am = stored_amounts [OF st2 num sl, unfolded reversal_lines_amounts]
  have "entry_lines d1 en (je_ID ?rev) \<noteq> []" using bal(1) list_all2_lengthD [OF st2] reversal_lines_amounts(3) [of e j] by auto
  moreover have "je_EntityID i = en" "je_ID i = je_ID ?rev" using f by (auto simp: find_entry_def je_key_def dest: find_SomeD)
  ultimately show ?thesis using validateBalanced_swap [OF am] bal(2) by (simp add: balanced_entry_def)
qed

lemma post_write_cases:
  assumes "post_write e s c en k a j d = (r, d')"
  shows "d' = d \<or> (\<exists>tx p d1. journal_PostTx e tx en k d = (p, d1) \<and> same_journal d1 d')"
  using assms by (auto simp: post_write_def Let_def split: if_splits sum.splits prod.splits) blast+

lemma void_write_cases:
  assumes "void_write e s c en k a j d = (r, d')"
  shows "d' = d \<or> (\<exists>p d1. journal_VoidTx e None en k d = (p, d1) \<and> same_journal d1 d') \<or>
    (\<exists>d1 p d2 q d3. je_Status j = JournalStatusPosted \<and> journal_CreateTx e (buildReversal e j d) d = (None, d1) \<and>
      journal_PostTx e (Some d) en (je_ID (buildReversal e j d)) d1 = (Inr p, d2) \<and>
      journal_VoidTx e (Some d) en k d2 = (Inr q, d3) \<and> same_journal d3 d')"
proof -
  have v: "same_journal d1 (void_audit e n s c en k a w d1)" for n w d1 by (simp add: void_audit_def split: option.split)
  show ?thesis using assms v
    by (auto simp: void_write_def Let_def split: if_splits sum.splits option.splits prod.splits)
qed

lemma draft_write_cases:
  assumes "draft_write e s c en b a j d = (r, d')"
  shows "\<exists>q d1. journal_CreateTx e j d = (q, d1) \<and> same_journal d1 d'"
  using assms by (auto simp: draft_write_def split: prod.splits option.splits)

lemma read_tasks_ok:
  "post_read e s en k d = Inr j \<Longrightarrow> task_ok num d (Posting c en k a j)"
  "ledger_inv num d \<Longrightarrow> void_read e s en k d = Inr j \<Longrightarrow> task_ok num d (Voiding c en k a j)"
  "draft_read e s en b p a entry d = Inr j \<Longrightarrow> task_ok num d (Drafting c en b a j)"
proof -
  assume "post_read e s en k d = Inr j"
  then have "journal_Get e d en k = Inr (Some j)" "je_Lines j \<noteq> []" "validateBalanced (je_Lines j) = None"
    by (auto simp: post_read_def split: if_splits sum.splits option.splits)
  with read_entry [OF this(1)] read_balanced show "task_ok num d (Posting c en k a j)" by fastforce
next
  assume inv: "ledger_inv num d" and "void_read e s en k d = Inr j"
  then have "journal_Get e d en k = Inr (Some j)" by (auto simp: void_read_def split: if_splits sum.splits option.splits)
  from read_entry [OF this] obtain i where i: "find_entry d (k, en) = Some i" "j = i\<lparr>je_Lines := entry_lines d en k\<rparr>"
    "je_ID i = k" "je_EntityID i = en" by blast
  then have "i \<in> set (journal_entries d)" by (auto simp: find_entry_def dest: find_SomeD)
  moreover have "set (entry_lines d en k) \<subseteq> set (journal_lines d)" by (auto simp: entry_lines_def)
  ultimately show "task_ok num d (Voiding c en k a j)" using inv i by (auto simp: ledger_inv_def balanced_entry_def)
next
  assume "draft_read e s en b p a entry d = Inr j"
  then show "task_ok num d (Drafting c en b a j)"
    by (auto simp: draft_read_def Let_def split: if_splits sum.splits option.splits)
qed

text \<open>A move without the condition on periods; it keeps the tables of the journal well-formed, and a voided entry voided.\<close>

lemma jmoves_True: "jmoves Q d d' \<Longrightarrow> jmoves (\<lambda>_. True) d d'"
  by (induction rule: jmoves.induct) (blast intro: jmoves.intros)+

lemma jmoves_wf: "jmoves Q d d' \<Longrightarrow> journals_wf d \<Longrightarrow> journals_wf d'"
proof (induction rule: jmoves.induct)
  case (other d d1 d2)
  then show ?case by (simp add: journals_wf_def)
qed (blast intro: create_wf journal_change_wf)+

lemma voided_stays:
  assumes "jmoves Q d d'" "journal_status d k = Some JournalStatusVoided" shows "journal_status d' k = Some JournalStatusVoided"
proof -
  from assms(2) obtain j where j: "find_entry d k = Some j" "je_Status j = JournalStatusVoided" by (auto simp: journal_status_def)
  from moves_kept [OF assms(1) j(1)] j(2) obtain j' where "find_entry d' k = Some j'" "forward JournalStatusVoided (je_Status j')"
    by (auto simp: kept_def)
  moreover from this(2) have "je_Status j' = JournalStatusVoided"
    by (auto simp: forward_def phase_of_def less_phase_def split: if_splits)
  ultimately show ?thesis by (simp add: journal_status_def)
qed

lemma task_ok_moves: "jmoves Q d d' \<Longrightarrow> task_ok num d t \<Longrightarrow> task_ok num d' t"
proof (induction t)
  case (Posting c en k a j)
  then obtain i where i: "find_entry d (k, en) = Some i" "balanced_entry d i" by auto
  from moves_kept [OF Posting.prems(1) i(1)] obtain i' where "find_entry d' (k, en) = Some i'"
    "entry_lines d' en k = entry_lines d en k" by (auto simp: kept_def)
  moreover from this i have "je_ID i' = k" "je_EntityID i' = en" "je_ID i = k" "je_EntityID i = en"
    by (auto simp: find_entry_def je_key_def dest: find_SomeD)
  ultimately show ?case using i(2) by (simp add: balanced_entry_def)
qed auto

text \<open>A write is a step of the journal: it keeps the invariant and what the other calls read.\<close>

lemma post_write_ok:
  assumes inv: "ledger_inv num d" and t: "task_ok num d (Posting c en k a j)" and w: "post_write e s c en k a j d = (r, d')"
  shows "ledger_inv num d' \<and> jmoves (\<lambda>_. True) d d'"
  using post_write_cases [OF w]
proof (elim disjE exE conjE)
  fix tx p d1 assume p: "journal_PostTx e tx en k d = (p, d1)" and sj: "journal_entries d' = journal_entries d1" "journal_lines d' = journal_lines d1"
  have "ledger_inv num d1" using ledger_inv_post [OF inv p] t by auto
  moreover have "jmoves (\<lambda>_. True) d d1" using jmoves_PostTx [OF jmoves.none p] by simp
  ultimately show ?thesis using sj ledger_inv_cong [OF sj] jmoves.other by blast
qed (use inv in \<open>simp add: jmoves.none\<close>)

lemma void_write_ok:
  assumes inv: "ledger_inv num d" and st: "numeric_stable num" "numeric e = num" and t: "task_ok num d (Voiding c en k a j)"
    and w: "void_write e s c en k a j d = (r, d')"
  shows "ledger_inv num d' \<and> jmoves (\<lambda>_. True) d d'"
  using void_write_cases [OF w]
proof (elim disjE exE conjE)
  fix p d1 assume v: "journal_VoidTx e None en k d = (p, d1)" and sj: "journal_entries d' = journal_entries d1" "journal_lines d' = journal_lines d1"
  have "jmoves (\<lambda>_. True) d d1" using jmoves_VoidTx [OF jmoves.none v] by simp
  then show ?thesis using ledger_inv_void [OF inv v] sj ledger_inv_cong [OF sj] jmoves.other by blast
next
  fix d1 p d2 q d3
  assume c: "journal_CreateTx e (buildReversal e j d) d = (None, d1)" and j: "je_Status j = JournalStatusPosted"
    and p: "journal_PostTx e (Some d) en (je_ID (buildReversal e j d)) d1 = (Inr p, d2)"
    and v: "journal_VoidTx e (Some d) en k d2 = (Inr q, d3)" and sj: "journal_entries d' = journal_entries d3" "journal_lines d' = journal_lines d3"
  have draft: "je_Status (buildReversal e j d) = JournalStatusDraft" by (simp add: buildReversal_def)
  have i1: "ledger_inv num d1" using ledger_inv_create [OF inv st _ c] draft by simp
  have "ledger_inv num d2" using ledger_inv_post [OF i1 p] reversal_row_balanced [OF inv st(2) _ _ _ _ c] t j by auto
  then have "ledger_inv num d3" using v by (rule ledger_inv_void)
  moreover have "jmoves (\<lambda>_. True) d d3"
    using jmoves_VoidTx [OF jmoves_PostTx [OF jmoves.create [OF jmoves.none c draft] p] v] by simp
  ultimately show ?thesis using sj ledger_inv_cong [OF sj] jmoves.other by blast
qed (use inv in \<open>simp add: jmoves.none\<close>)

lemma draft_write_ok:
  assumes inv: "ledger_inv num d" and st: "numeric_stable num" "numeric e = num" and t: "task_ok num d (Drafting c en b a j)"
    and w: "draft_write e s c en b a j d = (r, d')"
  shows "ledger_inv num d' \<and> jmoves (\<lambda>_. True) d d'"
proof -
  from draft_write_cases [OF w] obtain q d1 where c: "journal_CreateTx e j d = (q, d1)"
    and sj: "journal_entries d' = journal_entries d1" "journal_lines d' = journal_lines d1" by blast
  have j: "je_Status j = JournalStatusDraft" using t by simp
  have "ledger_inv num d1" using ledger_inv_create [OF inv st _ c] j by simp
  moreover have "jmoves (\<lambda>_. True) d d1" using jmoves.create [OF jmoves.none c j] .
  ultimately show ?thesis using sj ledger_inv_cong [OF sj] jmoves.other by blast
qed

lemma overlap_inv:
  assumes "overlap num s x y" "numeric_stable num" "ledger_inv num (fst x)" "\<forall>t \<in> set (snd x). task_ok num (fst x) t"
  shows "ledger_inv num (fst y) \<and> (\<forall>t \<in> set (snd y). task_ok num (fst y) t) \<and> jmoves (\<lambda>_. True) (fst x) (fst y)"
proof -
  have keep: "\<forall>t \<in> set (remove1 u ts). task_ok num d' t" if "jmoves Q d d'" "\<forall>t \<in> set ts. task_ok num d t" for Q d d' u ts
    using that task_ok_moves set_remove1_subset [of u ts] by blast
  from assms show ?thesis
  proof (cases rule: overlap.cases)
    case (whole e d d' ts)
    with assms(2-4) step_inv [OF whole(3)] jmoves_True [OF step_moves [OF whole(3)]] task_ok_moves [OF step_moves [OF whole(3)]] show ?thesis by auto
  next
    case (post_writes c en k a j ts e d r d')
    have inv: "ledger_inv num d" and t: "task_ok num d (Posting c en k a j)" and ts: "\<forall>t \<in> set ts. task_ok num d t"
      using assms(3,4) post_writes(1,3) by auto
    from post_write_ok [OF inv t post_writes(4)] have "ledger_inv num d'" "jmoves (\<lambda>_. True) d d'" by simp_all
    with keep [OF this(2) ts] this(2) show ?thesis unfolding post_writes(1,2) by simp
  next
    case (void_writes c en k a j ts e d r d')
    have inv: "ledger_inv num d" and t: "task_ok num d (Voiding c en k a j)" and ts: "\<forall>t \<in> set ts. task_ok num d t"
      using assms(3,4) void_writes(1,3) by auto
    from void_write_ok [OF inv assms(2) void_writes(4) t void_writes(5)] have "ledger_inv num d'" "jmoves (\<lambda>_. True) d d'" by simp_all
    with keep [OF this(2) ts] this(2) show ?thesis unfolding void_writes(1,2) by simp
  next
    case (draft_writes c en b a j ts e d r d')
    have inv: "ledger_inv num d" and t: "task_ok num d (Drafting c en b a j)" and ts: "\<forall>t \<in> set ts. task_ok num d t"
      using assms(3,4) draft_writes(1,3) by auto
    from draft_write_ok [OF inv assms(2) draft_writes(4) t draft_writes(5)] have "ledger_inv num d'" "jmoves (\<lambda>_. True) d d'" by simp_all
    with keep [OF this(2) ts] this(2) show ?thesis unfolding draft_writes(1,2) by simp
  qed (use assms(3,4) read_tasks_ok jmoves.none in auto)
qed

lemma overlap_run:
  assumes "(overlap num s)\<^sup>*\<^sup>* x y" "numeric_stable num" "ledger_inv num (fst x)" "\<forall>t \<in> set (snd x). task_ok num (fst x) t"
  shows "ledger_inv num (fst y) \<and> (\<forall>t \<in> set (snd y). task_ok num (fst y) t) \<and> jmoves (\<lambda>_. True) (fst x) (fst y)"
  using assms(1)
proof (induction rule: rtranclp_induct)
  case base
  show ?case using assms(3,4) jmoves.none by blast
next
  case (step y z)
  then show ?case using overlap_inv [OF step.hyps(2) assms(2)] jmoves_trans by blast
qed


section \<open>A voucher is voided once\<close>

lemma void_write_done:
  assumes "void_write e s c en k a j d = (Inr q, d')" "journals_wf d"
  shows "journal_status d' (k, en) = Some JournalStatusVoided"
proof -
  have voids: "journal_status d2 (k, en) = Some JournalStatusVoided"
    if v: "journal_VoidTx e tx en k d1 = (Inr q', d2)" and m: "jmoves (\<lambda>_. True) d d1" for tx q' d1 d2
    using VoidTx_cases [OF v] journal_change_laws(2) [OF jmoves_wf [OF m assms(2)]] by fastforce
  have rev: "jmoves (\<lambda>_. True) d d2"
    if "journal_CreateTx e (buildReversal e j d) d = (None, d1)" "journal_PostTx e tx en i d1 = (p, d2)" for d1 d2 tx i p
    using jmoves_PostTx [OF jmoves.create [OF jmoves.none that(1)] that(2)] by (simp add: buildReversal_def)
  have audit: "journal_status (void_audit e n s c en k a w d1) (k, en) = journal_status d1 (k, en)" for n w d1
    by (simp add: journal_status_def find_entry_def)
  show ?thesis using assms(1)
    by (auto simp: void_write_def Let_def audit split: if_splits sum.splits option.splits prod.splits
      intro: voids [OF _ jmoves.none] voids [OF _ rev])
qed

lemma voided_writes_fail:
  assumes "journals_wf d" "journal_status d (k, en) = Some JournalStatusVoided" "void_write e s c en k a j d = (r, d')"
  shows "(\<exists>x. r = Inl x) \<and> d' = d"
proof -
  have fails: "(\<exists>x. p = Inl x) \<and> d2 = d1" if m: "jmoves (\<lambda>_. True) d d1" and v: "journal_VoidTx e tx en k d1 = (p, d2)" for tx p d1 d2
    using VoidTx_cases [OF v] voided_stays [OF m assms(2)]
      journal_change_laws(1) [OF jmoves_wf [OF m assms(1)], of e "[JournalStatusDraft, JournalStatusPosted]" JournalStatusVoided "(k, en)"]
    by auto
  have rev: "jmoves (\<lambda>_. True) d d2"
    if "journal_CreateTx e (buildReversal e j d) d = (None, d1)" "journal_PostTx e tx en i d1 = (p, d2)" for d1 d2 tx i p
    using jmoves_PostTx [OF jmoves.create [OF jmoves.none that(1)] that(2)] by (simp add: buildReversal_def)
  show ?thesis using assms(3)
    by (auto simp: void_write_def Let_def split: if_splits sum.splits option.splits prod.splits
      dest: fails [OF jmoves.none] fails [OF rev])
qed

text \<open>C12: two calls that void the same voucher and overlap.  However the calls interleave and whatever both of them have read, when one
  has voided the voucher every other fails and leaves nothing behind: a voucher gets one reversal.\<close>

theorem voided_once:
  assumes "(overlap num s)\<^sup>*\<^sup>* (d, []) (d1, ts)" "numeric_stable num" "ledger_inv num d"
    and "Voiding c en k a j \<in> set ts" "numeric e = num" "void_write e s c en k a j d1 = (Inr q, d2)"
    and "(overlap num s)\<^sup>*\<^sup>* (d2, remove1 (Voiding c en k a j) ts) (d3, ts')"
    and "void_write e' s c' en k a' j' d3 = (r, d4)"
  shows "(\<exists>x. r = Inl x) \<and> d4 = d3"
proof -
  have 1: "ledger_inv num d1" "\<forall>t \<in> set ts. task_ok num d1 t" using overlap_run [OF assms(1,2)] assms(3) by simp_all
  from overlap_inv [OF overlap.void_writes [OF assms(4-6)] assms(2)] 1
  have 2: "ledger_inv num d2" "\<forall>t \<in> set (remove1 (Voiding c en k a j) ts). task_ok num d2 t" by simp_all
  with overlap_run [OF assms(7,2)] have 3: "ledger_inv num d3" "jmoves (\<lambda>_. True) d2 d3" by simp_all
  have "journal_status d2 (k, en) = Some JournalStatusVoided" using void_write_done [OF assms(6)] 1 by (simp add: ledger_inv_def)
  then show ?thesis using voided_writes_fail [OF _ _ assms(8)] voided_stays [OF 3(2)] 3(1) by (simp add: ledger_inv_def)
qed

lemma example_post_reads:
  "post_read plain_env full_service ''e1'' ''j1'' (example_db JournalStatusDraft PeriodStatusOpen) =
     Inr (example_entry JournalStatusDraft\<lparr>je_Lines := example_lines\<rparr>)"
  by (simp add: post_read_def PeriodStatusOpen_def PeriodStatusClosed_def PeriodStatusLocked_def)

lemma example_post_phases:
  "PostJournalEntry plain_env full_service no_context ''e1'' ''j1'' ''u1'' (example_db JournalStatusDraft PeriodStatusOpen) =
   post_write plain_env full_service no_context ''e1'' ''j1'' ''u1'' (example_entry JournalStatusDraft\<lparr>je_Lines := example_lines\<rparr>)
     (example_db JournalStatusDraft PeriodStatusOpen)"
  by (simp add: post_phases example_post_reads)

lemma two_steps: "R x y \<Longrightarrow> R y z \<Longrightarrow> R\<^sup>*\<^sup>* x z"
  by (rule rtranclp_trans [OF r_into_rtranclp r_into_rtranclp])

lemma example_overlap:
  "(overlap (\<lambda>p s. Some) full_service)\<^sup>*\<^sup>* (example_db JournalStatusDraft PeriodStatusOpen, []) (example_posted, [])"
proof -
  let ?d = "example_db JournalStatusDraft PeriodStatusOpen" and ?j = "example_entry JournalStatusDraft\<lparr>je_Lines := example_lines\<rparr>"
  let ?t = "Posting no_context ''e1'' ''j1'' ''u1'' ?j"
  obtain r where w: "post_write plain_env full_service no_context ''e1'' ''j1'' ''u1'' ?j ?d = (r, example_posted)"
    using example_post_phases by (simp add: example_posted_def prod_eq_iff)
  have "overlap (\<lambda>p s. Some) full_service (?d, []) (?d, [?t])" using overlap.post_reads [OF example_post_reads] .
  moreover have "overlap (\<lambda>p s. Some) full_service (?d, [?t]) (example_posted, [])" using overlap.post_writes [OF _ w, of "[?t]"] by simp
  ultimately show ?thesis by (rule two_steps)
qed


section \<open>What overlapping breaks\<close>

lemma void_write_periods: "void_write e s c en k a j d = (r, d') \<Longrightarrow> same_periods d d'"
  by (auto simp: void_write_def void_audit_def Let_def dest!: Tx_periods create_frame(1)
    split: if_splits sum.splits option.splits prod.splits)

lemma example_void_reads:
  "void_read plain_env full_service ''e1'' ''j1'' (example_db JournalStatusPosted PeriodStatusOpen) =
     Inr (example_entry JournalStatusPosted\<lparr>je_Lines := example_lines\<rparr>)"
  by (simp add: void_read_def PeriodStatusOpen_def PeriodStatusClosed_def PeriodStatusLocked_def)

text \<open>The write of the example depends on the tables of the journal only.\<close>

lemma example_void_writes:
  assumes "journal_entries d = [example_entry JournalStatusPosted]" "journal_lines d = example_lines"
  shows "\<exists>q d'. void_write plain_env full_service no_context ''e1'' ''j1'' ''u1'' (example_entry JournalStatusPosted\<lparr>je_Lines := example_lines\<rparr>) d =
      (Inr q, d') \<and> journal_status d' (''j1'', ''e1'') = Some JournalStatusVoided"
proof -
  let ?j = "example_entry JournalStatusPosted\<lparr>je_Lines := example_lines\<rparr>"
  have rev: "buildReversal plain_env ?j d = example_reversal"
    using assms by (simp add: example_reversal_def buildReversal_def journal_NextVoucherNo_def voucher_count_def)
  have wfd: "journals_wf d" using assms example_wf [of JournalStatusPosted PeriodStatusOpen] by (simp add: journals_wf_def)
  obtain d1 where c: "journal_CreateTx plain_env example_reversal d = (None, d1)"
    using example_reversal_new assms
    by (simp add: journal_CreateTx_def journal_insert_entry_def example_reversal_rows journal_insert_line_def int4_def jl_slot_def
      example_line_def example_lines_def)
  have wf: "journals_wf d1" using create_wf [OF wfd c] .
  have e: "find_entry d1 (''id-0'', ''e1'') = Some (entry_row plain_env example_reversal)"
      "find_entry d1 (''j1'', ''e1'') = Some (example_entry JournalStatusPosted)"
    using c assms by (auto elim!: create_cases simp: find_entry_def je_key_def)
  obtain d2 where p: "journal_change plain_env [JournalStatusDraft] JournalStatusPosted (''id-0'', ''e1'') d1 = Some d2"
    using change_defined [OF wf e(1)] by fastforce
  have wf2: "journals_wf d2" using journal_change_wf [OF wf p] .
  have "journal_status d2 (''j1'', ''e1'') = Some JournalStatusPosted"
    using journal_change_laws(2) [OF wf p] e(2) by (simp add: journal_status_def)
  then obtain d3 where v: "journal_change plain_env [JournalStatusDraft, JournalStatusPosted] JournalStatusVoided (''j1'', ''e1'') d2 = Some d3"
    using journal_change_laws(1) [OF wf2, of plain_env "[JournalStatusDraft, JournalStatusPosted]" JournalStatusVoided "(''j1'', ''e1'')"] by auto
  have reread: "journal_read Journal_Reread plain_env d ''e1'' ''id-0'' = Inr None"
      "\<exists>i. journal_read Journal_Reread plain_env d ''e1'' ''j1'' = Inr (Some i)"
    using assms by (simp_all add: journal_read_def find_entry_def je_key_def)
  have "journal_status d3 (''j1'', ''e1'') = Some JournalStatusVoided" using journal_change_laws(2) [OF wf2 v] by simp
  then have st: "journal_status (void_audit plain_env n full_service no_context ''e1'' ''j1'' ''u1'' w d3) (''j1'', ''e1'') = Some JournalStatusVoided"
    for n w by (simp add: journal_status_def find_entry_def)
  show ?thesis using c p v reread st by (auto simp: void_write_def rev journal_PostTx_def journal_VoidTx_def)
qed

theorem voided_once_witness:
  "\<exists>q d1 x. void_write plain_env full_service no_context ''e1'' ''j1'' ''u1'' (example_entry JournalStatusPosted\<lparr>je_Lines := example_lines\<rparr>)
       (example_db JournalStatusPosted PeriodStatusOpen) = (Inr q, d1) \<and>
     void_write plain_env full_service no_context ''e1'' ''j1'' ''u2'' (example_entry JournalStatusPosted\<lparr>je_Lines := example_lines\<rparr>) d1 = (Inl x, d1)"
proof -
  let ?d = "example_db JournalStatusPosted PeriodStatusOpen" and ?j = "example_entry JournalStatusPosted\<lparr>je_Lines := example_lines\<rparr>"
  let ?t = "\<lambda>a. Voiding no_context ''e1'' ''j1'' a ?j" and ?R = "overlap (\<lambda>p s. Some) full_service"
  have reads: "?R\<^sup>*\<^sup>* (?d, []) (?d, [?t ''u2'', ?t ''u1''])"
    by (rule two_steps) (rule overlap.void_reads [OF example_void_reads])+
  obtain q d1 where w: "void_write plain_env full_service no_context ''e1'' ''j1'' ''u1'' ?j ?d = (Inr q, d1)"
    using example_void_writes [of ?d] by auto
  obtain r d2 where w2: "void_write plain_env full_service no_context ''e1'' ''j1'' ''u2'' ?j d1 = (r, d2)" by force
  have "(\<exists>x. r = Inl x) \<and> d2 = d1"
    by (rule voided_once [OF reads plain_stable example_inv _ _ w rtranclp.rtrancl_refl w2]) simp_all
  with w w2 show ?thesis by blast
qed

text \<open>C13: the test for a closed period can be overtaken.  Here a call that voids a posted voucher reads it while the period is open, the
  period is closed, and then the call writes: the period stays closed and its voucher is voided, which no call could do on its
  own (\<open>closed_frozen\<close>).  The test and the write are not in one transaction.\<close>

theorem void_overtakes_close:
  "\<exists>ts d1 d2. (overlap (\<lambda>p s. Some) full_service)\<^sup>*\<^sup>* (example_db JournalStatusPosted PeriodStatusOpen, []) (d1, ts) \<and>
     period_status d1 (''e1'', ''b1'', ''2025-03'') = Some PeriodStatusClosed \<and>
     journal_status d1 (''j1'', ''e1'') = Some JournalStatusPosted \<and>
     overlap (\<lambda>p s. Some) full_service (d1, ts) (d2, []) \<and>
     period_status d2 (''e1'', ''b1'', ''2025-03'') = Some PeriodStatusClosed \<and>
     journal_status d2 (''j1'', ''e1'') = Some JournalStatusVoided"
proof -
  let ?d = "example_db JournalStatusPosted PeriodStatusOpen" and ?j = "example_entry JournalStatusPosted\<lparr>je_Lines := example_lines\<rparr>"
  let ?t = "Voiding no_context ''e1'' ''j1'' ''u1'' ?j" and ?R = "overlap (\<lambda>p s. Some) full_service"
  define d1 where "d1 = snd (ClosePeriod plain_env (\<lambda>_. '''') (\<lambda>ks. ks) full_service no_context ''e1'' ''b1'' ''2025-03'' ''u1'' ?d)"
  obtain q where cl: "ClosePeriod plain_env (\<lambda>_. '''') (\<lambda>ks. ks) full_service no_context ''e1'' ''b1'' ''2025-03'' ''u1'' ?d = (Inr q, d1)"
    using example_close unfolding d1_def by blast
  have closed: "period_status d1 (''e1'', ''b1'', ''2025-03'') = Some PeriodStatusClosed" using closed_after [OF example_periods_wf cl] .
  have j: "journal_entries d1 = [example_entry JournalStatusPosted]" "journal_lines d1 = example_lines"
    using period_journal_frames(2) [OF cl] by simp_all
  have posted: "journal_status d1 (''j1'', ''e1'') = Some JournalStatusPosted" by (simp add: journal_status_def find_entry_def j je_key_def)
  have "?R (?d, []) (?d, [?t])" using overlap.void_reads [OF example_void_reads] .
  moreover have "?R (?d, [?t]) (d1, [?t])" by (rule overlap.whole) (rule ledger_step.close_period [OF cl])
  ultimately have path: "?R\<^sup>*\<^sup>* (?d, []) (d1, [?t])" by (rule two_steps)
  obtain q' d2 where w: "void_write plain_env full_service no_context ''e1'' ''j1'' ''u1'' ?j d1 = (Inr q', d2)"
    "journal_status d2 (''j1'', ''e1'') = Some JournalStatusVoided" using example_void_writes [OF j] by blast
  have last: "?R (d1, [?t]) (d2, [])" using overlap.void_writes [OF _ _ w(1), of "[?t]"] by simp
  have still: "period_status d2 (''e1'', ''b1'', ''2025-03'') = Some PeriodStatusClosed"
    using period_views [OF void_write_periods [OF w(1)]] closed by metis
  show ?thesis by (intro exI conjI) (rule path closed posted last still w(2))+
qed

end
