(* ===== verification/Invoicing.thy ===== *)
theory Invoicing
  imports Vouchers
begin

text \<open>
  Properties of the invoice operations (drafts, red-letter invoices, imports), of the numbering of vouchers, of the
  provisioning of a new book and of the idempotency records.
\<close>

section \<open>Drafts\<close>

lemma invoice_row_fields:
  "invoice_row e i = Some row \<Longrightarrow> iv_ID row = iv_ID i \<and> iv_EntityID row = iv_EntityID i \<and> iv_BookID row = iv_BookID i \<and>
   iv_InvoiceNo row = iv_InvoiceNo i \<and> iv_Status row = iv_Status i \<and> numeric e 18 2 (iv_AmountWithTax i) = Some (iv_AmountWithTax row)"
  unfolding invoice_row_def by (simp split: option.splits) auto

lemma created_row:
  assumes "invoice_Create e i d = Inr d'"
  obtains row where "d' = d\<lparr>invoices := invoices d @ [row]\<rparr>" "invoice_row e i = Some row"
    "\<forall>x \<in> set (invoices d). iv_ID x \<noteq> iv_ID i \<and> iv_number x \<noteq> iv_number i"
  using assms that by (auto simp: invoice_Create_def list_ex_iff split: if_splits option.splits)

lemma created_found:
  assumes "invoice_Create e i d = Inr d'"
  shows "\<exists>row. find (\<lambda>x. iv_number x = iv_number i) (invoices d') = Some row \<and> iv_ID row = iv_ID i \<and> iv_number row = iv_number i"
proof -
  obtain row where row: "d' = d\<lparr>invoices := invoices d @ [row]\<rparr>" "invoice_row e i = Some row"
    "\<forall>x \<in> set (invoices d). iv_ID x \<noteq> iv_ID i \<and> iv_number x \<noteq> iv_number i"
    by (rule created_row [OF assms])
  then have "find (\<lambda>x. iv_number x = iv_number i) (invoices d) = None" by (auto simp: find_None_iff)
  with row(1) invoice_row_fields [OF row(2)] show ?thesis by (simp add: find_append iv_number_def)
qed

text \<open>C23: creating an invoice draft is idempotent on the invoice number: after a draft was created, or found, the same call
  in whatever environment in which the lookup works and the period is open returns that invoice and leaves the
  tables as they are.\<close>

theorem CreateInvoiceDraft_idempotent:
  assumes c: "CreateInvoiceDraft e s c en b a (Some iv) d = (Inr i, d1)" and f: "\<not> fault e' Invoice_FindByNo"
    and p: "\<not> period_closed e' s en b (accountingPeriod e' (iv_IssueDate iv)) d1"
  shows "\<exists>row. CreateInvoiceDraft e' s c' en b a' (Some iv) d1 = (Inr row, d1) \<and> iv_ID row = iv_ID i \<and>
    iv_number row = (en, b, iv_InvoiceNo iv)"
proof -
  let ?n = "(en, b, iv_InvoiceNo iv)"
  have v: "Validate (extraction_of iv) = None" using c by (auto simp: CreateInvoiceDraft_def split: option.splits)
  have "\<exists>row. find (\<lambda>x. iv_number x = ?n) (invoices d1) = Some row \<and> iv_ID row = iv_ID i \<and> iv_number row = ?n"
  proof (cases "invoice_FindByInvoiceNo e d en b (iv_InvoiceNo iv)")
    case (Inr q)
    show ?thesis
    proof (cases q)
      case (Some old)
      with Inr c v have "d1 = d" "i = old" "find (\<lambda>x. iv_number x = ?n) (invoices d) = Some old"
        by (auto simp: CreateInvoiceDraft_def invoice_FindByInvoiceNo_def split: if_splits)
      then show ?thesis by (auto dest: find_SomeD)
    next
      case None
      with Inr c v obtain d2 where "invoice_Create e i d = Inr d2" "invoices d1 = invoices d2" "iv_number i = ?n"
        by (auto simp: CreateInvoiceDraft_def Let_def iv_number_def split: if_splits sum.splits)
      with created_found [OF this(1)] show ?thesis by simp
    qed
  next
    case (Inl x)
    with c v obtain d2 where "invoice_Create e i d = Inr d2" "invoices d1 = invoices d2" "iv_number i = ?n"
      by (auto simp: CreateInvoiceDraft_def Let_def iv_number_def split: if_splits sum.splits)
    with created_found [OF this(1)] show ?thesis by simp
  qed
  with v f p show ?thesis by (auto simp: CreateInvoiceDraft_def invoice_FindByInvoiceNo_def)
qed

section \<open>Red-letter invoices\<close>

lemma flt_fneg: "flt (Fin 0) x \<Longrightarrow> flt (fneg x) (Fin 0)"
  by (cases x) (auto simp: flt_def)


section \<open>Import of electronic invoices\<close>

text \<open>An import without a digital invoice number stores nothing when the book has any invoice without one, which every
  invoice entered by hand is: the call succeeds and returns such an unrelated invoice.\<close>

theorem ImportEInvoice_unrelated:
  assumes "Validate x = None" "ex_DigitalInvoiceNo x = ''''" "\<not> fault e Invoice_FindByDigitalNo"
    and "i \<in> set (invoices d)" "iv_EntityID i = en" "iv_BookID i = b" "iv_DigitalInvoiceNo i = ''''"
  shows "\<exists>old \<in> set (invoices d). ImportEInvoice e s c en b x d = (Inr old, d) \<and> iv_DigitalInvoiceNo old = ''''"
proof -
  let ?xs = "filter (\<lambda>i. iv_EntityID i = en \<and> iv_BookID i = b \<and> iv_DigitalInvoiceNo i = '''') (invoices d)"
  have ne: "?xs \<noteq> []" using assms(4-7) by (auto simp: filter_empty_conv)
  then have "?xs ! (pick e (length ?xs) mod length ?xs) \<in> set ?xs" by (intro nth_mem) simp
  then obtain old where "pick_row e ?xs = Some old" "old \<in> set ?xs" using ne by (auto simp: pick_row_def)
  with assms(1-3) show ?thesis by (auto simp: ImportEInvoice_def invoice_FindByDigitalInvoiceNo_def)
qed

text \<open>The lines of an import are lost silently: when the first line has no metadata, which the column does not accept, the
  import still succeeds, and no line is stored.\<close>

theorem ImportEInvoice_loses_lines:
  assumes "ex_InvoiceLines x = l # ls" "il_Metadata l = ''''" "ImportEInvoice e s c en b x d = (Inr i, d')"
  shows "invoice_lines d' = invoice_lines d"
proof -
  have "snd (invoice_lines_CreateMany e (imported_lines e en k (l # ls)) d1) = d1" for k d1
    using assms(2) by (simp add: imported_lines_def invoice_line_insert_def invoice_line_row_def)
  with assms(1,3) show ?thesis
    by (auto simp: ImportEInvoice_def Let_def elim!: created_row split: if_splits option.splits sum.splits)
qed

section \<open>Numbering of vouchers\<close>

text \<open>The vouchers of the period are numbered by the code: each has one of the numbers up to their count.\<close>

definition numbered :: "db \<Rightarrow> string \<Rightarrow> string \<Rightarrow> string \<Rightarrow> bool" where
  "numbered d en b p \<longleftrightarrow> (\<forall>j \<in> set (journal_entries d). je_EntityID j = en \<and> je_BookID j = b \<and> je_Period j = p \<longrightarrow>
     (\<exists>n. 1 \<le> n \<and> n \<le> voucher_count d en b p \<and> je_VoucherNo j = voucher_no p n))"

lemma voucher_no_inj: "voucher_no p m = voucher_no p n \<longleftrightarrow> m = n"
  by (simp add: voucher_no_def int_str_pad_inj)

text \<open>C25: in a period whose vouchers were all numbered by the service the next number is free, and using it for a new entry
  keeps the numbering: the UNIQUE constraint on voucher numbers is never violated by numbers the code generates one after the other.\<close>

theorem NextVoucherNo_fresh:
  assumes n: "numbered d en b p" and v: "journal_NextVoucherNo e d en b p = Inr v"
    and j: "je_EntityID j = en" "je_BookID j = b" "je_Period j = p" "je_VoucherNo j = v"
  shows "je_voucher j \<notin> je_voucher ` set (journal_entries d) \<and> numbered (d\<lparr>journal_entries := journal_entries d @ [j]\<rparr>) en b p"
proof -
  let ?d = "d\<lparr>journal_entries := journal_entries d @ [j]\<rparr>"
  have v': "v = voucher_no p (voucher_count d en b p + 1)" using v by (simp add: journal_NextVoucherNo_def split: if_splits)
  have cnt: "voucher_count ?d en b p = voucher_count d en b p + 1" using j by (simp add: voucher_count_def)
  have "je_voucher i \<noteq> je_voucher j" if "i \<in> set (journal_entries d)" for i
    using n that j unfolding numbered_def v' by (fastforce simp: je_voucher_def v' voucher_no_inj)
  moreover have "numbered ?d en b p"
    using n j unfolding numbered_def cnt by (fastforce simp: v')
  ultimately show ?thesis by (force simp: image_iff)
qed

section \<open>Examples\<close>

lemma example_trim: "TrimSpace ''12345678'' = ''12345678''"
  by (simp add: TrimSpace_def TrimLeft_def TrimRight_def lead_def spaces_def HasPrefix_def eval_nat_numeral)

lemma example_validates: "Validate (extraction_of (example_invoice st)) = None"
  unfolding Validate_None_iff
  by (simp add: extraction_of_def blank_extraction_def example_invoice_def blank_invoice_def example_trim
      invNoPat_def is_digit_def DirectionOutput_def amount_diff_def float_eval)

theorem CreateInvoiceDraft_idempotent_witness:
  "\<exists>row. CreateInvoiceDraft plain_env full_service no_context ''e1'' ''b1'' ''u2'' (Some (example_invoice '''')) (example_invoices StatusPendingReview) =
     (Inr row, example_invoices StatusPendingReview) \<and> iv_ID row = ''i1'' \<and> iv_number row = (''e1'', ''b1'', ''12345678'')"
proof -
  have n: "iv_number (example_invoice st) = (''e1'', ''b1'', ''12345678'')" "iv_InvoiceNo (example_invoice st) = ''12345678''" for st
    by (simp_all add: example_invoice_def blank_invoice_def iv_number_def)
  have "CreateInvoiceDraft plain_env full_service no_context ''e1'' ''b1'' ''u1'' (Some (example_invoice '''')) (example_invoices StatusPendingReview) =
      (Inr (example_invoice StatusPendingReview), example_invoices StatusPendingReview)"
    by (simp add: CreateInvoiceDraft_def example_validates invoice_FindByInvoiceNo_def n)
  from CreateInvoiceDraft_idempotent [OF this, of plain_env no_context "''u2''"] show ?thesis by (simp add: n)
qed


definition example_import :: ExtractionResult where
  "example_import = (extraction_of (example_invoice ''''))\<lparr>ex_InvoiceNo := ''12345678'', ex_InvoiceLines := [\<lparr> il_ID = '''', il_EntityID = '''',
     il_InvoiceID = '''', il_LineNo = 1, il_ItemName = ''goods'', il_ItemCode = '''', il_Quantity = Fin 1,
     il_UnitPrice = Fin 100, il_Amount = Fin 100, il_TaxRate = Fin 0, il_TaxAmount = Fin 13, il_GoodsServiceCode = '''', il_Metadata = '''' \<rparr>]\<rparr>"

theorem ImportEInvoice_unrelated_witness:
  "\<exists>old. ImportEInvoice plain_env full_service no_context ''e1'' ''b1'' example_import (example_invoices StatusPosted) =
     (Inr old, example_invoices StatusPosted) \<and> iv_ID old = ''i1''"
proof -
  have "Validate example_import = None"
    unfolding Validate_None_iff
    by (simp add: example_import_def extraction_of_def blank_extraction_def example_invoice_def blank_invoice_def example_trim
        invNoPat_def is_digit_def DirectionOutput_def amount_diff_def float_eval)
  moreover have "ex_DigitalInvoiceNo example_import = ''''" "iv_DigitalInvoiceNo (example_invoice StatusPosted) = ''''"
    by (simp_all add: example_import_def extraction_of_def blank_extraction_def example_invoice_def blank_invoice_def)
  ultimately show ?thesis
    using ImportEInvoice_unrelated [of example_import plain_env "example_invoice StatusPosted" "example_invoices StatusPosted" "''e1''" "''b1''"]
    by fastforce
qed

lemma lines_invoices: "invoices (snd (invoice_lines_CreateMany e ls d)) = invoices d"
  using invoice_lines_frame [of e ls d] by (metis prod.collapse)

theorem ImportEInvoice_loses_lines_witness:
  "\<exists>i d'. ImportEInvoice plain_env full_service no_context ''e1'' ''b1'' example_import empty_db = (Inr i, d') \<and>
     length (invoices d') = 1 \<and> invoice_lines d' = []"
proof -
  have v: "Validate example_import = None"
    unfolding Validate_None_iff
    by (simp add: example_import_def extraction_of_def blank_extraction_def example_invoice_def blank_invoice_def example_trim
        invNoPat_def is_digit_def DirectionOutput_def amount_diff_def float_eval)
  let ?i = "imported_invoice plain_env ''e1'' ''b1'' example_import"
  have "\<exists>row. invoice_Create plain_env ?i empty_db = Inr (empty_db\<lparr>invoices := [row]\<rparr>)"
    by (simp add: invoice_Create_def invoice_row_def imported_invoice_def blank_invoice_def example_import_def extraction_of_def
      blank_extraction_def example_invoice_def json_lines_def empty_db_def)
  then obtain i d' where c: "ImportEInvoice plain_env full_service no_context ''e1'' ''b1'' example_import empty_db = (Inr i, d')"
    "length (invoices d') = 1"
    using v lines_invoices by (auto simp: ImportEInvoice_def invoice_FindByDigitalInvoiceNo_def pick_row_def empty_db_def Let_def)
  from ImportEInvoice_loses_lines [OF _ _ c(1)] have "invoice_lines d' = []" by (simp add: example_import_def empty_db_def)
  with c show ?thesis by blast
qed

theorem NextVoucherNo_fresh_witness:
  "je_voucher (example_entry JournalStatusDraft\<lparr>je_VoucherNo := voucher_no ''2025-03'' 1\<rparr>) \<notin> je_voucher ` set (journal_entries empty_db) \<and>
   numbered (empty_db\<lparr>journal_entries := [example_entry JournalStatusDraft\<lparr>je_VoucherNo := voucher_no ''2025-03'' 1\<rparr>]\<rparr>) ''e1'' ''b1'' ''2025-03''"
  using NextVoucherNo_fresh [of empty_db "''e1''" "''b1''" "''2025-03''" plain_env "voucher_no ''2025-03'' 1"
    "example_entry JournalStatusDraft\<lparr>je_VoucherNo := voucher_no ''2025-03'' 1\<rparr>"]
  by (simp add: numbered_def empty_db_def journal_NextVoucherNo_def voucher_count_def example_entry_def)

section \<open>A new book\<close>

text \<open>The accounts of a book, in the order they were stored.\<close>

definition chart_of :: "db \<Rightarrow> string \<Rightarrow> string \<Rightarrow> ChartAccount list" where
  "chart_of d en b = filter (\<lambda>a. ac_EntityID a = en \<and> ac_BookID a = b) (chart_of_accounts d)"

lemma seed_all:
  assumes "\<not> fault e Account_Insert" "inj (uuid e)" "distinct (map fst as)"
    and "\<forall>a \<in> set (chart_of_accounts d). \<forall>m \<ge> n. ac_ID a \<noteq> uuid e m"
    and "\<forall>a \<in> set (chart_of d en b). ac_Code a \<notin> fst ` set as"
  shows "map (\<lambda>a. (ac_Code a, ac_Name a, ac_Category a, ac_BalanceType a)) (chart_of (seed_accounts e n en b as d) en b) =
      map (\<lambda>a. (ac_Code a, ac_Name a, ac_Category a, ac_BalanceType a)) (chart_of d en b) @ as"
  using assms(3-5)
proof (induction as arbitrary: n d)
  case (Cons a as)
  obtain code name cat bal where a: "a = (code, name, cat, bal)" by (cases a) auto
  let ?row = "standard_account e n en b a\<lparr>ac_CreatedAt := db_now e, ac_UpdatedAt := db_now e\<rparr>"
  let ?d = "d\<lparr>chart_of_accounts := chart_of_accounts d @ [?row]\<rparr>"
  have "account_Create e (standard_account e n en b a) d = Inr ?d"
    using assms(1) Cons.prems(2,3) a
    by (fastforce simp: account_Create_def standard_account_def list_ex_iff chart_of_def)
  moreover have "map (\<lambda>a. (ac_Code a, ac_Name a, ac_Category a, ac_BalanceType a)) (chart_of (seed_accounts e (Suc n) en b as ?d) en b) =
      map (\<lambda>a. (ac_Code a, ac_Name a, ac_Category a, ac_BalanceType a)) (chart_of ?d en b) @ as"
  proof (rule Cons.IH)
    show "distinct (map fst as)" using Cons.prems(1) by simp
    show "\<forall>a \<in> set (chart_of_accounts ?d). \<forall>m \<ge> Suc n. ac_ID a \<noteq> uuid e m"
      using Cons.prems(2) assms(2) a by (auto simp: standard_account_def inj_eq)
    show "\<forall>a \<in> set (chart_of ?d en b). ac_Code a \<notin> fst ` set as"
      using Cons.prems(1,3) a by (auto simp: chart_of_def standard_account_def)
  qed
  ultimately show ?case using a by (simp add: chart_of_def standard_account_def)
qed simp

text \<open>A new book is provisioned with the standard chart of accounts: where the inserts work and the generated
  identifiers are new, the book's accounts are exactly the 46 standard accounts, in order.\<close>

theorem CreateBook_accounts:
  assumes c: "CreateBook e s c bk d = (Inr b, d')" and s: "has_accounts s" and f: "\<not> fault e Account_Insert"
    and u: "inj (uuid e)" "\<forall>a \<in> set (chart_of_accounts d). \<forall>m. ac_ID a \<noteq> uuid e m" and n: "chart_of d (bk_EntityID b) (bk_ID b) = []"
  shows "map (\<lambda>a. (ac_Code a, ac_Name a, ac_Category a, ac_BalanceType a)) (chart_of d' (bk_EntityID b) (bk_ID b)) = standard_accounts \<and>
    length standard_accounts = 46"
proof -
  obtain n d1 where d': "d' = seed_accounts e n (bk_EntityID b) (bk_ID b) standard_accounts d1"
    and d1: "chart_of_accounts d1 = chart_of_accounts d"
    using c s by (auto simp: CreateBook_def seedStandardChartOfAccounts_def book_Create_def Let_def split: if_splits sum.splits)
  have "distinct (map fst standard_accounts)" by (simp add: standard_accounts_def)
  moreover have "chart_of d1 (bk_EntityID b) (bk_ID b) = []" using n d1 by (simp add: chart_of_def)
  ultimately have "map (\<lambda>a. (ac_Code a, ac_Name a, ac_Category a, ac_BalanceType a)) (chart_of d' (bk_EntityID b) (bk_ID b)) = standard_accounts"
    unfolding d' using seed_all [OF f u(1), of standard_accounts d1 n "bk_EntityID b" "bk_ID b"] u(2) d1 by simp
  then show ?thesis by (simp add: standard_accounts_def)
qed

lemma plain_ids_inj: "inj (uuid plain_env)"
  by (simp add: inj_def plain_env_def nat_str_inj)

theorem CreateBook_accounts_witness:
  "map (\<lambda>a. (ac_Code a, ac_Name a, ac_Category a, ac_BalanceType a))
     (chart_of (snd (CreateBook plain_env full_service no_context (book_example ''b1'' True) empty_db)) ''e1'' ''b1'') = standard_accounts"
proof -
  have "\<exists>b. fst (CreateBook plain_env full_service no_context (book_example ''b1'' True) empty_db) = Inr b \<and>
      bk_EntityID b = ''e1'' \<and> bk_ID b = ''b1''"
    by (simp add: CreateBook_def book_Create_def book_example_def empty_db_def Let_def)
  then obtain b d' where "CreateBook plain_env full_service no_context (book_example ''b1'' True) empty_db = (Inr b, d')"
    "bk_EntityID b = ''e1''" "bk_ID b = ''b1''" by (auto simp: prod_eq_iff)
  with CreateBook_accounts [OF this(1) _ _ plain_ids_inj] show ?thesis by (simp add: chart_of_def empty_db_def)
qed

section \<open>Idempotent requests\<close>

text \<open>The idempotency records: once the result of a request is saved under a key that had none, every later check of
  the key returns it, whatever the input of that request (the hash is not compared), and saving another result
  under the key changes nothing.\<close>

theorem idempotency_replay:
  assumes s: "has_idempotency s" and n: "CheckIdempotency e0 s en ca key h0 d = Inr None"
    and w: "SaveIdempotency e s en ca key h res st d = Inr d1" and f: "\<not> fault e' Idempotency_Get"
  shows "(\<exists>r. CheckIdempotency e' s en ca key h' d1 = Inr (Some r) \<and> jsonb e res = Some (ir_Result r) \<and>
      ir_InputHash r = h \<and> ir_Status r = st) \<and>
    (SaveIdempotency e'' s en ca key h' res' st' d1 = Inr d2 \<longrightarrow> d2 = d1)"
proof -
  let ?r = "\<lparr> ir_EntityID = en, ir_CapabilityID = ca, ir_IdempotencyKey = key, ir_InputHash = h, ir_Result = res, ir_Status = st,
    ir_CreatedAt = '''' \<rparr>"
  have sv: "idem_Save e ?r d = Inr d1" using s w by (simp add: SaveIdempotency_def)
  then obtain j where j: "jsonb e res = Some j" by (auto simp: idem_Save_def split: if_splits option.splits)
  have none: "find (\<lambda>r. ir_key r = (en, ca, key)) (idempotency_records d) = None"
    using s n by (auto simp: CheckIdempotency_def idem_Get_def split: if_splits)
  have d1: "d1 = d\<lparr>idempotency_records := idempotency_records d @ [?r\<lparr>ir_Result := j, ir_CreatedAt := db_now e\<rparr>]\<rparr>"
    using sv j none by (auto simp: idem_Save_def list_ex_iff find_None_iff ir_key_def split: if_splits)
  have "CheckIdempotency e' s en ca key h' d1 = Inr (Some (?r\<lparr>ir_Result := j, ir_CreatedAt := db_now e\<rparr>))"
    using s f none by (simp add: CheckIdempotency_def idem_Get_def d1 find_append ir_key_def)
  moreover have "SaveIdempotency e'' s en ca key h' res' st' d1 = Inr d2 \<longrightarrow> d2 = d1"
    using s by (auto simp: SaveIdempotency_def idem_Save_def d1 ir_key_def split: if_splits option.splits)
  ultimately show ?thesis using j by simp
qed

theorem idempotency_replay_witness:
  "\<exists>d1 r. SaveIdempotency plain_env full_service ''e1'' ''c1'' ''k1'' ''h1'' ''{}'' ''ok'' empty_db = Inr d1 \<and>
     CheckIdempotency plain_env full_service ''e1'' ''c1'' ''k1'' ''h2'' d1 = Inr (Some r) \<and> ir_InputHash r = ''h1''"
proof -
  obtain d1 where d1: "SaveIdempotency plain_env full_service ''e1'' ''c1'' ''k1'' ''h1'' ''{}'' ''ok'' empty_db = Inr d1"
    by (simp add: SaveIdempotency_def idem_Save_def empty_db_def)
  have "CheckIdempotency plain_env full_service ''e1'' ''c1'' ''k1'' ''h1'' empty_db = Inr None"
    by (simp add: CheckIdempotency_def idem_Get_def empty_db_def)
  from idempotency_replay [OF _ this d1, of plain_env "''h2''" plain_env "''''" "''''" d1] d1 show ?thesis by auto
qed

end
