(* ===== verification/Taxes.thy ===== *)
theory Taxes
  imports Vouchers "HOL-Library.Multiset"
begin

text \<open>
  What the tax operations compute: the VAT return is exact in cents whatever the grouping and the order of the map, the
  statements count both sides of a line, and the annual report takes a failing database for a year without business.
\<close>

section \<open>Rates of negative amounts\<close>

lemma fmul_neg_val: "is_fin x \<Longrightarrow> is_fin r \<Longrightarrow> \<bar>val x * val r\<bar> \<le> 2 ^ 200 \<Longrightarrow> val (fmul (fneg x) r) = - val (fmul x r)"
  using fmul_fin [of x r] fmul_fin [of "fneg x" r] by (simp add: rnd_minus)

lemma to_cents_neg: "val y = - val x \<Longrightarrow> to_cents y = - to_cents x"
  by (simp add: to_cents_def rnd_minus round_away_minus)

lemma rate_cents_any:
  assumes x: "is_cents x k" and k: "\<bar>k\<bar> \<le> cap" and q: "0 \<le> q" "q \<le> 1"
  defines "m \<equiv> to_cents (fmul x (lit q))"
  shows "is_cents (roundMoney (fmul x (lit q))) m" "\<bar>m\<bar> \<le> \<bar>k\<bar>" "0 \<le> m * k" "\<bar>of_int m - of_int k * q\<bar> < 1"
proof -
  note r = lit_rate [OF q]
  have b: "\<bar>val x\<bar> \<le> 2 ^ 44" using k by (intro is_cents_bound [OF x]) simp
  note f = fmul_rate_fin [OF is_cents_fin [OF x] b, of "lit q"]
  have f1: "is_fin (fmul x (lit q))" "\<bar>val (fmul x (lit q))\<bar> \<le> 2 ^ 44" using f r by auto
  then have "\<bar>val (fmul x (lit q))\<bar> \<le> 2 ^ 46" by simp
  from roundMoney_to_cents(1) [OF f1(1) this] show "is_cents (roundMoney (fmul x (lit q))) m" by (simp add: m_def)
  have "\<bar>m\<bar> \<le> \<bar>k\<bar> \<and> 0 \<le> m * k \<and> \<bar>of_int m - of_int k * q\<bar> < 1"
  proof (cases "0 \<le> k")
    case True
    with rate_cents_lit [OF x True _ q] k show ?thesis by (simp add: m_def)
  next
    case False
    have "is_cents (fneg x) (- k)" "0 \<le> - k" "- k \<le> cap" using x False k by auto
    note c = rate_cents_lit [OF this q]
    have "\<bar>val x\<bar> * \<bar>val (lit q)\<bar> \<le> 2 ^ 44 * 1" using b r by (intro mult_mono) auto
    then have "val (fmul (fneg x) (lit q)) = - val (fmul x (lit q))"
      using r is_cents_fin [OF x] by (intro fmul_neg_val) (auto simp: abs_mult)
    then have m: "to_cents (fmul (fneg x) (lit q)) = - m" unfolding m_def by (rule to_cents_neg)
    have "\<bar>m\<bar> \<le> \<bar>k\<bar>" "0 \<le> m * k" using c(2,3) False unfolding m by (auto intro: mult_nonpos_nonpos)
    moreover have "\<bar>of_int (- m) - of_int (- k) * q\<bar> = \<bar>of_int m - of_int k * q\<bar>"
      by (simp add: abs_minus_commute)
    ultimately show ?thesis using c(4) unfolding m by simp
  qed
  then show "\<bar>m\<bar> \<le> \<bar>k\<bar>" "0 \<le> m * k" "\<bar>of_int m - of_int k * q\<bar> < 1" by auto
qed

section \<open>The VAT return\<close>

abbreviation tax_cents :: "rate_group \<Rightarrow> int" where
  "tax_cents g \<equiv> to_cents (vr_TaxAmount (snd g))"

abbreviation group_sum :: "(string \<Rightarrow> bool) \<Rightarrow> rate_group list \<Rightarrow> int" where
  "group_sum p gs \<equiv> sum_list (map tax_cents (filter (\<lambda>g. p (snd (fst g))) gs))"

definition groups_exact :: "rate_group list \<Rightarrow> bool" where
  "groups_exact gs \<longleftrightarrow> list_all (\<lambda>g. is_cents (vr_TaxAmount (snd g)) (tax_cents g)) gs"

lemma rate_add_tax: "vr_TaxAmount (rate_add i r) = roundMoney (fadd (vr_TaxAmount r) (iv_TaxAmount i))"
  by (simp add: rate_add_def)

lemma rate_upd_sums:
  assumes "groups_exact gs" "is_cents (iv_TaxAmount i) k" "sum_list (map (\<lambda>g. \<bar>tax_cents g\<bar>) gs) + \<bar>k\<bar> \<le> cap"
  shows "groups_exact (rate_upd i gs) \<and>
    group_sum p (rate_upd i gs) = group_sum p gs + (if p (iv_Direction i) then k else 0) \<and>
    sum_list (map (\<lambda>g. \<bar>tax_cents g\<bar>) (rate_upd i gs)) \<le> sum_list (map (\<lambda>g. \<bar>tax_cents g\<bar>) gs) + \<bar>k\<bar> \<and>
    length (rate_upd i gs) \<le> Suc (length gs)"
  using assms
proof (induction i gs rule: rate_upd.induct)
  case (1 i)
  have c: "is_cents (roundMoney (fadd (Fin 0) (iv_TaxAmount i))) k"
    using roundMoney_add [of "Fin 0" 0 "iv_TaxAmount i" k] 1 by simp
  then have "to_cents (roundMoney (fadd (Fin 0) (iv_TaxAmount i))) = k"
    using 1 by (intro to_cents_is_cents) auto
  with c show ?case by (simp add: groups_exact_def rate_add_tax rate_blank_def)
next
  case (2 i rate dir row gs)
  let ?t = "to_cents (vr_TaxAmount row)"
  have nn: "0 \<le> sum_list (map (\<lambda>g. \<bar>tax_cents g\<bar>) gs)" by (rule sum_list_nonneg) auto
  have t: "is_cents (vr_TaxAmount row) ?t" "\<bar>?t\<bar> \<le> cap" "\<bar>k\<bar> \<le> cap" "\<bar>?t + k\<bar> \<le> 2 * cap"
    using 2(2,4) nn by (auto simp: groups_exact_def)
  have c: "is_cents (roundMoney (fadd (vr_TaxAmount row) (iv_TaxAmount i))) (?t + k)"
    by (rule roundMoney_add [OF t(1) 2(3) t(2,3)])
  have e: "to_cents (roundMoney (fadd (vr_TaxAmount row) (iv_TaxAmount i))) = ?t + k"
    by (rule to_cents_is_cents [OF c t(4)])
  show ?case
  proof (cases "feq rate (vat_rate i) \<and> dir = iv_Direction i")
    case True
    with 2(2) c e show ?thesis by (auto simp: groups_exact_def rate_add_tax)
  next
    case False
    with 2 show ?thesis by (auto simp: groups_exact_def)
  qed
qed

lemma rate_groups_sums:
  assumes "list_all2 is_cents (map iv_TaxAmount invs) ks" "sum_list (map abs ks) \<le> cap"
  shows "groups_exact (rate_groups invs) \<and>
    group_sum p (rate_groups invs) = sum_list (map snd (filter (\<lambda>(i, k). p (iv_Direction i)) (zip invs ks))) \<and>
    sum_list (map (\<lambda>g. \<bar>tax_cents g\<bar>) (rate_groups invs)) \<le> sum_list (map abs ks) \<and>
    length (rate_groups invs) \<le> length invs"
  using assms
proof (induction invs arbitrary: ks rule: rev_induct)
  case Nil
  then show ?case by (simp add: rate_groups_def groups_exact_def)
next
  case (snoc i invs)
  then obtain js k where ks: "ks = js @ [k]" "list_all2 is_cents (map iv_TaxAmount invs) js" "is_cents (iv_TaxAmount i) k"
    by (auto simp: list_all2_append1 list_all2_Cons1)
  have len: "length invs = length js" using list_all2_lengthD [OF ks(2)] by simp
  have js: "sum_list (map abs js) + \<bar>k\<bar> \<le> cap" using snoc.prems(2) ks(1) by simp
  then have ih: "groups_exact (rate_groups invs)"
      "group_sum p (rate_groups invs) = sum_list (map snd (filter (\<lambda>(i, k). p (iv_Direction i)) (zip invs js)))"
      "sum_list (map (\<lambda>g. \<bar>tax_cents g\<bar>) (rate_groups invs)) \<le> sum_list (map abs js)"
      "length (rate_groups invs) \<le> length invs"
    using snoc.IH [OF ks(2)] by auto
  from rate_upd_sums [OF ih(1) ks(3), of p] ih js show ?case
    using len by (auto simp: rate_groups_def ks(1))
qed

text \<open>The total of a side does not depend on the order of the groups.\<close>

lemma group_sum_perm:
  assumes "mset hs = mset gs" shows "sum_list (map f (filter P hs)) = (sum_list (map f (filter P gs)) :: int)"
proof -
  have "mset (map f (filter P hs)) = mset (map f (filter P gs))" using assms by simp
  then show ?thesis using sum_mset_sum_list by metis
qed

lemma sum_abs_filter: "sum_list (map (\<lambda>x. \<bar>f x\<bar>) (filter P xs)) \<le> sum_list (map (\<lambda>x. \<bar>f x :: int\<bar>) xs)"
  by (induction xs) auto

lemma rates_total_exact:
  assumes g: "groups_exact gs" and h: "mset hs = mset gs" and n: "length gs \<le> max_lines"
    and s: "sum_list (map (\<lambda>g. \<bar>tax_cents g\<bar>) gs) \<le> sum_cap"
  shows "is_cents (rates_total (rates_of p hs)) (group_sum p gs)" "\<bar>group_sum p gs\<bar> \<le> sum_cap"
proof -
  let ?F = "filter (\<lambda>g. p (snd (fst g))) hs"
  have "list_all (\<lambda>g. is_cents (vr_TaxAmount (snd g)) (tax_cents g)) hs"
    using g mset_eq_setD [OF h] by (simp add: groups_exact_def list_all_iff)
  then have c: "list_all2 is_cents (map vr_TaxAmount (rates_of p hs)) (map tax_cents ?F)"
    by (simp add: rates_of_def list_all2_map1 list_all2_map2 list_all2_same list_all_iff)
  have a: "sum_list (map (\<lambda>g. \<bar>tax_cents g\<bar>) ?F) \<le> sum_cap"
    using sum_abs_filter [of tax_cents "\<lambda>g. p (snd (fst g))" hs] s group_sum_perm [OF h, of "\<lambda>g. \<bar>tax_cents g\<bar>" "\<lambda>g. True"]
    by simp
  have "length ?F \<le> max_lines"
    using n mset_eq_length [OF h] length_filter_le [of "\<lambda>g. p (snd (fst g))" hs] by linarith
  then have ok: "amounts_ok (map tax_cents ?F)" using a by (simp add: amounts_ok_def comp_def)
  have e: "group_sum p hs = group_sum p gs" by (rule group_sum_perm [OF h])
  show b: "\<bar>group_sum p gs\<bar> \<le> sum_cap" using amounts_ok_sum [OF ok] e by simp
  have "\<bar>group_sum p hs\<bar> \<le> 2 * cap" using b e by (simp add: sum_cap_def cap_def)
  from roundMoney_close [OF fsum_cents [OF c ok] this] e
  show "is_cents (rates_total (rates_of p hs)) (group_sum p gs)"
    by (simp add: rates_total_def fsum_def)
qed

text \<open>The main table for a payable of \<open>n\<close> cents, which may be negative.\<close>

definition main_table_spec :: "int \<Rightarrow> int \<Rightarrow> VATMainTable \<Rightarrow> bool" where
  "main_table_spec o' i m \<longleftrightarrow> (let n = o' - i in
     is_cents (vm_OutputTax m) o' \<and> is_cents (vm_InputTax m) i \<and> is_cents (vm_TaxPayable m) n \<and>
     (\<exists>u e l. is_cents (vm_UrbanConstruction m) u \<and> is_cents (vm_EducationSurcharge m) e \<and> is_cents (vm_LocalEducation m) l \<and>
        is_cents (vm_TotalTaxBurden m) (n + u + e + l) \<and> 0 \<le> u * n \<and> 0 \<le> e * n \<and> 0 \<le> l * n \<and>
        \<bar>of_int u - of_int n * (7 / 100)\<bar> < (1 :: rat) \<and> \<bar>of_int e - of_int n * (3 / 100)\<bar> < (1 :: rat) \<and>
        \<bar>of_int l - of_int n * (2 / 100)\<bar> < (1 :: rat)))"

lemma vat_main_spec:
  assumes "is_cents (vc_OutputTotal cc) a" "is_cents (vc_InputTotal cc) b" "\<bar>a\<bar> \<le> sum_cap" "\<bar>b\<bar> \<le> sum_cap"
    and net: "vc_NetPayable cc = roundMoney (fsub (vc_OutputTotal cc) (vc_InputTotal cc))"
  shows "main_table_spec a b (vat_main cc)"
proof -
  have k: "\<bar>a\<bar> \<le> cap" "\<bar>b\<bar> \<le> cap" "\<bar>a - b\<bar> \<le> cap" "4 * \<bar>a - b\<bar> \<le> short_cap"
    using assms(3,4) by (auto simp: sum_cap_def cap_def short_cap_def)
  have n: "is_cents (vc_NetPayable cc) (a - b)" unfolding net by (rule roundMoney_sub [OF assms(1,2) k(1,2)])
  have q: "0 \<le> (7 / 100 :: rat)" "7 / 100 \<le> (1 :: rat)" "0 \<le> (3 / 100 :: rat)" "3 / 100 \<le> (1 :: rat)"
    "0 \<le> (2 / 100 :: rat)" "2 / 100 \<le> (1 :: rat)" by simp_all
  note u = rate_cents_any [OF n k(3) q(1,2)] and e = rate_cents_any [OF n k(3) q(3,4)] and l = rate_cents_any [OF n k(3) q(5,6)]
  let ?u = "to_cents (fmul (vc_NetPayable cc) (lit (7 / 100)))" and ?e = "to_cents (fmul (vc_NetPayable cc) (lit (3 / 100)))"
    and ?l = "to_cents (fmul (vc_NetPayable cc) (lit (2 / 100)))"
  have s: "\<bar>a - b\<bar> + \<bar>?u\<bar> + \<bar>?e\<bar> + \<bar>?l\<bar> \<le> short_cap" using u(2) e(2) l(2) k(4) by linarith
  have "\<bar>(a - b) + ?u + ?e + ?l\<bar> \<le> cap" using s money_cap_simps(5) by linarith
  from roundMoney_near [OF short_sum4 [OF n u(1) e(1) l(1) s] _ this]
  have t: "is_cents (vm_TotalTaxBurden (vat_main cc)) ((a - b) + ?u + ?e + ?l)" by (simp add: vat_main_def Let_def)
  show ?thesis
    unfolding main_table_spec_def Let_def
  proof (intro conjI exI)
    show "is_cents (vm_TotalTaxBurden (vat_main cc)) ((a - b) + ?u + ?e + ?l)" by (rule t)
    show "\<bar>of_int ?u - of_int (a - b) * (7 / 100)\<bar> < (1 :: rat)" by (rule u(4))
    show "\<bar>of_int ?e - of_int (a - b) * (3 / 100)\<bar> < (1 :: rat)" by (rule e(4))
    show "\<bar>of_int ?l - of_int (a - b) * (2 / 100)\<bar> < (1 :: rat)" by (rule l(4))
  qed (use assms n u e l in \<open>simp_all add: vat_main_def Let_def\<close>)
qed

abbreviation side_cents :: "(string \<Rightarrow> bool) \<Rightarrow> Invoice list \<Rightarrow> int list \<Rightarrow> int" where
  "side_cents p invs ks \<equiv> sum_list (map snd (filter (\<lambda>(i, k). p (iv_Direction i)) (zip invs ks)))"

text \<open>The totals of the cross-check are the exact sums of either side.\<close>

lemma cross_check_totals:
  assumes "list_all2 is_cents (map iv_TaxAmount invs) ks" "amounts_ok ks" "\<And>gs. mset (ordg gs) = mset gs"
  defines "cc \<equiv> vat_cross_check ordg invs" and "out \<equiv> side_cents (\<lambda>dir. dir = DirectionOutput) invs ks"
    and "inp \<equiv> side_cents (\<lambda>dir. dir \<noteq> DirectionOutput) invs ks"
  shows "is_cents (vc_OutputTotal cc) out" "\<bar>out\<bar> \<le> sum_cap" "is_cents (vc_InputTotal cc) inp" "\<bar>inp\<bar> \<le> sum_cap"
    "vc_NetPayable cc = roundMoney (fsub (vc_OutputTotal cc) (vc_InputTotal cc))"
proof -
  have ks: "sum_list (map abs ks) \<le> cap" "sum_list (map abs ks) \<le> sum_cap" "length invs \<le> max_lines"
    using assms(2) list_all2_lengthD [OF assms(1)] by (auto simp: amounts_ok_def sum_cap_def cap_def)
  note g = rate_groups_sums [OF assms(1) ks(1)]
  then have "groups_exact (rate_groups invs)" "length (rate_groups invs) \<le> max_lines"
    "sum_list (map (\<lambda>g. \<bar>tax_cents g\<bar>) (rate_groups invs)) \<le> sum_cap"
    using ks by (auto intro: order.trans)
  note t = rates_total_exact [OF this(1) assms(3) this(2,3)]
  show "is_cents (vc_OutputTotal cc) out" "\<bar>out\<bar> \<le> sum_cap" "is_cents (vc_InputTotal cc) inp" "\<bar>inp\<bar> \<le> sum_cap"
    using t [of "\<lambda>dir. dir = DirectionOutput"] t [of "\<lambda>dir. dir \<noteq> DirectionOutput"] g [of "\<lambda>dir. dir = DirectionOutput"]
      g [of "\<lambda>dir. dir \<noteq> DirectionOutput"]
    unfolding cc_def out_def inp_def by (simp_all add: vat_cross_check_def Let_def DirectionOutput_def)
  show "vc_NetPayable cc = roundMoney (fsub (vc_OutputTotal cc) (vc_InputTotal cc))"
    by (simp add: cc_def vat_cross_check_def Let_def)
qed

text \<open>C26: the VAT return of a period is exact.  Over at most 1000 posted invoices whose taxes are \<open>ks\<close> cents (together at most
  \<open>2 ^ 39\<close>), grouped by rate and direction and summed in whatever order Go iterates over the groups, output and input tax
  are the exact sums, the payable their exact difference, each surcharge within a cent of 7, 3 and 2 percent of it with its
  sign, and the burden the exact sum of the four.  So with more input than output tax the return claims negative
  surcharges, where the engine's own calculation stops at zero.\<close>

theorem VATReturn_exact:
  assumes "invoice_ListPostedByPeriod e d en b p = Inr invs"
    and "list_all2 is_cents (map iv_TaxAmount invs) ks" "amounts_ok ks" "\<And>gs. mset (ordg gs) = mset gs"
  shows "\<exists>vr. VATReturn_report e ordg en b p d = Inr vr \<and>
    main_table_spec (side_cents (\<lambda>dir. dir = DirectionOutput) invs ks) (side_cents (\<lambda>dir. dir \<noteq> DirectionOutput) invs ks) (vret_Main vr)"
proof -
  note t = cross_check_totals [OF assms(2-4)]
  from vat_main_spec [OF t(1,3,2,4,5)] assms(1) show ?thesis
    by (simp add: VATReturn_report_def VATCrossCheck_report_def vat_return_def)
qed

theorem VATReturn_exact_witness:
  "\<exists>vr. VATReturn_report plain_env rev ''e1'' ''b1'' ''2025-03''
      (empty_db\<lparr>invoices := [example_invoice StatusPosted\<lparr>iv_Direction := DirectionInput\<rparr>]\<rparr>) = Inr vr \<and>
    main_table_spec 0 1300 (vret_Main vr)"
proof -
  let ?i = "example_invoice StatusPosted\<lparr>iv_Direction := DirectionInput\<rparr>"
  have l: "invoice_ListPostedByPeriod plain_env (empty_db\<lparr>invoices := [?i]\<rparr>) ''e1'' ''b1'' ''2025-03'' = Inr [?i]"
    by (simp add: invoice_ListPostedByPeriod_def issue_month_def)
  have c: "list_all2 is_cents (map iv_TaxAmount [?i]) [1300]" by (simp add: is_cents_def)
  have ok: "amounts_ok [1300]" by (simp add: amounts_ok_def max_lines_def sum_cap_def)
  from VATReturn_exact [OF l c ok, of rev]
  show ?thesis by (simp add: DirectionOutput_def DirectionInput_def)
qed

section \<open>The statements\<close>

text \<open>A line and its reversal count with the same amount.\<close>

lemma report_reversal:
  "jl_AccountCode (reversal_line e j n l) = jl_AccountCode l"
  "rl_Amount (report_line (reversal_line e j n l)) = rl_Amount (report_line l)"
  by (auto simp: report_line_def reversal_line_def reverseDirection_def DirectionDebit_def DirectionCredit_def)

lemma report_reversals:
  "map rl_Amount (map report_line (reversal_lines e j)) = map rl_Amount (map report_line (je_Lines j))"
  "map jl_AccountCode (reversal_lines e j) = map jl_AccountCode (je_Lines j)"
  by (auto simp: reversal_lines_def report_reversal case_prod_beta comp_def nth_enumerate_eq intro!: nth_equalityI)

lemma selects_side_free:
  assumes "as_Direction (rm_AccountSelector m) \<in> {'''', ''either''}"
  shows "selects m (report_line l) \<longleftrightarrow> \<not> rm_IsSubtotal m \<and> matchSelector (jl_AccountCode l) '''' (rm_AccountSelector m)"
  using assms by (auto simp: selects_def matchSelector_def report_line_def)

lemma filter_zip_codes:
  assumes "map g xs = map g ys" "length ks = length xs"
  shows "map snd (filter (\<lambda>(x, k). P (g x)) (zip xs ks)) = map snd (filter (\<lambda>(x, k). P (g x)) (zip ys ks))"
  using assms
proof (induction xs arbitrary: ys ks)
  case (Cons x xs)
  then obtain y ys' k ks' where "ys = y # ys'" "ks = k # ks'" by (cases ys; cases ks) auto
  with Cons show ?case by auto
qed simp


text \<open>The seeded mapping of the cash line, and the voucher of the example.\<close>

definition cash_mapping :: ReportMapping where
  "cash_mapping = \<lparr> rm_LineCode = ''monetary_funds'', rm_LineLabel = '''', rm_DisplayOrder = 1,
     rm_AccountingStandard = ''small_business_gaap_cn'', rm_AccountSelector = \<lparr> as_Prefixes = [''1001'', ''1002''], as_Categories = [],
     as_Direction = '''', as_ExcludePrefixes = [] \<rparr>, rm_IsSubtotal = False, rm_ParentLineCode = '''', rm_Formula = '''' \<rparr>"


section \<open>The annual report of the corporate income tax\<close>

definition month_rows ::
    "(nat \<Rightarrow> env) \<Rightarrow> (account_key list \<Rightarrow> account_key list) \<Rightarrow> string \<Rightarrow> string \<Rightarrow> string \<Rightarrow> db \<Rightarrow> nat \<Rightarrow> AccountBalanceRow list" where
  "month_rows em ord en b y d m =
     (case AccountBalance_report (em m) ord en b (y @ ''-'' @ int_str_pad 2 (int m)) d of Inl _ \<Rightarrow> [] | Inr ab \<Rightarrow> abal_Rows ab)"

text \<open>The rows of the months whose query worked, and the three kinds of accounts the report adds up.\<close>

definition year_rows ::
    "(nat \<Rightarrow> env) \<Rightarrow> (account_key list \<Rightarrow> account_key list) \<Rightarrow> string \<Rightarrow> string \<Rightarrow> string \<Rightarrow> db \<Rightarrow> AccountBalanceRow list" where
  "year_rows em ord en b y d = concat (map (month_rows em ord en b y d) [1..<13])"

definition revenue_row :: "AccountBalanceRow \<Rightarrow> bool" where
  "revenue_row r \<longleftrightarrow> HasPrefix (abr_AccountCode r) ''6''"

definition cost_row :: "AccountBalanceRow \<Rightarrow> bool" where
  "cost_row r \<longleftrightarrow> \<not> revenue_row r \<and> (abr_AccountCode r = ''5401'' \<or> abr_AccountCode r = ''5402'')"

definition expense_row :: "AccountBalanceRow \<Rightarrow> bool" where
  "expense_row r \<longleftrightarrow> \<not> revenue_row r \<and> \<not> cost_row r \<and> HasPrefix (abr_AccountCode r) ''56''"

lemma cit_add_sums:
  "foldl cit_add (r, c, x) rows = (foldl fadd r (map abr_CreditAmount (filter revenue_row rows)),
     foldl fadd c (map abr_DebitAmount (filter cost_row rows)), foldl fadd x (map abr_DebitAmount (filter expense_row rows)))"
  by (induction rows arbitrary: r c x) (auto simp: cit_add_def revenue_row_def cost_row_def expense_row_def)

lemma cit_month_rows: "cit_month em ord en b y d acc m = foldl cit_add acc (month_rows em ord en b y d m)"
  by (simp add: cit_month_def month_rows_def split: sum.split)

lemma cit_year_sums:
  "cit_year em ord en b y d = (fsum (map abr_CreditAmount (filter revenue_row (year_rows em ord en b y d))),
     fsum (map abr_DebitAmount (filter cost_row (year_rows em ord en b y d))),
     fsum (map abr_DebitAmount (filter expense_row (year_rows em ord en b y d))))"
proof -
  have "foldl (cit_month em ord en b y d) acc ms = foldl cit_add acc (concat (map (month_rows em ord en b y d) ms))" for acc ms
    by (induction ms arbitrary: acc) (simp_all add: cit_month_rows)
  then show ?thesis by (simp add: cit_year_def year_rows_def fsum_def cit_add_sums)
qed

text \<open>Two subtractions of sums stay close enough to the exact difference.\<close>

lemma fsub_err:
  assumes "is_fin x" "is_fin y" "\<bar>val x - of_int a / 100\<bar> \<le> p" "\<bar>val y - of_int b / 100\<bar> \<le> q" "\<bar>val x\<bar> \<le> 2 ^ 34" "\<bar>val y\<bar> \<le> 2 ^ 34"
  shows "is_fin (fsub x y)" "\<bar>val (fsub x y) - of_int (a - b) / 100\<bar> \<le> p + q + 1 / 2 ^ 18"
proof -
  have "\<bar>val x - val y\<bar> \<le> 2 ^ 34 + 2 ^ 34" using assms(5,6) by linarith
  then have b: "\<bar>val x - val y\<bar> \<le> 2 ^ 35" by simp
  have "\<bar>val x - val y\<bar> \<le> 2 ^ 200" using b by simp
  with assms(1,2) have f: "is_fin (fsub x y)" "val (fsub x y) = rnd (val x - val y)" using fsub_fin [of x y] by simp_all
  have "\<bar>rnd (val x - val y) - (val x - val y)\<bar> \<le> 2 ^ 35 / 2 ^ 53" using b by (rule rnd_err_1) simp
  then have "\<bar>rnd (val x - val y) - (val x - val y)\<bar> \<le> 1 / 2 ^ 18" by simp
  then show "\<bar>val (fsub x y) - of_int (a - b) / 100\<bar> \<le> p + q + 1 / 2 ^ 18"
    using assms(3,4) unfolding f(2) of_int_diff diff_divide_distrib by linarith
  show "is_fin (fsub x y)" by (rule f)
qed

lemma fsum_bound:
  assumes "list_all2 is_cents xs ks" "amounts_ok ks"
  shows "\<bar>val (fsum xs)\<bar> \<le> 2 ^ 34"
proof -
  have "\<bar>of_int (sum_list ks) / 100 :: rat\<bar> \<le> 2 ^ 39 / 100"
    using amounts_ok_sum [OF assms(2)] by (intro cents_bound_rat) (simp add: sum_cap_def)
  with fsum_cents(2) [OF assms] have "\<bar>val (fsum xs)\<bar> \<le> 2 ^ 39 / 100 + 1 / 400" by linarith
  then show ?thesis by simp
qed



end
