(* ===== verification/Checks.thy ===== *)
theory Checks
  imports Taxes
begin

text \<open>
  Properties of the checks of the service: the consistency check, the extended close check, the matching of invoices with
  shipments and bank transactions, and the counts of the tax risk report.
\<close>

section \<open>The consistency check\<close>

lemma sub_self_cents: "is_cents x k \<Longrightarrow> \<bar>k\<bar> \<le> cap \<Longrightarrow> is_cents (round2 (fsub x x)) 0"
  using roundMoney_sub [of x k x k] by (simp add: round2_roundMoney)

lemma one_percent_cents:
  "is_cents x k \<Longrightarrow> \<bar>k\<bar> \<le> cap \<Longrightarrow> \<exists>m. is_cents (round2 (fmul x (lit (1 / 100)))) m \<and> \<bar>m\<bar> \<le> cap"
  using rate_cents_any [of x k "1 / 100"] by (auto simp: round2_roundMoney intro!: exI)

text \<open>Comparing two totals with themselves finds no difference.\<close>

lemma self_check_passes:
  assumes "is_cents x a" "\<bar>a\<bar> \<le> sum_cap" "is_cents y b" "\<bar>b\<bar> \<le> sum_cap"
  shows "cr_Passed (CheckInvoiceToVAT x y x y)"
proof -
  have k: "\<bar>a\<bar> \<le> cap" "\<bar>b\<bar> \<le> cap" "\<bar>max a b\<bar> \<le> cap" using assms(2,4) by (auto simp: sum_cap_def cap_def)
  let ?t0 = "round2 (fmul (math_Max x y) (lit (1 / 100)))"
  have "is_cents (math_Max x y) (max a b)" using math_Max_cents [OF assms(1,3)] k by simp
  from one_percent_cents [OF this k(3)] obtain m where m: "is_cents ?t0 m" "\<bar>m\<bar> \<le> cap" by blast
  let ?d = "round2 (fadd (math_Abs (round2 (fsub x x))) (math_Abs (round2 (fsub y y))))"
  have z: "is_cents (math_Abs (round2 (fsub x x))) 0" "is_cents (math_Abs (round2 (fsub y y))) 0"
    using math_Abs_cents [OF sub_self_cents [OF assms(1) k(1)]] math_Abs_cents [OF sub_self_cents [OF assms(3) k(2)]] by simp_all
  then have d: "is_cents ?d 0" using roundMoney_add [OF z] by (simp add: round2_roundMoney cap_def)
  have one: "is_fin (lit 1)" "val (lit 1) = 1" by (simp_all add: lit_fin)
  have "fle ?d (if flt ?t0 (lit 1) then lit 1 else ?t0)"
    using d m one by (auto simp: is_cents_def)
  then show ?thesis by (simp add: CheckInvoiceToVAT_def Let_def del: lit_zero)
qed

text \<open>The first consistency check always passes.  Whatever was posted (at most 1000 invoices, taxes of \<open>ks\<close> cents), the check
  of the invoices against the VAT return compares the totals of the cross-check with themselves.\<close>

theorem vat_check_always_passes:
  assumes "invoice_ListPostedByPeriod e d en b p = Inr invs"
    and "list_all2 is_cents (map iv_TaxAmount invs) ks" "amounts_ok ks" "\<And>gs. mset (ordg gs) = mset gs"
  shows "\<exists>c cs x d'. RunConsistencyCheck e ordg s en b p d = ((c # cs, x), d') \<and> ck_CheckType c = ''invoice_to_vat'' \<and> ck_Passed c"
proof -
  note t = cross_check_totals [OF assms(2-4)]
  let ?cc = "vat_cross_check ordg invs"
  let ?r = "CheckInvoiceToVAT (vc_OutputTotal ?cc) (vc_InputTotal ?cc) (vc_OutputTotal ?cc) (vc_InputTotal ?cc)"
  obtain rs where rs: "consistency_results e ordg s en b p d = ?r # rs"
    using assms(1) by (simp add: consistency_results_def vat_results_def VATCrossCheck_report_def Let_def)
  have "cr_Passed ?r" by (rule self_check_passes [OF t(1-4)])
  moreover have "cr_CheckType ?r = ''invoice_to_vat''" by (simp add: CheckInvoiceToVAT_def Let_def)
  ultimately show ?thesis
    by (auto simp: RunConsistencyCheck_def Let_def rs check_of_def upt_conv_Cons simp del: upt_Suc split: prod.split)
qed

theorem vat_check_always_passes_witness:
  "\<exists>c cs x d'. RunConsistencyCheck plain_env (\<lambda>gs. gs) full_service ''e1'' ''b1'' ''2025-03'' (example_invoices StatusPosted) =
     ((c # cs, x), d') \<and> ck_Passed c"
proof -
  have l: "invoice_ListPostedByPeriod plain_env (example_invoices StatusPosted) ''e1'' ''b1'' ''2025-03'' = Inr [example_invoice StatusPosted]"
    by (simp add: invoice_ListPostedByPeriod_def issue_month_def)
  have c: "list_all2 is_cents (map iv_TaxAmount [example_invoice StatusPosted]) [1300]" by (simp add: is_cents_def)
  have ok: "amounts_ok [1300]" by (simp add: amounts_ok_def max_lines_def sum_cap_def)
  from vat_check_always_passes [OF l c ok, of "\<lambda>gs. gs" full_service] show ?thesis by blast
qed

section \<open>The extended close check\<close>

lemma failed_checks:
  "length ns = length rs \<Longrightarrow>
   filter (\<lambda>c. \<not> ck_Passed c) (map (\<lambda>(n, r). check_of (f n) en b p r) (zip ns rs)) = [] \<longleftrightarrow> list_all cr_Passed rs"
  by (induction ns rs rule: list_induct2) (auto simp: check_of_def)

lemma RunConsistencyCheck_passed:
  assumes "RunConsistencyCheck e ordg s en b p d = ((checks, x), d')"
  shows "filter (\<lambda>c. \<not> ck_Passed c) checks = [] \<longleftrightarrow> list_all cr_Passed (consistency_results e ordg s en b p d)"
proof -
  let ?rs = "consistency_results e ordg s en b p d"
  have "checks = map (\<lambda>(n, r). check_of (uuid e n) en b p r) (zip [0..<length ?rs] ?rs)"
    using assms by (auto simp: RunConsistencyCheck_def Let_def split: if_splits prod.splits)
  then show ?thesis by (simp only: failed_checks length_upt minus_nat.diff_0)
qed

lemma counts_differ_fail:
  "length (approved_or_none e en b p d) \<noteq> length (posted_entries e en b p d) \<Longrightarrow>
   \<not> list_all cr_Passed (consistency_results e ordg s en b p d)"
  by (simp add: consistency_results_def CheckInvoiceToJournal_def Let_def)


lemma example_posted_entry:
  "posted_entries plain_env ''e1'' ''b1'' ''2025-03'' (example_db JournalStatusPosted PeriodStatusOpen) =
     [example_entry JournalStatusPosted\<lparr>je_Lines := example_lines\<rparr>]"
  by (simp add: posted_entries_def journal_List_def page_def newest_first_def)

section \<open>The three-way match\<close>

lemma match_row_bank: "tw_BankStatus (match_row i lr bt) \<in> {MatchStatusMatched, MatchStatusUnmatched}"
  by (cases bt) (simp_all add: match_row_def MatchStatusMatched_def MatchStatusUnmatched_def)

lemma left_join_None: "z \<in> set (left_join q ys) \<Longrightarrow> z = None \<or> ys \<noteq> []"
  by (auto simp: left_join_def Let_def split: if_splits)

lemma match_rows_set:
  "r \<in> set (match_rows e d en b p) \<Longrightarrow> \<exists>i lr bt. r = match_row i lr bt \<and> (lr = None \<or> logistics_records d \<noteq> [])"
  using left_join_None by (fastforce simp: match_rows_def order_by_def)

lemma count_rows:
  defines "na \<equiv> \<lambda>r. tw_LogisticsStatus r = MatchStatusNotApplicable" and "un \<equiv> \<lambda>r. tw_BankStatus r = MatchStatusUnmatched"
  assumes "\<And>r. r \<in> set rs \<Longrightarrow> tw_BankStatus r \<in> {MatchStatusMatched, MatchStatusUnmatched}"
  shows "foldl count_row s rs = s\<lparr>tws_Rows := tws_Rows s @ rs, tws_TotalCount := tws_TotalCount s + int (length rs),
     tws_FullMatch := tws_FullMatch s + int (length (filter (\<lambda>r. \<not> na r \<and> \<not> un r) rs)),
     tws_MissingLogistics := tws_MissingLogistics s + int (length (filter na rs)),
     tws_MissingBank := tws_MissingBank s + int (length (filter un rs))\<rparr>"
  using assms(3)
proof (induction rs arbitrary: s)
  case (Cons r rs)
  have "tw_BankStatus r = MatchStatusMatched \<longleftrightarrow> \<not> un r"
    using Cons.prems [of r] by (auto simp: un_def MatchStatusMatched_def MatchStatusUnmatched_def)
  then show ?case using Cons by (simp add: count_row_def na_def un_def)
qed simp

text \<open>The counts of the three-way match.  Every row is in the total; a row is a full match if and only if it neither misses
  its delivery nor its payment.\<close>

theorem ThreeWayMatch_counts:
  assumes "recon_ThreeWayMatch e d en b p = Inr s"
  defines "na \<equiv> \<lambda>r. tw_LogisticsStatus r = MatchStatusNotApplicable" and "un \<equiv> \<lambda>r. tw_BankStatus r = MatchStatusUnmatched"
  shows "tws_Rows s = match_rows e d en b p \<and> tws_TotalCount s = int (length (tws_Rows s)) \<and>
    tws_MissingLogistics s = int (length (filter na (tws_Rows s))) \<and> tws_MissingBank s = int (length (filter un (tws_Rows s))) \<and>
    tws_FullMatch s + int (length (filter (\<lambda>r. na r \<or> un r) (tws_Rows s))) = tws_TotalCount s"
proof -
  let ?rs = "match_rows e d en b p"
  have b: "r \<in> set ?rs \<Longrightarrow> tw_BankStatus r \<in> {MatchStatusMatched, MatchStatusUnmatched}" for r
    using match_rows_set match_row_bank by metis
  have "length (filter (\<lambda>r. \<not> na r \<and> \<not> un r) ?rs) + length (filter (\<lambda>r. na r \<or> un r) ?rs) = length ?rs"
    using sum_length_filter_compl [of "\<lambda>r. na r \<or> un r" ?rs] by simp
  then show ?thesis using assms(1) count_rows [OF b]
    by (auto simp: recon_ThreeWayMatch_def na_def un_def split: if_splits)
qed

theorem ThreeWayMatch_counts_witness:
  "\<exists>s. recon_ThreeWayMatch plain_env empty_db ''e1'' ''b1'' ''2025-03'' = Inr s \<and> tws_TotalCount s = int (length (tws_Rows s))"
proof -
  obtain s where s: "recon_ThreeWayMatch plain_env empty_db ''e1'' ''b1'' ''2025-03'' = Inr s" by (simp add: recon_ThreeWayMatch_def)
  with ThreeWayMatch_counts [OF s] show ?thesis by simp
qed



section \<open>Matching bank transactions\<close>

lemma bank_set_match_twice:
  "bank_set_match e2 en k i2 c2 (bank_set_match e1 en k i1 c1 d) = bank_set_match e2 en k i2 c2 d"
  by (simp add: bank_set_match_def update_where_def comp_def)

lemma bank_scan_again:
  "snd x = None \<Longrightarrow> bt_MatchConfidence (fst x) = Fin 0 \<Longrightarrow>
   bank_scan e ((fst x)\<lparr>bt_MatchConfidence := Fin 0, bt_UpdatedAt := t\<rparr>, None) = bank_scan e x"
  by (cases "fst x", cases x) (auto simp: bank_scan_def intro: option.map_cong)

lemma scan_all_ids: "scan_all (bank_scan e) xs = Some ys \<Longrightarrow> map bt_ID ys = map (\<lambda>x. bt_ID (fst x)) xs"
  by (induction xs arbitrary: ys) (auto simp: bank_scan_def split: option.splits)

lemma unmatched_again:
  assumes "\<And>x. x \<in> set (bank_transactions d) \<Longrightarrow> bt_ID (fst x) = k \<and> bt_EntityID (fst x) = en \<Longrightarrow>
      snd x = None \<and> bt_MatchConfidence (fst x) = Fin 0"
  shows "bank_ListUnmatched e' (bank_set_match e en k None (Fin 0) d) en b = bank_ListUnmatched e' d en b"
proof -
  let ?p = "\<lambda>x. bt_ID (fst x) = k \<and> bt_EntityID (fst x) = en"
  let ?q = "\<lambda>x. bt_EntityID (fst x) = en \<and> snd x = None"
  have "scan_all (bank_scan e') (filter ?q (update_where ?p (\<lambda>x. ((fst x)\<lparr>bt_MatchConfidence := Fin 0, bt_UpdatedAt := db_now e\<rparr>, None)) xs)) =
      scan_all (bank_scan e') (filter ?q xs)" if "\<And>x. x \<in> set xs \<Longrightarrow> ?p x \<Longrightarrow> snd x = None \<and> bt_MatchConfidence (fst x) = Fin 0" for xs
    using that
  proof (induction xs)
    case (Cons x xs)
    then have IH: "scan_all (bank_scan e') (filter ?q (update_where ?p (\<lambda>x. ((fst x)\<lparr>bt_MatchConfidence := Fin 0, bt_UpdatedAt := db_now e\<rparr>, None)) xs)) =
        scan_all (bank_scan e') (filter ?q xs)" by simp
    show ?case
    proof (cases "?p x")
      case True
      with Cons.prems [of x] have "snd x = None" "bt_MatchConfidence (fst x) = Fin 0" by simp_all
      with True show ?thesis using IH by (simp add: bank_scan_again split: option.split)
    next
      case False
      then show ?thesis using IH by (cases "bank_scan e' x") auto
    qed
  qed simp
  with assms show ?thesis by (simp add: bank_ListUnmatched_def bank_set_match_def)
qed

text \<open>Unmatching undoes a match.  A transaction that was not matched leaves the list of unmatched transactions when it is
  matched, and is back, as it was, after it is unmatched.\<close>

theorem unmatch_undoes_match:
  assumes "MatchBankToInvoice e s en k i c d = Inr d1" and "UnmatchBankFromInvoice e' s en k d1 = Inr d2"
    and "\<And>x. x \<in> set (bank_transactions d) \<Longrightarrow> bt_ID (fst x) = k \<and> bt_EntityID (fst x) = en \<Longrightarrow>
      snd x = None \<and> bt_MatchConfidence (fst x) = Fin 0"
  shows "bank_ListUnmatched e'' d2 en b = bank_ListUnmatched e'' d en b \<and>
    (\<forall>bts. bank_ListUnmatched e'' d1 en b = Inr bts \<longrightarrow> k \<notin> set (map bt_ID bts))"
proof -
  let ?p = "\<lambda>x. bt_ID (fst x) = k \<and> bt_EntityID (fst x) = en"
  have r: "(d1 = d \<and> \<not> list_ex ?p (bank_transactions d)) \<or> (\<exists>m. d1 = bank_set_match e en k (Some i) m d)"
    using assms(1) by (auto simp: MatchBankToInvoice_def bank_Match_def split: if_splits option.splits)
  have "d2 = bank_set_match e' en k None (Fin 0) d1"
    using assms(2) by (auto simp: UnmatchBankFromInvoice_def bank_Unmatch_def split: if_splits)
  then have "d2 = bank_set_match e' en k None (Fin 0) d" using r by (auto simp: bank_set_match_twice)
  then have 1: "bank_ListUnmatched e'' d2 en b = bank_ListUnmatched e'' d en b" using unmatched_again assms(3) by metis
  have m: "x \<in> set (bank_transactions d1) \<Longrightarrow> ?p x \<Longrightarrow> snd x \<noteq> None" for x
    using r by (auto simp: bank_set_match_def set_update_where list_ex_iff split: if_splits)
  have "k \<notin> set (map bt_ID bts)" if "bank_ListUnmatched e'' d1 en b = Inr bts" for bts
  proof -
    from that have "map bt_ID bts = map (\<lambda>x. bt_ID (fst x)) (filter (\<lambda>x. bt_EntityID (fst x) = en \<and> snd x = None) (bank_transactions d1))"
      by (auto simp: bank_ListUnmatched_def dest!: scan_all_ids split: if_splits option.splits)
    moreover have "k \<notin> set (map (\<lambda>x. bt_ID (fst x)) (filter (\<lambda>x. bt_EntityID (fst x) = en \<and> snd x = None) (bank_transactions d1)))"
      using m by fastforce
    ultimately show ?thesis by metis
  qed
  with 1 show ?thesis by blast
qed

definition example_transaction :: BankTransaction where
  "example_transaction = \<lparr> bt_ID = ''t1'', bt_EntityID = ''e1'', bt_BookID = '''', bt_TransactionDate = ''2025-03-05'',
     bt_CounterpartyName = ''buyer'', bt_CounterpartyAccount = '''', bt_Amount = Fin 113, bt_Direction = ''in'', bt_Summary = '''',
     bt_BankReference = '''', bt_MatchedInvoiceID = '''', bt_MatchConfidence = Fin 0, bt_CreatedAt = '''', bt_UpdatedAt = '''' \<rparr>"

theorem unmatch_undoes_match_witness:
  "\<exists>d1 d2. MatchBankToInvoice plain_env full_service ''e1'' ''t1'' ''i1'' (Fin 1) (empty_db\<lparr>bank_transactions := [(example_transaction, None)]\<rparr>) = Inr d1 \<and>
     UnmatchBankFromInvoice plain_env full_service ''e1'' ''t1'' d1 = Inr d2 \<and>
     bank_ListUnmatched plain_env d2 ''e1'' ''b1'' = Inr [example_transaction]"
proof -
  let ?d = "empty_db\<lparr>bank_transactions := [(example_transaction, None)]\<rparr>"
  obtain d1 where d1: "MatchBankToInvoice plain_env full_service ''e1'' ''t1'' ''i1'' (Fin 1) ?d = Inr d1"
    by (simp add: MatchBankToInvoice_def bank_Match_def example_transaction_def)
  obtain d2 where d2: "UnmatchBankFromInvoice plain_env full_service ''e1'' ''t1'' d1 = Inr d2"
    by (simp add: UnmatchBankFromInvoice_def bank_Unmatch_def)
  have z: "x \<in> set (bank_transactions ?d) \<Longrightarrow> bt_ID (fst x) = ''t1'' \<and> bt_EntityID (fst x) = ''e1'' \<Longrightarrow>
      snd x = None \<and> bt_MatchConfidence (fst x) = Fin 0" for x by (auto simp: example_transaction_def)
  have "bank_ListUnmatched plain_env ?d ''e1'' ''b1'' = Inr [example_transaction]"
    by (simp add: bank_ListUnmatched_def bank_scan_def example_transaction_def)
  with unmatch_undoes_match [OF d1 d2 z, of plain_env "''b1''"] d1 d2 show ?thesis by auto
qed

section \<open>The tax risk report\<close>

lemma count_levels:
  "tri_Level r \<in> {''danger'', ''warning''} \<Longrightarrow>
   count_level ''danger'' (r # rs) + count_level ''warning'' (r # rs) = 1 + count_level ''danger'' rs + count_level ''warning'' rs"
  by (auto simp: count_level_def)

lemma warnings_only:
  "count_level l (map rate_mismatch ws) = (if l = ''warning'' then int (length ws) else 0)"
  "count_level l (map tax_burden xs) = (if l = ''warning'' then int (length xs) else 0)"
  by (induction ws; induction xs; auto simp: count_level_def rate_mismatch_def tax_burden_def)+

lemma count_level_append: "count_level l (xs @ ys) = count_level l xs + count_level l ys"
  by (simp add: count_level_def)

text \<open>The counts of the tax risk report.  Every risk is a danger or a warning; there is at most one danger, and there is one
  if and only if the input tax exceeds the output tax by a quotient of at least three (of float64, infinite without output
  tax).\<close>

theorem TaxRisk_counts:
  assumes "VATCrossCheck_report (es 0) ordg en b p d = Inr cc" and "TaxRisk es ordg en b p d = Inr r"
  shows "trr_TotalRisks r = int (length (trr_Risks r)) \<and> trr_TotalRisks r = trr_DangerCount r + trr_WarnCount r \<and>
    trr_DangerCount r = (if flt (vc_OutputTotal cc) (vc_InputTotal cc) \<and> fle (lit 3) (fdiv (vc_InputTotal cc) (vc_OutputTotal cc))
      then 1 else 0)"
proof -
  have e: "count_level ''danger'' (excess_credit cc) = (if flt (vc_OutputTotal cc) (vc_InputTotal cc) \<and>
      fle (lit 3) (fdiv (vc_InputTotal cc) (vc_OutputTotal cc)) then 1 else 0)"
    "count_level ''danger'' (excess_credit cc) + count_level ''warning'' (excess_credit cc) = int (length (excess_credit cc))"
    by (auto simp: excess_credit_def Let_def count_level_def)
  show ?thesis using assms e by (auto simp: TaxRisk_def Let_def tax_risks_def count_level_append warnings_only)
qed

theorem TaxRisk_counts_witness:
  "\<exists>r. TaxRisk (\<lambda>_. plain_env) (\<lambda>gs. gs) ''e1'' ''b1'' ''2025-03'' (example_invoices StatusPosted) = Inr r \<and>
     trr_TotalRisks r = trr_DangerCount r + trr_WarnCount r"
proof -
  obtain cc where c: "VATCrossCheck_report plain_env (\<lambda>gs. gs) ''e1'' ''b1'' ''2025-03'' (example_invoices StatusPosted) = Inr cc"
    by (simp add: VATCrossCheck_report_def invoice_ListPostedByPeriod_def)
  then obtain r where r: "TaxRisk (\<lambda>_. plain_env) (\<lambda>gs. gs) ''e1'' ''b1'' ''2025-03'' (example_invoices StatusPosted) = Inr r"
    by (simp add: TaxRisk_def Let_def)
  from TaxRisk_counts [OF c r] r show ?thesis by blast
qed

end
