(* ===== verification/Json.thy ===== *)
theory Json
  imports Engine_Report
begin

text \<open>
  The decoder of encoding/json as the API uses it: the syntax of RFC 8259, and the rules by which a value is stored in a Go
  value.  A member of an object keeps the text of its value beside the value, because the API stores it unread
  (\<open>json.RawMessage\<close>).  Texts are UTF-8 byte strings.

  The recursion over nested values is bounded by fuel; \<open>value_fuel\<close> shows that the length of the text is enough.
\<close>

section \<open>Syntax\<close>

datatype json = JNull | JBool bool | JNum string | JStr string | JArr "json list" | JObj "(string \<times> string \<times> json) list"

definition json_space :: "char \<Rightarrow> bool" where
  "json_space c \<longleftrightarrow> c \<in> {CHR '' '', CHR 0x09, CHR 0x0A, CHR 0x0D}"

definition skip_ws :: "string \<Rightarrow> string" where "skip_ws s = dropWhile json_space s"

subsection \<open>String literals\<close>

text \<open>A literal is first cut into bytes and \<open>\u\<close> escapes; \<open>Hex n v\<close> is the state in which \<open>n\<close> digits are missing.\<close>

datatype piece = Byte char | Code nat
datatype lit_state = Plain | Escape | Hex nat nat

definition escaped :: "char \<Rightarrow> char option" where
  "escaped c = map_of [(CHR 0x22, CHR 0x22), (CHR 0x5C, CHR 0x5C), (CHR ''/'', CHR ''/''), (CHR ''b'', CHR 0x08), (CHR ''f'', CHR 0x0C),
     (CHR ''n'', CHR 0x0A), (CHR ''r'', CHR 0x0D), (CHR ''t'', CHR 0x09)] c"

fun pieces :: "lit_state \<Rightarrow> string \<Rightarrow> (piece list \<times> string) option" where
  "pieces st [] = None"
| "pieces Plain (c # s) =
     (if c = CHR 0x22 then Some ([], s)
      else if c = CHR 0x5C then pieces Escape s
      else if of_char c < (0x20 :: nat) then None
      else map_option (\<lambda>(ps, r). (Byte c # ps, r)) (pieces Plain s))"
| "pieces Escape (c # s) =
     (if c = CHR ''u'' then pieces (Hex 4 0) s
      else case escaped c of None \<Rightarrow> None
        | Some b \<Rightarrow> map_option (\<lambda>(ps, r). (Byte b # ps, r)) (pieces Plain s))"
| "pieces (Hex n v) (c # s) =
     (if \<not> is_hex c then None
      else if n \<le> 1 then map_option (\<lambda>(ps, r). (Code (16 * v + hex_val c) # ps, r)) (pieces Plain s)
      else pieces (Hex (n - 1) (16 * v + hex_val c)) s)"

text \<open>The length of the UTF-8 sequence at the head, 0 if there is none; the shortest form only, no surrogates.\<close>

definition tail_byte :: "nat \<Rightarrow> bool" where "tail_byte n \<longleftrightarrow> 0x80 \<le> n \<and> n \<le> 0xBF"

fun seq_len :: "nat list \<Rightarrow> nat" where
  "seq_len [] = 0"
| "seq_len (a # bs) =
     (let t = (\<lambda>i. i < length bs \<and> tail_byte (bs ! i)); b = (if bs = [] then 0 else hd bs) in
      if a < 0x80 then 1
      else if 0xC2 \<le> a \<and> a \<le> 0xDF \<and> t 0 then 2
      else if 0xE0 \<le> a \<and> a \<le> 0xEF \<and> t 0 \<and> t 1 \<and> (a = 0xE0 \<longrightarrow> 0xA0 \<le> b) \<and> (a = 0xED \<longrightarrow> b \<le> 0x9F) then 3
      else if 0xF0 \<le> a \<and> a \<le> 0xF4 \<and> t 0 \<and> t 1 \<and> t 2 \<and> (a = 0xF0 \<longrightarrow> 0x90 \<le> b) \<and> (a = 0xF4 \<longrightarrow> b \<le> 0x8F) then 4
      else 0)"

fun raw_bytes :: "piece list \<Rightarrow> char list" where
  "raw_bytes (Byte b # ps) = b # raw_bytes ps"
| "raw_bytes ps = []"

definition high_half :: "nat \<Rightarrow> bool" where "high_half n \<longleftrightarrow> 0xD800 \<le> n \<and> n \<le> 0xDBFF"
definition low_half :: "nat \<Rightarrow> bool" where "low_half n \<longleftrightarrow> 0xDC00 \<le> n \<and> n \<le> 0xDFFF"

text \<open>The text of the pieces: halves of a surrogate pair are joined, what is no UTF-8 becomes U+FFFD.\<close>

function piece_text :: "piece list \<Rightarrow> string" where
  "piece_text [] = []"
| "piece_text (Code n # ps) =
     (case ps of
        Code m # qs \<Rightarrow>
          (if high_half n \<and> low_half m then utf8 (0x10000 + (n - 0xD800) * 0x400 + (m - 0xDC00)) @ piece_text qs
           else utf8 (if high_half n \<or> low_half n then 0xFFFD else n) @ piece_text (Code m # qs))
      | _ \<Rightarrow> utf8 (if high_half n \<or> low_half n then 0xFFFD else n) @ piece_text ps)"
| "piece_text (Byte b # ps) =
     (let k = seq_len (map of_char (take 4 (raw_bytes (Byte b # ps)))) in
      if k = 0 then utf8 0xFFFD @ piece_text ps
      else take k (raw_bytes (Byte b # ps)) @ piece_text (drop (k - 1) ps))"
  by pat_completeness auto
termination by (relation "measure length") auto

definition literal :: "string \<Rightarrow> (string \<times> string) option" where
  "literal s = map_option (\<lambda>(ps, r). (piece_text ps, r)) (pieces Plain s)"

subsection \<open>Number literals\<close>

definition digits :: "string \<Rightarrow> (string \<times> string) option" where
  "digits s = (let ds = takeWhile is_digit s in if ds = [] then None else Some (ds, dropWhile is_digit s))"

definition int_part :: "string \<Rightarrow> (string \<times> string) option" where
  "int_part s = (if s \<noteq> [] \<and> hd s = CHR ''0'' then Some ([hd s], tl s) else digits s)"

definition frac_part :: "string \<Rightarrow> (string \<times> string) option" where
  "frac_part s = (if s \<noteq> [] \<and> hd s = CHR ''.'' then map_option (\<lambda>(ds, r). (hd s # ds, r)) (digits (tl s)) else Some ([], s))"

definition exp_part :: "string \<Rightarrow> (string \<times> string) option" where
  "exp_part s =
     (if s \<noteq> [] \<and> ascii_lower (hd s) = CHR ''e''
      then (let t = tl s; sg = (if t \<noteq> [] \<and> (hd t = CHR ''+'' \<or> hd t = CHR ''-'') then [hd t] else []) in
            map_option (\<lambda>(ds, r). (hd s # sg @ ds, r)) (digits (drop (length sg) t)))
      else Some ([], s))"

definition number :: "string \<Rightarrow> (string \<times> string) option" where
  "number s =
     (let sg = (if s \<noteq> [] \<and> hd s = CHR ''-'' then [hd s] else []) in
      case int_part (drop (length sg) s) of None \<Rightarrow> None
      | Some (i, r1) \<Rightarrow> (case frac_part r1 of None \<Rightarrow> None
        | Some (f, r2) \<Rightarrow> (case exp_part r2 of None \<Rightarrow> None
          | Some (x, r3) \<Rightarrow> Some (sg @ i @ f @ x, r3))))"

subsection \<open>Values\<close>

definition keyword :: "string \<Rightarrow> json \<Rightarrow> string \<Rightarrow> (json \<times> string) option" where
  "keyword w v s = (if HasPrefix s w then Some (v, drop (length w) s) else None)"

text \<open>\<open>d\<close> is the number of nested arrays and objects that may still be opened.\<close>

fun
  parse_value :: "nat \<Rightarrow> nat \<Rightarrow> string \<Rightarrow> (json \<times> string) option" and
  items :: "nat \<Rightarrow> nat \<Rightarrow> string \<Rightarrow> (json list \<times> string) option" and
  members :: "nat \<Rightarrow> nat \<Rightarrow> string \<Rightarrow> ((string \<times> string \<times> json) list \<times> string) option"
where
  "parse_value 0 d s = None"
| "parse_value (Suc n) d s =
     (case skip_ws s of [] \<Rightarrow> None
      | c # r \<Rightarrow>
          if c = CHR 0x22 then map_option (\<lambda>(t, r'). (JStr t, r')) (literal r)
          else if c = CHR ''{'' then
            (if d = 0 then None
             else if HasPrefix (skip_ws r) ''}'' then Some (JObj [], tl (skip_ws r))
             else map_option (\<lambda>(ms, r'). (JObj ms, r')) (members n (d - 1) r))
          else if c = CHR ''['' then
            (if d = 0 then None
             else if HasPrefix (skip_ws r) '']'' then Some (JArr [], tl (skip_ws r))
             else map_option (\<lambda>(vs, r'). (JArr vs, r')) (items n (d - 1) r))
          else if c = CHR ''t'' then keyword ''true'' (JBool True) (c # r)
          else if c = CHR ''f'' then keyword ''false'' (JBool False) (c # r)
          else if c = CHR ''n'' then keyword ''null'' JNull (c # r)
          else map_option (\<lambda>(t, r'). (JNum t, r')) (number (c # r)))"
| "items 0 d s = None"
| "items (Suc n) d s =
     (case parse_value n d s of None \<Rightarrow> None
      | Some (v, r) \<Rightarrow>
          (case skip_ws r of [] \<Rightarrow> None
           | c # r' \<Rightarrow>
               if c = CHR '','' then map_option (\<lambda>(vs, t). (v # vs, t)) (items n d r')
               else if c = CHR '']'' then Some ([v], r')
               else None))"
| "members 0 d s = None"
| "members (Suc n) d s =
     (case skip_ws s of [] \<Rightarrow> None
      | q # r \<Rightarrow>
          if q \<noteq> CHR 0x22 then None
          else (case literal r of None \<Rightarrow> None
            | Some (k, r1) \<Rightarrow>
                if \<not> HasPrefix (skip_ws r1) '':'' then None
                else (let t = skip_ws (tl (skip_ws r1)) in
                  case parse_value n d t of None \<Rightarrow> None
                  | Some (v, r2) \<Rightarrow>
                      (let m = (k, take (length t - length r2) t, v) in
                       case skip_ws r2 of [] \<Rightarrow> None
                       | c # r3 \<Rightarrow>
                           if c = CHR '','' then map_option (\<lambda>(ms, u). (m # ms, u)) (members n d r3)
                           else if c = CHR ''}'' then Some ([m], r3)
                           else None))))"

definition max_depth :: nat where "max_depth = 10000"

text \<open>The first value of a text, and what follows it (\<open>Decoder.Decode\<close>); the value of a text that holds just one (\<open>json.Unmarshal\<close>).\<close>

definition first_value :: "string \<Rightarrow> (json \<times> string) option" where
  "first_value s = parse_value (2 * length s + 1) max_depth s"

definition parse_text :: "string \<Rightarrow> json option" where
  "parse_text s = (case first_value s of None \<Rightarrow> None | Some (v, r) \<Rightarrow> if skip_ws r = [] then Some v else None)"

section \<open>Enough fuel\<close>

lemma skip_ws_le: "length (skip_ws s) \<le> length s"
  by (simp add: skip_ws_def length_dropWhile_le)

lemma pieces_length: "pieces st s = Some (ps, r) \<Longrightarrow> length r < length s"
  by (induction st s arbitrary: ps r rule: pieces.induct) (fastforce split: if_splits option.splits prod.splits)+

lemma literal_length: "literal s = Some (t, r) \<Longrightarrow> length r < length s"
  by (auto simp: literal_def dest: pieces_length)

lemma digits_length: "digits s = Some (t, r) \<Longrightarrow> length r < length s"
  by (cases s) (auto simp: digits_def Let_def length_dropWhile_le less_Suc_eq_le split: if_splits)

lemma number_length: "number s = Some (t, r) \<Longrightarrow> length r < length s"
proof -
  have i: "int_part u = Some (i, r) \<Longrightarrow> length r < length u" for u i r
    by (cases u) (auto simp: int_part_def dest: digits_length split: if_splits)
  have f: "frac_part u = Some (i, r) \<Longrightarrow> length r \<le> length u" for u i r
    by (cases u) (fastforce simp: frac_part_def dest: digits_length split: if_splits)+
  have x: "exp_part u = Some (i, r) \<Longrightarrow> length r \<le> length u" for u i r
    by (cases u) (fastforce simp: exp_part_def Let_def dest: digits_length split: if_splits)+
  assume "number s = Some (t, r)"
  then show ?thesis by (fastforce simp: number_def Let_def dest!: i f x split: option.splits if_splits)
qed

lemma keyword_length: "keyword w v s = Some (t, r) \<Longrightarrow> w \<noteq> [] \<Longrightarrow> length r < length s"
  by (cases w; cases s) (auto simp: keyword_def HasPrefix_def split: if_splits)

lemma tl_ws_less: "HasPrefix (skip_ws r) [c] \<Longrightarrow> length (tl (skip_ws r)) < length r"
  using skip_ws_le [of r] by (cases "skip_ws r") (auto simp: HasPrefix_def)

lemma map_option_pair: "map_option (\<lambda>(a, b). (f a, b)) x = Some (u, r) \<longleftrightarrow> (\<exists>a. x = Some (a, r) \<and> u = f a)"
  by (cases x) auto

lemma parsed_length:
  "parse_value n d s = Some (v, r) \<Longrightarrow> length r < length s"
  "items n d s = Some (vs, r') \<Longrightarrow> length r' < length s"
  "members n d s = Some (ms, r'') \<Longrightarrow> length r'' < length s"
proof (induction n arbitrary: d s v r vs r' ms r'')
  case (Suc n)
  note ws = skip_ws_le tl_ws_less literal_length number_length keyword_length
  {
    case 1
    obtain c t where c: "skip_ws s = c # t" using 1 by (auto split: list.splits)
    have "length r < length (c # t)" using 1 c
      by (auto simp: map_option_pair split: if_splits dest!: Suc.IH literal_length number_length keyword_length tl_ws_less)
    with skip_ws_le [of s] c show ?case by simp
  next
    case 2
    then obtain w u c q where p: "parse_value n d s = Some (w, u)" "skip_ws u = c # q" by (auto split: option.splits list.splits prod.splits)
    then have "length u < length s" "length q < length u" using Suc.IH(1) skip_ws_le [of u] by auto
    moreover have "length r' \<le> length q" using 2 p by (auto simp: map_option_pair split: if_splits dest!: Suc.IH(2))
    ultimately show ?case by simp
  next
    case 3
    then obtain q r0 k r1 where p: "skip_ws s = q # r0" "literal r0 = Some (k, r1)" "HasPrefix (skip_ws r1) '':''"
      by (auto split: option.splits list.splits prod.splits if_splits)
    let ?t = "skip_ws (tl (skip_ws r1))"
    obtain w u c x where v: "parse_value n d ?t = Some (w, u)" "skip_ws u = c # x" using 3 p
      by (auto simp: Let_def split: option.splits list.splits prod.splits if_splits)
    have "length r0 < length s" using p(1) skip_ws_le [of s] by simp
    moreover have "length r1 < length r0" using p(2) by (rule literal_length)
    moreover have "length ?t < length r1" using tl_ws_less [OF p(3)] skip_ws_le [of "tl (skip_ws r1)"] by simp
    moreover have "length u < length ?t" using v(1) by (rule Suc.IH(1))
    moreover have "length x < length u" using v(2) skip_ws_le [of u] by simp
    moreover have "length r'' \<le> length x" using 3 p v by (auto simp: Let_def map_option_pair split: if_splits dest!: Suc.IH(3))
    ultimately show ?case by simp
  }
qed simp_all

lemma more_fuel:
  "2 * length s < n \<Longrightarrow> n \<le> m \<Longrightarrow> parse_value m d s = parse_value n d s"
  "2 * length s + 1 < n \<Longrightarrow> n \<le> m \<Longrightarrow> items m d s = items n d s"
  "2 * length s < n \<Longrightarrow> n \<le> m \<Longrightarrow> members m d s = members n d s"
proof (induction n arbitrary: d s m)
  case (Suc n)
  {
    case 1
    then obtain k where m: "m = Suc k" "n \<le> k" by (cases m) auto
    have "members k e r = members n e r \<and> items k e r = items n e r" if "skip_ws s = c # r" for c r e
    proof -
      have "length r < length s" using that skip_ws_le [of s] by simp
      with 1 m show ?thesis by (auto intro: Suc.IH)
    qed
    then show ?case unfolding m(1) by (auto split: list.split)
  next
    case 2
    then obtain k where m: "m = Suc k" "n \<le> k" by (cases m) auto
    have v: "parse_value k d s = parse_value n d s" using 2 m by (intro Suc.IH) auto
    have "items k d q = items n d q" if "parse_value n d s = Some (w, u)" "skip_ws u = c # q" for w u c q
    proof -
      have "length q < length u" "length u < length s" using that skip_ws_le [of u] parsed_length(1) by auto
      with 2 m show ?thesis by (intro Suc.IH) auto
    qed
    then show ?case unfolding m(1) by (auto simp: v split: list.split option.split)
  next
    case 3
    then obtain k where m: "m = Suc k" "n \<le> k" by (cases m) auto
    have p: "parse_value k d t = parse_value n d t \<and> (skip_ws u = c # x \<longrightarrow> length u < length t \<longrightarrow> members k d x = members n d x)"
      if "length t < length s" for t u c x
    proof -
      have "length x < length u" if "skip_ws u = c # x" using that skip_ws_le [of u] by simp
      with that 3 m show ?thesis by (auto intro!: Suc.IH)
    qed
    have l: "length (skip_ws (tl (skip_ws r1))) < length s"
      if "skip_ws s = q # r0" "literal r0 = Some (y, r1)" "HasPrefix (skip_ws r1) '':''" for q r0 y r1
    proof -
      have "length r0 < length s" using that(1) skip_ws_le [of s] by simp
      with literal_length [OF that(2)] tl_ws_less [OF that(3)] skip_ws_le [of "tl (skip_ws r1)"] show ?thesis by simp
    qed
    show ?case unfolding m(1) using p l parsed_length(1)
      by (fastforce simp: Let_def split: list.split option.split)
  }
qed simp_all



section \<open>Storing values\<close>

text \<open>
  A field decoder takes the text and the value of a member and the record, and returns the record with the field set; \<open>None\<close>
  stands for an error (the partly filled record is dropped by every caller).  A null leaves the field as it is.
\<close>

type_synonym 'r field = "string \<Rightarrow> json \<Rightarrow> 'r \<Rightarrow> 'r option"
type_synonym ('a, 'r) setter = "('a \<Rightarrow> 'a) \<Rightarrow> 'r \<Rightarrow> 'r"

definition str_field :: "(string, 'r) setter \<Rightarrow> 'r field" where
  "str_field u raw v r = (case v of JNull \<Rightarrow> Some r | JStr s \<Rightarrow> Some (u (\<lambda>_. s) r) | _ \<Rightarrow> None)"

definition bool_field :: "(bool, 'r) setter \<Rightarrow> 'r field" where
  "bool_field u raw v r = (case v of JNull \<Rightarrow> Some r | JBool b \<Rightarrow> Some (u (\<lambda>_. b) r) | _ \<Rightarrow> None)"

definition f64_field :: "(f64, 'r) setter \<Rightarrow> 'r field" where
  "f64_field u raw v r = (case v of JNull \<Rightarrow> Some r | JNum t \<Rightarrow> map_option (\<lambda>x. u (\<lambda>_. x) r) (ParseFloat t) | _ \<Rightarrow> None)"

text \<open>\<open>strconv.ParseInt(t, 10, 64)\<close> of a number literal.\<close>

definition ParseInt :: "string \<Rightarrow> int option" where
  "ParseInt t =
     (let (neg, ds) = split_sign t; n = int (digits_val ds); k = (if neg then - n else n) in
      if ds \<noteq> [] \<and> list_all is_digit ds \<and> - (2 ^ 63) \<le> k \<and> k < 2 ^ 63 then Some k else None)"

definition int_field :: "(int, 'r) setter \<Rightarrow> 'r field" where
  "int_field u raw v r = (case v of JNull \<Rightarrow> Some r | JNum t \<Rightarrow> map_option (\<lambda>x. u (\<lambda>_. x) r) (ParseInt t) | _ \<Rightarrow> None)"

text \<open>A field of type \<open>[]byte\<close> is a base64 string (standard alphabet with padding; line breaks are skipped), null empties it.\<close>

definition b64_val :: "char \<Rightarrow> nat option" where
  "b64_val c = map_of (map (\<lambda>n. (b64_char n, n)) [0..<64]) c"

fun b64_groups :: "char list \<Rightarrow> string option" where
  "b64_groups [] = Some []"
| "b64_groups (a # b # c # d # s) =
     (case (b64_val a, b64_val b) of
        (Some x, Some y) \<Rightarrow>
          (let p = char_of (4 * x + y div 16) in
           if c = CHR ''='' then (if d = CHR ''='' \<and> s = [] then Some [p] else None)
           else (case b64_val c of None \<Rightarrow> None
             | Some z \<Rightarrow> (let q = char_of (16 * (y mod 16) + z div 4) in
                 if d = CHR ''='' then (if s = [] then Some [p, q] else None)
                 else (case b64_val d of None \<Rightarrow> None
                   | Some w \<Rightarrow> map_option (\<lambda>t. p # q # char_of (64 * (z mod 4) + w) # t) (b64_groups s)))))
      | _ \<Rightarrow> None)"
| "b64_groups s = None"

definition bytes_field :: "(string, 'r) setter \<Rightarrow> 'r field" where
  "bytes_field u raw v r = (case v of JNull \<Rightarrow> Some (u (\<lambda>_. '''') r)
     | JStr s \<Rightarrow> map_option (\<lambda>t. u (\<lambda>_. t) r) (b64_groups (filter (\<lambda>c. c \<noteq> CHR 0x0A \<and> c \<noteq> CHR 0x0D) s)) | _ \<Rightarrow> None)"

definition raw_field :: "(string, 'r) setter \<Rightarrow> 'r field" where
  "raw_field u raw v r = Some (u (\<lambda>_. raw) r)"

text \<open>Names are compared exactly and then without regard to case; two letters outside ASCII fold to ASCII: the long s and
  the Kelvin sign.\<close>

definition upper :: "char \<Rightarrow> char" where
  "upper c = (if is_lower c then char_of ((of_char c :: nat) - 32) else c)"

fun drop_folded :: "string \<Rightarrow> string" where
  "drop_folded (a # b # c # s) =
     (if [a, b] = utf8 0x17F then CHR ''S'' # drop_folded (c # s)
      else if [a, b, c] = utf8 0x212A then CHR ''K'' # drop_folded s
      else a # drop_folded (b # c # s))"
| "drop_folded [a, b] = (if [a, b] = utf8 0x17F then ''S'' else [a, b])"
| "drop_folded s = s"

definition fold_name :: "string \<Rightarrow> string" where "fold_name s = map upper (drop_folded s)"

definition field_named :: "(string \<times> 'f) list \<Rightarrow> string \<Rightarrow> 'f option" where
  "field_named fs k = (case map_of fs k of Some f \<Rightarrow> Some f
     | None \<Rightarrow> map_of (map (\<lambda>(n, f). (fold_name n, f)) fs) (fold_name k))"

text \<open>A struct: the members in order, a later one over an earlier one; unknown names are skipped.\<close>

definition set_member :: "(string \<times> 'r field) list \<Rightarrow> 'r option \<Rightarrow> string \<times> string \<times> json \<Rightarrow> 'r option" where
  "set_member fs acc = (\<lambda>(k, raw, v). case acc of None \<Rightarrow> None
     | Some r \<Rightarrow> (case field_named fs k of None \<Rightarrow> Some r | Some f \<Rightarrow> f raw v r))"

definition decode_struct :: "(string \<times> 'r field) list \<Rightarrow> json \<Rightarrow> 'r \<Rightarrow> 'r option" where
  "decode_struct fs v r = (case v of JNull \<Rightarrow> Some r | JObj ms \<Rightarrow> foldl (set_member fs) (Some r) ms | _ \<Rightarrow> None)"

definition struct_field :: "('r \<Rightarrow> 's) \<Rightarrow> ('s, 'r) setter \<Rightarrow> (string \<times> 's field) list \<Rightarrow> 'r field" where
  "struct_field get u fs raw v r = map_option (\<lambda>x. u (\<lambda>_. x) r) (decode_struct fs v (get r))"

text \<open>An array: elements that are there already are decoded over, new ones start from the zero value \<open>z\<close>; null empties the slice.
  (Elements that a longer array of the same name left behind the end of the slice are not modelled.)\<close>

fun decode_items :: "(json \<Rightarrow> 'a \<Rightarrow> 'a option) \<Rightarrow> 'a \<Rightarrow> 'a list \<Rightarrow> json list \<Rightarrow> 'a list option" where
  "decode_items f z old [] = Some []"
| "decode_items f z old (v # vs) =
     (case f v (case old of [] \<Rightarrow> z | x # _ \<Rightarrow> x) of None \<Rightarrow> None
      | Some y \<Rightarrow> map_option (Cons y) (decode_items f z (tl old) vs))"

definition list_field :: "('r \<Rightarrow> 'a list) \<Rightarrow> ('a list, 'r) setter \<Rightarrow> (json \<Rightarrow> 'a \<Rightarrow> 'a option) \<Rightarrow> 'a \<Rightarrow> 'r field" where
  "list_field get u f z raw v r = (case v of JNull \<Rightarrow> Some (u (\<lambda>_. []) r)
     | JArr vs \<Rightarrow> map_option (\<lambda>xs. u (\<lambda>_. xs) r) (decode_items f z (get r) vs) | _ \<Rightarrow> None)"

definition decode_str :: "json \<Rightarrow> string \<Rightarrow> string option" where
  "decode_str v s = (case v of JNull \<Rightarrow> Some s | JStr t \<Rightarrow> Some t | _ \<Rightarrow> None)"

definition unmarshal :: "(string \<times> 'r field) list \<Rightarrow> 'r \<Rightarrow> string \<Rightarrow> 'r option" where
  "unmarshal fs z s = (case parse_text s of None \<Rightarrow> None | Some v \<Rightarrow> decode_struct fs v z)"

end
