(* ===== verification/Api_Inputs.thy ===== *)
theory Api_Inputs
  imports Json Service_Invoices Engine_Tax Engine_PIT
begin

text \<open>
  How encoding/json fills the records that a request can carry: for every Go struct with its \<open>json\<close> tags the list of its
  names with the decoders of its fields, and its zero value.
\<close>

section \<open>Zero values\<close>

definition zero_invoice_line :: InvoiceLine where
  "zero_invoice_line =
     \<lparr> il_ID = '''', il_EntityID = '''', il_InvoiceID = '''', il_LineNo = 0, il_ItemName = '''', il_ItemCode = '''',
       il_Quantity = Fin 0, il_UnitPrice = Fin 0, il_Amount = Fin 0, il_TaxRate = Fin 0, il_TaxAmount = Fin 0,
       il_GoodsServiceCode = '''', il_Metadata = '''' \<rparr>"

definition zero_journal_line :: JournalLine where
  "zero_journal_line =
     \<lparr> jl_ID = '''', jl_EntityID = '''', jl_JournalEntryID = '''', jl_AccountID = '''', jl_AccountCode = '''',
       jl_AccountName = '''', jl_Direction = '''', jl_DebitAmount = Fin 0, jl_CreditAmount = Fin 0, jl_Currency = '''',
       jl_LineNo = 0, jl_Auxiliary = '''' \<rparr>"

definition zero_journal :: JournalEntry where
  "zero_journal =
     \<lparr> je_ID = '''', je_EntityID = '''', je_BookID = '''', je_Period = '''', je_VoucherNo = '''', je_VoucherWord = '''',
       je_EntryDate = '''', je_Summary = '''', je_SourceType = '''', je_SourceID = '''', je_Status = '''', je_CreatedBy = '''',
       je_PostedBy = '''', je_PostedAt = '''', je_Lines = [], je_CreatedAt = '''', je_UpdatedAt = '''' \<rparr>"

definition zero_adjustment :: AdjustmentRecord where
  "zero_adjustment =
     \<lparr> aj_ID = '''', aj_EntityID = '''', aj_BookID = '''', aj_TaxYear = '''', aj_Category = '''', aj_BookAmount = Fin 0,
       aj_TaxBase = Fin 0, aj_Adjustment = Fin 0, aj_Formula = '''', aj_Detail = '''', aj_CreatedAt = '''' \<rparr>"

definition zero_stamp :: StampTaxInput where
  "zero_stamp =
     \<lparr> si_Category = '''', si_Amount = Fin 0, si_Count = 0 \<rparr>"

definition zero_special :: SpecialAdditionalItems where
  "zero_special =
     \<lparr> sa_ChildrenEducation = 0, sa_ContinuingEducation = False, sa_HousingLoanInterest = False, sa_HousingRentTier = 0,
       sa_ElderlySupport = 0, sa_InfantCare = 0 \<rparr>"

definition zero_pit :: PITInput where
  "zero_pit =
     \<lparr> pi_MonthlySalary = Fin 0, pi_AccumulatedSalary = Fin 0, pi_Months = 0, pi_AccumulatedSpecialDeduction = Fin 0,
       pi_AccumulatedSpecialAdditional = Fin 0, pi_AccumulatedOtherDeduction = Fin 0, pi_AccumulatedPrepaidTax = Fin 0,
       pi_SpecialAdditionalItems = None \<rparr>"

section \<open>Fields of the domain and engine types\<close>

definition invoice_line_fields :: "(string \<times> InvoiceLine field) list" where
  "invoice_line_fields =
     [(''id'', str_field il_ID_update), (''entity_id'', str_field il_EntityID_update),
      (''invoice_id'', str_field il_InvoiceID_update), (''line_no'', int_field il_LineNo_update),
      (''item_name'', str_field il_ItemName_update), (''item_code'', str_field il_ItemCode_update),
      (''quantity'', f64_field il_Quantity_update), (''unit_price'', f64_field il_UnitPrice_update),
      (''amount'', f64_field il_Amount_update), (''tax_rate'', f64_field il_TaxRate_update),
      (''tax_amount'', f64_field il_TaxAmount_update), (''goods_service_code'', str_field il_GoodsServiceCode_update),
      (''metadata'', bytes_field il_Metadata_update)]"

definition invoice_fields :: "(string \<times> Invoice field) list" where
  "invoice_fields =
     [(''id'', str_field iv_ID_update), (''entity_id'', str_field iv_EntityID_update),
      (''book_id'', str_field iv_BookID_update), (''invoice_no'', str_field iv_InvoiceNo_update),
      (''invoice_type'', str_field iv_InvoiceType_update), (''direction'', str_field iv_Direction_update),
      (''issue_date'', str_field iv_IssueDate_update), (''seller_name'', str_field iv_SellerName_update),
      (''seller_tax_no'', str_field iv_SellerTaxNo_update), (''buyer_name'', str_field iv_BuyerName_update),
      (''buyer_tax_no'', str_field iv_BuyerTaxNo_update), (''amount_without_tax'', f64_field iv_AmountWithoutTax_update),
      (''tax_amount'', f64_field iv_TaxAmount_update), (''amount_with_tax'', f64_field iv_AmountWithTax_update),
      (''currency'', str_field iv_Currency_update), (''status'', str_field iv_Status_update),
      (''source'', str_field iv_Source_update), (''invoice_kind'', str_field iv_InvoiceKind_update),
      (''digital_invoice_no'', str_field iv_DigitalInvoiceNo_update), (''business_tag'', str_field iv_BusinessTag_update),
      (''verification_status'', str_field iv_VerificationStatus_update), (''usage_status'', str_field iv_UsageStatus_update),
      (''deduction_status'', str_field iv_DeductionStatus_update),
      (''red_letter_status'', str_field iv_RedLetterStatus_update),
      (''original_invoice_id'', str_field iv_OriginalInvoiceID_update),
      (''tax_account_payload'', str_field iv_TaxAccountPayload_update), (''extraction'', bytes_field iv_Extraction_update),
      (''evidence_refs'', bytes_field iv_EvidenceRefs_update),
      (''invoice_lines'', list_field iv_InvoiceLines iv_InvoiceLines_update (decode_struct invoice_line_fields) zero_invoice_line),
      (''created_at'', str_field iv_CreatedAt_update), (''updated_at'', str_field iv_UpdatedAt_update)]"

definition extraction_fields :: "(string \<times> ExtractionResult field) list" where
  "extraction_fields =
     [(''invoice_type'', str_field ex_InvoiceType_update), (''invoice_code'', str_field ex_InvoiceCode_update),
      (''invoice_no'', str_field ex_InvoiceNo_update), (''issue_date'', str_field ex_IssueDate_update),
      (''counterparty_name'', str_field ex_CounterpartyName_update), (''seller_tax_id'', str_field ex_SellerTaxID_update),
      (''buyer_tax_id'', str_field ex_BuyerTaxID_update), (''tax_category_code'', str_field ex_TaxCategoryCode_update),
      (''tax_rate'', f64_field ex_TaxRate_update), (''amount_without_tax'', f64_field ex_AmountWithoutTax_update),
      (''tax_amount'', f64_field ex_TaxAmount_update), (''amount_with_tax'', f64_field ex_AmountWithTax_update),
      (''direction'', str_field ex_Direction_update), (''digital_invoice_no'', str_field ex_DigitalInvoiceNo_update),
      (''invoice_kind'', str_field ex_InvoiceKind_update), (''business_tag'', str_field ex_BusinessTag_update),
      (''suggested_entry'', str_field ex_SuggestedEntry_update),
      (''extraction_confidence'', f64_field ex_ExtractionConfidence_update),
      (''invoice_lines'', list_field ex_InvoiceLines ex_InvoiceLines_update (decode_struct invoice_line_fields) zero_invoice_line)]"

definition journal_line_fields :: "(string \<times> JournalLine field) list" where
  "journal_line_fields =
     [(''id'', str_field jl_ID_update), (''entity_id'', str_field jl_EntityID_update),
      (''journal_entry_id'', str_field jl_JournalEntryID_update), (''account_id'', str_field jl_AccountID_update),
      (''account_code'', str_field jl_AccountCode_update), (''account_name'', str_field jl_AccountName_update),
      (''direction'', str_field jl_Direction_update), (''debit_amount'', f64_field jl_DebitAmount_update),
      (''credit_amount'', f64_field jl_CreditAmount_update), (''currency'', str_field jl_Currency_update),
      (''line_no'', int_field jl_LineNo_update), (''auxiliary'', bytes_field jl_Auxiliary_update)]"

definition journal_fields :: "(string \<times> JournalEntry field) list" where
  "journal_fields =
     [(''id'', str_field je_ID_update), (''entity_id'', str_field je_EntityID_update),
      (''book_id'', str_field je_BookID_update), (''period'', str_field je_Period_update),
      (''voucher_no'', str_field je_VoucherNo_update), (''voucher_word'', str_field je_VoucherWord_update),
      (''entry_date'', str_field je_EntryDate_update), (''summary'', str_field je_Summary_update),
      (''source_type'', str_field je_SourceType_update), (''source_id'', str_field je_SourceID_update),
      (''status'', str_field je_Status_update), (''created_by'', str_field je_CreatedBy_update),
      (''posted_by'', str_field je_PostedBy_update), (''posted_at'', str_field je_PostedAt_update),
      (''lines'', list_field je_Lines je_Lines_update (decode_struct journal_line_fields) zero_journal_line),
      (''created_at'', str_field je_CreatedAt_update), (''updated_at'', str_field je_UpdatedAt_update)]"

definition adjustment_fields :: "(string \<times> AdjustmentRecord field) list" where
  "adjustment_fields =
     [(''id'', str_field aj_ID_update), (''entity_id'', str_field aj_EntityID_update),
      (''book_id'', str_field aj_BookID_update), (''tax_year'', str_field aj_TaxYear_update),
      (''category'', str_field aj_Category_update), (''book_amount'', f64_field aj_BookAmount_update),
      (''tax_base'', f64_field aj_TaxBase_update), (''adjustment'', f64_field aj_Adjustment_update),
      (''formula'', str_field aj_Formula_update), (''detail'', str_field aj_Detail_update),
      (''created_at'', str_field aj_CreatedAt_update)]"

definition stamp_fields :: "(string \<times> StampTaxInput field) list" where
  "stamp_fields =
     [(''category'', str_field si_Category_update), (''amount'', f64_field si_Amount_update),
      (''count'', int_field si_Count_update)]"

definition special_fields :: "(string \<times> SpecialAdditionalItems field) list" where
  "special_fields =
     [(''children_education'', int_field sa_ChildrenEducation_update),
      (''continuing_education'', bool_field sa_ContinuingEducation_update),
      (''housing_loan_interest'', bool_field sa_HousingLoanInterest_update),
      (''housing_rent_tier'', int_field sa_HousingRentTier_update), (''elderly_support'', int_field sa_ElderlySupport_update),
      (''infant_care'', int_field sa_InfantCare_update)]"

text \<open>A pointer: null makes it nil, an object is decoded over what it points to.\<close>

definition special_field :: "PITInput field" where
  "special_field raw v r = (case v of JNull \<Rightarrow> Some (r\<lparr>pi_SpecialAdditionalItems := None\<rparr>)
     | _ \<Rightarrow> map_option (\<lambda>x. r\<lparr>pi_SpecialAdditionalItems := Some x\<rparr>)
         (decode_struct special_fields v (case pi_SpecialAdditionalItems r of None \<Rightarrow> zero_special | Some x \<Rightarrow> x)))"

definition pit_fields :: "(string \<times> PITInput field) list" where
  "pit_fields =
     [(''monthly_salary'', f64_field pi_MonthlySalary_update), (''accumulated_salary'', f64_field pi_AccumulatedSalary_update),
      (''months'', int_field pi_Months_update),
      (''accumulated_special_deduction'', f64_field pi_AccumulatedSpecialDeduction_update),
      (''accumulated_special_additional'', f64_field pi_AccumulatedSpecialAdditional_update),
      (''accumulated_other_deduction'', f64_field pi_AccumulatedOtherDeduction_update),
      (''accumulated_prepaid_tax'', f64_field pi_AccumulatedPrepaidTax_update), (''special_additional_items'', special_field)]"

section \<open>The anonymous structs of the handler\<close>

text \<open>Every case of \<open>executeCapability\<close> declares a struct for its input.  One record holds the fields of all of them; a case
  decodes only the names of its own struct (its list of names below), so its other fields stay zero.\<close>

record Input =
  in_Name :: string
  in_Currency :: string
  in_AccountingStandard :: string
  in_Category :: string
  in_Limit :: int
  in_InvoiceID :: string
  in_BookID :: string
  in_OriginalInvoiceID :: string
  in_RedType :: string
  in_EInvoice :: ExtractionResult
  in_UsageStatus :: string
  in_JournalEntryID :: string
  in_JournalEntryIDs :: "string list"
  in_Period :: string
  in_TaxYear :: string
  in_WaybillNo :: string
  in_Carrier :: string
  in_Status :: string
  in_ShipDate :: string
  in_TransactionDate :: string
  in_CounterpartyName :: string
  in_CounterpartyAccount :: string
  in_Amount :: f64
  in_Direction :: string
  in_Summary :: string
  in_BankReference :: string
  in_BankTransactionID :: string
  in_Confidence :: f64
  in_TaxpayerType :: string
  in_OutputTax :: f64
  in_InputTax :: f64
  in_SalesAmount :: f64
  in_LevyRate :: f64
  in_Location :: string
  in_Adjustments :: "AdjustmentRecord list"

definition no_input :: Input where
  "no_input =
     \<lparr> in_Name = '''', in_Currency = '''', in_AccountingStandard = '''', in_Category = '''', in_Limit = 0,
       in_InvoiceID = '''', in_BookID = '''', in_OriginalInvoiceID = '''', in_RedType = '''', in_EInvoice = blank_extraction,
       in_UsageStatus = '''', in_JournalEntryID = '''', in_JournalEntryIDs = [], in_Period = '''', in_TaxYear = '''',
       in_WaybillNo = '''', in_Carrier = '''', in_Status = '''', in_ShipDate = '''', in_TransactionDate = '''',
       in_CounterpartyName = '''', in_CounterpartyAccount = '''', in_Amount = Fin 0, in_Direction = '''', in_Summary = '''',
       in_BankReference = '''', in_BankTransactionID = '''', in_Confidence = Fin 0, in_TaxpayerType = '''',
       in_OutputTax = Fin 0, in_InputTax = Fin 0, in_SalesAmount = Fin 0, in_LevyRate = Fin 0, in_Location = '''',
       in_Adjustments = [] \<rparr>"

definition book_create_input :: "(string \<times> Input field) list" where
  "book_create_input =
     [(''name'', str_field in_Name_update), (''currency'', str_field in_Currency_update),
      (''accounting_standard'', str_field in_AccountingStandard_update)]"

definition account_list_input :: "(string \<times> Input field) list" where
  "account_list_input =
     [(''category'', str_field in_Category_update), (''limit'', int_field in_Limit_update)]"

definition invoice_id_input :: "(string \<times> Input field) list" where
  "invoice_id_input =
     [(''invoice_id'', str_field in_InvoiceID_update)]"

definition invoice_create_red_letter_input :: "(string \<times> Input field) list" where
  "invoice_create_red_letter_input =
     [(''book_id'', str_field in_BookID_update), (''original_invoice_id'', str_field in_OriginalInvoiceID_update),
      (''red_type'', str_field in_RedType_update)]"

definition invoice_import_einvoice_input :: "(string \<times> Input field) list" where
  "invoice_import_einvoice_input =
     [(''book_id'', str_field in_BookID_update), (''einvoice'', struct_field in_EInvoice in_EInvoice_update extraction_fields)]"

definition invoice_confirm_usage_input :: "(string \<times> Input field) list" where
  "invoice_confirm_usage_input =
     [(''invoice_id'', str_field in_InvoiceID_update), (''usage_status'', str_field in_UsageStatus_update)]"

definition journal_id_input :: "(string \<times> Input field) list" where
  "journal_id_input =
     [(''journal_entry_id'', str_field in_JournalEntryID_update)]"

definition journal_batch_post_input :: "(string \<times> Input field) list" where
  "journal_batch_post_input =
     [(''journal_entry_ids'', list_field in_JournalEntryIDs in_JournalEntryIDs_update decode_str '''')]"

definition book_period_input :: "(string \<times> Input field) list" where
  "book_period_input =
     [(''book_id'', str_field in_BookID_update), (''period'', str_field in_Period_update)]"

definition statement_input :: "(string \<times> Input field) list" where
  "statement_input =
     [(''book_id'', str_field in_BookID_update), (''period'', str_field in_Period_update),
      (''accounting_standard'', str_field in_AccountingStandard_update)]"

definition book_year_input :: "(string \<times> Input field) list" where
  "book_year_input =
     [(''book_id'', str_field in_BookID_update), (''tax_year'', str_field in_TaxYear_update)]"

definition reconciliation_upsert_logistics_input :: "(string \<times> Input field) list" where
  "reconciliation_upsert_logistics_input =
     [(''invoice_id'', str_field in_InvoiceID_update), (''waybill_no'', str_field in_WaybillNo_update),
      (''carrier'', str_field in_Carrier_update), (''status'', str_field in_Status_update),
      (''ship_date'', str_field in_ShipDate_update)]"

definition reconciliation_upsert_bank_transaction_input :: "(string \<times> Input field) list" where
  "reconciliation_upsert_bank_transaction_input =
     [(''transaction_date'', str_field in_TransactionDate_update),
      (''counterparty_name'', str_field in_CounterpartyName_update),
      (''counterparty_account'', str_field in_CounterpartyAccount_update), (''amount'', f64_field in_Amount_update),
      (''direction'', str_field in_Direction_update), (''summary'', str_field in_Summary_update),
      (''bank_reference'', str_field in_BankReference_update)]"

definition reconciliation_match_bank_input :: "(string \<times> Input field) list" where
  "reconciliation_match_bank_input =
     [(''bank_transaction_id'', str_field in_BankTransactionID_update), (''invoice_id'', str_field in_InvoiceID_update),
      (''confidence'', f64_field in_Confidence_update)]"

definition reconciliation_unmatch_bank_input :: "(string \<times> Input field) list" where
  "reconciliation_unmatch_bank_input =
     [(''bank_transaction_id'', str_field in_BankTransactionID_update)]"

definition tax_calculate_vat_input :: "(string \<times> Input field) list" where
  "tax_calculate_vat_input =
     [(''taxpayer_type'', str_field in_TaxpayerType_update), (''output_tax'', f64_field in_OutputTax_update),
      (''input_tax'', f64_field in_InputTax_update), (''sales_amount'', f64_field in_SalesAmount_update),
      (''levy_rate'', f64_field in_LevyRate_update), (''location'', str_field in_Location_update)]"

definition tax_list_adjustments_input :: "(string \<times> Input field) list" where
  "tax_list_adjustments_input =
     [(''tax_year'', str_field in_TaxYear_update), (''category'', str_field in_Category_update)]"

definition tax_upsert_adjustments_input :: "(string \<times> Input field) list" where
  "tax_upsert_adjustments_input =
     [(''book_id'', str_field in_BookID_update), (''tax_year'', str_field in_TaxYear_update),
      (''adjustments'', list_field in_Adjustments in_Adjustments_update (decode_struct adjustment_fields) zero_adjustment)]"

definition export_adjustments_input :: "(string \<times> Input field) list" where
  "export_adjustments_input =
     [(''tax_year'', str_field in_TaxYear_update)]"

end
