(* ===== verification/Provider.thy ===== *)
theory Provider
  imports Json Service_Base
begin

text \<open>
  The envelopes of the provider protocol (internal/provider/types.go) and how encoding/json fills them.  Texts of type
  \<open>json.RawMessage\<close> are kept as they were read; an absent one is empty.
\<close>

section \<open>Requests\<close>

record Actor =
  actor_Type :: string
  actor_ID :: string

record V3InvocationContext =
  v3_EntityID :: string
  v3_ActorID :: string
  v3_AgentID :: string
  v3_RunID :: string
  v3_StepID :: string
  v3_TraceID :: string
  v3_ApprovalRef :: string
  v3_GrantRef :: string
  v3_CapabilityID :: string
  v3_CapabilityVersion :: string
  v3_TargetAgentID :: string

record V3Request =
  v3r_Context :: V3InvocationContext
  v3r_Input :: string

record ProviderRequest =
  pr_EntityID :: string
  pr_CapabilityID :: string
  pr_Actor :: Actor
  pr_Input :: string
  pr_IdempotencyKey :: string
  pr_TraceID :: string
  pr_DryRun :: bool
  pr_Metadata :: string

definition no_actor :: Actor where "no_actor = \<lparr> actor_Type = '''', actor_ID = '''' \<rparr>"

definition no_request :: ProviderRequest where
  "no_request = \<lparr> pr_EntityID = '''', pr_CapabilityID = '''', pr_Actor = no_actor, pr_Input = '''', pr_IdempotencyKey = '''',
     pr_TraceID = '''', pr_DryRun = False, pr_Metadata = '''' \<rparr>"

definition no_v3_request :: V3Request where
  "no_v3_request = \<lparr> v3r_Context = \<lparr> v3_EntityID = '''', v3_ActorID = '''', v3_AgentID = '''', v3_RunID = '''', v3_StepID = '''',
     v3_TraceID = '''', v3_ApprovalRef = '''', v3_GrantRef = '''', v3_CapabilityID = '''', v3_CapabilityVersion = '''',
     v3_TargetAgentID = '''' \<rparr>, v3r_Input = '''' \<rparr>"

definition actor_fields :: "(string \<times> Actor field) list" where
  "actor_fields = [(''type'', str_field actor_Type_update), (''id'', str_field actor_ID_update)]"

definition context_fields :: "(string \<times> V3InvocationContext field) list" where
  "context_fields =
     [(''entity_id'', str_field v3_EntityID_update), (''actor_id'', str_field v3_ActorID_update),
      (''agent_id'', str_field v3_AgentID_update), (''run_id'', str_field v3_RunID_update),
      (''step_id'', str_field v3_StepID_update), (''trace_id'', str_field v3_TraceID_update),
      (''approval_ref'', str_field v3_ApprovalRef_update), (''grant_ref'', str_field v3_GrantRef_update),
      (''capability_id'', str_field v3_CapabilityID_update), (''capability_version'', str_field v3_CapabilityVersion_update),
      (''target_agent_id'', str_field v3_TargetAgentID_update)]"

definition v3_fields :: "(string \<times> V3Request field) list" where
  "v3_fields = [(''context'', struct_field v3r_Context v3r_Context_update context_fields), (''input'', raw_field v3r_Input_update)]"

definition request_fields :: "(string \<times> ProviderRequest field) list" where
  "request_fields =
     [(''entity_id'', str_field pr_EntityID_update), (''capability_id'', str_field pr_CapabilityID_update),
      (''actor'', struct_field pr_Actor pr_Actor_update actor_fields), (''input'', raw_field pr_Input_update),
      (''idempotency_key'', str_field pr_IdempotencyKey_update), (''trace_id'', str_field pr_TraceID_update),
      (''dry_run'', bool_field pr_DryRun_update), (''metadata'', raw_field pr_Metadata_update)]"

definition ToProviderRequest :: "V3Request \<Rightarrow> string \<Rightarrow> ProviderRequest" where
  "ToProviderRequest r capabilityID = no_request\<lparr>
     pr_EntityID := v3_EntityID (v3r_Context r),
     pr_Actor := \<lparr> actor_Type = ''agent'', actor_ID = v3_ActorID (v3r_Context r) \<rparr>,
     pr_Input := v3r_Input r,
     pr_TraceID := v3_TraceID (v3r_Context r),
     pr_CapabilityID := capabilityID,
     pr_IdempotencyKey := v3_StepID (v3r_Context r)\<rparr>"

section \<open>Responses\<close>

record ProviderError =
  pe_Code :: string
  pe_Message :: string

record ProviderResponse =
  rp_Status :: string
  rp_Data :: string
  rp_ResourceRefs :: "string list"
  rp_ExternalRequestID :: string
  rp_TraceID :: string
  rp_DomainAuditRef :: string
  rp_Warnings :: "string list"
  rp_Error :: "ProviderError option"

definition no_response :: ProviderResponse where
  "no_response = \<lparr> rp_Status = '''', rp_Data = '''', rp_ResourceRefs = [], rp_ExternalRequestID = '''', rp_TraceID = '''',
     rp_DomainAuditRef = '''', rp_Warnings = [], rp_Error = None \<rparr>"

section \<open>Context values\<close>

text \<open>What \<open>executeRequest\<close> puts into the context of a request; nothing sets the approval grant.\<close>

definition request_context :: "string \<Rightarrow> string \<Rightarrow> ProviderRequest \<Rightarrow> Context" where
  "request_context traceID capabilityID req = \<lparr> TraceID = traceID, CapabilityID = capabilityID,
     IdempotencyKey = pr_IdempotencyKey req, ActorID = actor_ID (pr_Actor req), ApprovalGrantID = '''' \<rparr>"

end
