(* ===== verification/Api_Capabilities.thy ===== *)
theory Api_Capabilities
  imports Api_Inputs Provider Service_Journals Service_Periods Service_Reports Service_Reconciliation Service_Risk
begin

text \<open>
  The capabilities of the API (\<open>executeCapability\<close> of internal/api/handler.go): for each of them its input is decoded, the
  service is called, and the result is put into a Go value that the handler marshals.  One definition per case of the switch.

  What the outside decides is a field of \<open>outside\<close>: the environments of the calls of the service (\<open>o_env a 0\<close> is the one of
  \<open>ResolveBook\<close>, \<open>o_lookup\<close> and \<open>o_save\<close> those of the idempotency store), the identifiers made for a request, the orders of Go
  maps and of its unstable sort, \<open>json.Marshal\<close> and the hash function.
\<close>

section \<open>Results\<close>

datatype val = VStr string | VInt int | VBooks "AccountingBook list" | VAccounts "ChartAccount list"
  | VAdjustments "AdjustmentRecord list" | VFindings "RiskFinding list" | VChecks "ConsistencyCheck list" | VAny "json option"

text \<open>\<open>Fields\<close> is a \<open>map[string]any\<close>; a pointer that may be nil is an option.\<close>

datatype reply = Fields "(string \<times> val) list"
  | RTrialBalance TrialBalance | RAccountBalance AccountBalance | RProfitStatement DomainProfitStatement | RBalanceSheet DomainBalanceSheet
  | RVATCrossCheck VATCrossCheck | RVATReturn VATReturn | RCrossTax CrossTaxValidation | RThreeWay ThreeWaySummary
  | RTaxRisk TaxRiskReport | RCITReport CITReport | RCloseCheck CloseCheckResult | RVAT VATOutput | RStampTax StampTaxOutput
  | RPIT PITOutput | RInvoice "Invoice option" | RJournalEntry "JournalEntry option" | RLogistics "LogisticsRecord option"
  | RBankTransaction "BankTransaction option"

text \<open>Why a capability returns nothing: input that does not decode, an error of the service, no such case, a nil pointer that is
  dereferenced (the recoverer of the router answers).\<close>

datatype failure = BadInput | Failed err | UnknownCapability string | Panic

type_synonym outcome = "(failure + reply) \<times> db"

record outside =
  o_env :: "nat \<Rightarrow> env"
  o_months :: "nat \<Rightarrow> env"
  o_text :: "stmt \<Rightarrow> string"
  o_json_error :: string
  o_accounts :: "account_key list \<Rightarrow> account_key list"
  o_rates :: "rate_group list \<Rightarrow> rate_group list"
  o_suppliers :: "(string \<times> f64) list \<Rightarrow> (string \<times> f64) list"
  o_int :: "f64 \<Rightarrow> int"
  o_sort :: "ReportMapping list \<Rightarrow> ReportMapping list"
  o_vat_json :: "VATReturn \<Rightarrow> string option"
  o_cit_json :: "CITReport \<Rightarrow> string option"
  o_adjustments_json :: "AdjustmentRecord list \<Rightarrow> string option"
  o_marshal :: "reply \<Rightarrow> string option"
  o_sha256 :: "string \<Rightarrow> string"
  o_request_id :: string
  o_trace_id :: string
  o_lookup :: env
  o_save :: env

text \<open>The outside of one capability call: the environment of its service operation and the outside itself.\<close>

abbreviation call_env :: "outside \<Rightarrow> env" where "call_env a \<equiv> o_env a 1"

definition with_input :: "(string \<times> 'r field) list \<Rightarrow> 'r \<Rightarrow> ProviderRequest \<Rightarrow> db \<Rightarrow> ('r \<Rightarrow> outcome) \<Rightarrow> outcome" where
  "with_input fs z req d k = (case unmarshal fs z (pr_Input req) of None \<Rightarrow> (Inl BadInput, d) | Some x \<Rightarrow> k x)"

definition read_reply :: "('a \<Rightarrow> reply) \<Rightarrow> db \<Rightarrow> err + 'a \<Rightarrow> outcome" where
  "read_reply f d r = (case r of Inl x \<Rightarrow> (Inl (Failed x), d) | Inr v \<Rightarrow> (Inr (f v), d))"

definition write_reply :: "('a \<Rightarrow> reply) \<Rightarrow> (err + 'a) \<times> db \<Rightarrow> outcome" where
  "write_reply f r = (case r of (Inl x, d) \<Rightarrow> (Inl (Failed x), d) | (Inr v, d) \<Rightarrow> (Inr (f v), d))"

definition pointer_reply :: "('a \<Rightarrow> reply) \<Rightarrow> (err + 'a option) \<times> db \<Rightarrow> outcome" where
  "pointer_reply f r = (case r of (Inl x, d) \<Rightarrow> (Inl (Failed x), d) | (Inr None, d) \<Rightarrow> (Inl Panic, d) | (Inr (Some v), d) \<Rightarrow> (Inr (f v), d))"

definition done_reply :: "reply \<Rightarrow> err option \<times> db \<Rightarrow> outcome" where
  "done_reply x r = (case r of (Some y, d) \<Rightarrow> (Inl (Failed y), d) | (None, d) \<Rightarrow> (Inr x, d))"

definition store_reply :: "reply \<Rightarrow> db \<Rightarrow> err + db \<Rightarrow> outcome" where
  "store_reply x d r = (case r of Inl y \<Rightarrow> (Inl (Failed y), d) | Inr d' \<Rightarrow> (Inr x, d'))"

text \<open>\<open>bookID, _ := h.svc.ResolveBook(...)\<close>: an error leaves the empty book.\<close>

definition book_of :: "outside \<Rightarrow> Service \<Rightarrow> string \<Rightarrow> string \<Rightarrow> db \<Rightarrow> string" where
  "book_of a s entityID bookID d = (case ResolveBook (o_env a 0) s entityID bookID d of Inl _ \<Rightarrow> '''' | Inr b \<Rightarrow> b)"

text \<open>The cases that only read a report of a book and a period.\<close>

definition book_report ::
    "(string \<times> Input field) list \<Rightarrow> (string \<Rightarrow> Input \<Rightarrow> outcome) \<Rightarrow> outside \<Rightarrow> Service \<Rightarrow> string \<Rightarrow> ProviderRequest \<Rightarrow> db \<Rightarrow> outcome" where
  "book_report fs k a s entityID req d = with_input fs no_input req d (\<lambda>i. k (book_of a s entityID (in_BookID i) d) i)"

definition invoice_reply :: "Invoice \<Rightarrow> reply" where
  "invoice_reply i = Fields [(''invoice_id'', VStr (iv_ID i)), (''status'', VStr (iv_Status i))]"

definition entry_reply :: "JournalEntry \<Rightarrow> reply" where
  "entry_reply j = Fields [(''journal_entry_id'', VStr (je_ID j)), (''status'', VStr (je_Status j))]"

definition voucher_reply :: "JournalEntry \<Rightarrow> reply" where
  "voucher_reply j = Fields [(''journal_entry_id'', VStr (je_ID j)), (''voucher_no'', VStr (je_VoucherNo j)),
     (''status'', VStr (je_Status j))]"

definition period_reply :: "AccountingPeriod \<Rightarrow> reply" where
  "period_reply p = Fields [(''period'', VStr (pd_Period p)), (''status'', VStr (pd_Status p))]"

section \<open>Books and accounts\<close>

type_synonym capability = "outside \<Rightarrow> Service \<Rightarrow> Context \<Rightarrow> string \<Rightarrow> ProviderRequest \<Rightarrow> db \<Rightarrow> outcome"

definition book_input :: "string \<Rightarrow> Input \<Rightarrow> AccountingBook" where
  "book_input entityID i = \<lparr> bk_ID = '''', bk_EntityID = entityID, bk_Code = '''', bk_Name = in_Name i,
     bk_AccountingStandard = (if in_AccountingStandard i = '''' then ''small_business_gaap_cn'' else in_AccountingStandard i),
     bk_BaseCurrency = (if in_Currency i = '''' then ''CNY'' else in_Currency i), bk_StartPeriod = '''', bk_IsDefault = False,
     bk_Status = '''', bk_CreatedAt = '''', bk_UpdatedAt = '''' \<rparr>"

definition do_book_create :: capability where
  "do_book_create a s c entityID req d = with_input book_create_input no_input req d (\<lambda>i.
     write_reply (\<lambda>b. Fields [(''id'', VStr (bk_ID b)), (''name'', VStr (bk_Name b))])
       (CreateBook (call_env a) s c (book_input entityID i) d))"

definition do_book_list :: capability where
  "do_book_list a s c entityID req d = read_reply (\<lambda>bs. Fields [(''books'', VBooks bs)]) d (ListBooks (call_env a) s entityID d)"

definition do_account_list :: capability where
  "do_account_list a s c entityID req d = with_input account_list_input no_input req d (\<lambda>i.
     read_reply (\<lambda>r. Fields [(''items'', VAccounts (alr_Items r)), (''total'', VInt (alr_Total r))]) d
       (ListAccounts (call_env a) \<lparr> alq_EntityID = entityID, alq_Category = in_Category i, alq_Keyword = '''',
          alq_Limit = (if in_Limit i \<le> 0 then 200 else in_Limit i), alq_Offset = 0 \<rparr> d))"

section \<open>Invoices\<close>

definition do_invoice_create_draft :: capability where
  "do_invoice_create_draft a s c entityID req d = with_input invoice_fields blank_invoice req d (\<lambda>i.
     write_reply invoice_reply
       (CreateInvoiceDraft (call_env a) s c entityID (book_of a s entityID (iv_BookID i) d) (actor_ID (pr_Actor req)) (Some i) d))"

text \<open>The approved invoice is dereferenced; the voucher is reported if there is one.\<close>

definition approval_reply :: "Invoice option \<times> JournalEntry option \<Rightarrow> failure + reply" where
  "approval_reply r = (case r of (None, _) \<Rightarrow> Inl Panic
     | (Some i, j) \<Rightarrow> Inr (Fields ([(''invoice_id'', VStr (iv_ID i)), (''status'', VStr (iv_Status i))] @
         (case j of None \<Rightarrow> [] | Some x \<Rightarrow> [(''journal_entry_id'', VStr (je_ID x))]))))"

definition do_invoice_approve :: capability where
  "do_invoice_approve a s c entityID req d = with_input invoice_id_input no_input req d (\<lambda>i.
     case ApproveInvoice (call_env a) s c entityID (in_InvoiceID i) (actor_ID (pr_Actor req)) d of
       (Inl x, d') \<Rightarrow> (Inl (Failed x), d') | (Inr r, d') \<Rightarrow> (approval_reply r, d'))"

definition do_invoice_reject :: capability where
  "do_invoice_reject a s c entityID req d = with_input invoice_id_input no_input req d (\<lambda>i.
     pointer_reply invoice_reply (RejectInvoice (call_env a) s c entityID (in_InvoiceID i) (actor_ID (pr_Actor req)) d))"

definition do_invoice_create_red_letter :: capability where
  "do_invoice_create_red_letter a s c entityID req d = with_input invoice_create_red_letter_input no_input req d (\<lambda>i.
     write_reply invoice_reply (CreateRedLetterInvoice (call_env a) s c entityID (book_of a s entityID (in_BookID i) d)
       (in_OriginalInvoiceID i) (actor_ID (pr_Actor req)) (in_RedType i) d))"

definition do_invoice_import_einvoice :: capability where
  "do_invoice_import_einvoice a s c entityID req d = with_input invoice_import_einvoice_input no_input req d (\<lambda>i.
     write_reply invoice_reply (ImportEInvoice (call_env a) s c entityID (book_of a s entityID (in_BookID i) d) (in_EInvoice i) d))"

definition do_invoice_verify :: capability where
  "do_invoice_verify a s c entityID req d = with_input invoice_id_input no_input req d (\<lambda>i.
     done_reply (Fields [(''status'', VStr ''verified'')])
       (VerifyInvoice (call_env a) s c entityID (in_InvoiceID i) (actor_ID (pr_Actor req)) d))"

definition do_invoice_confirm_usage :: capability where
  "do_invoice_confirm_usage a s c entityID req d = with_input invoice_confirm_usage_input no_input req d (\<lambda>i.
     done_reply (Fields [(''status'', VStr ''ok'')])
       (ConfirmInvoiceUsage (call_env a) s c entityID (in_InvoiceID i) (in_UsageStatus i) (actor_ID (pr_Actor req)) d))"

section \<open>Journals\<close>

definition do_journal_create_draft :: capability where
  "do_journal_create_draft a s c entityID req d = with_input journal_fields zero_journal req d (\<lambda>j.
     write_reply voucher_reply (CreateJournalDraft (call_env a) s c entityID (book_of a s entityID (je_BookID j) d) (je_Period j)
       (actor_ID (pr_Actor req)) j d))"

definition do_journal_post :: capability where
  "do_journal_post a s c entityID req d = with_input journal_id_input no_input req d (\<lambda>i.
     pointer_reply voucher_reply (PostJournalEntry (call_env a) s c entityID (in_JournalEntryID i) (actor_ID (pr_Actor req)) d))"

definition do_journal_void :: capability where
  "do_journal_void a s c entityID req d = with_input journal_id_input no_input req d (\<lambda>i.
     pointer_reply entry_reply (VoidJournalEntry (call_env a) s c entityID (in_JournalEntryID i) (actor_ID (pr_Actor req)) d))"

definition do_journal_update_draft :: capability where
  "do_journal_update_draft a s c entityID req d = with_input journal_fields zero_journal req d (\<lambda>j.
     write_reply entry_reply (UpdateJournalDraft (call_env a) s c entityID (je_ID j) j d))"

definition do_journal_batch_post :: capability where
  "do_journal_batch_post a s c entityID req d = with_input journal_batch_post_input no_input req d (\<lambda>i.
     write_reply (\<lambda>js. Fields [(''count'', VInt (int (length js)))])
       (BatchPostJournals (call_env a) 0 s c entityID (in_JournalEntryIDs i) (actor_ID (pr_Actor req)) d))"

section \<open>Reports\<close>

definition do_trial_balance :: capability where
  "do_trial_balance a s c entityID req d = book_report book_period_input (\<lambda>b i.
     read_reply RTrialBalance d (TrialBalance_report (call_env a) (o_accounts a) entityID b (in_Period i) d)) a s entityID req d"

definition do_account_balance :: capability where
  "do_account_balance a s c entityID req d = book_report book_period_input (\<lambda>b i.
     read_reply RAccountBalance d (AccountBalance_report (call_env a) (o_accounts a) entityID b (in_Period i) d)) a s entityID req d"

text \<open>The selectors of the mappings are read by encoding/json too.\<close>

definition selector_fields :: "(string \<times> AccountSelector field) list" where
  "selector_fields =
     [(''prefixes'', list_field as_Prefixes as_Prefixes_update decode_str ''''),
      (''categories'', list_field as_Categories as_Categories_update decode_str ''''),
      (''direction'', str_field as_Direction_update),
      (''exclude_prefixes'', list_field as_ExcludePrefixes as_ExcludePrefixes_update decode_str '''')]"

definition do_profit_statement :: capability where
  "do_profit_statement a s c entityID req d = book_report statement_input (\<lambda>b i.
     read_reply RProfitStatement d (ProfitStatement_report (call_env a) (unmarshal selector_fields empty_selector) (o_sort a) s
       entityID b (in_Period i) (in_AccountingStandard i) d)) a s entityID req d"

definition do_balance_sheet :: capability where
  "do_balance_sheet a s c entityID req d = book_report statement_input (\<lambda>b i.
     read_reply RBalanceSheet d (BalanceSheet_report (call_env a) (unmarshal selector_fields empty_selector) (o_sort a) s
       entityID b (in_Period i) (in_AccountingStandard i) d)) a s entityID req d"

definition do_vat_cross_check :: capability where
  "do_vat_cross_check a s c entityID req d = book_report book_period_input (\<lambda>b i.
     read_reply RVATCrossCheck d (VATCrossCheck_report (call_env a) (o_rates a) entityID b (in_Period i) d)) a s entityID req d"

definition do_vat_return :: capability where
  "do_vat_return a s c entityID req d = book_report book_period_input (\<lambda>b i.
     read_reply RVATReturn d (VATReturn_report (call_env a) (o_rates a) entityID b (in_Period i) d)) a s entityID req d"

definition do_cross_tax_validation :: capability where
  "do_cross_tax_validation a s c entityID req d = book_report book_period_input (\<lambda>b i.
     read_reply RCrossTax d (CrossTaxValidation_report (call_env a) (o_accounts a) entityID b (in_Period i) d)) a s entityID req d"

definition do_three_way_match :: capability where
  "do_three_way_match a s c entityID req d = book_report book_period_input (\<lambda>b i.
     read_reply RThreeWay d (ThreeWayMatch (call_env a) s entityID b (in_Period i) d)) a s entityID req d"

definition do_tax_risk :: capability where
  "do_tax_risk a s c entityID req d = book_report book_period_input (\<lambda>b i.
     read_reply RTaxRisk d (TaxRisk (\<lambda>n. o_env a (Suc n)) (o_rates a) entityID b (in_Period i) d)) a s entityID req d"

definition do_cit_return :: capability where
  "do_cit_return a s c entityID req d = book_report book_year_input (\<lambda>b i.
     read_reply RCITReport d (GenerateCITReport (call_env a) (o_months a) (o_accounts a) s entityID b (in_TaxYear i)
       (actor_ID (pr_Actor req)) d)) a s entityID req d"

section \<open>Periods\<close>

definition do_close_check :: capability where
  "do_close_check a s c entityID req d = book_report book_period_input (\<lambda>b i.
     read_reply RCloseCheck d (CloseCheck_report (call_env a) (o_text a) (o_accounts a) s entityID b (in_Period i) d)) a s entityID req d"

definition do_period_close :: capability where
  "do_period_close a s c entityID req d = book_report book_period_input (\<lambda>b i.
     write_reply period_reply (ClosePeriod (call_env a) (o_text a) (o_accounts a) s c entityID b (in_Period i)
       (actor_ID (pr_Actor req)) d)) a s entityID req d"

definition do_period_lock :: capability where
  "do_period_lock a s c entityID req d = book_report book_period_input (\<lambda>b i.
     write_reply period_reply (LockPeriod (call_env a) s c entityID b (in_Period i) (actor_ID (pr_Actor req)) d)) a s entityID req d"

definition do_period_reopen :: capability where
  "do_period_reopen a s c entityID req d = book_report book_period_input (\<lambda>b i.
     write_reply period_reply (ReopenPeriod (call_env a) s c entityID b (in_Period i) (actor_ID (pr_Actor req)) d)) a s entityID req d"

definition do_enhanced_close_check :: capability where
  "do_enhanced_close_check a s c entityID req d = book_report book_period_input (\<lambda>b i.
     write_reply RCloseCheck (EnhanceCloseCheck (call_env a) (o_env a 2) (o_text a) (o_accounts a) (o_rates a) s entityID b
       (in_Period i) d)) a s entityID req d"

section \<open>Reconciliation\<close>

definition logistics_input :: "string \<Rightarrow> Input \<Rightarrow> LogisticsRecord" where
  "logistics_input entityID i = \<lparr> lg_ID = '''', lg_EntityID = entityID, lg_InvoiceID = in_InvoiceID i,
     lg_WaybillNo = in_WaybillNo i, lg_Carrier = in_Carrier i, lg_Status = (if in_Status i = '''' then ''shipped'' else in_Status i),
     lg_ShipDate = in_ShipDate i, lg_DeliveryDate = '''', lg_Items = '''', lg_Notes = '''', lg_CreatedAt = '''',
     lg_UpdatedAt = '''' \<rparr>"

text \<open>The reply has the identifier that the service generated.\<close>

definition do_upsert_logistics :: capability where
  "do_upsert_logistics a s c entityID req d = with_input reconciliation_upsert_logistics_input no_input req d (\<lambda>i.
     store_reply (Fields [(''logistics_id'', VStr (uuid (call_env a) 0))]) d
       (UpsertLogistics (call_env a) s (logistics_input entityID i) d))"

text \<open>The book of a bank transaction stays empty.\<close>

definition bank_input :: "string \<Rightarrow> Input \<Rightarrow> BankTransaction" where
  "bank_input entityID i = \<lparr> bt_ID = '''', bt_EntityID = entityID, bt_BookID = '''', bt_TransactionDate = in_TransactionDate i,
     bt_CounterpartyName = in_CounterpartyName i, bt_CounterpartyAccount = in_CounterpartyAccount i, bt_Amount = in_Amount i,
     bt_Direction = in_Direction i, bt_Summary = in_Summary i, bt_BankReference = in_BankReference i, bt_MatchedInvoiceID = '''',
     bt_MatchConfidence = Fin 0, bt_CreatedAt = '''', bt_UpdatedAt = '''' \<rparr>"

definition do_upsert_bank_transaction :: capability where
  "do_upsert_bank_transaction a s c entityID req d = with_input reconciliation_upsert_bank_transaction_input no_input req d (\<lambda>i.
     store_reply (Fields [(''bank_transaction_id'', VStr (uuid (call_env a) 0))]) d
       (UpsertBankTransaction (call_env a) s (bank_input entityID i) d))"

definition do_match_bank :: capability where
  "do_match_bank a s c entityID req d = with_input reconciliation_match_bank_input no_input req d (\<lambda>i.
     store_reply (Fields [(''status'', VStr ''matched'')]) d
       (MatchBankToInvoice (call_env a) s entityID (in_BankTransactionID i) (in_InvoiceID i)
         (if feq (in_Confidence i) (lit 0) then lit 1 else in_Confidence i) d))"

definition do_unmatch_bank :: capability where
  "do_unmatch_bank a s c entityID req d = with_input reconciliation_unmatch_bank_input no_input req d (\<lambda>i.
     store_reply (Fields [(''status'', VStr ''unmatched'')]) d
       (UnmatchBankFromInvoice (call_env a) s entityID (in_BankTransactionID i) d))"

section \<open>Taxes\<close>

definition vat_input :: "Input \<Rightarrow> VATInput" where
  "vat_input i = \<lparr> vi_TaxpayerType = in_TaxpayerType i, vi_OutputTax = in_OutputTax i, vi_InputTax = in_InputTax i,
     vi_SalesAmount = in_SalesAmount i, vi_LevyRate = in_LevyRate i \<rparr>"

definition do_calculate_vat :: capability where
  "do_calculate_vat a s c entityID req d = with_input tax_calculate_vat_input no_input req d (\<lambda>i.
     read_reply RVAT d (CalculateVAT (vat_input i) (in_Location i)))"

definition do_calculate_stamp :: capability where
  "do_calculate_stamp a s c entityID req d = with_input stamp_fields zero_stamp req d (\<lambda>i.
     read_reply RStampTax d (CalculateStampTax i))"

definition do_calculate_pit :: capability where
  "do_calculate_pit a s c entityID req d = with_input pit_fields zero_pit req d (\<lambda>i. read_reply RPIT d (CalculatePIT i))"

definition do_list_adjustments :: capability where
  "do_list_adjustments a s c entityID req d = with_input tax_list_adjustments_input no_input req d (\<lambda>i.
     read_reply (\<lambda>r. Fields [(''items'', VAdjustments (fst r))]) d
       (ListAdjustments (call_env a) s \<lparr> ajq_EntityID = entityID, ajq_TaxYear = in_TaxYear i, ajq_Category = in_Category i,
          ajq_Limit = 100, ajq_Offset = 0 \<rparr> d))"

definition do_upsert_adjustments :: capability where
  "do_upsert_adjustments a s c entityID req d = with_input tax_upsert_adjustments_input no_input req d (\<lambda>i.
     let b = book_of a s entityID (in_BookID i) d in
     done_reply (Fields [(''status'', VStr ''ok'')]) (UpsertAdjustments (call_env a) s
       (map (\<lambda>r. r\<lparr>aj_EntityID := entityID, aj_BookID := b, aj_TaxYear := in_TaxYear i\<rparr>) (in_Adjustments i)) d))"

section \<open>Risks and exports\<close>

definition do_risk_scan :: capability where
  "do_risk_scan a s c entityID req d = book_report book_period_input (\<lambda>b i.
     (Inr (Fields [(''findings'', VFindings (RiskScan_findings (\<lambda>n. o_env a (Suc n)) (o_rates a) (o_int a) (o_suppliers a)
       entityID b (in_Period i) d))]), d)) a s entityID req d"

definition do_consistency_check :: capability where
  "do_consistency_check a s c entityID req d = book_report book_period_input (\<lambda>b i.
     case RunConsistencyCheck (call_env a) (o_rates a) s entityID b (in_Period i) d of
       ((checks, x), d') \<Rightarrow> done_reply (Fields [(''checks'', VChecks checks)]) (x, d')) a s entityID req d"

definition do_export_trial_balance :: capability where
  "do_export_trial_balance a s c entityID req d = book_report book_period_input (\<lambda>b i.
     read_reply (\<lambda>t. Fields [(''csv'', VStr t)]) d
       (ExportTrialBalanceCSV (call_env a) (o_accounts a) entityID b (in_Period i) d)) a s entityID req d"

definition do_export_vat_summary :: capability where
  "do_export_vat_summary a s c entityID req d = book_report book_period_input (\<lambda>b i.
     read_reply (\<lambda>t. Fields [(''csv'', VStr t)]) d (ExportVATSummaryCSV (call_env a) entityID b (in_Period i) d)) a s entityID req d"

text \<open>The exported text is read again into an \<open>any\<close>, which stays nil if it does not parse.\<close>

definition data_reply :: "string \<Rightarrow> reply" where "data_reply t = Fields [(''data'', VAny (parse_text t))]"

definition do_export_vat_return :: capability where
  "do_export_vat_return a s c entityID req d = book_report book_period_input (\<lambda>b i.
     read_reply data_reply d (ExportVATReturnJSON (call_env a) (o_rates a) (o_vat_json a) entityID b (in_Period i) d)) a s entityID req d"

definition do_export_cit_return :: capability where
  "do_export_cit_return a s c entityID req d = book_report book_year_input (\<lambda>b i.
     read_reply data_reply d (ExportCITReturnJSON (call_env a) (o_months a) (o_accounts a) (o_cit_json a) s entityID b (in_TaxYear i)
       (actor_ID (pr_Actor req)) d)) a s entityID req d"

definition do_export_adjustments :: capability where
  "do_export_adjustments a s c entityID req d = with_input export_adjustments_input no_input req d (\<lambda>i.
     read_reply data_reply d (ExportAdjustmentsJSON (call_env a) (o_adjustments_json a) s entityID (in_TaxYear i) d))"

section \<open>The switch\<close>

definition handlers :: "(string \<times> capability) list" where
  "handlers =
     [(''finance.book.create'', do_book_create), (''finance.book.list'', do_book_list), (''finance.account.list'', do_account_list),
      (''finance.invoice.create_draft'', do_invoice_create_draft), (''finance.invoice.approve'', do_invoice_approve),
      (''finance.invoice.reject'', do_invoice_reject), (''finance.invoice.create_red_letter'', do_invoice_create_red_letter),
      (''finance.invoice.import_einvoice'', do_invoice_import_einvoice), (''finance.invoice.verify'', do_invoice_verify),
      (''finance.invoice.confirm_usage'', do_invoice_confirm_usage), (''finance.journal.create_draft'', do_journal_create_draft),
      (''finance.journal.post'', do_journal_post), (''finance.journal.void'', do_journal_void),
      (''finance.journal.update_draft'', do_journal_update_draft), (''finance.journal.batch_post'', do_journal_batch_post),
      (''finance.report.trial_balance'', do_trial_balance), (''finance.report.account_balance'', do_account_balance),
      (''finance.report.profit_statement'', do_profit_statement), (''finance.report.balance_sheet'', do_balance_sheet),
      (''finance.report.vat_cross_check'', do_vat_cross_check), (''finance.report.vat_return'', do_vat_return),
      (''finance.report.cross_tax_validation'', do_cross_tax_validation), (''finance.report.three_way_match'', do_three_way_match),
      (''finance.report.tax_risk'', do_tax_risk), (''finance.report.cit_return'', do_cit_return),
      (''finance.period.close_check'', do_close_check), (''finance.period.close'', do_period_close),
      (''finance.period.lock'', do_period_lock), (''finance.period.reopen'', do_period_reopen),
      (''finance.period.enhanced_close_check'', do_enhanced_close_check),
      (''finance.reconciliation.upsert_logistics'', do_upsert_logistics),
      (''finance.reconciliation.upsert_bank_transaction'', do_upsert_bank_transaction),
      (''finance.reconciliation.match_bank'', do_match_bank), (''finance.reconciliation.unmatch_bank'', do_unmatch_bank),
      (''finance.tax.calculate_vat'', do_calculate_vat), (''finance.tax.calculate_stamp'', do_calculate_stamp),
      (''finance.tax.calculate_pit'', do_calculate_pit), (''finance.tax.list_adjustments'', do_list_adjustments),
      (''finance.tax.upsert_adjustments'', do_upsert_adjustments), (''finance.risk.scan'', do_risk_scan),
      (''finance.consistency.check'', do_consistency_check), (''finance.export.trial_balance'', do_export_trial_balance),
      (''finance.export.vat_summary'', do_export_vat_summary), (''finance.export.vat_return'', do_export_vat_return),
      (''finance.export.cit_return'', do_export_cit_return), (''finance.export.adjustments'', do_export_adjustments)]"

definition executeCapability :: "outside \<Rightarrow> Service \<Rightarrow> Context \<Rightarrow> string \<Rightarrow> string \<Rightarrow> ProviderRequest \<Rightarrow> db \<Rightarrow> outcome" where
  "executeCapability a s c entityID capabilityID req d =
     (case map_of handlers capabilityID of None \<Rightarrow> (Inl (UnknownCapability capabilityID), d) | Some h \<Rightarrow> h a s c entityID req d)"

end
