(* ===== verification/Catalog.thy ===== *)
theory Catalog
  imports Json
begin

text \<open>
  The catalog of capabilities (internal/capability/catalog.go): one definition per entry of the list, field by field.  A schema is
  a tree of string-keyed maps and lists.
\<close>

datatype schema = SStr string | SList "schema list" | SMap "(string \<times> schema) list"

definition SideEffectRead :: string where "SideEffectRead = ''read''"
definition SideEffectDraftWrite :: string where "SideEffectDraftWrite = ''draft_write''"
definition SideEffectCommittedWrite :: string where "SideEffectCommittedWrite = ''committed_write''"
definition SideEffectDestructive :: string where "SideEffectDestructive = ''destructive''"

record Capability =
  cap_Name :: string
  cap_Domain :: string
  cap_Version :: string
  cap_SideEffect :: string
  cap_RequiresIdempotencyKey :: bool
  cap_SupportsDryRun :: bool
  cap_Description :: string
  cap_Tags :: "string list"
  cap_InputSchema :: schema
  cap_OutputSchema :: schema

definition cap_book_create :: Capability where
  "cap_book_create =
     \<lparr> cap_Name = ''finance.book.create'', cap_Domain = ''finance'', cap_Version = ''0.1.0'',
          cap_SideEffect = SideEffectCommittedWrite,
       cap_RequiresIdempotencyKey = True, cap_SupportsDryRun = False,
       cap_Description = ''Create a new accounting book for the entity.'',
       cap_Tags = [zh [0x8D26, 0x672C], zh [0x521B, 0x5EFA], zh [0x8D22, 0x52A1], zh [0x6838, 0x7B97]],
       cap_InputSchema = SMap [(''type'', SStr ''object''), (''required'', SList [SStr ''name'', SStr ''currency'']),
          (''properties'', SMap [(''name'', SMap [(''type'', SStr ''string'')]), (''currency'', SMap [(''type'',
          SStr ''string'')]), (''accounting_standard'', SMap [(''type'', SStr ''string'')])])],
       cap_OutputSchema = SMap [(''type'', SStr ''object''), (''properties'', SMap [(''id'', SMap [(''type'',
          SStr ''string'')]), (''name'', SMap [(''type'', SStr ''string'')])])] \<rparr>"

definition cap_book_list :: Capability where
  "cap_book_list =
     \<lparr> cap_Name = ''finance.book.list'', cap_Domain = ''finance'', cap_Version = ''0.1.0'',
          cap_SideEffect = SideEffectRead,
       cap_RequiresIdempotencyKey = False, cap_SupportsDryRun = False,
       cap_Description = ''List all accounting books for the entity.'',
       cap_Tags = [zh [0x8D26, 0x672C], zh [0x5217, 0x8868], zh [0x67E5, 0x8BE2], zh [0x8D22, 0x52A1]],
       cap_InputSchema = SMap [(''type'', SStr ''object''), (''properties'', SMap [])],
       cap_OutputSchema = SMap [(''type'', SStr ''object''), (''properties'', SMap [(''books'', SMap [(''type'',
          SStr ''array'')])])] \<rparr>"

definition cap_account_list :: Capability where
  "cap_account_list =
     \<lparr> cap_Name = ''finance.account.list'', cap_Domain = ''finance'', cap_Version = ''0.1.0'',
          cap_SideEffect = SideEffectRead,
       cap_RequiresIdempotencyKey = False, cap_SupportsDryRun = False,
       cap_Description = ''List chart of accounts, optionally filtered by category.'',
       cap_Tags = [zh [0x79D1, 0x76EE], zh [0x8D26, 0x6237], zh [0x5217, 0x8868], zh [0x67E5, 0x8BE2]],
       cap_InputSchema = SMap [(''type'', SStr ''object''), (''required'', SList [SStr ''book_id'']), (''properties'',
          SMap [(''book_id'', SMap [(''type'', SStr ''string'')]), (''category'', SMap [(''type'', SStr ''string'')]),
          (''limit'', SMap [(''type'', SStr ''integer'')])])],
       cap_OutputSchema = SMap [(''type'', SStr ''object''), (''properties'', SMap [(''items'', SMap [(''type'',
          SStr ''array'')])])] \<rparr>"

definition cap_invoice_create_draft :: Capability where
  "cap_invoice_create_draft =
     \<lparr> cap_Name = ''finance.invoice.create_draft'', cap_Domain = ''finance'', cap_Version = ''0.1.0'',
          cap_SideEffect = SideEffectDraftWrite,
       cap_RequiresIdempotencyKey = True, cap_SupportsDryRun = True,
       cap_Description = ''Create an invoice draft for review.'',
       cap_Tags = [zh [0x53D1, 0x7968], zh [0x521B, 0x5EFA], zh [0x8349, 0x7A3F], zh [0x5F55, 0x5165]],
       cap_InputSchema = SMap [(''type'', SStr ''object''), (''required'', SList [SStr ''book_id'', SStr ''invoice_no'',
          SStr ''direction'', SStr ''issue_date'', SStr ''amount_without_tax'', SStr ''tax_amount'',
          SStr ''amount_with_tax'']), (''properties'', SMap [(''book_id'', SMap [(''type'', SStr ''string'')]),
          (''invoice_no'', SMap [(''type'', SStr ''string'')]), (''invoice_type'', SMap [(''type'', SStr ''string'')]),
          (''direction'', SMap [(''type'', SStr ''string''), (''enum'', SList [SStr ''input'', SStr ''output''])]),
          (''issue_date'', SMap [(''type'', SStr ''string'')]), (''seller_name'', SMap [(''type'', SStr ''string'')]),
          (''seller_tax_no'', SMap [(''type'', SStr ''string'')]), (''buyer_name'', SMap [(''type'', SStr ''string'')]),
          (''buyer_tax_no'', SMap [(''type'', SStr ''string'')]), (''amount_without_tax'', SMap [(''type'',
          SStr ''number'')]), (''tax_amount'', SMap [(''type'', SStr ''number'')]), (''amount_with_tax'', SMap [(''type'',
          SStr ''number'')]), (''currency'', SMap [(''type'', SStr ''string'')])])],
       cap_OutputSchema = SMap [(''type'', SStr ''object''), (''properties'', SMap [(''invoice_id'', SMap [(''type'',
          SStr ''string'')]), (''status'', SMap [(''type'', SStr ''string'')])])] \<rparr>"

definition cap_invoice_approve :: Capability where
  "cap_invoice_approve =
     \<lparr> cap_Name = ''finance.invoice.approve'', cap_Domain = ''finance'', cap_Version = ''0.1.0'',
          cap_SideEffect = SideEffectCommittedWrite,
       cap_RequiresIdempotencyKey = True, cap_SupportsDryRun = False,
       cap_Description = ''Approve an invoice and optionally generate a journal entry.'',
       cap_Tags = [zh [0x53D1, 0x7968], zh [0x5BA1, 0x6838], zh [0x5BA1, 0x6279], zh [0x901A, 0x8FC7]],
       cap_InputSchema = SMap [(''type'', SStr ''object''), (''required'', SList [SStr ''invoice_id'']), (''properties'',
          SMap [(''invoice_id'', SMap [(''type'', SStr ''string'')])])],
       cap_OutputSchema = SMap [(''type'', SStr ''object''), (''properties'', SMap [(''invoice_id'', SMap [(''type'',
          SStr ''string'')]), (''journal_entry_id'', SMap [(''type'', SStr ''string'')]), (''status'', SMap [(''type'',
          SStr ''string'')])])] \<rparr>"

definition cap_invoice_reject :: Capability where
  "cap_invoice_reject =
     \<lparr> cap_Name = ''finance.invoice.reject'', cap_Domain = ''finance'', cap_Version = ''0.1.0'',
          cap_SideEffect = SideEffectCommittedWrite,
       cap_RequiresIdempotencyKey = True, cap_SupportsDryRun = False,
       cap_Description = ''Reject an invoice and record the rejection reason.'',
       cap_Tags = [zh [0x53D1, 0x7968], zh [0x9A73, 0x56DE], zh [0x62D2, 0x7EDD], zh [0x5BA1, 0x6838]],
       cap_InputSchema = SMap [(''type'', SStr ''object''), (''required'', SList [SStr ''invoice_id'']), (''properties'',
          SMap [(''invoice_id'', SMap [(''type'', SStr ''string'')])])],
       cap_OutputSchema = SMap [(''type'', SStr ''object''), (''properties'', SMap [(''invoice_id'', SMap [(''type'',
          SStr ''string'')]), (''status'', SMap [(''type'', SStr ''string'')])])] \<rparr>"

definition cap_journal_create_draft :: Capability where
  "cap_journal_create_draft =
     \<lparr> cap_Name = ''finance.journal.create_draft'', cap_Domain = ''finance'', cap_Version = ''0.1.0'',
          cap_SideEffect = SideEffectDraftWrite,
       cap_RequiresIdempotencyKey = True, cap_SupportsDryRun = True,
       cap_Description = ''Create a journal entry draft with debit/credit lines.'',
       cap_Tags = [zh [0x51ED, 0x8BC1], zh [0x8BB0, 0x8D26], zh [0x521B, 0x5EFA], zh [0x8349, 0x7A3F], zh [0x5206,
          0x5F55]],
       cap_InputSchema = SMap [(''type'', SStr ''object''), (''required'', SList [SStr ''book_id'', SStr ''period'',
          SStr ''summary'', SStr ''lines'']), (''properties'', SMap [(''book_id'', SMap [(''type'', SStr ''string'')]),
          (''period'', SMap [(''type'', SStr ''string'')]), (''summary'', SMap [(''type'', SStr ''string'')]), (''lines'',
          SMap [(''type'', SStr ''array''), (''items'', SMap [(''type'', SStr ''object''), (''required'',
          SList [SStr ''account_code'', SStr ''direction'', SStr ''debit_amount'', SStr ''credit_amount'']), (''properties'',
          SMap [(''account_code'', SMap [(''type'', SStr ''string'')]), (''account_name'', SMap [(''type'',
          SStr ''string'')]), (''direction'', SMap [(''type'', SStr ''string''), (''enum'', SList [SStr ''debit'',
          SStr ''credit''])]), (''debit_amount'', SMap [(''type'', SStr ''number'')]), (''credit_amount'', SMap [(''type'',
          SStr ''number'')])])])])])],
       cap_OutputSchema = SMap [(''type'', SStr ''object''), (''properties'', SMap [(''journal_entry_id'', SMap [(''type'',
          SStr ''string'')]), (''voucher_no'', SMap [(''type'', SStr ''string'')]), (''status'', SMap [(''type'',
          SStr ''string'')])])] \<rparr>"

definition cap_journal_post :: Capability where
  "cap_journal_post =
     \<lparr> cap_Name = ''finance.journal.post'', cap_Domain = ''finance'', cap_Version = ''0.1.0'',
          cap_SideEffect = SideEffectCommittedWrite,
       cap_RequiresIdempotencyKey = True, cap_SupportsDryRun = False,
       cap_Description = ''Post a journal entry to the general ledger.'',
       cap_Tags = [zh [0x51ED, 0x8BC1], zh [0x8FC7, 0x8D26], zh [0x8BB0, 0x8D26], zh [0x5206, 0x5F55], zh [0x603B,
          0x8D26]],
       cap_InputSchema = SMap [(''type'', SStr ''object''), (''required'', SList [SStr ''journal_entry_id'']),
          (''properties'', SMap [(''journal_entry_id'', SMap [(''type'', SStr ''string'')])])],
       cap_OutputSchema = SMap [(''type'', SStr ''object''), (''properties'', SMap [(''journal_entry_id'', SMap [(''type'',
          SStr ''string'')]), (''status'', SMap [(''type'', SStr ''string'')]), (''voucher_no'', SMap [(''type'',
          SStr ''string'')])])] \<rparr>"

definition cap_journal_void :: Capability where
  "cap_journal_void =
     \<lparr> cap_Name = ''finance.journal.void'', cap_Domain = ''finance'', cap_Version = ''0.1.0'',
          cap_SideEffect = SideEffectDestructive,
       cap_RequiresIdempotencyKey = True, cap_SupportsDryRun = False,
       cap_Description = ''Void a posted journal entry (destructive operation).'',
       cap_Tags = [zh [0x51ED, 0x8BC1], zh [0x4F5C, 0x5E9F], zh [0x51B2, 0x9500]],
       cap_InputSchema = SMap [(''type'', SStr ''object''), (''required'', SList [SStr ''journal_entry_id'']),
          (''properties'', SMap [(''journal_entry_id'', SMap [(''type'', SStr ''string'')])])],
       cap_OutputSchema = SMap [(''type'', SStr ''object''), (''properties'', SMap [(''journal_entry_id'', SMap [(''type'',
          SStr ''string'')]), (''status'', SMap [(''type'', SStr ''string'')])])] \<rparr>"

definition cap_report_trial_balance :: Capability where
  "cap_report_trial_balance =
     \<lparr> cap_Name = ''finance.report.trial_balance'', cap_Domain = ''finance'', cap_Version = ''0.1.0'',
          cap_SideEffect = SideEffectRead,
       cap_RequiresIdempotencyKey = False, cap_SupportsDryRun = False,
       cap_Description = ''Generate trial balance report for a period.'',
       cap_Tags = [zh [0x62A5, 0x8868], zh [0x8BD5, 0x7B97, 0x5E73, 0x8861], zh [0x8D22, 0x52A1], zh [0x6708, 0x7ED3]],
       cap_InputSchema = SMap [(''type'', SStr ''object''), (''required'', SList [SStr ''book_id'', SStr ''period'']),
          (''properties'', SMap [(''book_id'', SMap [(''type'', SStr ''string'')]), (''period'', SMap [(''type'',
          SStr ''string'')])])],
       cap_OutputSchema = SMap [(''type'', SStr ''object''), (''properties'', SMap [(''period'', SMap [(''type'',
          SStr ''string'')]), (''total_debit'', SMap [(''type'', SStr ''number'')]), (''total_credit'', SMap [(''type'',
          SStr ''number'')]), (''balanced'', SMap [(''type'', SStr ''boolean'')])])] \<rparr>"

definition cap_report_account_balance :: Capability where
  "cap_report_account_balance =
     \<lparr> cap_Name = ''finance.report.account_balance'', cap_Domain = ''finance'', cap_Version = ''0.1.0'',
          cap_SideEffect = SideEffectRead,
       cap_RequiresIdempotencyKey = False, cap_SupportsDryRun = False,
       cap_Description = ''Generate account balance report for a period.'',
       cap_Tags = [zh [0x62A5, 0x8868], zh [0x79D1, 0x76EE, 0x4F59, 0x989D], zh [0x4F59, 0x989D, 0x8868], zh [0x8D22,
          0x52A1]],
       cap_InputSchema = SMap [(''type'', SStr ''object''), (''required'', SList [SStr ''book_id'', SStr ''period'']),
          (''properties'', SMap [(''book_id'', SMap [(''type'', SStr ''string'')]), (''period'', SMap [(''type'',
          SStr ''string'')])])],
       cap_OutputSchema = SMap [(''type'', SStr ''object''), (''properties'', SMap [(''period'', SMap [(''type'',
          SStr ''string'')])])] \<rparr>"

definition cap_period_close_check :: Capability where
  "cap_period_close_check =
     \<lparr> cap_Name = ''finance.period.close_check'', cap_Domain = ''finance'', cap_Version = ''0.1.0'',
          cap_SideEffect = SideEffectRead,
       cap_RequiresIdempotencyKey = False, cap_SupportsDryRun = False,
       cap_Description = ''Check if a period is ready to be closed.'',
       cap_Tags = [zh [0x671F, 0x95F4], zh [0x5173, 0x8D26, 0x68C0, 0x67E5], zh [0x6708, 0x7ED3], zh [0x6821, 0x9A8C]],
       cap_InputSchema = SMap [(''type'', SStr ''object''), (''required'', SList [SStr ''book_id'', SStr ''period'']),
          (''properties'', SMap [(''book_id'', SMap [(''type'', SStr ''string'')]), (''period'', SMap [(''type'',
          SStr ''string'')])])],
       cap_OutputSchema = SMap [(''type'', SStr ''object''), (''properties'', SMap [(''passed'', SMap [(''type'',
          SStr ''boolean'')]), (''period'', SMap [(''type'', SStr ''string'')]), (''summary'', SMap [(''type'',
          SStr ''string'')])])] \<rparr>"

definition cap_period_close :: Capability where
  "cap_period_close =
     \<lparr> cap_Name = ''finance.period.close'', cap_Domain = ''finance'', cap_Version = ''0.1.0'',
          cap_SideEffect = SideEffectCommittedWrite,
       cap_RequiresIdempotencyKey = True, cap_SupportsDryRun = False,
       cap_Description = ''Close an accounting period.'',
       cap_Tags = [zh [0x671F, 0x95F4], zh [0x5173, 0x8D26], zh [0x6708, 0x7ED3], zh [0x7ED3, 0x8D26]],
       cap_InputSchema = SMap [(''type'', SStr ''object''), (''required'', SList [SStr ''book_id'', SStr ''period'']),
          (''properties'', SMap [(''book_id'', SMap [(''type'', SStr ''string'')]), (''period'', SMap [(''type'',
          SStr ''string'')])])],
       cap_OutputSchema = SMap [(''type'', SStr ''object''), (''properties'', SMap [(''period'', SMap [(''type'',
          SStr ''string'')]), (''status'', SMap [(''type'', SStr ''string'')])])] \<rparr>"

definition cap_period_lock :: Capability where
  "cap_period_lock =
     \<lparr> cap_Name = ''finance.period.lock'', cap_Domain = ''finance'', cap_Version = ''0.1.0'',
          cap_SideEffect = SideEffectCommittedWrite,
       cap_RequiresIdempotencyKey = True, cap_SupportsDryRun = False,
       cap_Description = ''Lock an accounting period preventing further writes.'',
       cap_Tags = [zh [0x671F, 0x95F4], zh [0x9501, 0x8D26], zh [0x9501, 0x5B9A]],
       cap_InputSchema = SMap [(''type'', SStr ''object''), (''required'', SList [SStr ''book_id'', SStr ''period'']),
          (''properties'', SMap [(''book_id'', SMap [(''type'', SStr ''string'')]), (''period'', SMap [(''type'',
          SStr ''string'')])])],
       cap_OutputSchema = SMap [(''type'', SStr ''object''), (''properties'', SMap [(''period'', SMap [(''type'',
          SStr ''string'')]), (''status'', SMap [(''type'', SStr ''string'')])])] \<rparr>"

definition cap_period_reopen :: Capability where
  "cap_period_reopen =
     \<lparr> cap_Name = ''finance.period.reopen'', cap_Domain = ''finance'', cap_Version = ''0.1.0'',
          cap_SideEffect = SideEffectDestructive,
       cap_RequiresIdempotencyKey = True, cap_SupportsDryRun = False,
       cap_Description = ''Reopen a closed accounting period (destructive operation).'',
       cap_Tags = [zh [0x671F, 0x95F4], zh [0x53CD, 0x5173, 0x8D26], zh [0x91CD, 0x5F00], zh [0x53D6, 0x6D88, 0x7ED3,
          0x8D26]],
       cap_InputSchema = SMap [(''type'', SStr ''object''), (''required'', SList [SStr ''book_id'', SStr ''period'']),
          (''properties'', SMap [(''book_id'', SMap [(''type'', SStr ''string'')]), (''period'', SMap [(''type'',
          SStr ''string'')])])],
       cap_OutputSchema = SMap [(''type'', SStr ''object''), (''properties'', SMap [(''period'', SMap [(''type'',
          SStr ''string'')]), (''status'', SMap [(''type'', SStr ''string'')])])] \<rparr>"

definition cap_reconciliation_upsert_logistics :: Capability where
  "cap_reconciliation_upsert_logistics =
     \<lparr> cap_Name = ''finance.reconciliation.upsert_logistics'', cap_Domain = ''finance'', cap_Version = ''0.1.0'',
          cap_SideEffect = SideEffectCommittedWrite,
       cap_RequiresIdempotencyKey = True, cap_SupportsDryRun = False,
       cap_Description = ''Create or update a logistics record for an invoice.'',
       cap_Tags = [zh [0x5BF9, 0x8D26], zh [0x7269, 0x6D41], zh [0x8FD0, 0x5355], zh [0x5FEB, 0x9012]],
       cap_InputSchema = SMap [(''type'', SStr ''object''), (''required'', SList [SStr ''invoice_id'',
          SStr ''waybill_no'']), (''properties'', SMap [(''invoice_id'', SMap [(''type'', SStr ''string'')]), (''waybill_no'',
          SMap [(''type'', SStr ''string'')]), (''carrier'', SMap [(''type'', SStr ''string'')]), (''status'',
          SMap [(''type'', SStr ''string''), (''enum'', SList [SStr ''shipped'', SStr ''in_transit'', SStr ''delivered''])]),
          (''ship_date'', SMap [(''type'', SStr ''string'')])])],
       cap_OutputSchema = SMap [(''type'', SStr ''object''), (''properties'', SMap [(''logistics_id'', SMap [(''type'',
          SStr ''string'')])])] \<rparr>"

definition cap_reconciliation_upsert_bank_transaction :: Capability where
  "cap_reconciliation_upsert_bank_transaction =
     \<lparr> cap_Name = ''finance.reconciliation.upsert_bank_transaction'', cap_Domain = ''finance'', cap_Version = ''0.1.0'',
          cap_SideEffect = SideEffectCommittedWrite,
       cap_RequiresIdempotencyKey = True, cap_SupportsDryRun = False,
       cap_Description = ''Create or update a bank transaction record.'',
       cap_Tags = [zh [0x5BF9, 0x8D26], zh [0x94F6, 0x884C, 0x6D41, 0x6C34], zh [0x4EA4, 0x6613], zh [0x94F6, 0x4F01]],
       cap_InputSchema = SMap [(''type'', SStr ''object''), (''required'', SList [SStr ''transaction_date'',
          SStr ''counterparty_name'', SStr ''amount'', SStr ''direction'']), (''properties'', SMap [(''transaction_date'',
          SMap [(''type'', SStr ''string'')]), (''counterparty_name'', SMap [(''type'', SStr ''string'')]),
          (''counterparty_account'', SMap [(''type'', SStr ''string'')]), (''amount'', SMap [(''type'', SStr ''number'')]),
          (''direction'', SMap [(''type'', SStr ''string''), (''enum'', SList [SStr ''in'', SStr ''out''])]), (''summary'',
          SMap [(''type'', SStr ''string'')]), (''bank_reference'', SMap [(''type'', SStr ''string'')])])],
       cap_OutputSchema = SMap [(''type'', SStr ''object''), (''properties'', SMap [(''bank_transaction_id'',
          SMap [(''type'', SStr ''string'')])])] \<rparr>"

definition cap_reconciliation_match_bank :: Capability where
  "cap_reconciliation_match_bank =
     \<lparr> cap_Name = ''finance.reconciliation.match_bank'', cap_Domain = ''finance'', cap_Version = ''0.1.0'',
          cap_SideEffect = SideEffectCommittedWrite,
       cap_RequiresIdempotencyKey = True, cap_SupportsDryRun = False,
       cap_Description = ''Match a bank transaction to an invoice for reconciliation.'',
       cap_Tags = [zh [0x5BF9, 0x8D26], zh [0x94F6, 0x4F01, 0x5BF9, 0x8D26], zh [0x5339, 0x914D], zh [0x6838, 0x9500]],
       cap_InputSchema = SMap [(''type'', SStr ''object''), (''required'', SList [SStr ''bank_transaction_id'',
          SStr ''invoice_id'']), (''properties'', SMap [(''bank_transaction_id'', SMap [(''type'', SStr ''string'')]),
          (''invoice_id'', SMap [(''type'', SStr ''string'')]), (''confidence'', SMap [(''type'', SStr ''number'')])])],
       cap_OutputSchema = SMap [(''type'', SStr ''object''), (''properties'', SMap [(''status'', SMap [(''type'',
          SStr ''string'')])])] \<rparr>"

definition cap_reconciliation_unmatch_bank :: Capability where
  "cap_reconciliation_unmatch_bank =
     \<lparr> cap_Name = ''finance.reconciliation.unmatch_bank'', cap_Domain = ''finance'', cap_Version = ''0.1.0'',
          cap_SideEffect = SideEffectCommittedWrite,
       cap_RequiresIdempotencyKey = True, cap_SupportsDryRun = False,
       cap_Description = ''Unmatch a bank transaction from its linked invoice.'',
       cap_Tags = [zh [0x5BF9, 0x8D26], zh [0x53D6, 0x6D88, 0x5339, 0x914D], zh [0x89E3, 0x7ED1]],
       cap_InputSchema = SMap [(''type'', SStr ''object''), (''required'', SList [SStr ''bank_transaction_id'']),
          (''properties'', SMap [(''bank_transaction_id'', SMap [(''type'', SStr ''string'')])])],
       cap_OutputSchema = SMap [(''type'', SStr ''object''), (''properties'', SMap [(''status'', SMap [(''type'',
          SStr ''string'')])])] \<rparr>"

definition cap_report_profit_statement :: Capability where
  "cap_report_profit_statement =
     \<lparr> cap_Name = ''finance.report.profit_statement'', cap_Domain = ''finance'', cap_Version = ''0.1.0'',
          cap_SideEffect = SideEffectRead,
       cap_RequiresIdempotencyKey = False, cap_SupportsDryRun = False,
       cap_Description = ''Generate a profit/loss statement for a period.'',
       cap_Tags = [zh [0x62A5, 0x8868], zh [0x5229, 0x6DA6, 0x8868], zh [0x635F, 0x76CA, 0x8868], zh [0x8D22, 0x52A1]],
       cap_InputSchema = SMap [(''type'', SStr ''object''), (''required'', SList [SStr ''book_id'', SStr ''period'']),
          (''properties'', SMap [(''book_id'', SMap [(''type'', SStr ''string'')]), (''period'', SMap [(''type'',
          SStr ''string'')]), (''accounting_standard'', SMap [(''type'', SStr ''string'')])])],
       cap_OutputSchema = SMap [(''type'', SStr ''object''), (''properties'', SMap [(''revenue'', SMap [(''type'',
          SStr ''number'')]), (''operating_profit'', SMap [(''type'', SStr ''number'')]), (''net_profit'', SMap [(''type'',
          SStr ''number'')])])] \<rparr>"

definition cap_report_balance_sheet :: Capability where
  "cap_report_balance_sheet =
     \<lparr> cap_Name = ''finance.report.balance_sheet'', cap_Domain = ''finance'', cap_Version = ''0.1.0'',
          cap_SideEffect = SideEffectRead,
       cap_RequiresIdempotencyKey = False, cap_SupportsDryRun = False,
       cap_Description = ''Generate a balance sheet for a period.'',
       cap_Tags = [zh [0x62A5, 0x8868], zh [0x8D44, 0x4EA7, 0x8D1F, 0x503A, 0x8868], zh [0x8D22, 0x52A1]],
       cap_InputSchema = SMap [(''type'', SStr ''object''), (''required'', SList [SStr ''book_id'', SStr ''period'']),
          (''properties'', SMap [(''book_id'', SMap [(''type'', SStr ''string'')]), (''period'', SMap [(''type'',
          SStr ''string'')]), (''accounting_standard'', SMap [(''type'', SStr ''string'')])])],
       cap_OutputSchema = SMap [(''type'', SStr ''object''), (''properties'', SMap [(''total_assets'', SMap [(''type'',
          SStr ''number'')]), (''total_liabilities'', SMap [(''type'', SStr ''number'')]), (''total_equity'', SMap [(''type'',
          SStr ''number'')])])] \<rparr>"

definition cap_report_vat_cross_check :: Capability where
  "cap_report_vat_cross_check =
     \<lparr> cap_Name = ''finance.report.vat_cross_check'', cap_Domain = ''finance'', cap_Version = ''0.1.0'',
          cap_SideEffect = SideEffectRead,
       cap_RequiresIdempotencyKey = False, cap_SupportsDryRun = False,
       cap_Description = ''Cross-check VAT output tax against input tax for a period.'',
       cap_Tags = [zh [0x62A5, 0x8868], zh [0x589E, 0x503C, 0x7A0E], zh [0x4EA4, 0x53C9, 0x68C0, 0x67E5], zh [0x7A0E,
          0x52A1]],
       cap_InputSchema = SMap [(''type'', SStr ''object''), (''required'', SList [SStr ''book_id'', SStr ''period'']),
          (''properties'', SMap [(''book_id'', SMap [(''type'', SStr ''string'')]), (''period'', SMap [(''type'',
          SStr ''string'')])])],
       cap_OutputSchema = SMap [(''type'', SStr ''object''), (''properties'', SMap [(''output_total'', SMap [(''type'',
          SStr ''number'')]), (''input_total'', SMap [(''type'', SStr ''number'')]), (''net_payable'', SMap [(''type'',
          SStr ''number'')])])] \<rparr>"

definition cap_report_vat_return :: Capability where
  "cap_report_vat_return =
     \<lparr> cap_Name = ''finance.report.vat_return'', cap_Domain = ''finance'', cap_Version = ''0.1.0'',
          cap_SideEffect = SideEffectRead,
       cap_RequiresIdempotencyKey = False, cap_SupportsDryRun = False,
       cap_Description = ''Generate a VAT return report with main schedule data.'',
       cap_Tags = [zh [0x62A5, 0x8868], zh [0x589E, 0x503C, 0x7A0E, 0x7533, 0x62A5], zh [0x7EB3, 0x7A0E, 0x7533, 0x62A5],
          zh [0x7A0E, 0x52A1]],
       cap_InputSchema = SMap [(''type'', SStr ''object''), (''required'', SList [SStr ''book_id'', SStr ''period'']),
          (''properties'', SMap [(''book_id'', SMap [(''type'', SStr ''string'')]), (''period'', SMap [(''type'',
          SStr ''string'')])])],
       cap_OutputSchema = SMap [(''type'', SStr ''object''), (''properties'', SMap [(''main'', SMap [(''type'',
          SStr ''object'')])])] \<rparr>"

definition cap_report_cross_tax_validation :: Capability where
  "cap_report_cross_tax_validation =
     \<lparr> cap_Name = ''finance.report.cross_tax_validation'', cap_Domain = ''finance'', cap_Version = ''0.1.0'',
          cap_SideEffect = SideEffectRead,
       cap_RequiresIdempotencyKey = False, cap_SupportsDryRun = False,
       cap_Description = ''Validate consistency between VAT sales and CIT revenue.'',
       cap_Tags = [zh [0x62A5, 0x8868], zh [0x7A0E, 0x79CD, 0x4EA4, 0x53C9, 0x6821, 0x9A8C], zh [0x7A0E, 0x52A1],
          zh [0x5408, 0x89C4]],
       cap_InputSchema = SMap [(''type'', SStr ''object''), (''required'', SList [SStr ''book_id'', SStr ''period'']),
          (''properties'', SMap [(''book_id'', SMap [(''type'', SStr ''string'')]), (''period'', SMap [(''type'',
          SStr ''string'')])])],
       cap_OutputSchema = SMap [(''type'', SStr ''object''), (''properties'', SMap [(''vat_sales'', SMap [(''type'',
          SStr ''number'')]), (''cit_revenue'', SMap [(''type'', SStr ''number'')]), (''consistent'', SMap [(''type'',
          SStr ''boolean'')])])] \<rparr>"

definition cap_report_three_way_match :: Capability where
  "cap_report_three_way_match =
     \<lparr> cap_Name = ''finance.report.three_way_match'', cap_Domain = ''finance'', cap_Version = ''0.1.0'',
          cap_SideEffect = SideEffectRead,
       cap_RequiresIdempotencyKey = False, cap_SupportsDryRun = False,
       cap_Description = ''Three-way matching: invoice, logistics, and bank transaction.'',
       cap_Tags = [zh [0x62A5, 0x8868], zh [0x4E09, 0x5355, 0x5339, 0x914D], zh [0x5BF9, 0x8D26], zh [0x53D1, 0x7968]],
       cap_InputSchema = SMap [(''type'', SStr ''object''), (''required'', SList [SStr ''book_id'', SStr ''period'']),
          (''properties'', SMap [(''book_id'', SMap [(''type'', SStr ''string'')]), (''period'', SMap [(''type'',
          SStr ''string'')])])],
       cap_OutputSchema = SMap [(''type'', SStr ''object''), (''properties'', SMap [(''period'', SMap [(''type'',
          SStr ''string'')]), (''total_count'', SMap [(''type'', SStr ''integer'')]), (''full_match'', SMap [(''type'',
          SStr ''integer'')]), (''missing_bank'', SMap [(''type'', SStr ''integer'')])])] \<rparr>"

definition cap_tax_calculate_vat :: Capability where
  "cap_tax_calculate_vat =
     \<lparr> cap_Name = ''finance.tax.calculate_vat'', cap_Domain = ''finance'', cap_Version = ''0.1.0'',
          cap_SideEffect = SideEffectRead,
       cap_RequiresIdempotencyKey = False, cap_SupportsDryRun = False,
       cap_Description = ''Calculate VAT payable based on taxpayer type and input/output tax.'',
       cap_Tags = [zh [0x7A0E, 0x52A1], zh [0x589E, 0x503C, 0x7A0E], zh [0x8BA1, 0x7B97], zh [0x7A0E, 0x91D1]],
       cap_InputSchema = SMap [(''type'', SStr ''object''), (''required'', SList [SStr ''taxpayer_type'',
          SStr ''output_tax'', SStr ''input_tax'']), (''properties'', SMap [(''taxpayer_type'', SMap [(''type'',
          SStr ''string''), (''enum'', SList [SStr ''general'', SStr ''small_scale''])]), (''output_tax'', SMap [(''type'',
          SStr ''number'')]), (''input_tax'', SMap [(''type'', SStr ''number'')]), (''sales_amount'', SMap [(''type'',
          SStr ''number'')]), (''levy_rate'', SMap [(''type'', SStr ''number'')]), (''location'', SMap [(''type'',
          SStr ''string''), (''enum'', SList [SStr ''city'', SStr ''town'', SStr ''other''])])])],
       cap_OutputSchema = SMap [(''type'', SStr ''object''), (''properties'', SMap [(''vat_payable'', SMap [(''type'',
          SStr ''number'')]), (''total_tax'', SMap [(''type'', SStr ''number'')])])] \<rparr>"

definition cap_tax_calculate_stamp :: Capability where
  "cap_tax_calculate_stamp =
     \<lparr> cap_Name = ''finance.tax.calculate_stamp'', cap_Domain = ''finance'', cap_Version = ''0.1.0'',
          cap_SideEffect = SideEffectRead,
       cap_RequiresIdempotencyKey = False, cap_SupportsDryRun = False,
       cap_Description = ''Calculate stamp tax based on contract category and amount.'',
       cap_Tags = [zh [0x7A0E, 0x52A1], zh [0x5370, 0x82B1, 0x7A0E], zh [0x8BA1, 0x7B97], zh [0x7A0E, 0x91D1]],
       cap_InputSchema = SMap [(''type'', SStr ''object''), (''required'', SList [SStr ''category'', SStr ''amount'']),
          (''properties'', SMap [(''category'', SMap [(''type'', SStr ''string'')]), (''amount'', SMap [(''type'',
          SStr ''number'')]), (''count'', SMap [(''type'', SStr ''integer'')])])],
       cap_OutputSchema = SMap [(''type'', SStr ''object''), (''properties'', SMap [(''tax_payable'', SMap [(''type'',
          SStr ''number'')])])] \<rparr>"

definition cap_tax_calculate_pit :: Capability where
  "cap_tax_calculate_pit =
     \<lparr> cap_Name = ''finance.tax.calculate_pit'', cap_Domain = ''finance'', cap_Version = ''0.1.0'',
          cap_SideEffect = SideEffectRead,
       cap_RequiresIdempotencyKey = False, cap_SupportsDryRun = False,
       cap_Description = ''Calculate monthly personal income tax withholding.'',
       cap_Tags = [zh [0x7A0E, 0x52A1], zh [0x4E2A, 0x4EBA, 0x6240, 0x5F97, 0x7A0E], zh [0x4E2A, 0x7A0E], zh [0x5DE5,
          0x8D44]],
       cap_InputSchema = SMap [(''type'', SStr ''object''), (''required'', SList [SStr ''monthly_salary'',
          SStr ''accumulated_salary'', SStr ''months'']), (''properties'', SMap [(''monthly_salary'', SMap [(''type'',
          SStr ''number'')]), (''accumulated_salary'', SMap [(''type'', SStr ''number'')]), (''months'', SMap [(''type'',
          SStr ''integer'')])])],
       cap_OutputSchema = SMap [(''type'', SStr ''object''), (''properties'', SMap [(''current_month_tax'',
          SMap [(''type'', SStr ''number'')])])] \<rparr>"

definition cap_report_cit_return :: Capability where
  "cap_report_cit_return =
     \<lparr> cap_Name = ''finance.report.cit_return'', cap_Domain = ''finance'', cap_Version = ''0.1.0'',
          cap_SideEffect = SideEffectRead,
       cap_RequiresIdempotencyKey = False, cap_SupportsDryRun = False,
       cap_Description = ''Generate corporate income tax (CIT) annual return.'',
       cap_Tags = [zh [0x62A5, 0x8868], zh [0x4F01, 0x4E1A, 0x6240, 0x5F97, 0x7A0E], zh [0x6C47, 0x7B97, 0x6E05, 0x7F34],
          zh [0x7A0E, 0x52A1]],
       cap_InputSchema = SMap [(''type'', SStr ''object''), (''required'', SList [SStr ''book_id'', SStr ''tax_year'']),
          (''properties'', SMap [(''book_id'', SMap [(''type'', SStr ''string'')]), (''tax_year'', SMap [(''type'',
          SStr ''string'')])])],
       cap_OutputSchema = SMap [(''type'', SStr ''object''), (''properties'', SMap [(''taxable_income'', SMap [(''type'',
          SStr ''number'')]), (''tax_payable'', SMap [(''type'', SStr ''number'')]), (''tax_due'', SMap [(''type'',
          SStr ''number'')])])] \<rparr>"

definition cap_tax_list_adjustments :: Capability where
  "cap_tax_list_adjustments =
     \<lparr> cap_Name = ''finance.tax.list_adjustments'', cap_Domain = ''finance'', cap_Version = ''0.1.0'',
          cap_SideEffect = SideEffectRead,
       cap_RequiresIdempotencyKey = False, cap_SupportsDryRun = False,
       cap_Description = ''List tax adjustment records for a given tax year.'',
       cap_Tags = [zh [0x7A0E, 0x52A1], zh [0x7EB3, 0x7A0E, 0x8C03, 0x6574], zh [0x5217, 0x8868], zh [0x6C47, 0x7B97]],
       cap_InputSchema = SMap [(''type'', SStr ''object''), (''required'', SList [SStr ''tax_year'']), (''properties'',
          SMap [(''tax_year'', SMap [(''type'', SStr ''string'')]), (''category'', SMap [(''type'', SStr ''string'')])])],
       cap_OutputSchema = SMap [(''type'', SStr ''object''), (''properties'', SMap [(''items'', SMap [(''type'',
          SStr ''array'')])])] \<rparr>"

definition cap_tax_upsert_adjustments :: Capability where
  "cap_tax_upsert_adjustments =
     \<lparr> cap_Name = ''finance.tax.upsert_adjustments'', cap_Domain = ''finance'', cap_Version = ''0.1.0'',
          cap_SideEffect = SideEffectCommittedWrite,
       cap_RequiresIdempotencyKey = True, cap_SupportsDryRun = False,
       cap_Description = ''Create or update tax adjustment records (e.g., deductions, top-ups).'',
       cap_Tags = [zh [0x7A0E, 0x52A1], zh [0x7EB3, 0x7A0E, 0x8C03, 0x6574], zh [0x66F4, 0x65B0], zh [0x6C47, 0x7B97]],
       cap_InputSchema = SMap [(''type'', SStr ''object''), (''required'', SList [SStr ''book_id'', SStr ''tax_year'',
          SStr ''adjustments'']), (''properties'', SMap [(''book_id'', SMap [(''type'', SStr ''string'')]), (''tax_year'',
          SMap [(''type'', SStr ''string'')]), (''adjustments'', SMap [(''type'', SStr ''array'')])])],
       cap_OutputSchema = SMap [(''type'', SStr ''object''), (''properties'', SMap [(''status'', SMap [(''type'',
          SStr ''string'')])])] \<rparr>"

definition cap_report_tax_risk :: Capability where
  "cap_report_tax_risk =
     \<lparr> cap_Name = ''finance.report.tax_risk'', cap_Domain = ''finance'', cap_Version = ''0.1.0'',
          cap_SideEffect = SideEffectRead,
       cap_RequiresIdempotencyKey = False, cap_SupportsDryRun = False,
       cap_Description = ''Evaluate tax risk indicators and compliance gaps.'',
       cap_Tags = [zh [0x62A5, 0x8868], zh [0x7A0E, 0x52A1, 0x98CE, 0x9669], zh [0x98CE, 0x63A7], zh [0x5408, 0x89C4]],
       cap_InputSchema = SMap [(''type'', SStr ''object''), (''required'', SList [SStr ''book_id'', SStr ''period'']),
          (''properties'', SMap [(''book_id'', SMap [(''type'', SStr ''string'')]), (''period'', SMap [(''type'',
          SStr ''string'')])])],
       cap_OutputSchema = SMap [(''type'', SStr ''object''), (''properties'', SMap [(''total_risks'', SMap [(''type'',
          SStr ''integer'')]), (''danger_count'', SMap [(''type'', SStr ''integer'')])])] \<rparr>"

definition cap_risk_scan :: Capability where
  "cap_risk_scan =
     \<lparr> cap_Name = ''finance.risk.scan'', cap_Domain = ''finance'', cap_Version = ''0.1.0'',
          cap_SideEffect = SideEffectRead,
       cap_RequiresIdempotencyKey = False, cap_SupportsDryRun = False,
       cap_Description = ''Scan for financial risks across invoices, journals, and tax data.'',
       cap_Tags = [zh [0x98CE, 0x63A7], zh [0x98CE, 0x9669, 0x626B, 0x63CF], zh [0x5408, 0x89C4], zh [0x5BA1, 0x8BA1]],
       cap_InputSchema = SMap [(''type'', SStr ''object''), (''required'', SList [SStr ''book_id'', SStr ''period'']),
          (''properties'', SMap [(''book_id'', SMap [(''type'', SStr ''string'')]), (''period'', SMap [(''type'',
          SStr ''string'')])])],
       cap_OutputSchema = SMap [(''type'', SStr ''object''), (''properties'', SMap [(''findings'', SMap [(''type'',
          SStr ''array'')])])] \<rparr>"

definition cap_consistency_check :: Capability where
  "cap_consistency_check =
     \<lparr> cap_Name = ''finance.consistency.check'', cap_Domain = ''finance'', cap_Version = ''0.1.0'',
          cap_SideEffect = SideEffectRead,
       cap_RequiresIdempotencyKey = False, cap_SupportsDryRun = False,
       cap_Description = ''Run consistency checks across invoices, accounts, and journal entries.'',
       cap_Tags = [zh [0x4E00, 0x81F4, 0x6027], zh [0x68C0, 0x67E5], zh [0x6821, 0x9A8C], zh [0x5BA1, 0x8BA1]],
       cap_InputSchema = SMap [(''type'', SStr ''object''), (''required'', SList [SStr ''book_id'', SStr ''period'']),
          (''properties'', SMap [(''book_id'', SMap [(''type'', SStr ''string'')]), (''period'', SMap [(''type'',
          SStr ''string'')])])],
       cap_OutputSchema = SMap [(''type'', SStr ''object''), (''properties'', SMap [(''checks'', SMap [(''type'',
          SStr ''array'')])])] \<rparr>"

definition cap_period_enhanced_close_check :: Capability where
  "cap_period_enhanced_close_check =
     \<lparr> cap_Name = ''finance.period.enhanced_close_check'', cap_Domain = ''finance'', cap_Version = ''0.1.0'',
          cap_SideEffect = SideEffectRead,
       cap_RequiresIdempotencyKey = False, cap_SupportsDryRun = False,
       cap_Description = ''Enhanced period close check including tax, risk, and consistency.'',
       cap_Tags = [zh [0x671F, 0x95F4], zh [0x5173, 0x8D26, 0x68C0, 0x67E5], zh [0x589E, 0x5F3A, 0x68C0, 0x67E5],
          zh [0x6708, 0x7ED3]],
       cap_InputSchema = SMap [(''type'', SStr ''object''), (''required'', SList [SStr ''book_id'', SStr ''period'']),
          (''properties'', SMap [(''book_id'', SMap [(''type'', SStr ''string'')]), (''period'', SMap [(''type'',
          SStr ''string'')])])],
       cap_OutputSchema = SMap [(''type'', SStr ''object''), (''properties'', SMap [(''passed'', SMap [(''type'',
          SStr ''boolean'')]), (''summary'', SMap [(''type'', SStr ''string'')])])] \<rparr>"

definition cap_invoice_create_red_letter :: Capability where
  "cap_invoice_create_red_letter =
     \<lparr> cap_Name = ''finance.invoice.create_red_letter'', cap_Domain = ''finance'', cap_Version = ''0.1.0'',
          cap_SideEffect = SideEffectDraftWrite,
       cap_RequiresIdempotencyKey = True, cap_SupportsDryRun = True,
       cap_Description = ''Create a red-letter invoice to offset an existing invoice.'',
       cap_Tags = [zh [0x53D1, 0x7968], zh [0x7EA2, 0x51B2], zh [0x7EA2, 0x5B57], zh [0x51B2, 0x9500]],
       cap_InputSchema = SMap [(''type'', SStr ''object''), (''required'', SList [SStr ''original_invoice_id'',
          SStr ''red_type'']), (''properties'', SMap [(''book_id'', SMap [(''type'', SStr ''string'')]),
          (''original_invoice_id'', SMap [(''type'', SStr ''string'')]), (''red_type'', SMap [(''type'', SStr ''string''),
          (''enum'', SList [SStr ''partially'', SStr ''fully''])])])],
       cap_OutputSchema = SMap [(''type'', SStr ''object''), (''properties'', SMap [(''invoice_id'', SMap [(''type'',
          SStr ''string'')]), (''status'', SMap [(''type'', SStr ''string'')])])] \<rparr>"

definition cap_invoice_import_einvoice :: Capability where
  "cap_invoice_import_einvoice =
     \<lparr> cap_Name = ''finance.invoice.import_einvoice'', cap_Domain = ''finance'', cap_Version = ''0.1.0'',
          cap_SideEffect = SideEffectDraftWrite,
       cap_RequiresIdempotencyKey = True, cap_SupportsDryRun = True,
       cap_Description = ''Import an e-invoice from external structured data.'',
       cap_Tags = [zh [0x53D1, 0x7968], zh [0x7535, 0x5B50, 0x53D1, 0x7968], zh [0x5BFC, 0x5165], ''OCR''],
       cap_InputSchema = SMap [(''type'', SStr ''object''), (''required'', SList [SStr ''einvoice'']), (''properties'',
          SMap [(''book_id'', SMap [(''type'', SStr ''string'')]), (''einvoice'', SMap [(''type'', SStr ''object'')])])],
       cap_OutputSchema = SMap [(''type'', SStr ''object''), (''properties'', SMap [(''invoice_id'', SMap [(''type'',
          SStr ''string'')]), (''status'', SMap [(''type'', SStr ''string'')])])] \<rparr>"

definition cap_invoice_verify :: Capability where
  "cap_invoice_verify =
     \<lparr> cap_Name = ''finance.invoice.verify'', cap_Domain = ''finance'', cap_Version = ''0.1.0'',
          cap_SideEffect = SideEffectCommittedWrite,
       cap_RequiresIdempotencyKey = True, cap_SupportsDryRun = False,
       cap_Description = ''Verify an invoice against tax authority records.'',
       cap_Tags = [zh [0x53D1, 0x7968], zh [0x9A8C, 0x771F], zh [0x9A8C, 0x8BC1], zh [0x771F, 0x4F2A]],
       cap_InputSchema = SMap [(''type'', SStr ''object''), (''required'', SList [SStr ''invoice_id'']), (''properties'',
          SMap [(''invoice_id'', SMap [(''type'', SStr ''string'')])])],
       cap_OutputSchema = SMap [(''type'', SStr ''object''), (''properties'', SMap [(''status'', SMap [(''type'',
          SStr ''string'')])])] \<rparr>"

definition cap_invoice_confirm_usage :: Capability where
  "cap_invoice_confirm_usage =
     \<lparr> cap_Name = ''finance.invoice.confirm_usage'', cap_Domain = ''finance'', cap_Version = ''0.1.0'',
          cap_SideEffect = SideEffectCommittedWrite,
       cap_RequiresIdempotencyKey = True, cap_SupportsDryRun = False,
       cap_Description = ''Confirm invoice usage status for tax deduction purposes.'',
       cap_Tags = [zh [0x53D1, 0x7968], zh [0x7528, 0x9014, 0x786E, 0x8BA4], zh [0x52FE, 0x9009], zh [0x62B5, 0x6263]],
       cap_InputSchema = SMap [(''type'', SStr ''object''), (''required'', SList [SStr ''invoice_id'',
          SStr ''usage_status'']), (''properties'', SMap [(''invoice_id'', SMap [(''type'', SStr ''string'')]),
          (''usage_status'', SMap [(''type'', SStr ''string''), (''enum'', SList [SStr ''confirmed'', SStr ''partial'',
          SStr ''unconfirmed''])])])],
       cap_OutputSchema = SMap [(''type'', SStr ''object''), (''properties'', SMap [(''status'', SMap [(''type'',
          SStr ''string'')])])] \<rparr>"

definition cap_journal_update_draft :: Capability where
  "cap_journal_update_draft =
     \<lparr> cap_Name = ''finance.journal.update_draft'', cap_Domain = ''finance'', cap_Version = ''0.1.0'',
          cap_SideEffect = SideEffectDraftWrite,
       cap_RequiresIdempotencyKey = True, cap_SupportsDryRun = True,
       cap_Description = ''Update a draft journal entry (lines, summary, accounts).'',
       cap_Tags = [zh [0x51ED, 0x8BC1], zh [0x4FEE, 0x6539], zh [0x66F4, 0x65B0], zh [0x8349, 0x7A3F], zh [0x5206,
          0x5F55]],
       cap_InputSchema = SMap [(''type'', SStr ''object''), (''required'', SList [SStr ''journal_entry_id'',
          SStr ''summary'', SStr ''lines'']), (''properties'', SMap [(''journal_entry_id'', SMap [(''type'',
          SStr ''string'')]), (''summary'', SMap [(''type'', SStr ''string'')]), (''lines'', SMap [(''type'',
          SStr ''array'')])])],
       cap_OutputSchema = SMap [(''type'', SStr ''object''), (''properties'', SMap [(''journal_entry_id'', SMap [(''type'',
          SStr ''string'')]), (''status'', SMap [(''type'', SStr ''string'')])])] \<rparr>"

definition cap_journal_batch_post :: Capability where
  "cap_journal_batch_post =
     \<lparr> cap_Name = ''finance.journal.batch_post'', cap_Domain = ''finance'', cap_Version = ''0.1.0'',
          cap_SideEffect = SideEffectCommittedWrite,
       cap_RequiresIdempotencyKey = True, cap_SupportsDryRun = False,
       cap_Description = ''Post multiple journal entries to the general ledger in one batch.'',
       cap_Tags = [zh [0x51ED, 0x8BC1], zh [0x6279, 0x91CF, 0x8FC7, 0x8D26], zh [0x8BB0, 0x8D26]],
       cap_InputSchema = SMap [(''type'', SStr ''object''), (''required'', SList [SStr ''journal_entry_ids'']),
          (''properties'', SMap [(''journal_entry_ids'', SMap [(''type'', SStr ''array''), (''items'', SMap [(''type'',
          SStr ''string'')])])])],
       cap_OutputSchema = SMap [(''type'', SStr ''object''), (''properties'', SMap [(''count'', SMap [(''type'',
          SStr ''integer'')])])] \<rparr>"

definition cap_export_trial_balance :: Capability where
  "cap_export_trial_balance =
     \<lparr> cap_Name = ''finance.export.trial_balance'', cap_Domain = ''finance'', cap_Version = ''0.1.0'',
          cap_SideEffect = SideEffectRead,
       cap_RequiresIdempotencyKey = False, cap_SupportsDryRun = False,
       cap_Description = ''Export trial balance report as CSV.'',
       cap_Tags = [zh [0x5BFC, 0x51FA], zh [0x8BD5, 0x7B97, 0x5E73, 0x8861], ''CSV'', zh [0x62A5, 0x8868]],
       cap_InputSchema = SMap [(''type'', SStr ''object''), (''required'', SList [SStr ''book_id'', SStr ''period'']),
          (''properties'', SMap [(''book_id'', SMap [(''type'', SStr ''string'')]), (''period'', SMap [(''type'',
          SStr ''string'')])])],
       cap_OutputSchema = SMap [(''type'', SStr ''object''), (''properties'', SMap [(''csv'', SMap [(''type'',
          SStr ''string'')])])] \<rparr>"

definition cap_export_vat_summary :: Capability where
  "cap_export_vat_summary =
     \<lparr> cap_Name = ''finance.export.vat_summary'', cap_Domain = ''finance'', cap_Version = ''0.1.0'',
          cap_SideEffect = SideEffectRead,
       cap_RequiresIdempotencyKey = False, cap_SupportsDryRun = False,
       cap_Description = ''Export VAT summary report as CSV.'',
       cap_Tags = [zh [0x5BFC, 0x51FA], zh [0x589E, 0x503C, 0x7A0E, 0x6C47, 0x603B], ''CSV'', zh [0x7A0E, 0x52A1]],
       cap_InputSchema = SMap [(''type'', SStr ''object''), (''required'', SList [SStr ''book_id'', SStr ''period'']),
          (''properties'', SMap [(''book_id'', SMap [(''type'', SStr ''string'')]), (''period'', SMap [(''type'',
          SStr ''string'')])])],
       cap_OutputSchema = SMap [(''type'', SStr ''object''), (''properties'', SMap [(''csv'', SMap [(''type'',
          SStr ''string'')])])] \<rparr>"

definition cap_export_vat_return :: Capability where
  "cap_export_vat_return =
     \<lparr> cap_Name = ''finance.export.vat_return'', cap_Domain = ''finance'', cap_Version = ''0.1.0'',
          cap_SideEffect = SideEffectRead,
       cap_RequiresIdempotencyKey = False, cap_SupportsDryRun = False,
       cap_Description = ''Export VAT return data as JSON.'',
       cap_Tags = [zh [0x5BFC, 0x51FA], zh [0x589E, 0x503C, 0x7A0E, 0x7533, 0x62A5], ''JSON'', zh [0x7A0E, 0x52A1]],
       cap_InputSchema = SMap [(''type'', SStr ''object''), (''required'', SList [SStr ''book_id'', SStr ''period'']),
          (''properties'', SMap [(''book_id'', SMap [(''type'', SStr ''string'')]), (''period'', SMap [(''type'',
          SStr ''string'')])])],
       cap_OutputSchema = SMap [(''type'', SStr ''object''), (''properties'', SMap [(''data'', SMap [(''type'',
          SStr ''object'')])])] \<rparr>"

definition cap_export_cit_return :: Capability where
  "cap_export_cit_return =
     \<lparr> cap_Name = ''finance.export.cit_return'', cap_Domain = ''finance'', cap_Version = ''0.1.0'',
          cap_SideEffect = SideEffectRead,
       cap_RequiresIdempotencyKey = False, cap_SupportsDryRun = False,
       cap_Description = ''Export CIT annual return data as JSON.'',
       cap_Tags = [zh [0x5BFC, 0x51FA], zh [0x4F01, 0x4E1A, 0x6240, 0x5F97, 0x7A0E, 0x7533, 0x62A5], ''JSON'', zh [0x7A0E,
          0x52A1]],
       cap_InputSchema = SMap [(''type'', SStr ''object''), (''required'', SList [SStr ''book_id'', SStr ''tax_year'']),
          (''properties'', SMap [(''book_id'', SMap [(''type'', SStr ''string'')]), (''tax_year'', SMap [(''type'',
          SStr ''string'')])])],
       cap_OutputSchema = SMap [(''type'', SStr ''object''), (''properties'', SMap [(''data'', SMap [(''type'',
          SStr ''object'')])])] \<rparr>"

definition cap_export_adjustments :: Capability where
  "cap_export_adjustments =
     \<lparr> cap_Name = ''finance.export.adjustments'', cap_Domain = ''finance'', cap_Version = ''0.1.0'',
          cap_SideEffect = SideEffectRead,
       cap_RequiresIdempotencyKey = False, cap_SupportsDryRun = False,
       cap_Description = ''Export tax adjustment records as JSON.'',
       cap_Tags = [zh [0x5BFC, 0x51FA], zh [0x7EB3, 0x7A0E, 0x8C03, 0x6574], ''JSON'', zh [0x7A0E, 0x52A1]],
       cap_InputSchema = SMap [(''type'', SStr ''object''), (''required'', SList [SStr ''tax_year'']), (''properties'',
          SMap [(''tax_year'', SMap [(''type'', SStr ''string'')])])],
       cap_OutputSchema = SMap [(''type'', SStr ''object''), (''properties'', SMap [(''data'', SMap [(''type'',
          SStr ''array'')])])] \<rparr>"

definition Catalog :: "Capability list" where
  "Catalog =
     [cap_book_create, cap_book_list, cap_account_list, cap_invoice_create_draft, cap_invoice_approve, cap_invoice_reject,
      cap_journal_create_draft, cap_journal_post, cap_journal_void, cap_report_trial_balance, cap_report_account_balance,
      cap_period_close_check, cap_period_close, cap_period_lock, cap_period_reopen, cap_reconciliation_upsert_logistics,
      cap_reconciliation_upsert_bank_transaction, cap_reconciliation_match_bank, cap_reconciliation_unmatch_bank,
      cap_report_profit_statement, cap_report_balance_sheet, cap_report_vat_cross_check, cap_report_vat_return,
      cap_report_cross_tax_validation, cap_report_three_way_match, cap_tax_calculate_vat, cap_tax_calculate_stamp,
      cap_tax_calculate_pit, cap_report_cit_return, cap_tax_list_adjustments, cap_tax_upsert_adjustments, cap_report_tax_risk,
      cap_risk_scan, cap_consistency_check, cap_period_enhanced_close_check, cap_invoice_create_red_letter,
      cap_invoice_import_einvoice, cap_invoice_verify, cap_invoice_confirm_usage, cap_journal_update_draft,
      cap_journal_batch_post, cap_export_trial_balance, cap_export_vat_summary, cap_export_vat_return, cap_export_cit_return,
      cap_export_adjustments]"

lemmas catalog_defs =
  Catalog_def cap_book_create_def cap_book_list_def cap_account_list_def cap_invoice_create_draft_def cap_invoice_approve_def
  cap_invoice_reject_def cap_journal_create_draft_def cap_journal_post_def cap_journal_void_def
  cap_report_trial_balance_def cap_report_account_balance_def cap_period_close_check_def cap_period_close_def
  cap_period_lock_def cap_period_reopen_def cap_reconciliation_upsert_logistics_def
  cap_reconciliation_upsert_bank_transaction_def cap_reconciliation_match_bank_def cap_reconciliation_unmatch_bank_def
  cap_report_profit_statement_def cap_report_balance_sheet_def cap_report_vat_cross_check_def cap_report_vat_return_def
  cap_report_cross_tax_validation_def cap_report_three_way_match_def cap_tax_calculate_vat_def cap_tax_calculate_stamp_def
  cap_tax_calculate_pit_def cap_report_cit_return_def cap_tax_list_adjustments_def cap_tax_upsert_adjustments_def
  cap_report_tax_risk_def cap_risk_scan_def cap_consistency_check_def cap_period_enhanced_close_check_def
  cap_invoice_create_red_letter_def cap_invoice_import_einvoice_def cap_invoice_verify_def cap_invoice_confirm_usage_def
  cap_journal_update_draft_def cap_journal_batch_post_def cap_export_trial_balance_def cap_export_vat_summary_def
  cap_export_vat_return_def cap_export_cit_return_def cap_export_adjustments_def

end
