(* ===== verification/Handler.thy ===== *)
theory Handler
  imports Api_Capabilities Catalog
begin

text \<open>
  The HTTP handler (internal/api/handler.go), its routes (router.go) and the replay of idempotent requests.  A request is handled
  as a whole: the result is the response and the tables.  The service of the handler is never nil here, as main builds it.
\<close>

section \<open>Requests and responses\<close>

record http_request =
  hq_Body :: string
  hq_CapabilityID :: string
  hq_ResourceURI :: string
  hq_IdempotencyKey :: string
  hq_RequestID :: string
  hq_Query :: "string \<Rightarrow> string"

text \<open>\<open>Recovered\<close> is what the recoverer answers after a panic; \<open>Unrouted\<close> what the router answers on its own.\<close>

datatype body = Envelope ProviderResponse | Health string | Capabilities "Capability list" | Recovered | Unrouted

record http_response =
  hs_Status :: nat
  hs_Body :: body

record Handler =
  h_svc :: Service
  h_capabilities :: "Capability list"
  h_idempStore :: bool

definition NewHandler :: "Service \<Rightarrow> Handler" where
  "NewHandler s = \<lparr> h_svc = s, h_capabilities = Catalog, h_idempStore = False \<rparr>"

definition WithIdempotencyStore :: "Handler \<Rightarrow> Handler" where
  "WithIdempotencyStore h = h\<lparr>h_idempStore := True\<rparr>"

definition writeJSON :: "nat \<Rightarrow> body \<Rightarrow> http_response" where
  "writeJSON status v = \<lparr> hs_Status = status, hs_Body = v \<rparr>"

definition writeError :: "outside \<Rightarrow> nat \<Rightarrow> string \<Rightarrow> string \<Rightarrow> string \<Rightarrow> http_response" where
  "writeError a status traceID code message = writeJSON status (Envelope (no_response\<lparr>rp_Status := ''failed'',
     rp_Error := Some \<lparr> pe_Code = code, pe_Message = message \<rparr>, rp_ExternalRequestID := o_request_id a, rp_TraceID := traceID\<rparr>))"

text \<open>\<open>json.NewDecoder(r.Body).Decode\<close>: the first value of the body, whatever follows it.\<close>

definition decode_body :: "(string \<times> 'r field) list \<Rightarrow> 'r \<Rightarrow> string \<Rightarrow> 'r option" where
  "decode_body fs z b = (case first_value b of None \<Rightarrow> None | Some (v, _) \<Rightarrow> decode_struct fs v z)"

definition findCapability :: "Handler \<Rightarrow> string \<Rightarrow> Capability option" where
  "findCapability h capabilityID = find (\<lambda>c. cap_Name c = capabilityID) (h_capabilities h)"

definition Healthz :: http_response where "Healthz = writeJSON 200 (Health ''ok'')"
definition Readyz :: http_response where "Readyz = writeJSON 200 (Health ''ready'')"

definition ListCapabilities :: "Handler \<Rightarrow> http_response" where
  "ListCapabilities h = writeJSON 200 (Capabilities (h_capabilities h))"

section \<open>Context\<close>

definition context_pending_count :: "env \<Rightarrow> string \<Rightarrow> string \<Rightarrow> db \<Rightarrow> int" where
  "context_pending_count e entityID bookID d =
     (if bookID = '''' then 0
      else case ListInvoices e entityID bookID '''' StatusPendingReview 1000 0 d of Inl _ \<Rightarrow> 0 | Inr is \<Rightarrow> int (length is))"

text \<open>The query for the drafts does not name the book.\<close>

definition context_draft_count :: "env \<Rightarrow> string \<Rightarrow> string \<Rightarrow> db \<Rightarrow> int" where
  "context_draft_count e entityID bookID d =
     (if bookID = '''' then 0
      else case ListJournalEntries e \<lparr> jlq_EntityID = entityID, jlq_BookID = '''', jlq_Status = JournalStatusDraft, jlq_Period = '''',
          jlq_Limit = 1000, jlq_Offset = 0 \<rparr> d of Inl _ \<Rightarrow> 0 | Inr js \<Rightarrow> int (length js))"

definition last_closed :: "AccountingPeriod list \<Rightarrow> string" where
  "last_closed ps = foldl (\<lambda>m p. if (pd_Status p = PeriodStatusClosed \<or> pd_Status p = PeriodStatusLocked) \<and> m < pd_Period p
     then pd_Period p else m) '''' ps"

definition context_summary :: "outside \<Rightarrow> Service \<Rightarrow> string \<Rightarrow> string \<Rightarrow> db \<Rightarrow> (string \<times> val) list" where
  "context_summary a s entityID bookID d =
     [(''pending_invoice_count'', VInt (context_pending_count (o_env a 1) entityID bookID d)),
      (''draft_journal_count'', VInt (context_draft_count (o_env a 2) entityID bookID d)),
      (''book_count'', VInt (case ListBooks (o_env a 3) s entityID d of Inl _ \<Rightarrow> 0 | Inr bs \<Rightarrow> int (length bs)))] @
     (if bookID = '''' then []
      else (case UnmatchedBankCount (o_env a 4) s entityID bookID d of Inl _ \<Rightarrow> [] | Inr n \<Rightarrow> [(''unmatched_bank_count'', VInt n)]) @
           (case ListPeriods (o_env a 5) s entityID bookID d of Inl _ \<Rightarrow> []
            | Inr ps \<Rightarrow> [(''last_closed_period'', VStr (last_closed ps)), (''current_period'', VStr (this_month (o_env a 5)))]))"

text \<open>A book that cannot be resolved is used as it was given.\<close>

definition context_book :: "outside \<Rightarrow> Service \<Rightarrow> string \<Rightarrow> string \<Rightarrow> db \<Rightarrow> string" where
  "context_book a s entityID bookID d =
     (if bookID = '''' then '''' else case ResolveBook (o_env a 0) s entityID bookID d of Inl _ \<Rightarrow> bookID | Inr b \<Rightarrow> b)"

definition marshalled_data :: "outside \<Rightarrow> reply \<Rightarrow> string" where
  "marshalled_data a r = (case o_marshal a r of None \<Rightarrow> '''' | Some t \<Rightarrow> t)"

definition ok_response :: "outside \<Rightarrow> string \<Rightarrow> string \<Rightarrow> ProviderResponse" where
  "ok_response a traceID data = no_response\<lparr>rp_Status := ''ok'', rp_Data := data, rp_ExternalRequestID := o_request_id a,
     rp_TraceID := traceID\<rparr>"

definition GetContext :: "outside \<Rightarrow> Handler \<Rightarrow> http_request \<Rightarrow> db \<Rightarrow> http_response" where
  "GetContext a h q d =
     (case decode_body request_fields no_request (hq_Body q) of
        None \<Rightarrow> writeError a 400 '''' ''invalid_request'' ''malformed body''
      | Some req \<Rightarrow>
          (if pr_TraceID req = '''' then writeError a 400 '''' ''invalid_request'' ''trace_id is required''
           else if pr_EntityID req = '''' then writeError a 400 (pr_TraceID req) ''invalid_request'' ''entity_id is required''
           else let b = context_book a (h_svc h) (pr_EntityID req) (hq_Query q ''book_id'') d in
             writeJSON 200 (Envelope (ok_response a (pr_TraceID req)
               (marshalled_data a (Fields (context_summary a (h_svc h) (pr_EntityID req) b d)))))))"

section \<open>Preview and validation\<close>

definition unknown_capability :: "outside \<Rightarrow> string \<Rightarrow> http_response" where
  "unknown_capability a capabilityID = writeError a 404 '''' ''not_found'' (''capability not found: '' @ capabilityID)"

definition Preview :: "outside \<Rightarrow> Handler \<Rightarrow> http_request \<Rightarrow> http_response" where
  "Preview a h q =
     (case findCapability h (hq_CapabilityID q) of None \<Rightarrow> unknown_capability a (hq_CapabilityID q)
      | Some c \<Rightarrow>
          if \<not> cap_SupportsDryRun c then writeError a 400 '''' ''invalid_request'' ''capability does not support preview''
          else (case decode_body request_fields no_request (hq_Body q) of
             None \<Rightarrow> writeError a 400 '''' ''invalid_request'' ''malformed body''
           | Some req \<Rightarrow>
               if pr_TraceID req = '''' then writeError a 400 '''' ''invalid_request'' ''trace_id is required''
               else writeJSON 200 (Envelope (ok_response a (pr_TraceID req) ''''
                 \<lparr>rp_Warnings := [''preview mode: no data will be written'']\<rparr>))))"

text \<open>The sums are compared exactly, without rounding.\<close>

definition journal_warnings :: "string \<Rightarrow> string list" where
  "journal_warnings input =
     (case unmarshal journal_fields zero_journal input of None \<Rightarrow> []
      | Some j \<Rightarrow> (let (debit, credit) = line_sums (je_Lines j) in
          if \<not> feq debit credit then [''journal not balanced: debit='' @ fmt2 debit @ '', credit='' @ fmt2 credit] else []))"

definition invoice_warnings :: "string \<Rightarrow> string list" where
  "invoice_warnings input =
     (case unmarshal invoice_fields blank_invoice input of None \<Rightarrow> []
      | Some i \<Rightarrow> (case Validate (blank_extraction\<lparr>ex_InvoiceNo := iv_InvoiceNo i, ex_AmountWithoutTax := iv_AmountWithoutTax i,
            ex_TaxAmount := iv_TaxAmount i, ex_AmountWithTax := iv_AmountWithTax i, ex_Direction := iv_Direction i\<rparr>) of
          None \<Rightarrow> [] | Some m \<Rightarrow> [m]))"

definition validation_warnings :: "string \<Rightarrow> string \<Rightarrow> string list" where
  "validation_warnings capabilityID input =
     (if capabilityID = ''finance.journal.create_draft'' then journal_warnings input
      else if capabilityID = ''finance.invoice.create_draft'' then invoice_warnings input
      else [])"

definition ValidateRequest :: "outside \<Rightarrow> Handler \<Rightarrow> http_request \<Rightarrow> http_response" where
  "ValidateRequest a h q =
     (case findCapability h (hq_CapabilityID q) of None \<Rightarrow> unknown_capability a (hq_CapabilityID q)
      | Some c \<Rightarrow> (case decode_body request_fields no_request (hq_Body q) of
           None \<Rightarrow> writeError a 400 '''' ''invalid_request'' ''malformed body''
         | Some req \<Rightarrow>
             if pr_TraceID req = '''' then writeError a 400 '''' ''invalid_request'' ''trace_id is required''
             else (let ws = validation_warnings (hq_CapabilityID q) (pr_Input req) in
               writeJSON 200 (Envelope (ok_response a (pr_TraceID req) ''''
                 \<lparr>rp_Warnings := ws, rp_Status := (if ws = [] then ''ok'' else ''blocked'')\<rparr>)))))"

section \<open>Execution\<close>

definition hex_digit :: "nat \<Rightarrow> char" where
  "hex_digit n = (if n < 10 then digit n else char_of (87 + n))"

definition HashInput :: "outside \<Rightarrow> string \<Rightarrow> string" where
  "HashInput a data = concat (map (\<lambda>c. let n = of_char c :: nat in [hex_digit (n div 16), hex_digit (n mod 16)]) (o_sha256 a data))"

text \<open>\<open>json.Marshal\<close> of a \<open>[]byte\<close>: null, or its base64 text in quotes.\<close>

definition bytes_json :: "string \<Rightarrow> string" where
  "bytes_json b = (if b = '''' then ''null'' else [CHR 0x22] @ base64 b @ [CHR 0x22])"

definition failure_text :: "outside \<Rightarrow> failure \<Rightarrow> string" where
  "failure_text a f = (case f of BadInput \<Rightarrow> ''invalid input: '' @ o_json_error a | Failed x \<Rightarrow> err_text (o_text a) x
     | UnknownCapability c \<Rightarrow> ''unknown capability: '' @ c | Panic \<Rightarrow> '''')"

definition idem_record :: "outside \<Rightarrow> string \<Rightarrow> ProviderRequest \<Rightarrow> string \<Rightarrow> string \<Rightarrow> IdempotencyRecord" where
  "idem_record a capabilityID req res status = \<lparr> ir_EntityID = pr_EntityID req, ir_CapabilityID = capabilityID,
     ir_IdempotencyKey = pr_IdempotencyKey req, ir_InputHash = HashInput a (pr_Input req), ir_Result = res, ir_Status = status,
     ir_CreatedAt = '''' \<rparr>"

text \<open>The error of saving the record is ignored.\<close>

definition remember_result :: "outside \<Rightarrow> Handler \<Rightarrow> Capability \<Rightarrow> string \<Rightarrow> ProviderRequest \<Rightarrow> string \<Rightarrow> string \<Rightarrow> db \<Rightarrow> db" where
  "remember_result a h c capabilityID req res status d =
     (if cap_RequiresIdempotencyKey c \<and> h_idempStore h
      then (case idem_Save (o_save a) (idem_record a capabilityID req res status) d of Inl _ \<Rightarrow> d | Inr d' \<Rightarrow> d')
      else d)"

definition run_capability ::
    "outside \<Rightarrow> Handler \<Rightarrow> string \<Rightarrow> string \<Rightarrow> Capability \<Rightarrow> ProviderRequest \<Rightarrow> db \<Rightarrow> http_response \<times> db" where
  "run_capability a h traceID capabilityID c req d =
     (case executeCapability a (h_svc h) (request_context traceID capabilityID req) (pr_EntityID req) capabilityID req d of
        (Inl Panic, d1) \<Rightarrow> (writeJSON 500 Recovered, d1)
      | (Inl f, d1) \<Rightarrow> (writeError a 200 traceID ''execution_failed'' (failure_text a f),
          remember_result a h c capabilityID req ''{}'' ''failed'' d1)
      | (Inr r, d1) \<Rightarrow> (writeJSON 200 (Envelope (ok_response a traceID (marshalled_data a r))),
          remember_result a h c capabilityID req (marshalled_data a r) ''completed'' d1))"

definition replay :: "outside \<Rightarrow> string \<Rightarrow> ProviderRequest \<Rightarrow> IdempotencyRecord \<Rightarrow> http_response" where
  "replay a traceID req r =
     (if ir_InputHash r \<noteq> '''' \<and> ir_InputHash r \<noteq> HashInput a (pr_Input req)
      then writeError a 409 traceID ''finance_idempotency_conflict'' ''idempotency key reused with different input''
      else writeJSON 200 (Envelope ((ok_response a traceID (bytes_json (ir_Result r)))\<lparr>rp_Status := ir_Status r\<rparr>)))"

definition executeRequest :: "outside \<Rightarrow> Handler \<Rightarrow> string \<Rightarrow> Capability \<Rightarrow> ProviderRequest \<Rightarrow> db \<Rightarrow> http_response \<times> db" where
  "executeRequest a h capabilityID c req d =
     (let traceID = (if pr_TraceID req = '''' then o_trace_id a else pr_TraceID req) in
      if cap_RequiresIdempotencyKey c \<and> pr_IdempotencyKey req = ''''
      then (writeError a 400 traceID ''invalid_request'' ''idempotency_key is required for this capability'', d)
      else case (if cap_RequiresIdempotencyKey c \<and> h_idempStore h
                 then idem_Get (o_lookup a) d (pr_EntityID req) capabilityID (pr_IdempotencyKey req) else Inr None) of
        Inl _ \<Rightarrow> (writeError a 500 traceID ''provider_internal'' ''idempotency lookup failed'', d)
      | Inr (Some r) \<Rightarrow> (replay a traceID req r, d)
      | Inr None \<Rightarrow> run_capability a h traceID capabilityID c req d)"

text \<open>The key of the header is used where the body has none.\<close>

definition Execute :: "outside \<Rightarrow> Handler \<Rightarrow> http_request \<Rightarrow> db \<Rightarrow> http_response \<times> db" where
  "Execute a h q d =
     (case findCapability h (hq_CapabilityID q) of None \<Rightarrow> (unknown_capability a (hq_CapabilityID q), d)
      | Some c \<Rightarrow> (case decode_body request_fields no_request (hq_Body q) of
           None \<Rightarrow> (writeError a 400 '''' ''invalid_request'' ''malformed body'', d)
         | Some req0 \<Rightarrow>
             (let req = (if pr_IdempotencyKey req0 = '''' then req0\<lparr>pr_IdempotencyKey := hq_IdempotencyKey q\<rparr> else req0) in
              if pr_TraceID req = '''' then (writeError a 400 '''' ''invalid_request'' ''trace_id is required'', d)
              else if pr_EntityID req = ''''
              then (writeError a 400 (pr_TraceID req) ''invalid_request'' ''entity_id is required'', d)
              else executeRequest a h (hq_CapabilityID q) c req d)))"

text \<open>The V3 form.  A body without an entity in its context is given to \<open>Execute\<close>, which reads on where the first decoder
  stopped: \<open>unread\<close> is what that decoder left of the body.\<close>

definition ExecuteV3 :: "outside \<Rightarrow> (string \<Rightarrow> string) \<Rightarrow> Handler \<Rightarrow> http_request \<Rightarrow> db \<Rightarrow> http_response \<times> db" where
  "ExecuteV3 a unread h q d =
     (case findCapability h (hq_CapabilityID q) of None \<Rightarrow> (unknown_capability a (hq_CapabilityID q), d)
      | Some c \<Rightarrow> (case decode_body v3_fields no_v3_request (hq_Body q) of
           None \<Rightarrow> (writeError a 400 '''' ''invalid_request'' ''malformed V3 request body'', d)
         | Some v \<Rightarrow>
             if v3_EntityID (v3r_Context v) = '''' then Execute a h (q\<lparr>hq_Body := unread (hq_Body q)\<rparr>) d
             else (let req0 = ToProviderRequest v (hq_CapabilityID q);
                       req1 = (if hq_IdempotencyKey q = '''' then req0 else req0\<lparr>pr_IdempotencyKey := hq_IdempotencyKey q\<rparr>);
                       req2 = (if pr_TraceID req1 = '''' then req1\<lparr>pr_TraceID := hq_RequestID q\<rparr> else req1);
                       req = (if pr_TraceID req2 = '''' then req2\<lparr>pr_TraceID := o_trace_id a\<rparr> else req2)
                   in executeRequest a h (hq_CapabilityID q) c req d)))"

section \<open>Resources\<close>

text \<open>A row that does not exist is a nil pointer without an error.\<close>

definition resource :: "outside \<Rightarrow> Service \<Rightarrow> string \<Rightarrow> string \<Rightarrow> string \<Rightarrow> db \<Rightarrow> (err + reply) option" where
  "resource a s kind entityID rid d =
     (if kind = ''invoice'' then Some (map_sum id RInvoice (GetInvoice (call_env a) entityID rid d))
      else if kind = ''journal-entry'' then Some (map_sum id RJournalEntry (GetJournalEntry (call_env a) entityID rid d))
      else if kind = ''logistics'' then Some (map_sum id RLogistics (GetLogisticsByInvoice (call_env a) s entityID rid d))
      else if kind = ''bank-transaction'' then Some (map_sum id RBankTransaction (GetBankTransaction (call_env a) s entityID rid d))
      else None)"

definition GetResource :: "outside \<Rightarrow> Handler \<Rightarrow> http_request \<Rightarrow> db \<Rightarrow> http_response" where
  "GetResource a h q d =
     (let uri = hq_ResourceURI q; entityID = hq_Query q ''entity_id''; traceID = hq_Query q ''trace_id'';
          bad = writeError a 400 traceID ''invalid_request'' ''invalid resource uri'' in
      if uri = '''' then writeError a 400 '''' ''invalid_request'' ''resource_uri is required''
      else if entityID = '''' then writeError a 400 traceID ''invalid_request'' ''entity_id is required''
      else if traceID = '''' then writeError a 400 '''' ''invalid_request'' ''trace_id is required''
      else case SplitN2 uri ''://'' of
        [_, rest] \<Rightarrow>
          (case SplitN2 rest ''/'' of
             [kind, rid] \<Rightarrow>
               (case resource a (h_svc h) kind entityID rid d of
                  None \<Rightarrow> writeError a 404 traceID ''not_found'' (''unknown resource type: '' @ kind)
                | Some (Inl x) \<Rightarrow> writeError a 404 traceID ''not_found'' (err_text (o_text a) x)
                | Some (Inr r) \<Rightarrow> writeJSON 200 (Envelope (ok_response a traceID (marshalled_data a r))))
           | _ \<Rightarrow> bad)
      | _ \<Rightarrow> bad)"

section \<open>Routes\<close>

datatype endpoint = EHealthz | EReadyz | EListCapabilities | EGetContext | EExecuteV3 | EPreview | EValidate | EExecute | EGetResource

text \<open>The table of router.go: method, pattern (the prefixes of the sub-routers included) and handler.\<close>

definition routes :: "(string \<times> string \<times> endpoint) list" where
  "routes =
     [(''GET'', ''/healthz'', EHealthz), (''GET'', ''/health'', EHealthz), (''GET'', ''/readyz'', EReadyz),
      (''GET'', ''/v1/capabilities'', EListCapabilities), (''POST'', ''/v1/context'', EGetContext),
      (''POST'', ''/v1/capabilities/{capability_id}/'', EExecuteV3),
      (''POST'', ''/v1/capabilities/{capability_id}/preview'', EPreview),
      (''POST'', ''/v1/capabilities/{capability_id}/validate'', EValidate),
      (''POST'', ''/v1/capabilities/{capability_id}/execute'', EExecute),
      (''GET'', ''/v1/resources/{resource_uri}'', EGetResource)]"

text \<open>
  Which route a request takes is decided by the router of chi, an argument: for a method and a path it gives the handler and the
  value of the path parameter, or the status it answers itself.  \<open>router_ok\<close> is what its documentation says of it and the proofs
  need: a request gets a handler only from a route of its method, and a parameter is a piece of the path between slashes.
\<close>

type_synonym router = "(string \<times> string \<times> endpoint) list \<Rightarrow> string \<Rightarrow> string \<Rightarrow> nat + endpoint \<times> string"

definition router_ok :: "router \<Rightarrow> bool" where
  "router_ok rt \<longleftrightarrow> (\<forall>m path e p. rt routes m path = Inr (e, p) \<longrightarrow>
     (\<exists>pattern. (m, pattern, e) \<in> set routes) \<and> CHR ''/'' \<notin> set p)"

definition with_param :: "string \<Rightarrow> http_request \<Rightarrow> http_request" where
  "with_param p q = q\<lparr>hq_CapabilityID := p, hq_ResourceURI := p\<rparr>"

definition serve ::
    "outside \<Rightarrow> (string \<Rightarrow> string) \<Rightarrow> router \<Rightarrow> Handler \<Rightarrow> string \<Rightarrow> string \<Rightarrow> http_request \<Rightarrow> db \<Rightarrow> http_response \<times> db" where
  "serve a unread rt h m path q0 d =
     (case rt routes m path of
        Inl status \<Rightarrow> (writeJSON status Unrouted, d)
      | Inr (e, p) \<Rightarrow>
          (let q = with_param p q0 in
           case e of
             EHealthz \<Rightarrow> (Healthz, d)
           | EReadyz \<Rightarrow> (Readyz, d)
           | EListCapabilities \<Rightarrow> (ListCapabilities h, d)
           | EGetContext \<Rightarrow> (GetContext a h q d, d)
           | EExecuteV3 \<Rightarrow> ExecuteV3 a unread h q d
           | EPreview \<Rightarrow> (Preview a h q, d)
           | EValidate \<Rightarrow> (ValidateRequest a h q, d)
           | EExecute \<Rightarrow> Execute a h q d
           | EGetResource \<Rightarrow> (GetResource a h q d, d)))"

end
