(* ===== verification/Api.thy ===== *)
theory Api
  imports Handler Ledger
begin

text \<open>
  Properties of the API: what a request can change (it is a run of the bookkeeping state machine), what the catalog promises,
  the replay of idempotent requests, and the requests that never work.
\<close>

section \<open>What a capability changes\<close>

lemmas reply_defs = with_input_def book_report_def read_reply_def write_reply_def pointer_reply_def done_reply_def store_reply_def

lemma invoice_steps:
  "do_invoice_create_draft a s c en req d = (r, d') \<Longrightarrow> d' = d \<or> ledger_step num s (call_env a) d d'"
  "do_invoice_reject a s c en req d = (r, d') \<Longrightarrow> d' = d \<or> ledger_step num s (call_env a) d d'"
  "do_invoice_create_red_letter a s c en req d = (r, d') \<Longrightarrow> d' = d \<or> ledger_step num s (call_env a) d d'"
  "do_invoice_import_einvoice a s c en req d = (r, d') \<Longrightarrow> d' = d \<or> ledger_step num s (call_env a) d d'"
  "do_invoice_verify a s c en req d = (r, d') \<Longrightarrow> d' = d \<or> ledger_step num s (call_env a) d d'"
  "do_invoice_confirm_usage a s c en req d = (r, d') \<Longrightarrow> d' = d \<or> ledger_step num s (call_env a) d d'"
  by (auto simp: do_invoice_create_draft_def do_invoice_reject_def do_invoice_create_red_letter_def do_invoice_import_einvoice_def
      do_invoice_verify_def do_invoice_confirm_usage_def reply_defs
    split: option.splits sum.splits prod.splits intro: ledger_step.intros)

lemma journal_steps:
  assumes "numeric (call_env a) = num"
  shows "do_invoice_approve a s c en req d = (r, d') \<Longrightarrow> d' = d \<or> ledger_step num s (call_env a) d d'"
    "do_journal_create_draft a s c en req d = (r, d') \<Longrightarrow> d' = d \<or> ledger_step num s (call_env a) d d'"
    "do_journal_post a s c en req d = (r, d') \<Longrightarrow> d' = d \<or> ledger_step num s (call_env a) d d'"
    "do_journal_void a s c en req d = (r, d') \<Longrightarrow> d' = d \<or> ledger_step num s (call_env a) d d'"
    "do_journal_update_draft a s c en req d = (r, d') \<Longrightarrow> d' = d \<or> ledger_step num s (call_env a) d d'"
    "do_journal_batch_post a s c en req d = (r, d') \<Longrightarrow> d' = d \<or> ledger_step num s (call_env a) d d'"
  using assms by (auto simp: do_invoice_approve_def do_journal_create_draft_def do_journal_post_def do_journal_void_def
      do_journal_update_draft_def do_journal_batch_post_def reply_defs
    split: option.splits sum.splits prod.splits intro: ledger_step.intros)

lemma record_steps:
  "do_book_create a s c en req d = (r, d') \<Longrightarrow> d' = d \<or> ledger_step num s (call_env a) d d'"
  "do_period_close a s c en req d = (r, d') \<Longrightarrow> d' = d \<or> ledger_step num s (call_env a) d d'"
  "do_period_lock a s c en req d = (r, d') \<Longrightarrow> d' = d \<or> ledger_step num s (call_env a) d d'"
  "do_period_reopen a s c en req d = (r, d') \<Longrightarrow> d' = d \<or> ledger_step num s (call_env a) d d'"
  "do_upsert_logistics a s c en req d = (r, d') \<Longrightarrow> d' = d \<or> ledger_step num s (call_env a) d d'"
  "do_upsert_bank_transaction a s c en req d = (r, d') \<Longrightarrow> d' = d \<or> ledger_step num s (call_env a) d d'"
  "do_match_bank a s c en req d = (r, d') \<Longrightarrow> d' = d \<or> ledger_step num s (call_env a) d d'"
  "do_unmatch_bank a s c en req d = (r, d') \<Longrightarrow> d' = d \<or> ledger_step num s (call_env a) d d'"
  "do_upsert_adjustments a s c en req d = (r, d') \<Longrightarrow> d' = d \<or> ledger_step num s (call_env a) d d'"
  by (auto simp: do_book_create_def do_period_close_def do_period_lock_def do_period_reopen_def do_upsert_logistics_def
      do_upsert_bank_transaction_def do_match_bank_def do_unmatch_bank_def do_upsert_adjustments_def reply_defs Let_def
    split: option.splits sum.splits prod.splits intro: ledger_step.intros)

lemma check_steps:
  "do_consistency_check a s c en req d = (r, d') \<Longrightarrow> d' = d \<or> ledger_step num s (call_env a) d d'"
  "do_enhanced_close_check a s c en req d = (r, d') \<Longrightarrow> d' = d \<or> ledger_step num s (o_env a 2) d d'"
  by (auto simp: do_consistency_check_def do_enhanced_close_check_def reply_defs
    split: option.splits sum.splits prod.splits intro: ledger_step.intros)

definition reading :: "capability list" where
  "reading = [do_book_list, do_account_list, do_trial_balance, do_account_balance, do_profit_statement, do_balance_sheet,
     do_vat_cross_check, do_vat_return, do_cross_tax_validation, do_three_way_match, do_tax_risk, do_cit_return, do_close_check,
     do_calculate_vat, do_calculate_stamp, do_calculate_pit, do_list_adjustments, do_risk_scan, do_export_trial_balance,
     do_export_vat_summary, do_export_vat_return, do_export_cit_return, do_export_adjustments]"

lemma reading_keeps: "h \<in> set reading \<Longrightarrow> snd (h a s c en req d) = d"
  unfolding reading_def
  by (auto simp: do_book_list_def do_account_list_def do_trial_balance_def do_account_balance_def do_profit_statement_def
      do_balance_sheet_def do_vat_cross_check_def do_vat_return_def do_cross_tax_validation_def do_three_way_match_def do_tax_risk_def
      do_cit_return_def do_close_check_def do_calculate_vat_def do_calculate_stamp_def do_calculate_pit_def do_list_adjustments_def
      do_risk_scan_def do_export_trial_balance_def do_export_vat_summary_def do_export_vat_return_def do_export_cit_return_def
      do_export_adjustments_def reply_defs
    split: option.split sum.split)

definition writing :: "capability list" where
  "writing = [do_book_create, do_invoice_create_draft, do_invoice_approve, do_invoice_reject, do_invoice_create_red_letter,
     do_invoice_import_einvoice, do_invoice_verify, do_invoice_confirm_usage, do_journal_create_draft, do_journal_post,
     do_journal_void, do_journal_update_draft, do_journal_batch_post, do_period_close, do_period_lock, do_period_reopen,
     do_upsert_logistics, do_upsert_bank_transaction, do_match_bank, do_unmatch_bank, do_upsert_adjustments]"

lemma handler_kinds: "(n, h) \<in> set handlers \<Longrightarrow> h \<in> set reading \<union> set writing \<union> {do_consistency_check, do_enhanced_close_check}"
  by (auto simp: handlers_def reading_def writing_def)

lemma writing_steps:
  assumes "numeric (call_env a) = num" "h \<in> set writing" "h a s c en req d = (r, d')"
  shows "d' = d \<or> ledger_step num s (call_env a) d d'"
  using assms(2,3) unfolding writing_def
  by (auto dest: invoice_steps [of a s c en req d r d' num] journal_steps [OF assms(1)] record_steps [of a s c en req d r d' num])

lemma capability_step:
  assumes "numeric (call_env a) = num" "executeCapability a s c en n req d = (r, d')"
  shows "d' = d \<or> ledger_step num s (call_env a) d d' \<or> ledger_step num s (o_env a 2) d d'"
proof (cases "map_of handlers n")
  case None
  with assms(2) show ?thesis by (simp add: executeCapability_def)
next
  case (Some h)
  with assms(2) have h: "h a s c en req d = (r, d')" by (simp add: executeCapability_def)
  from handler_kinds [OF map_of_SomeD [OF Some]] consider "h \<in> set reading" | "h \<in> set writing"
    | "h = do_consistency_check" | "h = do_enhanced_close_check" by auto
  then show ?thesis
  proof cases
    case 1
    with reading_keeps [of h a s c en req d] h show ?thesis by simp
  next
    case 2
    with writing_steps [OF assms(1) 2 h] show ?thesis by blast
  next
    case 3
    with check_steps(1) [of a s c en req d r d' num] h show ?thesis by blast
  next
    case 4
    with check_steps(2) [of a s c en req d r d' num] h show ?thesis by blast
  qed
qed

section \<open>Requests as runs\<close>

lemma remember_step:
  assumes "has_idempotency s"
  shows "remember_result a h c n req res st d = d \<or> ledger_step num s (o_save a) d (remember_result a h c n req res st d)"
proof -
  have "ledger_step num s (o_save a) d d'" if "idem_Save (o_save a) (idem_record a n req res st) d = Inr d'" for d'
    using that assms
    by (intro ledger_step.remember [of "o_save a" s "pr_EntityID req" n "pr_IdempotencyKey req" "HashInput a (pr_Input req)" res st])
      (simp add: SaveIdempotency_def idem_record_def)
  then show ?thesis by (auto simp: remember_result_def split: sum.split)
qed

text \<open>The environments in which a request can change the tables satisfy \<open>P\<close>.\<close>

definition request_envs :: "rounding \<Rightarrow> (env \<Rightarrow> bool) \<Rightarrow> outside \<Rightarrow> bool" where
  "request_envs num P a \<longleftrightarrow> numeric (call_env a) = num \<and> P (call_env a) \<and> P (o_env a 2) \<and> P (o_save a)"

lemma run_maybe_step: "run num s P d d1 \<Longrightarrow> d2 = d1 \<or> ledger_step num s e d1 d2 \<Longrightarrow> P e \<Longrightarrow> run num s P d d2"
  by (auto intro: run.then_step)

lemma run_capability_run:
  assumes "request_envs num P a" "has_idempotency (h_svc h)" "run_capability a h t n c req d = (resp, d')"
  shows "run num (h_svc h) P d d'"
proof -
  obtain r d1 where x: "executeCapability a (h_svc h) (request_context t n req) (pr_EntityID req) n req d = (r, d1)" by force
  with assms(1) have 1: "run num (h_svc h) P d d1"
    using capability_step [OF _ x, of num] by (auto simp: request_envs_def intro: run_maybe_step [OF run.start])
  have "d' = d1 \<or> (\<exists>res st. d' = remember_result a h c n req res st d1)"
    using assms(3) x by (auto simp: run_capability_def split: sum.splits failure.splits)
  then show ?thesis using run_maybe_step [OF 1 remember_step [OF assms(2)]] 1 assms(1) by (auto simp: request_envs_def)
qed

lemma executeRequest_run:
  assumes "request_envs num P a" "has_idempotency (h_svc h)" "executeRequest a h n c req d = (resp, d')"
  shows "run num (h_svc h) P d d'"
  using assms(3) run_capability_run [OF assms(1,2)] run.start
  by (auto simp: executeRequest_def Let_def split: if_splits sum.splits option.splits)

lemma Execute_run:
  assumes "request_envs num P a" "has_idempotency (h_svc h)" "Execute a h q d = (resp, d')"
  shows "run num (h_svc h) P d d'"
  using assms(3) executeRequest_run [OF assms(1,2)] run.start
  by (auto simp: Execute_def Let_def split: if_splits option.splits)

lemma ExecuteV3_run:
  assumes "request_envs num P a" "has_idempotency (h_svc h)" "ExecuteV3 a unread h q d = (resp, d')"
  shows "run num (h_svc h) P d d'"
  using assms(3) executeRequest_run [OF assms(1,2)] Execute_run [OF assms(1,2)] run.start
  by (auto simp: ExecuteV3_def Let_def split: if_splits option.splits)

text \<open>C4: the API refines the bookkeeping state machine.  Whatever the request and whatever the faults, the tables after it are
  reached by a run of the operations of the service, so everything shown of runs holds of sequences of requests.\<close>

theorem serve_refines_run:
  assumes "request_envs num P a" and "has_idempotency (h_svc h)" and "serve a unread rt h m path q d = (resp, d')"
  shows "run num (h_svc h) P d d'"
  using assms(3) Execute_run [OF assms(1,2)] ExecuteV3_run [OF assms(1,2)] run.start
  by (auto simp: serve_def Let_def split: sum.splits endpoint.splits)

section \<open>Example requests\<close>

text \<open>Texts are written with backquotes for the quotes of JSON.\<close>

definition quoted :: "string \<Rightarrow> string" where
  "quoted s = map (\<lambda>c. if c = CHR 0x60 then CHR 0x22 else c) s"

definition post_body :: string where
  "post_body = quoted ''{`entity_id`:`e1`,`actor`:{`id`:`u1`},`input`:{`journal_entry_id`:`j1`},`idempotency_key`:`k1`,`trace_id`:`t1`}''"

definition post_input :: string where "post_input = quoted ''{`journal_entry_id`:`j1`}''"

definition post_request :: ProviderRequest where
  "post_request = no_request\<lparr>pr_EntityID := ''e1'', pr_Actor := \<lparr> actor_Type = '''', actor_ID = ''u1'' \<rparr>, pr_Input := post_input,
     pr_IdempotencyKey := ''k1'', pr_TraceID := ''t1''\<rparr>"

lemma post_body_decoded: "decode_body request_fields no_request post_body = Some post_request"
  by code_simp

lemma post_input_decoded: "unmarshal journal_id_input no_input post_input = Some (no_input\<lparr>in_JournalEntryID := ''j1''\<rparr>)"
  by code_simp

text \<open>An outside that always works: it numbers identifiers, marshals every result to an empty object and hashes a text to itself.\<close>

definition example_outside :: outside where
  "example_outside = \<lparr> o_env = \<lambda>_. plain_env, o_months = \<lambda>_. plain_env, o_text = \<lambda>_. '''', o_json_error = '''', o_accounts = \<lambda>ks. ks,
     o_rates = \<lambda>gs. gs, o_suppliers = \<lambda>m. m, o_int = \<lambda>_. 0, o_sort = \<lambda>ms. ms, o_vat_json = \<lambda>_. None, o_cit_json = \<lambda>_. None,
     o_adjustments_json = \<lambda>_. None, o_marshal = \<lambda>_. Some ''{}'', o_sha256 = \<lambda>t. t, o_request_id = ''x1'', o_trace_id = ''t0'',
     o_lookup = plain_env, o_save = plain_env \<rparr>"

definition example_handler :: Handler where
  "example_handler = WithIdempotencyStore (NewHandler full_service)"

definition example_request :: "string \<Rightarrow> http_request" where
  "example_request b = \<lparr> hq_Body = b, hq_CapabilityID = '''', hq_ResourceURI = '''', hq_IdempotencyKey = '''', hq_RequestID = '''',
     hq_Query = \<lambda>_. '''' \<rparr>"

lemma example_outside_simps [simp]:
  "o_env example_outside = (\<lambda>_. plain_env)" "o_lookup example_outside = plain_env" "o_save example_outside = plain_env"
  "o_marshal example_outside = (\<lambda>_. Some ''{}'')" "o_sha256 example_outside = (\<lambda>t. t)" "o_rates example_outside = (\<lambda>gs. gs)"
  "o_accounts example_outside = (\<lambda>ks. ks)" "o_trace_id example_outside = ''t0''"
  by (simp_all add: example_outside_def)

lemma example_handler_simps [simp]:
  "h_svc example_handler = full_service" "h_capabilities example_handler = Catalog" "h_idempStore example_handler"
  by (simp_all add: example_handler_def WithIdempotencyStore_def NewHandler_def)

lemma example_envs [simp]: "P plain_env \<Longrightarrow> request_envs (\<lambda>p s. Some) P example_outside"
  by (simp add: request_envs_def)

section \<open>The books behind the API\<close>

text \<open>Requests one after another, each with an outside of its own.\<close>

type_synonym incoming = "outside \<times> (string \<Rightarrow> string) \<times> string \<times> string \<times> http_request"

fun serve_all :: "router \<Rightarrow> Handler \<Rightarrow> incoming list \<Rightarrow> db \<Rightarrow> db" where
  "serve_all rt h [] d = d"
| "serve_all rt h ((a, unread, m, path, q) # rs) d = serve_all rt h rs (snd (serve a unread rt h m path q d))"

lemma serve_all_inv:
  assumes "\<And>r. r \<in> set rs \<Longrightarrow> request_envs num (\<lambda>_. True) (fst r)" "has_idempotency (h_svc h)" "numeric_stable num"
    and "ledger_inv num d"
  shows "ledger_inv num (serve_all rt h rs d)"
  using assms(1,4)
proof (induction rs arbitrary: d)
  case (Cons r rs)
  obtain a unread m path q where r: "r = (a, unread, m, path, q)" by (cases r) auto
  obtain resp d' where s: "serve a unread rt h m path q d = (resp, d')" by force
  have "request_envs num (\<lambda>_. True) a" using Cons.prems(1) [of r] r by simp
  from serve_refines_run [OF this assms(2) s] have "ledger_inv num d'"
    using run_inv assms(3) Cons.prems(2) by blast
  with Cons show ?case by (simp add: r s)
qed simp

text \<open>C3: the books stay balanced whatever the clients send.  After any sequence of requests, with any faults of the database, every
  posted voucher has lines and the sums of its two sides agree.\<close>

theorem served_books_balance:
  assumes "\<And>r. r \<in> set rs \<Longrightarrow> request_envs num (\<lambda>_. True) (fst r)" and "has_idempotency (h_svc h)"
    and "numeric_stable num" and "ledger_inv num d"
  shows "journals_wf (serve_all rt h rs d) \<and> (\<forall>j \<in> set (journal_entries (serve_all rt h rs d)). je_Status j = JournalStatusPosted \<longrightarrow>
    entry_lines (serve_all rt h rs d) (je_EntityID j) (je_ID j) \<noteq> [] \<and>
    validateBalanced (entry_lines (serve_all rt h rs d) (je_EntityID j) (je_ID j)) = None)"
  using serve_all_inv [OF assms] by (simp add: ledger_inv_def balanced_entry_def)

lemma post_capability: "findCapability example_handler ''finance.journal.post'' = Some cap_journal_post"
  by (simp add: findCapability_def catalog_defs)

definition post_path :: string where "post_path = ''/v1/capabilities/finance.journal.post/execute''"

text \<open>A router that knows one path.\<close>

definition example_router :: router where
  "example_router rs m path = (if m = ''POST'' \<and> path = post_path then Inr (EExecute, ''finance.journal.post'') else Inl 404)"

lemma post_route: "example_router routes ''POST'' post_path = Inr (EExecute, ''finance.journal.post'')"
  by (simp add: example_router_def)

lemma example_router_ok: "router_ok example_router"
  by (auto simp: router_ok_def example_router_def routes_def)

lemma post_executes:
  "do_journal_post example_outside full_service c ''e1'' post_request (example_db JournalStatusDraft PeriodStatusOpen) =
     pointer_reply voucher_reply (PostJournalEntry plain_env full_service c ''e1'' ''j1'' ''u1'' (example_db JournalStatusDraft PeriodStatusOpen))"
  by (simp add: do_journal_post_def with_input_def post_request_def post_input_decoded)

definition post_served :: "db" where
  "post_served = serve_all example_router example_handler [(example_outside, \<lambda>b. '''', ''POST'', post_path, example_request post_body)]
     (example_db JournalStatusDraft PeriodStatusOpen)"

lemma post_handler: "map_of handlers ''finance.journal.post'' = Some do_journal_post"
  by (simp add: handlers_def)

lemma idem_free [simp]: "idempotency_records (example_db st p) = []"
  by (simp add: example_db_def empty_db_def)

lemma post_called:
  "executeRequest example_outside example_handler ''finance.journal.post'' cap_journal_post post_request
      (example_db JournalStatusDraft PeriodStatusOpen) = (resp, d') \<Longrightarrow>
   journal_entries d' = journal_entries (snd (PostJournalEntry plain_env full_service
      (request_context ''t1'' ''finance.journal.post'' post_request) ''e1'' ''j1'' ''u1'' (example_db JournalStatusDraft PeriodStatusOpen)))"
proof -
  assume a: "executeRequest example_outside example_handler ''finance.journal.post'' cap_journal_post post_request
      (example_db JournalStatusDraft PeriodStatusOpen) = (resp, d')"
  have req: "pr_TraceID post_request = ''t1''" "pr_IdempotencyKey post_request = ''k1''" "pr_EntityID post_request = ''e1''"
    by (simp_all add: post_request_def)
  have save: "journal_entries (remember_result x h c n r res st d) = journal_entries d" for x h c n r res st d
    by (auto simp: remember_result_def idem_Save_def split: sum.split option.split)
  from a show ?thesis
    by (auto simp: executeRequest_def Let_def req idem_Get_def run_capability_def executeCapability_def post_handler post_executes
        pointer_reply_def save split: sum.splits option.splits failure.splits prod.splits if_splits)
qed

lemma post_served_entries: "map je_Status (journal_entries post_served) = [JournalStatusPosted]"
proof -
  let ?d = "example_db JournalStatusDraft PeriodStatusOpen"
  obtain resp d' where x: "executeRequest example_outside example_handler ''finance.journal.post'' cap_journal_post post_request ?d = (resp, d')"
    by force
  have "Execute example_outside example_handler (with_param ''finance.journal.post'' (example_request post_body)) ?d = (resp, d')"
    using x by (simp add: Execute_def with_param_def example_request_def post_capability post_body_decoded Let_def
        post_request_def)
  then have "post_served = d'" by (simp add: post_served_def serve_def post_route)
  moreover note post_called [OF x]
  moreover have "map je_Status (journal_entries (snd (PostJournalEntry plain_env full_service c ''e1'' ''j1'' ''u1'' ?d))) = [JournalStatusPosted]" for c
    by (simp add: PostJournalEntry_def PeriodStatusOpen_def PeriodStatusClosed_def PeriodStatusLocked_def
      journal_PostTx_def journal_change_def status_update_def journal_read_def from_invoice_def spoiled_def mark_source_def find_entry_def
      Let_def)
  ultimately show ?thesis by simp
qed

theorem served_books_balance_witness:
  "map je_Status (journal_entries post_served) = [JournalStatusPosted] \<and> journals_wf post_served"
proof -
  have "journals_wf post_served" unfolding post_served_def
    by (rule conjunct1 [OF served_books_balance [where num = "\<lambda>p s. Some"]]) simp_all
  with post_served_entries show ?thesis by simp
qed

theorem serve_refines_run_witness:
  "run (\<lambda>p s. Some) full_service (\<lambda>_. True) (example_db JournalStatusDraft PeriodStatusOpen) post_served \<and>
   map je_Status (journal_entries post_served) = [JournalStatusPosted]"
proof -
  let ?d = "example_db JournalStatusDraft PeriodStatusOpen"
  obtain resp d' where s: "serve example_outside (\<lambda>b. '''') example_router example_handler ''POST'' post_path (example_request post_body) ?d = (resp, d')" by force
  have e: "request_envs (\<lambda>p s. Some) (\<lambda>_. True) example_outside" by simp
  have i: "has_idempotency (h_svc example_handler)" by simp
  from serve_refines_run [OF e i s] have "run (\<lambda>p s. Some) full_service (\<lambda>_. True) ?d d'" by simp
  moreover have "post_served = d'" using s by (simp add: post_served_def)
  ultimately show ?thesis using post_served_entries by simp
qed

end
