(* ===== verification/Replay.thy ===== *)
theory Replay
  imports Api
begin

text \<open>
  The replay of idempotent requests: what the handler answers when a key comes back.
\<close>

section \<open>Capabilities do not touch the records of the replay\<close>

abbreviation memory :: "db \<Rightarrow> IdempotencyRecord list" where "memory \<equiv> idempotency_records"

lemma store_memory:
  "invoice_Create e i d = Inr d' \<Longrightarrow> memory d' = memory d"
  "invoice_Update e i d = Inr d' \<Longrightarrow> memory d' = memory d"
  "invoice_set e s g en x d = Inr d' \<Longrightarrow> memory d' = memory d"
  "invoice_updateStatus e tx en k f t d = (r, d') \<Longrightarrow> memory d' = memory d"
  "book_Create e b d = Inr d' \<Longrightarrow> memory d' = memory d"
  "account_Create e ac d = Inr d' \<Longrightarrow> memory d' = memory d"
  "period_UpdateStatus e en bk p f t c d = (r2, d') \<Longrightarrow> memory d' = memory d"
  by (auto simp: invoice_Create_def invoice_Update_def invoice_set_def invoice_updateStatus_def invoice_change_def book_Create_def
      account_Create_def period_UpdateStatus_def period_change_def split: if_splits option.splits)

lemma lines_memory: "invoice_lines_CreateMany e ls d = (r, d') \<Longrightarrow> memory d' = memory d"
proof (induction ls arbitrary: d)
  case (Cons l ls)
  then show ?case by (auto simp: invoice_line_insert_def split: if_splits option.splits sum.splits)
qed simp

lemma mark_memory [simp]: "memory (mark_source e tx en p d) = memory d"
  using store_memory(4) [of e tx en "je_SourceID (the p)" StatusApproved StatusPosted d]
  by (auto simp: mark_source_def invoice_MarkPostedTx_def) (metis prod.collapse)+

lemma seed_memory [simp]: "memory (seed_accounts e n en b as d) = memory d"
  by (induction as arbitrary: n d) (auto simp: account_Create_def split: sum.split)

lemma invoice_memory:
  "CreateInvoiceDraft e s c en b a v d = (r, d') \<Longrightarrow> memory d' = memory d"
  "RejectInvoice e s c en k a d = (r1, d') \<Longrightarrow> memory d' = memory d"
  "CreateRedLetterInvoice e s c en b k a t d = (r, d') \<Longrightarrow> memory d' = memory d"
  "VerifyInvoice e s c en k a d = (q, d') \<Longrightarrow> memory d' = memory d"
  "ConfirmInvoiceUsage e s c en k u a d = (q, d') \<Longrightarrow> memory d' = memory d"
  by (auto simp: CreateInvoiceDraft_def RejectInvoice_def invoice_Reject_def CreateRedLetterInvoice_def
      VerifyInvoice_def ConfirmInvoiceUsage_def invoice_UpdateRedLetterStatus_def invoice_UpdateVerificationStatus_def
      invoice_UpdateUsageStatus_def Let_def
    dest!: store_memory split: if_splits option.splits sum.splits prod.splits)

lemma import_memory: "ImportEInvoice e s c en b x d = (r, d') \<Longrightarrow> memory d' = memory d"
proof -
  assume a: "ImportEInvoice e s c en b x d = (r, d')"
  have "memory (snd (invoice_lines_CreateMany e ls d1)) = memory d1" for ls d1 using lines_memory [of e ls d1] by (metis prod.collapse)
  with a show ?thesis
    by (auto simp: ImportEInvoice_def Let_def dest!: store_memory(1) split: if_splits option.splits sum.splits)
qed

lemma tx_memory:
  "journal_PostTx e tx en k d = (r, d') \<Longrightarrow> memory d' = memory d"
  "journal_VoidTx e tx en k d = (r, d') \<Longrightarrow> memory d' = memory d"
  by (auto simp: journal_PostTx_def journal_VoidTx_def journal_change_def split: if_splits option.splits)

lemma journal_memory:
  "CreateJournalDraft e s c en b p a j d = (r, d') \<Longrightarrow> memory d' = memory d"
  "PostJournalEntry e s c en k a d = (r1, d') \<Longrightarrow> memory d' = memory d"
  "VoidJournalEntry e s c en k a d = (r1, d') \<Longrightarrow> memory d' = memory d"
  "UpdateJournalDraft e s c en k j d = (r, d') \<Longrightarrow> memory d' = memory d"
  by (auto simp: CreateJournalDraft_def PostJournalEntry_def VoidJournalEntry_def void_audit_def UpdateJournalDraft_def Let_def
    dest!: tx_memory create_frame(7) split: if_splits option.splits sum.splits prod.splits)
lemma approve_memory: "ApproveInvoice e s c en k a d = (r, d') \<Longrightarrow> memory d' = memory d"
  by (auto simp: ApproveInvoice_def approve_audit_def invoice_ApproveTx_def Let_def
    dest!: store_memory(4) create_frame(7) split: if_splits option.splits sum.splits prod.splits)

lemma batch_memory: "BatchPostJournals e n s c en ks a d = (r, d') \<Longrightarrow> memory d' = memory d"
  by (induction ks arbitrary: n d r) (auto dest: journal_memory(2) split: sum.splits option.splits prod.splits; metis journal_memory(2))+

lemma period_memory:
  "ClosePeriod e txt ord s c en b p a d = (r, d') \<Longrightarrow> memory d' = memory d"
  "ReopenPeriod e s c en b p a d = (r, d') \<Longrightarrow> memory d' = memory d"
  "LockPeriod e s c en b p a d = (r, d') \<Longrightarrow> memory d' = memory d"
  by (auto simp: ClosePeriod_def ReopenPeriod_def LockPeriod_def period_audit_def Let_def
    dest!: store_memory(7) split: if_splits option.splits sum.splits prod.splits; metis prod.collapse store_memory(7))+

lemma adjustments_memory: "upsert_adjustments e n rs d = (x, d') \<Longrightarrow> memory d' = memory d"
proof (induction rs arbitrary: n d)
  case (Cons r rs)
  have u: "adjustment_Upsert e a d = Inr d1 \<Longrightarrow> memory d1 = memory d" for a d1
    by (auto simp: adjustment_Upsert_def Let_def split: option.splits if_splits)
  from Cons.prems show ?case by (auto simp: Let_def split: if_splits sum.splits dest!: u Cons.IH)
qed simp

lemma checks_memory: "checks_CreateMany e cs d = (x, d') \<Longrightarrow> memory d' = memory d"
  by (induction cs arbitrary: d) (auto simp: check_insert_def Let_def split: sum.splits option.splits if_splits)

lemma record_memory:
  "CreateBook e s c bk d = (r, d') \<Longrightarrow> memory d' = memory d"
  "UpsertLogistics e s lr d = Inr d' \<Longrightarrow> memory d' = memory d"
  "UpsertBankTransaction e s bt d = Inr d' \<Longrightarrow> memory d' = memory d"
  "MatchBankToInvoice e s en k i x d = Inr d' \<Longrightarrow> memory d' = memory d"
  "UnmatchBankFromInvoice e s en k d = Inr d' \<Longrightarrow> memory d' = memory d"
  "UpsertAdjustments e s rs d = (q, d') \<Longrightarrow> memory d' = memory d"
  "RunConsistencyCheck e ordg s en b p d = (r2, d') \<Longrightarrow> memory d' = memory d"
  by (auto simp: CreateBook_def book_Create_def seedStandardChartOfAccounts_def UpsertLogistics_def logistics_Upsert_def
      UpsertBankTransaction_def bank_Upsert_def MatchBankToInvoice_def bank_Match_def UnmatchBankFromInvoice_def bank_Unmatch_def
      bank_set_match_def UpsertAdjustments_def RunConsistencyCheck_def Let_def
    dest: checks_memory adjustments_memory split: if_splits option.splits sum.splits prod.splits)

lemma close_check_memory: "EnhanceCloseCheck e1 e txt ord ordg s en b p d = (r, d') \<Longrightarrow> memory d' = memory d"
  by (auto simp: EnhanceCloseCheck_def Let_def dest: record_memory(7) split: sum.splits prod.splits)

lemma writing_memory:
  assumes "h \<in> set writing" "h a s c en req d = (r, d')"
  shows "memory d' = memory d"
  using assms unfolding writing_def
  by (auto simp: do_book_create_def do_invoice_create_draft_def do_invoice_approve_def do_invoice_reject_def
      do_invoice_create_red_letter_def do_invoice_import_einvoice_def do_invoice_verify_def do_invoice_confirm_usage_def
      do_journal_create_draft_def do_journal_post_def do_journal_void_def do_journal_update_draft_def do_journal_batch_post_def
      do_period_close_def do_period_lock_def do_period_reopen_def do_upsert_logistics_def do_upsert_bank_transaction_def
      do_match_bank_def do_unmatch_bank_def do_upsert_adjustments_def reply_defs Let_def
    split: option.splits sum.splits prod.splits
    dest!: invoice_memory import_memory journal_memory approve_memory batch_memory period_memory record_memory)

lemma capability_memory:
  assumes "executeCapability a s c en n req d = (r, d')"
  shows "memory d' = memory d"
proof (cases "map_of handlers n")
  case None
  with assms show ?thesis by (simp add: executeCapability_def)
next
  case (Some h)
  with assms have h: "h a s c en req d = (r, d')" by (simp add: executeCapability_def)
  from handler_kinds [OF map_of_SomeD [OF Some]] consider "h \<in> set reading" | "h \<in> set writing"
    | "h = do_consistency_check" | "h = do_enhanced_close_check" by auto
  then show ?thesis
  proof cases
    case 1
    with reading_keeps [of h a s c en req d] h show ?thesis by simp
  next
    case 2
    with writing_memory h show ?thesis by blast
  next
    case 3
    with h show ?thesis
      by (auto simp: do_consistency_check_def reply_defs split: option.splits prod.splits dest: record_memory(7))
  next
    case 4
    with h show ?thesis
      by (auto simp: do_enhanced_close_check_def reply_defs split: option.splits sum.splits prod.splits dest: close_check_memory)
  qed
qed

section \<open>A key is executed once\<close>

lemma idem_lookup: "\<not> fault e Idempotency_Get \<Longrightarrow> idem_Get e d en n k = Inr (find (\<lambda>r. ir_key r = (en, n, k)) (memory d))"
  by (simp add: idem_Get_def)

lemma remembered:
  assumes "cap_RequiresIdempotencyKey c" "h_idempStore h" "\<not> fault (o_save a) Idempotency_Save" "jsonb (o_save a) res = Some t"
    and "find (\<lambda>r. ir_key r = (pr_EntityID req, n, pr_IdempotencyKey req)) (memory d) = None"
    and "\<not> fault e Idempotency_Get"
  shows "idem_Get e (remember_result a h c n req res st d) (pr_EntityID req) n (pr_IdempotencyKey req) =
    Inr (Some ((idem_record a n req res st)\<lparr>ir_Result := t, ir_CreatedAt := db_now (o_save a)\<rparr>))"
proof -
  let ?r = "idem_record a n req res st"
  have k: "ir_key ?r = (pr_EntityID req, n, pr_IdempotencyKey req)" by (simp add: ir_key_def idem_record_def)
  have res: "ir_Result ?r = res" by (simp add: idem_record_def)
  have "\<not> list_ex (\<lambda>x. ir_key x = ir_key ?r) (memory d)" using assms(5) by (auto simp: k find_None_iff list_ex_iff)
  with assms k res show ?thesis
    by (simp add: remember_result_def idem_Save_def idem_lookup find_append ir_key_def split: option.split)
qed

text \<open>What an execution that answers leaves under its key.\<close>

lemma stored_after:
  assumes "cap_RequiresIdempotencyKey c" "h_idempStore h" "run_capability a h t n c req d = (resp, d1)" "hs_Body resp = Envelope p"
    and "idem_Get e0 d (pr_EntityID req) n (pr_IdempotencyKey req) = Inr None" "\<not> fault (o_save a) Idempotency_Save"
    and "\<And>t. t \<in> {''{}'', rp_Data p} \<Longrightarrow> jsonb (o_save a) t = Some (stored t)" "\<not> fault e Idempotency_Get"
  shows "idem_Get e d1 (pr_EntityID req) n (pr_IdempotencyKey req) =
    Inr (Some ((idem_record a n req (stored (if rp_Status p = ''ok'' then rp_Data p else ''{}''))
      (if rp_Status p = ''ok'' then ''completed'' else ''failed''))\<lparr>ir_CreatedAt := db_now (o_save a)\<rparr>))"
proof -
  obtain x d0 where x: "executeCapability a (h_svc h) (request_context t n req) (pr_EntityID req) n req d = (x, d0)" by force
  have none: "find (\<lambda>r. ir_key r = (pr_EntityID req, n, pr_IdempotencyKey req)) (memory d0) = None"
    using assms(5) capability_memory [OF x] by (auto simp: idem_Get_def split: if_splits)
  define res st where "res = (if rp_Status p = ''ok'' then rp_Data p else ''{}'')" and
    "st = (if rp_Status p = ''ok'' then ''completed'' else ''failed'')"
  have d1: "d1 = remember_result a h c n req res st d0"
    using assms(3,4) x by (auto simp: run_capability_def res_def st_def writeJSON_def writeError_def ok_response_def
        no_response_def split: sum.splits failure.splits)
  have "jsonb (o_save a) res = Some (stored res)" using assms(7) by (simp add: res_def)
  from remembered [OF assms(1,2,6) this none assms(8), of st] show ?thesis
    unfolding d1 res_def [symmetric] st_def [symmetric] by (simp add: idem_record_def)
qed


lemma not_an_object: "unmarshal journal_id_input no_input ''[]'' = None"
  by code_simp


end
