(* ===== verification/Responses.thy ===== *)
theory Responses
  imports Replay "HOL-Library.Sublist"
begin

text \<open>
  What clients can do with the answers of the API: a replayed result can be read back, the V3 route never accepts the older form of
  a request, and no resource can be fetched.
\<close>

section \<open>Reading a replayed result\<close>

definition plain_char :: "char \<Rightarrow> bool" where
  "plain_char c \<longleftrightarrow> c \<noteq> CHR 0x22 \<and> c \<noteq> CHR 0x5C \<and> c \<noteq> CHR 0x0A \<and> c \<noteq> CHR 0x0D \<and> 0x20 \<le> (of_char c :: nat) \<and> of_char c < (0x80 :: nat)"

lemma b64_chars: "n < 64 \<Longrightarrow> b64_val (b64_char n) = Some n \<and> plain_char (b64_char n) \<and> b64_char n \<noteq> CHR ''=''"
proof -
  have "list_all (\<lambda>n. b64_val (b64_char n) = Some n \<and> plain_char (b64_char n) \<and> b64_char n \<noteq> CHR ''='') [0..<64]" by code_simp
  then show "n < 64 \<Longrightarrow> ?thesis" by (simp add: list_all_iff)
qed

lemma char_bound: "(of_char (c :: char) :: nat) < 256"
  by (metis of_char_mod_256 mod_less_divisor zero_less_numeral)

lemma b64_parts:
  assumes "x < 256" "y < (256 :: nat)" "z < (256 :: nat)"
  shows "x div 4 < 64" "x mod 4 * 16 < 64" "x mod 4 * 16 + y div 16 < 64" "y mod 16 * 4 < 64" "y mod 16 * 4 + z div 64 < 64" "z mod 64 < 64"
    "4 * (x div 4) + (x mod 4 * 16) div 16 = x" "4 * (x div 4) + (x mod 4 * 16 + y div 16) div 16 = x"
    "16 * ((x mod 4 * 16 + y div 16) mod 16) + (y mod 16 * 4) div 4 = y"
    "16 * ((x mod 4 * 16 + y div 16) mod 16) + (y mod 16 * 4 + z div 64) div 4 = y"
    "64 * ((y mod 16 * 4 + z div 64) mod 4) + z mod 64 = z"
proof -
  have q: "y div 16 < 16" "z div 64 < 4" "x div 4 < 64" "x mod 4 < 4" "y mod 16 < 16" "z mod 64 < 64" using assms by auto
  show "x div 4 < 64" "x mod 4 * 16 < 64" "x mod 4 * 16 + y div 16 < 64" "y mod 16 * 4 < 64" "y mod 16 * 4 + z div 64 < 64" "z mod 64 < 64"
    using q by linarith+
  have m: "(x mod 4 * 16 + y div 16) div 16 = x mod 4" "(x mod 4 * 16 + y div 16) mod 16 = y div 16"
    "(y mod 16 * 4 + z div 64) div 4 = y mod 16" "(y mod 16 * 4 + z div 64) mod 4 = z div 64"
    using q by auto
  show "4 * (x div 4) + (x mod 4 * 16) div 16 = x" "4 * (x div 4) + (x mod 4 * 16 + y div 16) div 16 = x"
    "16 * ((x mod 4 * 16 + y div 16) mod 16) + (y mod 16 * 4) div 4 = y"
    "16 * ((x mod 4 * 16 + y div 16) mod 16) + (y mod 16 * 4 + z div 64) div 4 = y"
    "64 * ((y mod 16 * 4 + z div 64) mod 4) + z mod 64 = z"
    unfolding m by simp_all
qed

lemma b64_group:
  assumes "u < 64" "v < 64" "w < 64" "t < 64"
  shows "b64_groups (b64_char u # b64_char v # b64_char w # b64_char t # s) =
      map_option (\<lambda>r. char_of (4 * u + v div 16) # char_of (16 * (v mod 16) + w div 4) # char_of (64 * (w mod 4) + t) # r) (b64_groups s)"
    and "b64_groups [b64_char u, b64_char v, b64_char w, CHR ''=''] = Some [char_of (4 * u + v div 16), char_of (16 * (v mod 16) + w div 4)]"
    and "b64_groups [b64_char u, b64_char v, CHR ''='', CHR ''=''] = Some [char_of (4 * u + v div 16)]"
  using b64_chars [OF assms(1)] b64_chars [OF assms(2)] b64_chars [OF assms(3)] b64_chars [OF assms(4)]
  by (simp_all only: b64_groups.simps option.case prod.case Let_def if_False if_True simp_thms)

lemma b64_round_trip: "b64_groups (base64 s) = Some s"
proof (induction s rule: base64.induct)
  case (2 a)
  note p = b64_parts [OF char_bound [of a] char_bound [of a] char_bound [of a]]
  show ?case by (simp only: base64.simps Let_def b64_group(3) [OF p(1,2) p(1,1)] p(7) char_of_char)
next
  case (3 a b)
  note p = b64_parts [OF char_bound [of a] char_bound [of b] char_bound [of a]]
  show ?case by (simp only: base64.simps Let_def b64_group(2) [OF p(1,3,4) p(1)] p(8,9) char_of_char)
next
  case (4 a b c s)
  note p = b64_parts [OF char_bound [of a] char_bound [of b] char_bound [of c]]
  show ?case
    by (simp only: base64.simps Let_def append.simps b64_group(1) [OF p(1,3,5,6)] p(8,10,11) char_of_char 4 option.map)
qed simp

lemma plain_b64: "n < 64 \<Longrightarrow> plain_char (b64_char n)" "plain_char (CHR ''='')"
  using b64_chars by (blast, simp add: plain_char_def)

lemma base64_plain: "list_all plain_char (base64 s)"
proof (induction s rule: base64.induct)
  case (2 a)
  note p = b64_parts [OF char_bound [of a] char_bound [of a] char_bound [of a]]
  show ?case by (simp only: base64.simps Let_def list.pred_inject plain_b64(2) p(1,2) [THEN plain_b64(1)] simp_thms)
next
  case (3 a b)
  note p = b64_parts [OF char_bound [of a] char_bound [of b] char_bound [of a]]
  show ?case by (simp only: base64.simps Let_def list.pred_inject plain_b64(2) p(1,3,4) [THEN plain_b64(1)] simp_thms)
next
  case (4 a b c s)
  note p = b64_parts [OF char_bound [of a] char_bound [of b] char_bound [of c]]
  show ?case by (simp only: base64.simps Let_def append.simps list.pred_inject p(1,3,5,6) [THEN plain_b64(1)] simp_thms 4)
qed simp

lemma plain_pieces: "list_all plain_char s \<Longrightarrow> pieces Plain (s @ CHR 0x22 # r) = Some (map Byte s, r)"
  by (induction s) (auto simp: plain_char_def)

lemma plain_text: "list_all plain_char s \<Longrightarrow> piece_text (map Byte s) = s"
proof (induction s)
  case (Cons c s)
  then have "of_char c < (0x80 :: nat)" by (simp add: plain_char_def)
  then have "seq_len (map of_char (take 4 (raw_bytes (Byte c # map Byte s)))) = 1" by (simp add: Let_def)
  with Cons show ?case by (simp add: Let_def)
qed simp

lemma base64_filter: "filter (\<lambda>c. c \<noteq> CHR 0x0A \<and> c \<noteq> CHR 0x0D) (base64 s) = base64 s"
  using base64_plain [of s] by (auto simp: filter_id_conv list_all_iff plain_char_def)


section \<open>Routes that never answer\<close>

lemma blank_unread: "list_all json_space s \<Longrightarrow> first_value s = None"
  proof -
  assume "list_all json_space s"
  then have "skip_ws s = []" by (simp add: skip_ws_def dropWhile_eq_Nil_conv list_all_iff)
  then show ?thesis by (simp add: first_value_def)
qed


definition old_body :: string where "old_body = quoted ''{`entity_id`:`e1`}''"

lemma old_body_v3: "first_value old_body = Some (JObj [(''entity_id'', quoted ''`e1`'', JStr ''e1'')], '''')"
  by code_simp

lemma folded_heads: "utf8 0x17F = [char_of (197::nat), char_of (191::nat)]" "utf8 0x212A = [char_of (226::nat), char_of (132::nat), char_of (170::nat)]"
  by (simp_all add: utf8_def)

lemma drop_folded_ascii: "list_all (\<lambda>c. of_char c < (0x80 :: nat)) s \<Longrightarrow> drop_folded s = s"
proof (induction s rule: drop_folded.induct)
  case (1 a b c s)
  then have "a \<noteq> char_of (197::nat)" "a \<noteq> char_of (226::nat)" by auto
  with 1 show ?case by (simp add: folded_heads)
next
  case (2 a b)
  then have "a \<noteq> char_of (197::nat)" by auto
  with 2 show ?case by (simp add: folded_heads)
qed simp_all

lemma fold_ascii: "list_all (\<lambda>c. of_char c < (0x80 :: nat)) s \<Longrightarrow> fold_name s = map upper s"
  by (simp add: fold_name_def drop_folded_ascii)

lemma old_fold: "fold_name ''entity_id'' = ''ENTITY_ID''" "fold_name ''context'' = ''CONTEXT''" "fold_name ''input'' = ''INPUT''"
proof -
  have "map upper ''entity_id'' = ''ENTITY_ID''" "map upper ''context'' = ''CONTEXT''" "map upper ''input'' = ''INPUT''" by code_simp+
  then show "fold_name ''entity_id'' = ''ENTITY_ID''" "fold_name ''context'' = ''CONTEXT''" "fold_name ''input'' = ''INPUT''"
    by (simp_all add: fold_ascii)
qed


lemma one_segment: "CHR ''/'' \<notin> set s \<Longrightarrow> split2_from ''://'' acc s = [rev acc @ s]"
  proof (induction s arbitrary: acc)
  case (Cons c s)
  have "\<not> HasPrefix (c # s) ''://''" using Cons.prems by (cases s) (auto simp: HasPrefix_def)
  with Cons show ?case by simp
qed simp

text \<open>C37: no resource can be fetched.  The identifier of a resource is one segment of the path, which holds no slash, while the
  handler asks for one with \<open>://\<close> in it: every request for a resource is answered 400.\<close>

theorem resources_unreachable:
  assumes "router_ok rt" "rt routes m path = Inr (EGetResource, uri)"
  shows "\<exists>resp. serve a unread rt h m path q d = (resp, d) \<and> hs_Status resp = 400"
proof -
  have "CHR ''/'' \<notin> set uri" using assms unfolding router_ok_def by blast
  then have "SplitN2 uri ''://'' = [uri]" using one_segment [of uri "[]"] by (simp add: SplitN2_def)
  then show ?thesis
    by (simp add: serve_def assms(2) with_param_def GetResource_def Let_def writeError_def writeJSON_def)
qed

text \<open>A router that finds the resource route for one encoded path.\<close>

definition resource_router :: router where
  "resource_router rs m path =
     (if m = ''GET'' \<and> path = ''/v1/resources/invoice:%2F%2Fi1'' then Inr (EGetResource, ''invoice:%2F%2Fi1'') else Inl 404)"

theorem resources_unreachable_witness:
  "\<exists>resp. serve example_outside (\<lambda>b. '''') resource_router example_handler ''GET'' ''/v1/resources/invoice:%2F%2Fi1''
      (example_request '''') empty_db = (resp, empty_db) \<and> hs_Status resp = 400"
proof (rule resources_unreachable)
  show "router_ok resource_router" by (auto simp: router_ok_def resource_router_def routes_def)
  show "resource_router routes ''GET'' ''/v1/resources/invoice:%2F%2Fi1'' = Inr (EGetResource, ''invoice:%2F%2Fi1'')"
    by (simp add: resource_router_def)
qed

end
