(* ===== verification/Catalog_Facts.thy ===== *)
theory Catalog_Facts
  imports Responses
begin

text \<open>
  What the catalog promises about the capabilities, against what their cases in \<open>executeCapability\<close> do.
\<close>

section \<open>What the catalog promises\<close>

lemma catalog_names:
  "map cap_Name Catalog =
     [''finance.book.create'', ''finance.book.list'', ''finance.account.list'', ''finance.invoice.create_draft'',
      ''finance.invoice.approve'', ''finance.invoice.reject'', ''finance.journal.create_draft'', ''finance.journal.post'',
      ''finance.journal.void'', ''finance.report.trial_balance'', ''finance.report.account_balance'',
      ''finance.period.close_check'', ''finance.period.close'', ''finance.period.lock'', ''finance.period.reopen'',
      ''finance.reconciliation.upsert_logistics'', ''finance.reconciliation.upsert_bank_transaction'',
      ''finance.reconciliation.match_bank'', ''finance.reconciliation.unmatch_bank'', ''finance.report.profit_statement'',
      ''finance.report.balance_sheet'', ''finance.report.vat_cross_check'', ''finance.report.vat_return'',
      ''finance.report.cross_tax_validation'', ''finance.report.three_way_match'', ''finance.tax.calculate_vat'',
      ''finance.tax.calculate_stamp'', ''finance.tax.calculate_pit'', ''finance.report.cit_return'',
      ''finance.tax.list_adjustments'', ''finance.tax.upsert_adjustments'', ''finance.report.tax_risk'',
      ''finance.risk.scan'', ''finance.consistency.check'', ''finance.period.enhanced_close_check'',
      ''finance.invoice.create_red_letter'', ''finance.invoice.import_einvoice'', ''finance.invoice.verify'',
      ''finance.invoice.confirm_usage'', ''finance.journal.update_draft'', ''finance.journal.batch_post'',
      ''finance.export.trial_balance'', ''finance.export.vat_summary'', ''finance.export.vat_return'',
      ''finance.export.cit_return'', ''finance.export.adjustments'']"
  by (simp add: catalog_defs)

lemma catalog_handled:
  "distinct (map cap_Name Catalog) \<and> distinct (map fst handlers) \<and> set (map cap_Name Catalog) = set (map fst handlers)"
proof -
  have "distinct (map cap_Name Catalog)" unfolding catalog_names by simp
  moreover have "distinct (map fst handlers)" by (simp add: handlers_def)
  moreover have "set (map cap_Name Catalog) \<subseteq> set (map fst handlers)" unfolding catalog_names by (simp add: handlers_def)
  moreover have "set (map fst handlers) \<subseteq> set (map cap_Name Catalog)" unfolding catalog_names by (simp add: handlers_def)
  ultimately show ?thesis by blast
qed


lemma keys_of_effects: "c \<in> set Catalog \<Longrightarrow> cap_RequiresIdempotencyKey c \<longleftrightarrow> cap_SideEffect c \<noteq> SideEffectRead"
  by (auto simp: catalog_defs SideEffectRead_def SideEffectDraftWrite_def SideEffectCommittedWrite_def SideEffectDestructive_def)

definition self_checks :: "string list" where
  "self_checks = [''finance.consistency.check'', ''finance.period.enhanced_close_check'']"

definition read_names :: "string list" where
  "read_names =
     [''finance.book.list'', ''finance.account.list'', ''finance.report.trial_balance'', ''finance.report.account_balance'',
      ''finance.period.close_check'', ''finance.report.profit_statement'', ''finance.report.balance_sheet'',
      ''finance.report.vat_cross_check'', ''finance.report.vat_return'', ''finance.report.cross_tax_validation'',
      ''finance.report.three_way_match'', ''finance.tax.calculate_vat'', ''finance.tax.calculate_stamp'',
      ''finance.tax.calculate_pit'', ''finance.report.cit_return'', ''finance.tax.list_adjustments'',
      ''finance.report.tax_risk'', ''finance.risk.scan'', ''finance.export.trial_balance'', ''finance.export.vat_summary'',
      ''finance.export.vat_return'', ''finance.export.cit_return'', ''finance.export.adjustments'']"

lemma read_names: "map cap_Name (filter (\<lambda>c. cap_SideEffect c = SideEffectRead \<and> cap_Name c \<notin> set self_checks) Catalog) = read_names"
  by (simp add: catalog_defs SideEffectRead_def SideEffectDraftWrite_def SideEffectCommittedWrite_def SideEffectDestructive_def
      self_checks_def read_names_def)

lemma read_handlers: "list_all (\<lambda>(n, h). n \<in> set read_names \<longrightarrow> h \<in> set reading) handlers"
  unfolding handlers_def by (simp add: read_names_def) (simp add: reading_def)

lemma reads_change_nothing:
  assumes "c \<in> set Catalog" "cap_SideEffect c = SideEffectRead" "cap_Name c \<notin> set self_checks"
    and "executeRequest a h (cap_Name c) c req d = (resp, d')"
  shows "d' = d \<and> \<not> cap_RequiresIdempotencyKey c"
proof -
  have k: "\<not> cap_RequiresIdempotencyKey c" using keys_of_effects [OF assms(1)] assms(2) by simp
  have "cap_Name c \<in> set read_names" unfolding read_names [symmetric] using assms(1-3) by simp
  moreover have "cap_Name c \<in> set (map fst handlers)" using assms(1) catalog_handled by auto
  then obtain f where f: "map_of handlers (cap_Name c) = Some f" 
    by (metis list.set_map map_of_eq_None_iff not_None_eq)
  then have "(cap_Name c, f) \<in> set handlers" by (rule map_of_SomeD)
  ultimately have r: "f \<in> set reading" using read_handlers by (auto simp: list_all_iff)
  have "snd (executeCapability a s x en (cap_Name c) req d) = d" for s x en
    using reading_keeps [OF r] by (simp add: executeCapability_def f)
  then have "snd (run_capability a h t (cap_Name c) c req d) = d" for t
    by (auto simp: run_capability_def remember_result_def k split: sum.split failure.split prod.split) (metis snd_conv)+
  with assms(4) k show ?thesis by (auto simp: executeRequest_def Let_def) (metis snd_conv)+
qed

lemma writes_need_key:
  assumes "c \<in> set Catalog" "cap_SideEffect c \<noteq> SideEffectRead" "pr_IdempotencyKey req = ''''"
  shows "\<exists>resp. executeRequest a h (cap_Name c) c req d = (resp, d) \<and> hs_Status resp = 400"
  using keys_of_effects [OF assms(1)] assms(2,3) by (simp add: executeRequest_def Let_def writeError_def writeJSON_def)

lemma executing_routes: "(m, pattern, EExecute) \<in> set routes \<or> (m, pattern, EExecuteV3) \<in> set routes \<Longrightarrow> m = ''POST''"
  by (auto simp: routes_def)

lemma found_capability: "findCapability h n = Some c \<Longrightarrow> c \<in> set (h_capabilities h) \<and> cap_Name c = n"
  by (auto simp: findCapability_def find_Some_iff)

lemma Execute_executes:
  "Execute a h q d = (resp, d') \<Longrightarrow> d' \<noteq> d \<Longrightarrow>
   \<exists>c req. findCapability h (hq_CapabilityID q) = Some c \<and> executeRequest a h (hq_CapabilityID q) c req d = (resp, d')"
  by (auto simp: Execute_def Let_def split: option.splits if_splits)

lemma ExecuteV3_executes:
  "ExecuteV3 a unread h q d = (resp, d') \<Longrightarrow> d' \<noteq> d \<Longrightarrow>
   \<exists>c req. findCapability h (hq_CapabilityID q) = Some c \<and> executeRequest a h (hq_CapabilityID q) c req d = (resp, d')"
  using Execute_executes [of a h "q\<lparr>hq_Body := unread (hq_Body q)\<rparr>" d resp d']
  by (auto simp: ExecuteV3_def Let_def split: option.splits if_splits)

text \<open>C6: a change is declared and has a key.  A request that changes the tables is a POST that executes a capability of the catalog.
  Either the catalog says that the capability writes, and the request carries an idempotency key, or the capability is one of two
  that the catalog calls reads: the consistency check and the extended close check, which store their results.\<close>

theorem changes_are_declared:
  assumes "router_ok rt" "h_capabilities h = Catalog" "serve a unread rt h m path q d = (resp, d')" "d' \<noteq> d"
  shows "m = ''POST'' \<and> (\<exists>e. \<exists>c \<in> set Catalog. \<exists>req. rt routes m path = Inr (e, cap_Name c) \<and>
    executeRequest a h (cap_Name c) c req d = (resp, d') \<and>
    (cap_Name c \<in> set self_checks \<or> cap_SideEffect c \<noteq> SideEffectRead \<and> pr_IdempotencyKey req \<noteq> ''''))"
proof -
  obtain e p where r: "rt routes m path = Inr (e, p)" "e = EExecute \<or> e = EExecuteV3"
    using assms(3,4) by (auto simp: serve_def Let_def split: sum.splits prod.splits endpoint.splits)
  have post: "m = ''POST''" using assms(1) r executing_routes unfolding router_ok_def by blast
  let ?q = "with_param p q"
  have n: "hq_CapabilityID ?q = p" by (simp add: with_param_def)
  from r assms(3) have "Execute a h ?q d = (resp, d') \<or> ExecuteV3 a unread h ?q d = (resp, d')" by (auto simp: serve_def Let_def)
  then obtain c req where c: "findCapability h p = Some c" "executeRequest a h p c req d = (resp, d')"
    using Execute_executes [OF _ assms(4)] ExecuteV3_executes [OF _ assms(4)] n by metis
  then have c': "c \<in> set Catalog" "cap_Name c = p" using found_capability [OF c(1)] assms(2) by auto
  have x: "executeRequest a h (cap_Name c) c req d = (resp, d')" using c(2) c'(2) by simp
  have "cap_Name c \<in> set self_checks \<or> cap_SideEffect c \<noteq> SideEffectRead"
    using reads_change_nothing [OF c'(1) _ _ x] assms(4) by blast
  moreover have "cap_SideEffect c \<noteq> SideEffectRead \<Longrightarrow> pr_IdempotencyKey req \<noteq> ''''"
    using writes_need_key [OF c'(1), of req a h d] x assms(4) by auto
  ultimately show ?thesis using post c' x r(1) by blast
qed

lemma post_status_differs: "''draft'' \<noteq> ''posted''"
  by simp

theorem changes_are_declared_witness:
  "example_db JournalStatusDraft PeriodStatusOpen \<noteq> post_served \<and>
   (\<exists>c \<in> set Catalog. cap_Name c = ''finance.journal.post'' \<and>
     (cap_Name c \<in> set self_checks \<or> cap_SideEffect c \<noteq> SideEffectRead))"
proof -
  let ?d = "example_db JournalStatusDraft PeriodStatusOpen"
  obtain resp d' where s: "serve example_outside (\<lambda>b. '''') example_router example_handler ''POST'' post_path (example_request post_body) ?d = (resp, d')" by force
  then have p: "d' = post_served" by (simp add: post_served_def)
  have "map je_Status (journal_entries ?d) = [JournalStatusDraft]" by (simp add: example_db_def example_entry_def)
  then have n: "post_served \<noteq> ?d" using post_served_entries
    by (metis JournalStatusDraft_def JournalStatusPosted_def list.inject post_status_differs)
  obtain c e where c: "c \<in> set Catalog" "example_router routes ''POST'' post_path = Inr (e, cap_Name c)"
    "cap_Name c \<in> set self_checks \<or> cap_SideEffect c \<noteq> SideEffectRead"
    using changes_are_declared [OF example_router_ok _ s] p n by auto
  with n show ?thesis by (auto simp: post_route)
qed

lemmas dry_steps = do_book_create_def do_book_list_def do_account_list_def do_invoice_create_draft_def do_invoice_approve_def
    do_invoice_reject_def do_invoice_create_red_letter_def do_invoice_import_einvoice_def do_invoice_verify_def
    do_invoice_confirm_usage_def do_journal_create_draft_def do_journal_post_def do_journal_void_def
    do_journal_update_draft_def do_journal_batch_post_def do_trial_balance_def do_account_balance_def do_profit_statement_def
    do_balance_sheet_def do_vat_cross_check_def do_vat_return_def do_cross_tax_validation_def do_three_way_match_def
    do_tax_risk_def do_cit_return_def do_close_check_def do_period_close_def do_period_lock_def do_period_reopen_def
    do_enhanced_close_check_def do_upsert_logistics_def do_upsert_bank_transaction_def do_match_bank_def do_unmatch_bank_def
    do_calculate_vat_def do_calculate_stamp_def do_calculate_pit_def do_list_adjustments_def do_upsert_adjustments_def
    do_risk_scan_def do_consistency_check_def do_export_trial_balance_def do_export_vat_summary_def do_export_vat_return_def
    do_export_cit_return_def do_export_adjustments_def with_input_def book_report_def

text \<open>The dry run of a request is ignored: a request that asks for one is executed like any other.\<close>

theorem dry_run_ignored:
  "executeRequest a h n c (req\<lparr>pr_DryRun := b\<rparr>) d = executeRequest a h n c req d"
proof -
  have h: "f \<in> set (map snd handlers) \<Longrightarrow> f a s x en (req\<lparr>pr_DryRun := b\<rparr>) d = f a s x en req d" for f s x en
    by (auto simp: handlers_def dry_steps)
  have "executeCapability a s x en n (req\<lparr>pr_DryRun := b\<rparr>) d = executeCapability a s x en n req d" for s x en
  proof (cases "map_of handlers n")
    case (Some f)
    then have "f \<in> set (map snd handlers)" by (metis map_of_SomeD imageI set_map snd_conv)
    then show ?thesis by (simp add: executeCapability_def Some h)
  qed (simp add: executeCapability_def)
  note x = this
  have "request_context t n (req\<lparr>pr_DryRun := b\<rparr>) = request_context t n req" for t by (simp add: request_context_def)
  moreover have "remember_result a h c n (req\<lparr>pr_DryRun := b\<rparr>) res st d' = remember_result a h c n req res st d'" for res st d'
    by (simp add: remember_result_def idem_record_def)
  moreover have "replay a t (req\<lparr>pr_DryRun := b\<rparr>) r = replay a t req r" for t r by (simp add: replay_def)
  moreover have "pr_EntityID (req\<lparr>pr_DryRun := b\<rparr>) = pr_EntityID req" "pr_TraceID (req\<lparr>pr_DryRun := b\<rparr>) = pr_TraceID req"
    "pr_IdempotencyKey (req\<lparr>pr_DryRun := b\<rparr>) = pr_IdempotencyKey req" by simp_all
  ultimately show ?thesis unfolding executeRequest_def run_capability_def x by presburger
qed

section \<open>Reads that write\<close>

lemma checks_grow: "checks_CreateMany e cs d = (None, d') \<Longrightarrow> length (consistency_checks d') = length (consistency_checks d) + length cs"
  by (induction cs arbitrary: d) (auto simp: check_insert_def Let_def split: sum.splits option.splits if_splits)

lemma results_nonempty: "consistency_results e ordg s en b p d \<noteq> []"
  by (simp add: consistency_results_def Let_def)

text \<open>The consistency check writes.  Each time the capability succeeds, with a store for the checks, new rows of checks are
  stored, though the catalog calls it a read and asks for no idempotency key.\<close>

theorem consistency_check_writes:
  assumes "has_consistencyChecks s" "do_consistency_check a s c en req d = (Inr r, d')"
  shows "length (consistency_checks d) < length (consistency_checks d') \<and>
    cap_SideEffect cap_consistency_check = SideEffectRead \<and> \<not> cap_RequiresIdempotencyKey cap_consistency_check"
proof -
  obtain i where i: "unmarshal book_period_input no_input (pr_Input req) = Some i"
    using assms(2) by (cases "unmarshal book_period_input no_input (pr_Input req)") (simp_all add: do_consistency_check_def reply_defs)
  obtain cs x d1 where c: "RunConsistencyCheck (call_env a) (o_rates a) s en (book_of a s en (in_BookID i) d) (in_Period i) d = ((cs, x), d1)"
    by (metis surj_pair)
  have "do_consistency_check a s c en req d = done_reply (Fields [(''checks'', VChecks cs)]) (x, d1)"
    by (simp only: do_consistency_check_def book_report_def with_input_def i c option.case prod.case)
  with assms(2) have "x = None" "d1 = d'" by (auto simp: done_reply_def split: option.splits)
  with c have "RunConsistencyCheck (call_env a) (o_rates a) s en (book_of a s en (in_BookID i) d) (in_Period i) d = ((cs, None), d')" by simp
  then have "length (consistency_checks d') = length (consistency_checks d) + length cs" "cs \<noteq> []"
    using assms(1) results_nonempty
    by (auto simp: RunConsistencyCheck_def Let_def dest!: checks_grow split: prod.splits)
  then show ?thesis by (simp add: cap_consistency_check_def SideEffectRead_def)
qed

lemma checks_stored:
  "distinct (map ck_ID cs) \<Longrightarrow> set (map ck_ID cs) \<inter> set (map ck_ID (consistency_checks d)) = {} \<Longrightarrow>
   fst (checks_CreateMany plain_env cs d) = None"
proof (induction cs arbitrary: d)
  case (Cons c cs)
  have n: "\<not> list_ex (\<lambda>z. ck_ID z = ck_ID c) (consistency_checks d)"
  proof -
    have "ck_ID c \<notin> ck_ID ` set (consistency_checks d)" using Cons.prems(2) by auto
    then have "ck_ID z \<noteq> ck_ID c" if "z \<in> set (consistency_checks d)" for z using imageI [OF that, of ck_ID] by auto
    then show ?thesis by (auto simp: list_ex_iff)
  qed
  let ?c = "c\<lparr>ck_SourceValue := ck_SourceValue c, ck_TargetValue := ck_TargetValue c, ck_Difference := ck_Difference c,
    ck_Tolerance := ck_Tolerance c, ck_CreatedAt := db_now plain_env\<rparr>"
  have i: "check_insert plain_env c d = Inr (d\<lparr>consistency_checks := consistency_checks d @ [?c]\<rparr>)"
    unfolding check_insert_def Let_def plain_env_simps option.case prod.case simp_thms if_not_P [OF n] ..
  have "fst (checks_CreateMany plain_env cs (d\<lparr>consistency_checks := consistency_checks d @ [?c]\<rparr>)) = None"
    by (rule Cons.IH) (use Cons.prems in auto)
  with i show ?case by (simp only: checks_CreateMany.simps sum.case)
qed simp

lemma three_results: "length (consistency_results e ordg s en b p d) \<le> 3"
  by (auto simp: consistency_results_def Let_def vat_results_def split: sum.split)

definition check_request :: ProviderRequest where
  "check_request = no_request\<lparr>pr_EntityID := ''e1'', pr_Input := ''{}''\<rparr>"

lemma empty_input: "unmarshal book_period_input no_input ''{}'' = Some no_input" by code_simp

lemma check_succeeds:
  "\<exists>cs d'. RunConsistencyCheck plain_env ordg full_service en b p empty_db = ((cs, None), d')"
proof -
  define rs where "rs = consistency_results plain_env ordg full_service en b p empty_db"
  define cs where "cs = map (\<lambda>(n, r). check_of (uuid plain_env n) en b p r) (zip [0..<length rs] rs)"
  have "map ck_ID cs = map (uuid plain_env) [0..<length rs]"
    by (rule nth_equalityI) (auto simp: cs_def check_of_def)
  moreover have "distinct (map (uuid plain_env) [0..<n])" if "n \<le> 3" for n
  proof -
    have "n = 0 \<or> n = 1 \<or> n = 2 \<or> n = 3" using that by auto
    then show ?thesis by (auto simp: numeral_eq_Suc)
  qed
  ultimately have "distinct (map ck_ID cs)" using three_results by (simp add: rs_def)
  then have "fst (checks_CreateMany plain_env cs empty_db) = None" by (rule checks_stored) (simp add: empty_db_def)
  then obtain d' where "checks_CreateMany plain_env cs empty_db = (None, d')"
    by (metis fst_conv surj_pair)
  then have "RunConsistencyCheck plain_env ordg full_service en b p empty_db = ((cs, None), d')"
    by (simp add: RunConsistencyCheck_def Let_def cs_def rs_def)
  then show ?thesis by blast
qed

theorem consistency_check_writes_witness:
  "\<exists>r d'. do_consistency_check example_outside full_service no_context ''e1'' check_request empty_db = (Inr r, d') \<and>
     consistency_checks d' \<noteq> []"
proof -
  have "\<exists>r d'. do_consistency_check example_outside full_service no_context ''e1'' check_request empty_db = (Inr r, d')"
  proof -
    let ?b = "book_of example_outside full_service ''e1'' (in_BookID no_input) empty_db"
    obtain cs d' where "RunConsistencyCheck plain_env (\<lambda>gs. gs) full_service ''e1'' ?b (in_Period no_input) empty_db = ((cs, None), d')"
      using check_succeeds by blast
    moreover have "pr_Input check_request = ''{}''" by (simp add: check_request_def)
    ultimately show ?thesis
      by (simp add: do_consistency_check_def book_report_def with_input_def done_reply_def empty_input)
  qed
  then obtain r d' where x: "do_consistency_check example_outside full_service no_context ''e1'' check_request empty_db = (Inr r, d')" by blast
  have "consistency_checks d' \<noteq> []" using consistency_check_writes [OF _ x] by auto
  with x show ?thesis by blast
qed

section \<open>An input the handler does not read\<close>

text \<open>The names that a schema of an object declares.\<close>

definition schema_names :: "schema \<Rightarrow> string list" where
  "schema_names s = (case s of SMap ms \<Rightarrow> (case map_of ms ''properties'' of Some (SMap ps) \<Rightarrow> map fst ps | _ \<Rightarrow> []) | _ \<Rightarrow> [])"

lemma update_draft_names: "schema_names (cap_InputSchema cap_journal_update_draft) = [''journal_entry_id'', ''summary'', ''lines'']"
  by (simp add: schema_names_def cap_journal_update_draft_def)

lemma length_fold_name: "list_all (\<lambda>c. of_char c < (0x80 :: nat)) s \<Longrightarrow> length (fold_name s) = length s"
  by (simp add: fold_ascii)

lemma not_mapped: "(\<And>n f. (n, f) \<in> set fs \<Longrightarrow> n \<noteq> k) \<Longrightarrow> map_of fs k = None"
  by (cases "map_of fs k") (auto dest: map_of_SomeD)

lemma entry_id_unread: "field_named journal_fields ''journal_entry_id'' = None"
proof -
  have l: "length n \<noteq> 16 \<and> length (fold_name n) \<noteq> 16" if "(n, f) \<in> set journal_fields" for n f
    using that by (auto simp: journal_fields_def length_fold_name)
  have "map_of journal_fields ''journal_entry_id'' = None"
    by (rule not_mapped) (use l in fastforce)
  moreover have "length (fold_name ''journal_entry_id'') = 16" by (simp add: length_fold_name)
  then have "map_of (map (\<lambda>(n, f). (fold_name n, f)) journal_fields) (fold_name ''journal_entry_id'') = None"
    by (intro not_mapped) (use l in fastforce)
  ultimately show ?thesis by (simp add: field_named_def)
qed

lemma field_keeps_id:
  assumes "k \<in> {''journal_entry_id'', ''summary'', ''lines''}" "set_member journal_fields (Some j) (k, raw, v) = Some j'"
  shows "je_ID j' = je_ID j"
proof -
  have "field_named journal_fields ''summary'' = Some (str_field je_Summary_update)"
    "field_named journal_fields ''lines'' = Some (list_field je_Lines je_Lines_update (decode_struct journal_line_fields) zero_journal_line)"
    by (simp_all add: field_named_def journal_fields_def)
  with assms entry_id_unread show ?thesis
    by (auto simp: set_member_def str_field_def list_field_def split: json.splits)
qed

lemma members_keep_id:
  assumes "fst ` set ms \<subseteq> {''journal_entry_id'', ''summary'', ''lines''}" "foldl (set_member journal_fields) (Some j) ms = Some j'"
  shows "je_ID j' = je_ID j"
  using assms
proof (induction ms arbitrary: j)
  case (Cons m ms)
  obtain k raw v where m: "m = (k, raw, v)" by (cases m) auto
  have n: "foldl (set_member journal_fields) None ms = None" for ms by (induction ms) (auto simp: set_member_def)
  with Cons.prems m obtain j1 where "set_member journal_fields (Some j) (k, raw, v) = Some j1"
    by (cases "set_member journal_fields (Some j) (k, raw, v)") auto
  with Cons m field_keeps_id show ?case by fastforce
qed simp

text \<open>A draft cannot be updated in the way the catalog says.  For an input with just the members that the schema of
  \<open>finance.journal.update_draft\<close> names, the handler, which looks for the member \<open>id\<close>, finds no entry (or
  cannot decode the input): nothing is changed.\<close>

theorem update_draft_unmatched:
  assumes "parse_text (pr_Input req) = Some (JObj ms)" "fst ` set ms \<subseteq> set (schema_names (cap_InputSchema cap_journal_update_draft))"
    and "\<forall>j \<in> set (journal_entries d). je_ID j \<noteq> ''''"
  shows "do_journal_update_draft a s c en req d \<in> {(Inl BadInput, d), (Inl (Failed (Msg ''journal entry not found: '')), d)}"
proof (cases "unmarshal journal_fields zero_journal (pr_Input req)")
  case (Some j)
  have "je_ID j = ''''"
    using members_keep_id [of ms zero_journal j] assms(1,2) Some
    by (simp add: unmarshal_def decode_struct_def update_draft_names zero_journal_def)
  moreover have "find_entry d ('''', en) = None"
    using assms(3) by (auto simp: find_entry_def find_None_iff je_key_def)
  then have get: "journal_Get e d en '''' = Inr None \<or> journal_Get e d en '''' = Inl (DbError Journal_Get)" for e
    by (simp add: journal_read_def)
  have "UpdateJournalDraft e s c en '''' j d = (Inl (Msg ''journal entry not found: ''), d)" for e
    using get [of e] by (elim disjE) (simp_all add: UpdateJournalDraft_def)
  ultimately show ?thesis by (simp add: do_journal_update_draft_def with_input_def Some write_reply_def)
qed (simp add: do_journal_update_draft_def with_input_def)

definition update_request :: ProviderRequest where
  "update_request = no_request\<lparr>pr_Input := quoted ''{`journal_entry_id`:`j1`,`lines`:[]}''\<rparr>"

lemma update_input:
  "parse_text (pr_Input update_request) = Some (JObj [(''journal_entry_id'', quoted ''`j1`'', JStr ''j1''), (''lines'', ''[]'', JArr [])])"
  by code_simp

theorem update_draft_unmatched_witness:
  "do_journal_update_draft example_outside full_service no_context ''e1'' update_request (example_db JournalStatusDraft PeriodStatusOpen) =
     (Inl (Failed (Msg ''journal entry not found: '')), example_db JournalStatusDraft PeriodStatusOpen) \<or>
   do_journal_update_draft example_outside full_service no_context ''e1'' update_request (example_db JournalStatusDraft PeriodStatusOpen) =
     (Inl BadInput, example_db JournalStatusDraft PeriodStatusOpen)"
  using update_draft_unmatched [OF update_input, of "example_db JournalStatusDraft PeriodStatusOpen" example_outside full_service no_context "''e1''"]
  by (auto simp: update_draft_names)

end
