(* ===== verification/Requests.thy ===== *)
theory Requests
  imports Replay
begin

text \<open>
  Requests that overlap.  internal/api/handler.go looks an idempotency key up before it executes a capability and saves the
  record afterwards, without a transaction around both.  Here the lookup and the rest of a request are two phases, and the
  phases of any number of requests interleave.
\<close>

section \<open>The two phases of a request\<close>

text \<open>The lookup ends the request with a response (\<open>Inl\<close>) or lets it execute under its trace identifier (\<open>Inr\<close>).\<close>

definition request_lookup :: "outside \<Rightarrow> Handler \<Rightarrow> string \<Rightarrow> Capability \<Rightarrow> ProviderRequest \<Rightarrow> db \<Rightarrow> http_response + string" where
  "request_lookup a h capabilityID c req d =
     (let traceID = (if pr_TraceID req = '''' then o_trace_id a else pr_TraceID req) in
      if cap_RequiresIdempotencyKey c \<and> pr_IdempotencyKey req = ''''
      then Inl (writeError a 400 traceID ''invalid_request'' ''idempotency_key is required for this capability'')
      else case (if cap_RequiresIdempotencyKey c \<and> h_idempStore h
                 then idem_Get (o_lookup a) d (pr_EntityID req) capabilityID (pr_IdempotencyKey req) else Inr None) of
        Inl _ \<Rightarrow> Inl (writeError a 500 traceID ''provider_internal'' ''idempotency lookup failed'')
      | Inr (Some r) \<Rightarrow> Inl (replay a traceID req r)
      | Inr None \<Rightarrow> Inr traceID)"

lemma request_phases:
  "executeRequest a h n c req d =
     (case request_lookup a h n c req d of Inl r \<Rightarrow> (r, d) | Inr t \<Rightarrow> run_capability a h t n c req d)"
  by (simp add: executeRequest_def request_lookup_def Let_def split: sum.split option.split)

text \<open>A request between its lookup and its execution.\<close>

datatype pending = Pending outside string string Capability ProviderRequest

inductive racing :: "rounding \<Rightarrow> (env \<Rightarrow> bool) \<Rightarrow> Handler \<Rightarrow> db \<times> pending list \<Rightarrow> db \<times> pending list \<Rightarrow> bool" for num P h where
  arrives: "request_lookup a h n c req d = Inr t \<Longrightarrow> racing num P h (d, ps) (d, Pending a t n c req # ps)"
| executes: "Pending a t n c req \<in> set ps \<Longrightarrow> request_envs num P a \<Longrightarrow> run_capability a h t n c req d = (resp, d') \<Longrightarrow>
    racing num P h (d, ps) (d', remove1 (Pending a t n c req) ps)"

inductive_cases racingE: "racing num P h x y"

lemma run_trans: "run num s P d1 d2 \<Longrightarrow> run num s P d d1 \<Longrightarrow> run num s P d d2"
  by (induction rule: run.induct) (auto intro: run.then_step)


section \<open>A key that is executed twice\<close>

text \<open>One client sends the same request twice; the second call generates other identifiers.\<close>

definition bank_body :: string where "bank_body = quoted ''{`direction`:`in`,`bank_reference`:`r1`}''"

definition bank_request :: ProviderRequest where "bank_request = post_request\<lparr>pr_Input := bank_body\<rparr>"

definition second_outside :: outside where
  "second_outside = example_outside\<lparr>o_env := \<lambda>_. plain_env\<lparr>uuid := \<lambda>_. ''other''\<rparr>\<rparr>"

abbreviation upsert_bank :: string where "upsert_bank \<equiv> ''finance.reconciliation.upsert_bank_transaction''"

lemma second_envs: "request_envs (\<lambda>p s. Some) (\<lambda>_. True) second_outside"
  by (simp add: request_envs_def second_outside_def)

lemma bank_decoded:
  "unmarshal reconciliation_upsert_bank_transaction_input no_input bank_body =
     Some (no_input\<lparr>in_Direction := ''in'', in_BankReference := ''r1''\<rparr>)"
  by code_simp

lemma bank_handler: "map_of handlers upsert_bank = Some do_upsert_bank_transaction"
  by (simp add: handlers_def)

lemma bank_stored:
  assumes "numeric (call_env a) = (\<lambda>p s. Some)" "to_date (call_env a) = Some" "\<not> fault (call_env a) Bank_Upsert"
    and "run_capability a example_handler t upsert_bank cap_reconciliation_upsert_bank_transaction bank_request d = (resp, d')"
    and "uuid (call_env a) 0 \<notin> (\<lambda>x. bt_ID (fst x)) ` set (bank_transactions d)"
  shows "map (\<lambda>x. bt_ID (fst x)) (bank_transactions d') = map (\<lambda>x. bt_ID (fst x)) (bank_transactions d) @ [uuid (call_env a) 0] \<and>
    (\<exists>p. hs_Body resp = Envelope p)"
proof -
  have save: "bank_transactions (remember_result x h c n r res st d) = bank_transactions d" for x h c n r res st d
    by (auto simp: remember_result_def idem_Save_def split: sum.split option.split)
  have new: "list_ex (\<lambda>x. bt_ID (fst x) = uuid (call_env a) 0) (bank_transactions d) = False" using assms(5) by (force simp: list_ex_iff)
  have input: "pr_Input bank_request = bank_body" by (simp add: bank_request_def)
  obtain x d1 where "do_upsert_bank_transaction a full_service (request_context t upsert_bank bank_request)
        (pr_EntityID bank_request) bank_request d = (Inr x, d1)"
      "map (\<lambda>x. bt_ID (fst x)) (bank_transactions d1) = map (\<lambda>x. bt_ID (fst x)) (bank_transactions d) @ [uuid (call_env a) 0]"
    by (simp add: do_upsert_bank_transaction_def with_input_def input bank_decoded store_reply_def UpsertBankTransaction_def bank_input_def
      bank_Upsert_def bank_row_def assms(1-3) [simplified] new [simplified])
  with assms(4) show ?thesis
    by (auto simp: run_capability_def executeCapability_def bank_handler save writeJSON_def)
qed

lemma bank_request_simps:
  "pr_TraceID bank_request = ''t1''" "pr_IdempotencyKey bank_request = ''k1''" "pr_EntityID bank_request = ''e1''"
  "pr_Input bank_request \<noteq> ''''" "cap_RequiresIdempotencyKey cap_reconciliation_upsert_bank_transaction"
  by (simp_all add: bank_request_def post_request_def bank_body_def quoted_def cap_reconciliation_upsert_bank_transaction_def)

lemma bank_lookup:
  "a \<in> {example_outside, second_outside} \<Longrightarrow>
   request_lookup a example_handler upsert_bank cap_reconciliation_upsert_bank_transaction bank_request empty_db = Inr ''t1''"
  by (auto simp: request_lookup_def bank_request_simps idem_Get_def empty_db_def second_outside_def)

abbreviation example_racing :: "db \<times> pending list \<Rightarrow> db \<times> pending list \<Rightarrow> bool" where
  "example_racing \<equiv> racing (\<lambda>p s. Some) (\<lambda>_. True) example_handler"

lemma example_race:
  obtains ps d1 d2 r p where "example_racing\<^sup>*\<^sup>* (empty_db, []) (d1, ps)" "example_racing (d1, ps) (d2, [])"
    "run_capability example_outside example_handler ''t1'' upsert_bank cap_reconciliation_upsert_bank_transaction bank_request empty_db = (r, d1)"
    "hs_Body r = Envelope p" "map (\<lambda>x. bt_ID (fst x)) (bank_transactions d1) = [''id-0'']"
    "map (\<lambda>x. bt_ID (fst x)) (bank_transactions d2) = [''id-0'', ''other'']"
proof -
  let ?h = example_handler and ?c = cap_reconciliation_upsert_bank_transaction and ?R = example_racing
  let ?p1 = "Pending example_outside ''t1'' upsert_bank ?c bank_request" and ?p2 = "Pending second_outside ''t1'' upsert_bank ?c bank_request"
  obtain r1 d1 where x1: "run_capability example_outside ?h ''t1'' upsert_bank ?c bank_request empty_db = (r1, d1)" by force
  obtain r2 d2 where x2: "run_capability second_outside ?h ''t1'' upsert_bank ?c bank_request d1 = (r2, d2)" by force
  have "uuid (call_env example_outside) 0 \<notin> (\<lambda>x. bt_ID (fst x)) ` set (bank_transactions empty_db)" by (simp add: empty_db_def)
  from bank_stored [OF _ _ _ x1 this] have b1: "map (\<lambda>x. bt_ID (fst x)) (bank_transactions d1) = [''id-0'']"
    and answer: "\<exists>p. hs_Body r1 = Envelope p" by (simp_all add: empty_db_def)
  from b1 have "(\<lambda>x. bt_ID (fst x)) ` set (bank_transactions d1) = {''id-0''}" by (metis list.set_map list.simps(15) list.set(1))
  then have b2: "map (\<lambda>x. bt_ID (fst x)) (bank_transactions d2) = [''id-0'', ''other'']"
    using bank_stored [OF _ _ _ x2] b1 by (simp add: second_outside_def)
  have "?R (empty_db, []) (empty_db, [?p1])" by (rule racing.arrives) (rule bank_lookup, simp)
  moreover have "?R (empty_db, [?p1]) (empty_db, [?p2, ?p1])" by (rule racing.arrives) (rule bank_lookup, simp)
  ultimately have "?R\<^sup>*\<^sup>* (empty_db, []) (empty_db, [?p2, ?p1])" by (rule rtranclp_trans [OF r_into_rtranclp r_into_rtranclp])
  moreover have "?R (empty_db, [?p2, ?p1]) (d1, remove1 ?p1 [?p2, ?p1])" by (rule racing.executes [OF _ _ x1]) simp_all
  ultimately have path: "?R\<^sup>*\<^sup>* (empty_db, []) (d1, remove1 ?p1 [?p2, ?p1])" by (rule rtranclp.rtrancl_into_rtrancl)
  have "?p1 \<noteq> ?p2" by (auto simp: second_outside_def example_outside_def plain_env_def fun_eq_iff)
  then have "remove1 ?p1 [?p2, ?p1] = [?p2]" by auto
  moreover have "?R (d1, [?p2]) (d2, [])" using racing.executes [OF _ second_envs x2, of "[?p2]"] by simp
  ultimately show thesis using that path x1 answer b1 b2 by metis
qed



end
